(* ===== verification/SG_Prelude.thy ===== *)
theory SG_Prelude
  imports Main "HOL-Library.Word"
begin

text \<open>
  Shared vocabulary of the development: the machine integers of the C++ sources, the
  outcomes that C++ leaves to the platform written as values, the memory behind a
  fixed-size byte array, and the generic lemmas the component theories use.
\<close>

unbundle bit_operations_syntax

section \<open>Machine integers\<close>

type_synonym u8 = "8 word"
type_synonym u16 = "16 word"
type_synonym u32 = "32 word"
type_synonym u64 = "64 word"

text \<open>Conversion of any integer to the 32-bit \<open>int\<close> of the sources (two's complement).\<close>

definition to_int32 :: "int \<Rightarrow> int" where
  "to_int32 i = sint (word_of_int i :: u32)"

definition int32_range :: "int \<Rightarrow> bool" where
  "int32_range i \<longleftrightarrow> - (2 ^ 31) \<le> i \<and> i < 2 ^ 31"

lemma to_int32_id: "int32_range i \<Longrightarrow> to_int32 i = i"
  by (simp add: to_int32_def int32_range_def int_word_sint)

section \<open>Outcomes\<close>

text \<open>
  What makes a C++ execution leave the meaning of its program is a value of \<open>fault\<close>:
  an access outside an array, an addition past the range of \<open>int\<close>, the use of a null
  pointer or of a closed handle, an exception nobody catches, the call of a delegate with
  no function bound, a word access at an address that is no multiple of the word's size, an
  assertion that does not hold.
\<close>

datatype fault =
    WriteOutOfBounds
  | ReadOutOfBounds
  | SignedOverflow
  | NullPointer
  | UseAfterFree
  | UncaughtException
  | UnboundDelegate
  | MisalignedAccess
  | AssertionFailed

type_synonym 'a res = "fault + 'a"

fun rbind :: "'a res \<Rightarrow> ('a \<Rightarrow> 'b res) \<Rightarrow> 'b res" where
  "rbind (Inl e) f = Inl e"
| "rbind (Inr a) f = f a"

fun ok :: "'a res \<Rightarrow> bool" where
  "ok (Inl e) = False"
| "ok (Inr a) = True"

lemma rbind_Inr_iff: "rbind m f = Inr b \<longleftrightarrow> (\<exists>a. m = Inr a \<and> f a = Inr b)"
  by (cases m) auto

lemma rbind_assoc: "rbind (rbind m f) g = rbind m (\<lambda>x. rbind (f x) g)"
  by (cases m) auto

lemma ok_iff: "ok m \<longleftrightarrow> (\<exists>a. m = Inr a)"
  by (cases m) auto

lemma rbind_cong [fundef_cong]:
  "m = m' \<Longrightarrow> (\<And>a. m' = Inr a \<Longrightarrow> f a = f' a) \<Longrightarrow> rbind m f = rbind m' f'"
  by (cases m') auto

text \<open>Addition of two \<open>int\<close> values.\<close>

definition int_add :: "int \<Rightarrow> int \<Rightarrow> int res" where
  "int_add a b = (if int32_range (a + b) then Inr (a + b) else Inl SignedOverflow)"

section \<open>Byte arrays\<close>

text \<open>
  A fixed-size \<open>unsigned char\<close> array: its size, and its contents by index. An array that
  was never written holds indeterminate bytes, which are whatever \<open>buf_at\<close> says; an
  access outside the size is a fault, never a value.
\<close>

record buffer =
  buf_size :: int
  buf_at :: "int \<Rightarrow> u8"

definition load_byte :: "buffer \<Rightarrow> int \<Rightarrow> u8 res" where
  "load_byte b i = (if 0 \<le> i \<and> i < buf_size b then Inr (buf_at b i) else Inl ReadOutOfBounds)"

definition store_byte :: "buffer \<Rightarrow> int \<Rightarrow> u8 \<Rightarrow> buffer res" where
  "store_byte b i x =
     (if 0 \<le> i \<and> i < buf_size b then Inr (b\<lparr>buf_at := (buf_at b)(i := x)\<rparr>)
      else Inl WriteOutOfBounds)"

text \<open>A run of bytes, lowest address first: \<open>memcpy\<close>, and a store wider than a byte.\<close>

fun store_bytes :: "buffer \<Rightarrow> int \<Rightarrow> u8 list \<Rightarrow> buffer res" where
  "store_bytes b i [] = Inr b"
| "store_bytes b i (x # xs) = rbind (store_byte b i x) (\<lambda>b'. store_bytes b' (i + 1) xs)"

fun load_bytes :: "buffer \<Rightarrow> int \<Rightarrow> nat \<Rightarrow> u8 list res" where
  "load_bytes b i 0 = Inr []"
| "load_bytes b i (Suc n) =
     rbind (load_byte b i) (\<lambda>x. rbind (load_bytes b (i + 1) n) (\<lambda>xs. Inr (x # xs)))"

text \<open>What a run of bytes holds, and a buffer with a run of bytes replaced.\<close>

definition bytes_at :: "buffer \<Rightarrow> int \<Rightarrow> nat \<Rightarrow> u8 list" where
  "bytes_at b i n = map (\<lambda>k. buf_at b (i + int k)) [0..<n]"

definition splice :: "buffer \<Rightarrow> int \<Rightarrow> u8 list \<Rightarrow> buffer" where
  "splice b i xs =
     b\<lparr>buf_at := (\<lambda>j. if i \<le> j \<and> j < i + int (length xs) then xs ! nat (j - i) else buf_at b j)\<rparr>"

definition in_bounds :: "buffer \<Rightarrow> int \<Rightarrow> nat \<Rightarrow> bool" where
  "in_bounds b i n \<longleftrightarrow> 0 \<le> i \<and> i + int n \<le> buf_size b"

lemma buf_size_splice [simp]: "buf_size (splice b i xs) = buf_size b"
  by (simp add: splice_def)

lemma splice_Nil [simp]: "splice b i [] = b"
  by (simp add: splice_def fun_eq_iff linorder_not_less [symmetric] cong: if_cong)

lemma length_bytes_at [simp]: "length (bytes_at b i n) = n"
  by (simp add: bytes_at_def)

lemma bytes_at_0 [simp]: "bytes_at b i 0 = []"
  by (simp add: bytes_at_def)

lemma bytes_at_Suc: "bytes_at b i (Suc n) = buf_at b i # bytes_at b (i + 1) n"
  by (simp add: bytes_at_def upt_conv_Cons map_Suc_upt [symmetric] comp_def algebra_simps
      del: upt_Suc)

lemma bytes_at_add: "bytes_at b i (m + n) = bytes_at b i m @ bytes_at b (i + int m) n"
  by (induction m arbitrary: i) (simp_all add: bytes_at_Suc algebra_simps)

lemma splice_Cons:
  "splice b i (x # xs) = splice (b\<lparr>buf_at := (buf_at b)(i := x)\<rparr>) (i + 1) xs"
proof -
  have idx: "nat (j - i) - Suc 0 = nat (j - (i + 1))" for j
    by simp
  show ?thesis
    unfolding splice_def by (auto intro!: buffer.equality ext simp: nth_Cons' idx)
qed

lemma splice_append: "splice b i (xs @ ys) = splice (splice b i xs) (i + int (length xs)) ys"
  by (induction xs arbitrary: b i) (simp_all add: splice_Cons algebra_simps)

lemma buf_at_splice:
  "buf_at (splice b i xs) j =
     (if i \<le> j \<and> j < i + int (length xs) then xs ! nat (j - i) else buf_at b j)"
  by (simp add: splice_def)

lemma bytes_at_splice_same [simp]: "bytes_at (splice b i xs) i (length xs) = xs"
  by (rule nth_equalityI) (simp_all add: bytes_at_def buf_at_splice)

lemma bytes_at_splice_disjoint:
  "j + int n \<le> i \<or> i + int (length xs) \<le> j \<Longrightarrow> bytes_at (splice b i xs) j n = bytes_at b j n"
  by (auto simp: bytes_at_def buf_at_splice)

lemma store_bytes_splice:
  "in_bounds b i (length xs) \<Longrightarrow> store_bytes b i xs = Inr (splice b i xs)"
  by (induction xs arbitrary: b i) (auto simp: in_bounds_def store_byte_def splice_Cons)

lemma store_bytes_fault:
  "xs \<noteq> [] \<Longrightarrow> \<not> in_bounds b i (length xs) \<Longrightarrow> store_bytes b i xs = Inl WriteOutOfBounds"
proof (induction xs arbitrary: b i)
  case Nil
  then show ?case by simp
next
  case (Cons x xs)
  then show ?case
    by (cases "xs = []") (auto simp: in_bounds_def store_byte_def)
qed

lemma load_bytes_at: "in_bounds b i n \<Longrightarrow> load_bytes b i n = Inr (bytes_at b i n)"
  by (induction n arbitrary: i) (auto simp: in_bounds_def load_byte_def bytes_at_Suc)

lemma load_bytes_fault: "0 < n \<Longrightarrow> \<not> in_bounds b i n \<Longrightarrow> load_bytes b i n = Inl ReadOutOfBounds"
proof (induction n arbitrary: i)
  case 0
  then show ?case by simp
next
  case (Suc n)
  then show ?case
    by (cases "n = 0") (auto simp: in_bounds_def load_byte_def)
qed

lemma bytes_at_prefixD:
  assumes "bytes_at b i (length (xs @ ys)) = xs @ ys"
  shows "bytes_at b i (length xs) = xs" and "bytes_at b (i + int (length xs)) (length ys) = ys"
proof -
  have "bytes_at b i (length xs) @ bytes_at b (i + int (length xs)) (length ys) = xs @ ys"
    using assms by (simp add: bytes_at_add)
  then show "bytes_at b i (length xs) = xs"
    and "bytes_at b (i + int (length xs)) (length ys) = ys"
    by simp_all
qed

section \<open>Characters and C strings\<close>

text \<open>
  A \<open>std::string\<close> is a list of \<open>char\<close>, which are bytes. A C string ends before its first
  null character.
\<close>

definition chr_byte :: "char \<Rightarrow> u8" where
  "chr_byte c = word_of_nat (of_char c)"

definition byte_chr :: "u8 \<Rightarrow> char" where
  "byte_chr b = char_of (unat b)"

definition c_string :: "u8 list \<Rightarrow> string" where
  "c_string bs = map byte_chr (takeWhile (\<lambda>b. b \<noteq> 0) bs)"

definition no_nul :: "string \<Rightarrow> bool" where
  "no_nul s \<longleftrightarrow> 0 \<notin> set (map chr_byte s)"

lemma byte_chr_byte [simp]: "byte_chr (chr_byte c) = c"
  by (simp add: byte_chr_def chr_byte_def unat_of_nat)

lemma c_string_no_nul: "no_nul s \<Longrightarrow> c_string (map chr_byte s) = s"
  by (induction s) (auto simp: c_string_def no_nul_def)

section \<open>Ordered maps\<close>

text \<open>
  A \<open>std::map\<close> with \<open>int\<close> keys that is iterated is the list of its entries in iteration
  order, by increasing key; \<open>map_of\<close> is its lookup.
\<close>

type_synonym 'v std_map = "(int \<times> 'v) list"

fun smap_set :: "int \<Rightarrow> 'v \<Rightarrow> 'v std_map \<Rightarrow> 'v std_map" where
  "smap_set k v [] = [(k, v)]"
| "smap_set k v (e # es) =
     (if k < fst e then (k, v) # e # es
      else if k = fst e then (k, v) # es
      else e # smap_set k v es)"

definition smap_erase :: "int \<Rightarrow> 'v std_map \<Rightarrow> 'v std_map" where
  "smap_erase k es = filter (\<lambda>e. fst e \<noteq> k) es"

lemma map_of_smap_set [simp]: "map_of (smap_set k v es) = (map_of es)(k \<mapsto> v)"
  by (induction es) auto

lemma map_of_smap_erase [simp]: "map_of (smap_erase k es) = (map_of es)(k := None)"
  unfolding smap_erase_def by (induction es) auto

lemma set_smap_set: "set (smap_set k v es) \<subseteq> insert (k, v) (set es)"
  by (induction es) auto

lemma set_smap_erase [simp]: "set (smap_erase k es) = {e \<in> set es. fst e \<noteq> k}"
  by (auto simp: smap_erase_def)

definition smap_wf :: "'v std_map \<Rightarrow> bool" where
  "smap_wf es \<longleftrightarrow> sorted_wrt (<) (map fst es)"

lemma smap_wf_Nil [simp]: "smap_wf []"
  by (simp add: smap_wf_def)

lemma fst_smap_set: "fst ` set (smap_set k v es) = insert k (fst ` set es)"
  by (induction es) auto

lemma smap_wf_Cons: "smap_wf (e # es) \<longleftrightarrow> (\<forall>k\<in>fst ` set es. fst e < k) \<and> smap_wf es"
  by (auto simp: smap_wf_def)

lemma smap_wf_set: "smap_wf es \<Longrightarrow> smap_wf (smap_set k v es)"
proof (induction es)
  case (Cons e es)
  then show ?case
    by (fastforce simp: smap_wf_Cons fst_smap_set)
qed (simp add: smap_wf_def)

lemma smap_wf_erase: "smap_wf es \<Longrightarrow> smap_wf (smap_erase k es)"
  unfolding smap_wf_def smap_erase_def by (induction es) auto

end
