(* ===== verification/DB_Connect.thy ===== *)
theory DB_Connect
  imports SG_Prelude
begin

text \<open>
  The database connection of the account server: the class \<open>DBConnect\<close> (DBConnect.h,
  DBConnect.cpp). The MySQL client library is a parameter: a record of functions over a
  world \<open>'w\<close> about which nothing is assumed here. A \<open>MYSQL *\<close> is the number of a
  connection, with \<open>None\<close> for the null pointer, and a result set is its list of rows, each
  the list of its columns, a null column being \<open>None\<close>.
\<close>

section \<open>The client library\<close>

text \<open>
  Each function has the arguments the code passes. The truth values follow the code's
  tests: \<open>mysql_real_connect\<close> and the error results of \<open>mysql_select_db\<close>, \<open>mysql_ping\<close>
  and \<open>mysql_real_query\<close> are \<open>True\<close> when the C result is not zero.
\<close>

datatype mysql_option = MYSQL_SET_CHARSET_NAME string | MYSQL_OPT_RECONNECT

record 'w mysql =
  mysql_init :: "'w \<Rightarrow> nat option \<times> 'w"
  mysql_options :: "nat \<Rightarrow> mysql_option \<Rightarrow> 'w \<Rightarrow> 'w"
  mysql_real_connect :: "nat \<Rightarrow> string \<Rightarrow> string \<Rightarrow> string \<Rightarrow> string \<Rightarrow> nat \<Rightarrow> 'w \<Rightarrow> bool \<times> 'w"
  mysql_select_db :: "nat \<Rightarrow> string \<Rightarrow> 'w \<Rightarrow> bool \<times> 'w"
  mysql_set_reconnect :: "nat \<Rightarrow> 'w \<Rightarrow> 'w"
  mysql_ping :: "nat \<Rightarrow> 'w \<Rightarrow> bool \<times> 'w"
  mysql_close :: "nat \<Rightarrow> 'w \<Rightarrow> 'w"
  mysql_real_query :: "nat \<Rightarrow> string \<Rightarrow> 'w \<Rightarrow> bool \<times> 'w"
  mysql_query :: "nat \<Rightarrow> string \<Rightarrow> 'w \<Rightarrow> bool \<times> 'w"
  mysql_store_result :: "nat \<Rightarrow> 'w \<Rightarrow> string option list list option \<times> 'w"
  mysql_free_result :: "string option list list \<Rightarrow> 'w \<Rightarrow> 'w"
  mysql_field_count :: "nat \<Rightarrow> 'w \<Rightarrow> u32"

type_synonym rows = "string option list list"

section \<open>Standard library\<close>

text \<open>\<open>std::string::c_str()\<close> as its users see it: up to the first zero character.\<close>

definition c_str :: "string \<Rightarrow> string" where
  "c_str s = takeWhile (\<lambda>c. chr_byte c \<noteq> 0) s"

text \<open>\<open>std::string::find\<close>, \<open>None\<close> for \<open>npos\<close>.\<close>

fun str_find :: "string \<Rightarrow> string \<Rightarrow> nat option" where
  "str_find pat [] = (if pat = [] then Some 0 else None)"
| "str_find pat (c # s) =
     (if take (length pat) (c # s) = pat then Some 0 else map_option Suc (str_find pat s))"

text \<open>
  \<open>std::string::substr\<close> at a position inside the string; a negative \<open>int\<close> count becomes a
  huge \<open>size_t\<close>.
\<close>

definition substr :: "string \<Rightarrow> nat \<Rightarrow> int \<Rightarrow> string" where
  "substr s pos n = (if n < 0 then drop pos s else take (nat n) (drop pos s))"

section \<open>The class\<close>

record DBConnect =
  con :: "nat option"
  m_strDBip :: string
  m_strDBName :: string

definition DBConnect_new :: DBConnect where
  "DBConnect_new = \<lparr>con = None, m_strDBip = '''', m_strDBName = ''''\<rparr>"

text \<open>
  \<open>charset\<close> is the literal the build selects, \<open>''GBK''\<close> or \<open>''utf8''\<close>. The options are set
  before the handle is compared with null.
\<close>

definition DBConnect_init ::
  "'w mysql \<Rightarrow> string \<Rightarrow> string \<Rightarrow> string \<Rightarrow> DBConnect \<times> 'w \<Rightarrow> (int \<times> DBConnect \<times> 'w) res" where
  "DBConnect_init api charset strdbip dbname = (\<lambda>(db, w).
     if con db \<noteq> None then Inr (0, db, w)
     else
       let db1 = db\<lparr>m_strDBip := strdbip, m_strDBName := dbname\<rparr>;
           (c, w1) = mysql_init api w
       in case c of
            None \<Rightarrow> Inl NullPointer
          | Some h \<Rightarrow>
              let w2 = mysql_options api h (MYSQL_SET_CHARSET_NAME charset) w1;
                  (connected, w3) = mysql_real_connect api h (c_str strdbip)
                     ''daypet'' ''daypet123456'' (c_str dbname) 3306 w2
              in if connected then
                   let w4 = mysql_options api h MYSQL_OPT_RECONNECT w3;
                       (err, w5) = mysql_select_db api h (c_str dbname) w4;
                       w6 = (if err then w5 else mysql_set_reconnect api h w5)
                   in Inr (1, db1\<lparr>con := Some h\<rparr>, w6)
                 else Inr (0, db1\<lparr>con := None\<rparr>, w3))"

definition DBConnect_Clear :: "'w mysql \<Rightarrow> DBConnect \<times> 'w \<Rightarrow> DBConnect \<times> 'w" where
  "DBConnect_Clear api = (\<lambda>(db, w).
     case con db of
       None \<Rightarrow> (db, w)
     | Some h \<Rightarrow> (db\<lparr>con := None\<rparr>, mysql_close api h w))"

text \<open>The arguments of \<open>KeepAlive\<close> are not used.\<close>

definition KeepAlive ::
  "'w mysql \<Rightarrow> string \<Rightarrow> DBConnect \<times> 'w \<Rightarrow> (int \<times> DBConnect \<times> 'w) res" where
  "KeepAlive api charset = (\<lambda>(db, w).
     case con db of
       None \<Rightarrow> Inl NullPointer
     | Some h \<Rightarrow>
         let (err, w1) = mysql_ping api h w
         in if err then
              let (db2, w2) = DBConnect_Clear api (db, w1)
              in DBConnect_init api charset (m_strDBip db2) (m_strDBName db2) (db2, w2)
            else Inr (1, db, w1))"

text \<open>
  The query that fetches the output parameters of a stored procedure, lines 110 to 120 of
  \<open>loadtabledata\<close>: \<open>None\<close> when the statement has no \<open>@\<close>.
\<close>

definition callsql :: "string \<Rightarrow> string option" where
  "callsql strsql =
     (case str_find ''@'' strsql of
        None \<Rightarrow> None
      | Some indexat \<Rightarrow>
          let iEnd = (case str_find '')'' strsql of
                        None \<Rightarrow> to_int32 (int (length strsql))
                      | Some indexend \<Rightarrow> to_int32 (int indexend - int indexat))
          in Some (''SELECT '' @ substr strsql indexat iEnd))"

text \<open>
  \<open>loadtabledata\<close>: the statement is a C string, or a null pointer, out of which the
  constructor of \<open>strsql\<close> reads before the code compares it with null. The second
  component of the result is what \<open>pDataSet->mres\<close> is set to, if it is.
\<close>

definition first_char :: "string \<Rightarrow> char list \<Rightarrow> bool" where
  "first_char s cs = (case s of [] \<Rightarrow> False | c # _ \<Rightarrow> c \<in> set cs)"

definition loadtabledata ::
  "'w mysql \<Rightarrow> string \<Rightarrow> string option \<Rightarrow> DBConnect \<times> 'w \<Rightarrow>
   (int \<times> rows option \<times> DBConnect \<times> 'w) res" where
  "loadtabledata api charset sqlp = (\<lambda>(db, w).
     if con db = None then Inr (-1, None, db, w)
     else rbind (KeepAlive api charset (db, w)) (\<lambda>(alive, db1, w1).
       if alive = 0 then Inr (-1, None, db1, w1)
       else case sqlp of
         None \<Rightarrow> Inl NullPointer
       | Some sql \<Rightarrow>
         (case con db1 of
            None \<Rightarrow> Inl NullPointer
          | Some h \<Rightarrow>
            let (rt, w2) = mysql_real_query api h sql w1;
                store = (\<lambda>w3.
                  if first_char sql ''scSC'' then
                    (case mysql_store_result api h w3 of
                       (Some res, w4) \<Rightarrow> Inr (1, Some res, db1, w4)
                     | (None, w4) \<Rightarrow> Inr (-3, None, db1, w4))
                  else Inr (1, None, db1, w3))
            in if rt then Inr (-2, None, db1, w2)
               else if first_char sql ''c'' \<and> str_find ''call'' sql \<noteq> None then
                 (case callsql sql of
                    None \<Rightarrow> Inr (1, None, db1, w2)
                  | Some q \<Rightarrow> store (snd (mysql_query api h (c_str q) w2)))
               else store w2)))"

text \<open>The destructors: of a result set, and of a connection.\<close>

definition DBresultSet_delete :: "'w mysql \<Rightarrow> rows option \<Rightarrow> 'w \<Rightarrow> 'w" where
  "DBresultSet_delete api mres w = (case mres of None \<Rightarrow> w | Some r \<Rightarrow> mysql_free_result api r w)"

definition DBConnect_delete :: "'w mysql \<Rightarrow> DBConnect \<times> 'w \<Rightarrow> 'w" where
  "DBConnect_delete api = (\<lambda>(db, w). case con db of None \<Rightarrow> w | Some h \<Rightarrow> mysql_close api h w)"

section \<open>Searching a statement\<close>

lemma str_find_char: "c \<notin> set pre \<Longrightarrow> str_find [c] (pre @ c # rest) = Some (length pre)"
  by (induction pre) auto

lemma str_find_char_None: "str_find [c] s = None \<longleftrightarrow> c \<notin> set s"
  by (induction s) auto

lemma substr_middle: "substr (pre @ mid @ post) (length pre) (int (length mid)) = mid"
  by (simp add: substr_def)

text \<open>
  On a statement with one parenthesised argument list whose output parameters come last,
  the follow-up query asks for exactly those parameters.
\<close>

lemma callsql_args:
  assumes "CHR 0x40 \<notin> set pre" and "CHR 0x29 \<notin> set pre" and "CHR 0x29 \<notin> set args"
    and "int (length args) < 2 ^ 30"
  shows "callsql (pre @ (CHR 0x40 # args) @ CHR 0x29 # post) = Some (''SELECT '' @ CHR 0x40 # args)"
proof -
  have at: "str_find ''@'' (pre @ (CHR 0x40 # args) @ CHR 0x29 # post) = Some (length pre)"
    using assms(1) by (simp add: str_find_char)
  have par: "str_find '')'' ((pre @ CHR 0x40 # args) @ CHR 0x29 # post) =
      Some (length (pre @ CHR 0x40 # args))"
    by (rule str_find_char) (use assms in auto)
  have len: "to_int32 (int (length (pre @ CHR 0x40 # args)) - int (length pre)) =
      int (length (CHR 0x40 # args))"
    using assms(4) by (simp add: to_int32_id int32_range_def)
  show ?thesis
    using at par len substr_middle [of pre "CHR 0x40 # args" "CHR 0x29 # post"]
    by (simp add: callsql_def)
qed

text \<open>
  With a closing parenthesis before the first \<open>@\<close> the count is negative, and the query is
  the whole rest of the statement.
\<close>

lemma callsql_early_paren:
  assumes "CHR 0x29 \<notin> set pre" and "CHR 0x40 \<notin> set pre" and "CHR 0x40 \<notin> set mid"
    and "int (length mid) < 2 ^ 30"
  shows "callsql (pre @ CHR 0x29 # mid @ CHR 0x40 # post) = Some (''SELECT '' @ CHR 0x40 # post)"
proof -
  have par: "str_find '')'' (pre @ CHR 0x29 # mid @ CHR 0x40 # post) = Some (length pre)"
    using assms(1) by (simp add: str_find_char)
  have at: "str_find ''@'' ((pre @ CHR 0x29 # mid) @ CHR 0x40 # post) =
      Some (length (pre @ CHR 0x29 # mid))"
    by (rule str_find_char) (use assms in auto)
  have len: "to_int32 (int (length pre) - int (length (pre @ CHR 0x29 # mid))) = - 1 - int (length mid)"
    using assms(4) by (simp add: to_int32_id int32_range_def)
  show ?thesis
    using at par len by (simp add: callsql_def substr_def)
qed

section \<open>The connection\<close>

lemma init_connected: "con db \<noteq> None \<Longrightarrow> DBConnect_init api charset ip name (db, w) = Inr (0, db, w)"
  by (simp add: DBConnect_init_def)

text \<open>
  What the code relies on from \<open>mysql_init\<close>: it never runs out of memory.
\<close>

definition init_allocates :: "'w mysql \<Rightarrow> bool" where
  "init_allocates api \<longleftrightarrow> (\<forall>w. fst (mysql_init api w) \<noteq> None)"

lemma init_result:
  assumes "init_allocates api" and "con db = None"
  shows "\<exists>r db' w'. DBConnect_init api charset ip name (db, w) = Inr (r, db', w') \<and>
     (r = 0 \<and> con db' = None \<or> r = 1 \<and> con db' \<noteq> None) \<and>
     m_strDBip db' = ip \<and> m_strDBName db' = name"
proof -
  obtain h w1 where "mysql_init api w = (Some h, w1)"
    using assms(1) unfolding init_allocates_def by (metis not_None_eq prod.collapse)
  then show ?thesis
    using assms(2) by (auto simp: DBConnect_init_def Let_def split: prod.splits)
qed

lemma KeepAlive_result:
  assumes "init_allocates api" and "con db \<noteq> None"
  shows "\<exists>r db' w'. KeepAlive api charset (db, w) = Inr (r, db', w') \<and>
     (r = 0 \<and> con db' = None \<or> r = 1 \<and> con db' \<noteq> None)"
proof -
  obtain h where h: "con db = Some h" using assms(2) by blast
  obtain err w1 where ping: "mysql_ping api h w = (err, w1)" by (cases "mysql_ping api h w")
  have cleared: "con (db\<lparr>con := None\<rparr>) = None" by simp
  show ?thesis
    using h ping init_result [OF assms(1) cleared, where ip = "m_strDBip db" and name = "m_strDBName db"
        and charset = charset and w = "mysql_close api h w1"]
    by (auto simp: KeepAlive_def DBConnect_Clear_def)
qed

lemma loadtabledata_result:
  assumes "init_allocates api"
  shows "\<exists>iret mres db' w'. loadtabledata api charset (Some sql) (db, w) = Inr (iret, mres, db', w') \<and>
     iret \<in> {-3, -2, -1, 1} \<and> (iret = -1 \<longleftrightarrow> con db' = None) \<and> (mres \<noteq> None \<longrightarrow> iret = 1)"
proof (cases "con db = None")
  case True
  then show ?thesis by (simp add: loadtabledata_def)
next
  case False
  from KeepAlive_result [OF assms this, of charset w] obtain r db1 w1 where
    k: "KeepAlive api charset (db, w) = Inr (r, db1, w1)"
    and r: "r = 0 \<and> con db1 = None \<or> r = 1 \<and> con db1 \<noteq> None" by blast
  show ?thesis
    using False k r
    by (auto simp: loadtabledata_def Let_def split: prod.splits option.splits)
qed

lemma loadtabledata_null: "con db \<noteq> None \<Longrightarrow> \<not> fst (mysql_ping api (the (con db)) w) \<Longrightarrow>
   loadtabledata api charset None (db, w) = Inl NullPointer"
  by (auto simp: loadtabledata_def KeepAlive_def Let_def split: prod.splits)

section \<open>The calls of the library\<close>

text \<open>
  What is said to the server, in the order it is said: the library with a record of the calls
  that carry a statement or fetch its result, with what the library answered. It does what the
  library does.
\<close>

datatype mysql_event =
    Query nat string bool
  | Ask nat string
  | Store nat "rows option"

definition recorded :: "'w mysql \<Rightarrow> ('w \<times> mysql_event list) mysql" where
  "recorded api = \<lparr>
     mysql_init = (\<lambda>(w, es). let (c, w') = mysql_init api w in (c, w', es)),
     mysql_options = (\<lambda>h opt (w, es). (mysql_options api h opt w, es)),
     mysql_real_connect = (\<lambda>h ip user pw name port (w, es).
       let (b, w') = mysql_real_connect api h ip user pw name port w in (b, w', es)),
     mysql_select_db = (\<lambda>h name (w, es). let (b, w') = mysql_select_db api h name w in (b, w', es)),
     mysql_set_reconnect = (\<lambda>h (w, es). (mysql_set_reconnect api h w, es)),
     mysql_ping = (\<lambda>h (w, es). let (b, w') = mysql_ping api h w in (b, w', es)),
     mysql_close = (\<lambda>h (w, es). (mysql_close api h w, es)),
     mysql_real_query = (\<lambda>h q (w, es).
       let (b, w') = mysql_real_query api h q w in (b, w', es @ [Query h q b])),
     mysql_query = (\<lambda>h q (w, es). let (b, w') = mysql_query api h q w in (b, w', es @ [Ask h q])),
     mysql_store_result = (\<lambda>h (w, es).
       let (r, w') = mysql_store_result api h w in (r, w', es @ [Store h r])),
     mysql_free_result = (\<lambda>r (w, es). (mysql_free_result api r w, es)),
     mysql_field_count = (\<lambda>h (w, es). mysql_field_count api h w)\<rparr>"

lemma recorded_simps [simp]:
  "mysql_ping (recorded api) h (w, es) = (let (b, w') = mysql_ping api h w in (b, w', es))"
  "mysql_close (recorded api) h (w, es) = (mysql_close api h w, es)"
  "mysql_real_query (recorded api) h q (w, es) =
     (let (b, w') = mysql_real_query api h q w in (b, w', es @ [Query h q b]))"
  "mysql_query (recorded api) h q (w, es) = (let (b, w') = mysql_query api h q w in (b, w', es @ [Ask h q]))"
  "mysql_store_result (recorded api) h (w, es) =
     (let (r, w') = mysql_store_result api h w in (r, w', es @ [Store h r]))"
  by (simp_all add: recorded_def)

lemma recorded_init:
  "DBConnect_init (recorded api) charset ip name (db, w, es) =
     rbind (DBConnect_init api charset ip name (db, w)) (\<lambda>(r, db', w'). Inr (r, db', w', es))"
  by (simp add: DBConnect_init_def recorded_def Let_def split: prod.split option.split)

lemma recorded_KeepAlive:
  "KeepAlive (recorded api) charset (db, w, es) =
     rbind (KeepAlive api charset (db, w)) (\<lambda>(r, db', w'). Inr (r, db', w', es))"
  by (simp add: KeepAlive_def DBConnect_Clear_def recorded_init split: prod.split option.split)

text \<open>The statement that follows a call, and whether a result set is fetched.\<close>

definition is_call :: "string \<Rightarrow> bool" where
  "is_call sql \<longleftrightarrow> first_char sql ''c'' \<and> str_find ''call'' sql \<noteq> None"

definition follow_up :: "string \<Rightarrow> string list" where
  "follow_up sql = (if is_call sql then case callsql sql of None \<Rightarrow> [] | Some q \<Rightarrow> [c_str q] else [])"

definition fetches :: "string \<Rightarrow> bool" where
  "fetches sql \<longleftrightarrow> first_char sql ''scSC'' \<and> (is_call sql \<longrightarrow> callsql sql \<noteq> None)"

text \<open>The exchange over a connection that is alive.\<close>

definition exchange :: "nat \<Rightarrow> string \<Rightarrow> int \<Rightarrow> rows option \<Rightarrow> mysql_event list" where
  "exchange h sql iret mres =
     Query h sql (iret = -2) #
       (if iret = -2 then [] else map (Ask h) (follow_up sql) @ (if fetches sql then [Store h mres] else []))"

lemma loadtabledata_recorded:
  assumes "init_allocates api"
  shows "\<exists>iret mres db' w' es. loadtabledata api charset (Some sql) (db, w) = Inr (iret, mres, db', w') \<and>
     loadtabledata (recorded api) charset (Some sql) (db, w, log) = Inr (iret, mres, db', w', log @ es) \<and>
     es = (case con db' of None \<Rightarrow> [] | Some h \<Rightarrow> exchange h sql iret mres) \<and>
     (iret = -1 \<longleftrightarrow> con db' = None) \<and>
     (iret = -3 \<longleftrightarrow> iret \<notin> {-2, -1} \<and> fetches sql \<and> mres = None) \<and>
     iret \<in> {-3, -2, -1, 1} \<and> (mres \<noteq> None \<longrightarrow> iret = 1)"
proof (cases "con db = None")
  case True
  then show ?thesis by (simp add: loadtabledata_def)
next
  case False
  from KeepAlive_result [OF assms this, of charset w] obtain r db1 w1 where
    k: "KeepAlive api charset (db, w) = Inr (r, db1, w1)"
    and r: "r = 0 \<and> con db1 = None \<or> r = 1 \<and> con db1 \<noteq> None" by blast
  show ?thesis
  proof (cases "con db1")
    case None
    with False k r show ?thesis by (auto simp: loadtabledata_def recorded_KeepAlive)
  next
    case (Some h)
    obtain rt w2 where q: "mysql_real_query api h sql w1 = (rt, w2)" by (cases "mysql_real_query api h sql w1")
    have f: "first_char sql ''c'' \<Longrightarrow> first_char sql ''scSC''" by (cases sql) (auto simp: first_char_def)
    from False k r Some q f show ?thesis
      by (auto simp: loadtabledata_def recorded_KeepAlive exchange_def follow_up_def fetches_def is_call_def
          Let_def split: prod.splits option.splits)
  qed
qed

section \<open>Properties\<close>

text \<open>
  A library that keeps the statements it is sent, knows no statement that starts with
  \<open>selsect\<close>, and answers any other with one row of two numbers.
\<close>

definition demo_mysql :: "string list mysql" where
  "demo_mysql = \<lparr>mysql_init = (\<lambda>w. (Some 1, w)), mysql_options = (\<lambda>_ _ w. w),
     mysql_real_connect = (\<lambda>_ _ _ _ _ _ w. (True, w)), mysql_select_db = (\<lambda>_ _ w. (False, w)),
     mysql_set_reconnect = (\<lambda>_ w. w), mysql_ping = (\<lambda>_ w. (False, w)), mysql_close = (\<lambda>_ w. w),
     mysql_real_query = (\<lambda>_ q w. (take 7 q = ''selsect'', w @ [q])),
     mysql_query = (\<lambda>_ q w. (False, w @ [q])),
     mysql_store_result = (\<lambda>_ w. (Some [[Some ''42'', Some ''1'']], w)),
     mysql_free_result = (\<lambda>_ w. w), mysql_field_count = (\<lambda>_ _. 2)\<rparr>"

lemma demo_mysql_allocates: "init_allocates demo_mysql"
  by (simp add: init_allocates_def demo_mysql_def)

definition demo_db :: DBConnect where
  "demo_db = DBConnect_new\<lparr>con := Some 1\<rparr>"

text \<open>
  C29: What the code that \<open>loadtabledata\<close> returns means, for every library whose \<open>mysql_init\<close> does
  not run out of memory. It always returns. With -1 there is no connection and nothing was said
  to the server; otherwise the statement was sent once, over the connection that is left. With
  -2 the server refused it and nothing more was said; else the follow-up query of a call was
  sent, and a result set was fetched if the statement begins with s or c and is not a call
  without output parameters. With -3 that fetch gave nothing; with 1 the caller has the fetched
  rows, or there was nothing to fetch.
\<close>

theorem query_contract:
  assumes "init_allocates api"
  shows "\<exists>iret mres db' w' es. loadtabledata api charset (Some sql) (db, w) = Inr (iret, mres, db', w') \<and>
     loadtabledata (recorded api) charset (Some sql) (db, w, log) = Inr (iret, mres, db', w', log @ es) \<and>
     es = (case con db' of
             None \<Rightarrow> []
           | Some h \<Rightarrow> Query h sql (iret = -2) #
               (if iret = -2 then []
                else map (Ask h) (follow_up sql) @ (if fetches sql then [Store h mres] else []))) \<and>
     (iret = -1 \<longleftrightarrow> con db' = None) \<and>
     (iret = -3 \<longleftrightarrow> iret \<notin> {-2, -1} \<and> fetches sql \<and> mres = None) \<and>
     iret \<in> {-3, -2, -1, 1} \<and> (mres \<noteq> None \<longrightarrow> iret = 1)"
  using loadtabledata_recorded [OF assms, of charset sql db w log] by (simp only: exchange_def)

theorem query_contract_witness:
  "\<exists>mres db' w'. loadtabledata (recorded demo_mysql) ''utf8'' (Some ''selsect 1'') (demo_db, [], []) =
     Inr (-2, mres, db', w', [Query 1 ''selsect 1'' True])"
proof -
  have "loadtabledata demo_mysql ''utf8'' (Some ''selsect 1'') (demo_db, []) =
      Inr (-2, None, demo_db, [''selsect 1''])"
    by (simp add: loadtabledata_def KeepAlive_def demo_mysql_def demo_db_def)
  with query_contract [OF demo_mysql_allocates, of "''utf8''" "''selsect 1''" demo_db "[]" "[]"] show ?thesis
    by (auto simp: demo_db_def)
qed

end
