(* ===== verification/DBMS_Cache.thy ===== *)
theory DBMS_Cache
  imports SG_Prelude
begin

text \<open>
  The in-memory store of DPDB/dbms.h and DPDB/dbms.cpp: string keys and values with an
  expiry time each. The values are in a map, the expiry times in a multimap from times to
  keys, and the operations keep the two in step. The model has the methods, the agreement
  of the two containers as an invariant, the contract of an expiring store as the locale
  \<open>expiring_store\<close>, and the methods as its interpretation.
\<close>

section \<open>The class\<close>

record MemData =
  m_strValue :: string
  m_qwTime :: u64

text \<open>
  A \<open>std::multimap\<close> is the list of its entries in iteration order: by increasing key
  (\<open>uint64_t\<close>, so by unsigned comparison), entries of equal keys in the order of their
  insertion.
\<close>

type_synonym time_multimap = "(u64 \<times> string) list"

record DBMS =
  m_mapAllData :: "string \<rightharpoonup> MemData"
  m_mapAllDataTime :: time_multimap

definition DBMS_new :: DBMS where
  "DBMS_new = \<lparr>m_mapAllData = Map.empty, m_mapAllDataTime = []\<rparr>"

fun mm_insert :: "u64 \<Rightarrow> string \<Rightarrow> time_multimap \<Rightarrow> time_multimap" where
  "mm_insert t k [] = [(t, k)]"
| "mm_insert t k (e # es) = (if t < fst e then (t, k) # e # es else e # mm_insert t k es)"

definition mm_count :: "u64 \<Rightarrow> time_multimap \<Rightarrow> nat" where
  "mm_count t es = length (filter (\<lambda>e. fst e = t) es)"

text \<open>
  The loop of \<open>Del\<close>: from the iterator, at most \<open>iCount\<close> entries are looked at, and the
  first one with the key is erased. The argument is the list from the iterator on.
\<close>

fun del_loop :: "nat \<Rightarrow> string \<Rightarrow> time_multimap \<Rightarrow> time_multimap" where
  "del_loop 0 strKey it = it"
| "del_loop (Suc n) strKey [] = []"
| "del_loop (Suc n) strKey (e # it) =
     (if snd e = strKey then it else e # del_loop n strKey it)"

text \<open>\<open>find\<close> on the multimap gives the first entry of the equal range, or the end.\<close>

definition Del :: "DBMS \<Rightarrow> string \<Rightarrow> DBMS" where
  "Del db strKey =
     (case m_mapAllData db strKey of
        None \<Rightarrow> db
      | Some temMemData \<Rightarrow>
          let t = m_qwTime temMemData;
              iCount = mm_count t (m_mapAllDataTime db);
              before = takeWhile (\<lambda>e. fst e \<noteq> t) (m_mapAllDataTime db);
              itMultiMap = dropWhile (\<lambda>e. fst e \<noteq> t) (m_mapAllDataTime db)
          in db\<lparr>m_mapAllDataTime := before @ del_loop iCount strKey itMultiMap,
                m_mapAllData := (m_mapAllData db)(strKey := None)\<rparr>)"

text \<open>
  \<open>UpdateData\<close> drops entries from the front of the multimap while they are expired. The
  comparison is between \<open>time_t\<close> values, so signed. \<open>iCurTime\<close> is what \<open>time(0)\<close> returned.
\<close>

fun update_loop :: "u64 \<Rightarrow> (string \<rightharpoonup> MemData) \<Rightarrow> time_multimap \<Rightarrow> (string \<rightharpoonup> MemData) \<times> time_multimap" where
  "update_loop iCurTime d [] = (d, [])"
| "update_loop iCurTime d (e # es) =
     (if sint iCurTime > sint (fst e) then update_loop iCurTime (d(snd e := None)) es
      else (d, e # es))"

definition UpdateData :: "DBMS \<Rightarrow> u64 \<Rightarrow> DBMS" where
  "UpdateData db iCurTime =
     (case update_loop iCurTime (m_mapAllData db) (m_mapAllDataTime db) of
        (d, es) \<Rightarrow> db\<lparr>m_mapAllData := d, m_mapAllDataTime := es\<rparr>)"

text \<open>\<open>Find\<close> returns whether the key is there, and writes its value to \<open>out\<close> if so.\<close>

definition Find :: "DBMS \<Rightarrow> string \<Rightarrow> string \<Rightarrow> bool \<times> string" where
  "Find db key out =
     (case m_mapAllData db key of
        Some d \<Rightarrow> (True, m_strValue d)
      | None \<Rightarrow> (False, out))"

definition Insert :: "DBMS \<Rightarrow> string \<Rightarrow> string \<Rightarrow> u64 \<Rightarrow> u64 \<Rightarrow> DBMS" where
  "Insert db key value iLastTime now =
     (let db' = Del db key;
          t = now + iLastTime
      in db'\<lparr>m_mapAllDataTime := mm_insert t key (m_mapAllDataTime db'),
             m_mapAllData := (m_mapAllData db')(key \<mapsto> \<lparr>m_strValue = value, m_qwTime = t\<rparr>)\<rparr>)"

definition Size :: "DBMS \<Rightarrow> int" where
  "Size db = to_int32 (int (card (dom (m_mapAllData db))))"

section \<open>The two containers agree\<close>

text \<open>
  The multimap is in order, lists no key twice, and lists a key under a time exactly when
  the map has the key with that time.
\<close>

definition times_of :: "(string \<rightharpoonup> MemData) \<Rightarrow> (u64 \<times> string) set" where
  "times_of d = {(m_qwTime v, k) | k v. d k = Some v}"

definition db_inv :: "DBMS \<Rightarrow> bool" where
  "db_inv db \<longleftrightarrow> sorted (map fst (m_mapAllDataTime db)) \<and>
     distinct (map snd (m_mapAllDataTime db)) \<and>
     set (m_mapAllDataTime db) = times_of (m_mapAllData db)"

lemma db_invI:
  assumes "sorted (map fst (m_mapAllDataTime db))" and "distinct (map snd (m_mapAllDataTime db))"
    and "set (m_mapAllDataTime db) = times_of (m_mapAllData db)"
  shows "db_inv db"
  using assms by (simp add: db_inv_def)

lemma times_of_empty [simp]: "times_of Map.empty = {}"
  by (simp add: times_of_def)

lemma times_of_iff: "(t, k) \<in> times_of d \<longleftrightarrow> (\<exists>v. d k = Some v \<and> m_qwTime v = t)"
  by (auto simp: times_of_def)

lemma times_of_delete: "times_of (d(k := None)) = {e \<in> times_of d. snd e \<noteq> k}"
  by (auto simp: times_of_def)

lemma times_of_update:
  assumes "d k = None"
  shows "times_of (d(k \<mapsto> v)) = insert (m_qwTime v, k) (times_of d)"
proof (rule set_eqI)
  fix e
  show "e \<in> times_of (d(k \<mapsto> v)) \<longleftrightarrow> e \<in> insert (m_qwTime v, k) (times_of d)"
    using assms by (cases e) (auto simp: times_of_iff)
qed

lemma times_of_restrict: "times_of (d |` (- A)) = {e \<in> times_of d. snd e \<notin> A}"
  by (auto simp: times_of_def restrict_map_def split: if_splits)

lemma snd_times_of: "snd ` times_of d = dom d"
  by (auto simp: times_of_def image_iff dom_def)

lemma db_inv_new: "db_inv DBMS_new"
  by (simp add: db_inv_def DBMS_new_def)

text \<open>The size of the map is that of the multimap.\<close>

lemma Size_eq: "db_inv db \<Longrightarrow> Size db = to_int32 (int (length (m_mapAllDataTime db)))"
  by (metis Size_def db_inv_def distinct_card length_map list.set_map snd_times_of)

text \<open>\<open>Del\<close> erases the one entry of its key from the multimap and nothing else.\<close>

lemma del_loop_filter:
  assumes "distinct (map snd es)" and "sorted (map fst es)"
    and "\<forall>e\<in>set es. t \<le> fst e" and "\<forall>e\<in>set es. snd e = k \<longrightarrow> fst e = t"
  shows "del_loop (mm_count t es) k es = filter (\<lambda>e. snd e \<noteq> k) es"
  using assms
proof (induction es)
  case Nil
  then show ?case by (simp add: mm_count_def)
next
  case (Cons e es)
  show ?case
  proof (cases "fst e = t")
    case True
    have same: "filter (\<lambda>e. snd e \<noteq> k) es = es" if "snd e = k"
    proof (rule filter_True)
      have "snd e \<notin> snd ` set es" using Cons.prems(1) by simp
      with that show "\<forall>x\<in>set es. snd x \<noteq> k" by (metis image_eqI)
    qed
    have "mm_count t (e # es) = Suc (mm_count t es)"
      using True by (simp add: mm_count_def)
    then show ?thesis
      using Cons same by (cases "snd e = k") auto
  next
    case False
    then have later: "\<forall>x\<in>set (e # es). fst x \<noteq> t"
      using Cons.prems(2,3) by fastforce
    then have "mm_count t (e # es) = 0" and "\<forall>x\<in>set (e # es). snd x \<noteq> k"
      using Cons.prems(4) by (auto simp: mm_count_def filter_empty_conv)
    then show ?thesis by (simp add: filter_id_conv)
  qed
qed

lemma Del_times:
  assumes inv: "db_inv db" and v: "m_mapAllData db k = Some v"
  shows "m_mapAllDataTime (Del db k) = filter (\<lambda>e. snd e \<noteq> k) (m_mapAllDataTime db)"
proof -
  let ?t = "m_qwTime v" and ?es = "m_mapAllDataTime db"
  let ?a = "takeWhile (\<lambda>e. fst e \<noteq> ?t) ?es" and ?b = "dropWhile (\<lambda>e. fst e \<noteq> ?t) ?es"
  have es: "?es = ?a @ ?b" by simp
  have s: "sorted (map fst (?a @ ?b))" and d: "distinct (map snd (?a @ ?b))"
    using inv by (simp_all add: db_inv_def)
  have only: "fst e = ?t" if "e \<in> set ?es" "snd e = k" for e
  proof -
    have "e \<in> times_of (m_mapAllData db)"
      using that(1) inv by (simp add: db_inv_def)
    then have "(fst e, k) \<in> times_of (m_mapAllData db)"
      using that(2) by (metis prod.collapse)
    with v show ?thesis by (simp add: times_of_iff)
  qed
  have tb: "\<forall>e\<in>set ?b. ?t \<le> fst e"
  proof (cases ?b)
    case (Cons e r)
    then have "fst e = ?t" by (metis (mono_tags, lifting) dropWhile_eq_Cons_conv)
    with Cons s show ?thesis by (fastforce simp: sorted_append)
  next
    case Nil
    show ?thesis unfolding Nil by simp
  qed
  have a: "filter (\<lambda>e. snd e \<noteq> k) ?a = ?a"
    using only by (intro filter_True) (metis (mono_tags, lifting) set_takeWhileD)
  have count: "mm_count ?t ?es = mm_count ?t ?b"
  proof -
    have "filter (\<lambda>e. fst e = ?t) ?a = []"
      by (auto simp: filter_empty_conv dest: set_takeWhileD)
    then show ?thesis
      unfolding mm_count_def by (metis append_Nil es filter_append)
  qed
  have b: "del_loop (mm_count ?t ?b) k ?b = filter (\<lambda>e. snd e \<noteq> k) ?b"
  proof (rule del_loop_filter [OF _ _ tb])
    show "distinct (map snd ?b)" and "sorted (map fst ?b)"
      using d s by (simp_all only: map_append sorted_append distinct_append)
    show "\<forall>e\<in>set ?b. snd e = k \<longrightarrow> fst e = ?t"
      using only by (meson set_dropWhileD)
  qed
  have "m_mapAllDataTime (Del db k) = ?a @ filter (\<lambda>e. snd e \<noteq> k) ?b"
    using v count b by (simp add: Del_def Let_def)
  also have "\<dots> = filter (\<lambda>e. snd e \<noteq> k) (?a @ ?b)"
    by (simp only: filter_append a)
  finally show ?thesis by (simp only: takeWhile_dropWhile_id)
qed

lemma Del_data: "m_mapAllData (Del db k) = (m_mapAllData db)(k := None)"
  by (auto simp: Del_def Let_def fun_upd_idem split: option.split)

lemma db_inv_Del: "db_inv db \<Longrightarrow> db_inv (Del db k)"
proof (cases "m_mapAllData db k")
  case None
  then show "db_inv db \<Longrightarrow> db_inv (Del db k)" by (simp add: Del_def)
next
  case (Some v)
  assume inv: "db_inv db"
  then show "db_inv (Del db k)"
    unfolding db_inv_def Del_times [OF inv Some] Del_data times_of_delete
    by (auto simp: sorted_filter distinct_map_filter)
qed

text \<open>\<open>Insert\<close> replaces whatever the key had.\<close>

lemma set_mm_insert [simp]: "set (mm_insert t k es) = insert (t, k) (set es)"
  by (induction es) auto

lemma sorted_mm_insert: "sorted (map fst es) \<Longrightarrow> sorted (map fst (mm_insert t k es))"
  by (induction es) (auto simp: not_less less_imp_le intro: order.trans)

lemma distinct_mm_insert:
  "distinct (map snd (mm_insert t k es)) \<longleftrightarrow> k \<notin> snd ` set es \<and> distinct (map snd es)"
  by (induction es) auto

lemma Insert_data:
  "m_mapAllData (Insert db k v ttl now) =
     (m_mapAllData db)(k \<mapsto> \<lparr>m_strValue = v, m_qwTime = now + ttl\<rparr>)"
  by (simp add: Insert_def Let_def Del_data)

lemma db_inv_Insert: "db_inv db \<Longrightarrow> db_inv (Insert db k v ttl now)"
proof -
  assume "db_inv db"
  then have inv: "db_inv (Del db k)" by (rule db_inv_Del)
  have "k \<notin> snd ` set (m_mapAllDataTime (Del db k))"
    using inv by (auto simp: db_inv_def times_of_iff Del_data)
  moreover have "times_of ((m_mapAllData db)(k \<mapsto> w)) =
      insert (m_qwTime w, k) (times_of ((m_mapAllData db)(k := None)))" for w
    using times_of_update [of "(m_mapAllData db)(k := None)" k w] by simp
  ultimately show ?thesis
    using inv unfolding db_inv_def Insert_data
    by (simp add: Insert_def Let_def sorted_mm_insert distinct_mm_insert Del_data)
qed

text \<open>
  \<open>UpdateData\<close> stops at the first entry that has not expired. The entries it drops are a
  prefix of the multimap, and the map loses exactly their keys.
\<close>

lemma update_loop_eq:
  "update_loop now d es =
     (d |` (- snd ` set (takeWhile (\<lambda>e. sint now > sint (fst e)) es)),
      dropWhile (\<lambda>e. sint now > sint (fst e)) es)"
  by (induction es arbitrary: d) (auto simp: restrict_map_def fun_eq_iff)

lemma UpdateData_data:
  "m_mapAllData (UpdateData db now) =
     m_mapAllData db |` (- snd ` set (takeWhile (\<lambda>e. sint now > sint (fst e)) (m_mapAllDataTime db)))"
  by (simp add: UpdateData_def update_loop_eq)

lemma UpdateData_times:
  "m_mapAllDataTime (UpdateData db now) =
     dropWhile (\<lambda>e. sint now > sint (fst e)) (m_mapAllDataTime db)"
  by (simp add: UpdateData_def update_loop_eq)

lemma set_suffix_distinct:
  assumes "distinct (map snd (xs @ ys))"
  shows "set ys = {e \<in> set (xs @ ys). snd e \<notin> snd ` set xs}"
proof -
  have "snd ` set xs \<inter> snd ` set ys = {}" using assms by simp
  then show ?thesis by (auto dest: imageI [of _ _ snd])
qed

lemma db_inv_UpdateData: "db_inv db \<Longrightarrow> db_inv (UpdateData db now)"
proof -
  assume inv: "db_inv db"
  let ?P = "\<lambda>e. sint now > sint (fst e)" and ?es = "m_mapAllDataTime db"
  have d: "distinct (map snd (takeWhile ?P ?es @ dropWhile ?P ?es))"
    and s: "sorted (map fst (takeWhile ?P ?es @ dropWhile ?P ?es))"
    using inv by (simp_all add: db_inv_def)
  have "set (dropWhile ?P ?es) = {e \<in> set ?es. snd e \<notin> snd ` set (takeWhile ?P ?es)}"
    using set_suffix_distinct [OF d] by (simp only: takeWhile_dropWhile_id)
  then have "set (dropWhile ?P ?es) = times_of (m_mapAllData (UpdateData db now))"
    using inv by (simp only: db_inv_def UpdateData_data times_of_restrict)
  moreover have "sorted (map fst (dropWhile ?P ?es))" and "distinct (map snd (dropWhile ?P ?es))"
    using d s by (simp_all only: map_append sorted_append distinct_append)
  ultimately show ?thesis
    unfolding db_inv_def UpdateData_times by blast
qed

section \<open>What a caller relies on\<close>

text \<open>
  The unsigned order of the multimap and the signed comparison of \<open>UpdateData\<close> agree as
  long as no expiry time reaches \<open>2 ^ 63\<close>. Under that condition \<open>UpdateData\<close> drops exactly
  the expired keys.
\<close>

definition expired :: "u64 \<Rightarrow> u64 \<Rightarrow> bool" where
  "expired now t \<longleftrightarrow> sint now > sint t"

definition store_inv :: "DBMS \<Rightarrow> bool" where
  "store_inv db \<longleftrightarrow> db_inv db \<and> (\<forall>e\<in>set (m_mapAllDataTime db). 0 \<le> sint (fst e))"

lemma sint_nonneg_uint:
  assumes "0 \<le> sint (a :: u64)"
  shows "sint a = uint a"
proof -
  have "sint a = (uint a + 2 ^ 63) mod 2 ^ 64 - 2 ^ 63"
    using int_word_sint [of "uint a", where 'a = 64] by simp
  moreover have "uint a < 2 ^ 63"
  proof (rule ccontr)
    assume "\<not> uint a < 2 ^ 63"
    then have "((uint a - 2 ^ 63) + 2 ^ 64) mod 2 ^ 64 = uint a - 2 ^ 63"
      using uint_lt2p [of a] by (simp only: mod_add_self2) simp
    then show False
      using assms calculation uint_lt2p [of a] by (simp add: add.commute)
  qed
  ultimately show ?thesis by simp
qed

lemma sint_mono: "0 \<le> sint (a :: u64) \<Longrightarrow> 0 \<le> sint b \<Longrightarrow> a \<le> b \<Longrightarrow> sint a \<le> sint b"
  by (simp add: sint_nonneg_uint word_le_def)

lemma takeWhile_expired:
  assumes "sorted (map fst es)" and "\<forall>e\<in>set es. 0 \<le> sint (fst e)"
  shows "set (takeWhile (\<lambda>e. expired now (fst e)) es) = {e \<in> set es. expired now (fst e)}"
  using assms
proof (induction es)
  case (Cons e es)
  have "\<not> expired now (fst x)" if "\<not> expired now (fst e)" "x \<in> set es" for x
    using that Cons.prems sint_mono [of "fst e" "fst x"] by (fastforce simp: expired_def)
  with Cons show ?case by auto
qed simp

lemma UpdateData_exact:
  assumes "store_inv db"
  shows "m_mapAllData (UpdateData db now) k =
     (case m_mapAllData db k of
        None \<Rightarrow> None
      | Some v \<Rightarrow> if expired now (m_qwTime v) then None else Some v)"
proof -
  let ?es = "m_mapAllDataTime db"
  have "snd ` set (takeWhile (\<lambda>e. expired now (fst e)) ?es) =
      {k. \<exists>v. m_mapAllData db k = Some v \<and> expired now (m_qwTime v)}"
    using assms unfolding store_inv_def db_inv_def
    by (subst takeWhile_expired) (auto simp: times_of_def image_iff)
  then show ?thesis
    unfolding UpdateData_data expired_def [symmetric]
    by (auto simp: restrict_map_def split: option.split)
qed

lemma store_inv_new: "store_inv DBMS_new"
  by (simp add: store_inv_def db_inv_new) (simp add: DBMS_new_def)

lemma set_Del_subset: "db_inv db \<Longrightarrow> set (m_mapAllDataTime (Del db k)) \<subseteq> set (m_mapAllDataTime db)"
proof (cases "m_mapAllData db k")
  case None
  then show ?thesis by (simp add: Del_def)
next
  case (Some v)
  assume "db_inv db"
  with Some show ?thesis by (auto simp: Del_times)
qed

lemma store_inv_Del: "store_inv db \<Longrightarrow> store_inv (Del db k)"
  using set_Del_subset [of db k] by (auto simp: store_inv_def db_inv_Del)

lemma store_inv_Insert:
  "store_inv db \<Longrightarrow> 0 \<le> sint (now + ttl) \<Longrightarrow> store_inv (Insert db k v ttl now)"
proof -
  assume a: "store_inv db" "0 \<le> sint (now + ttl)"
  have "set (m_mapAllDataTime (Insert db k v ttl now)) =
      insert (now + ttl, k) (set (m_mapAllDataTime (Del db k)))"
    by (simp add: Insert_def Let_def)
  then show ?thesis
    using a store_inv_Del [OF a(1)] by (simp add: store_inv_def db_inv_Insert)
qed

lemma store_inv_UpdateData: "store_inv db \<Longrightarrow> store_inv (UpdateData db now)"
  by (auto simp: store_inv_def db_inv_UpdateData UpdateData_times dest: set_dropWhileD)

text \<open>Histories of a store, as lists of calls with the clock readings the calls see.\<close>

datatype store_call =
    CallInsert string string u64 u64
  | CallDel string
  | CallUpdate u64

fun store_run ::
  "('s \<Rightarrow> string \<Rightarrow> string \<Rightarrow> u64 \<Rightarrow> u64 \<Rightarrow> 's) \<Rightarrow> ('s \<Rightarrow> string \<Rightarrow> 's) \<Rightarrow> ('s \<Rightarrow> u64 \<Rightarrow> 's) \<Rightarrow>
   's \<Rightarrow> store_call list \<Rightarrow> 's" where
  "store_run ins del upd s [] = s"
| "store_run ins del upd s (CallInsert k v ttl now # cs) = store_run ins del upd (ins s k v ttl now) cs"
| "store_run ins del upd s (CallDel k # cs) = store_run ins del upd (del s k) cs"
| "store_run ins del upd s (CallUpdate now # cs) = store_run ins del upd (upd s now) cs"

text \<open>The calls that leave a key with expiry time \<open>t\<close> alone, and those the contract covers.\<close>

fun spares :: "string \<Rightarrow> u64 \<Rightarrow> store_call \<Rightarrow> bool" where
  "spares k t (CallInsert k' v ttl now) = (k' \<noteq> k)"
| "spares k t (CallDel k') = (k' \<noteq> k)"
| "spares k t (CallUpdate now) = (\<not> expired now t)"

fun covered :: "store_call \<Rightarrow> bool" where
  "covered (CallInsert k v ttl now) = (0 \<le> sint (now + ttl))"
| "covered c = True"

text \<open>
  The contract of an expiring store: \<open>entry s k\<close> is the value and the expiry time the
  caller may assume for a key.
\<close>

locale expiring_store =
  fixes ins :: "'s \<Rightarrow> string \<Rightarrow> string \<Rightarrow> u64 \<Rightarrow> u64 \<Rightarrow> 's"
    and del :: "'s \<Rightarrow> string \<Rightarrow> 's"
    and upd :: "'s \<Rightarrow> u64 \<Rightarrow> 's"
    and find :: "'s \<Rightarrow> string \<Rightarrow> string \<Rightarrow> bool \<times> string"
    and entry :: "'s \<Rightarrow> string \<rightharpoonup> string \<times> u64"
    and inv :: "'s \<Rightarrow> bool"
  assumes find_law: "inv s \<Longrightarrow>
      find s k out = (case entry s k of None \<Rightarrow> (False, out) | Some (v, t) \<Rightarrow> (True, v))"
    and ins_law: "inv s \<Longrightarrow> entry (ins s k v ttl now) = (entry s)(k \<mapsto> (v, now + ttl))"
    and del_law: "inv s \<Longrightarrow> entry (del s k) = (entry s)(k := None)"
    and upd_law: "inv s \<Longrightarrow> entry (upd s now) k =
      (case entry s k of None \<Rightarrow> None | Some (v, t) \<Rightarrow> if expired now t then None else Some (v, t))"
    and inv_ins: "inv s \<Longrightarrow> 0 \<le> sint (now + ttl) \<Longrightarrow> inv (ins s k v ttl now)"
    and inv_del: "inv s \<Longrightarrow> inv (del s k)"
    and inv_upd: "inv s \<Longrightarrow> inv (upd s now)"
begin

lemma inv_run: "inv s \<Longrightarrow> list_all covered cs \<Longrightarrow> inv (store_run ins del upd s cs)"
proof (induction cs arbitrary: s)
  case (Cons c cs)
  then show ?case by (cases c) (auto simp: inv_ins inv_del inv_upd)
qed simp

lemma entry_run:
  assumes "inv s" and "list_all covered cs" and "list_all (spares k t) cs"
    and "entry s k = Some (v, t)"
  shows "entry (store_run ins del upd s cs) k = Some (v, t)"
  using assms
proof (induction cs arbitrary: s)
  case Nil
  then show ?case by simp
next
  case (Cons c cs)
  then show ?case
    by (cases c) (auto simp: inv_ins inv_del inv_upd ins_law del_law upd_law)
qed

text \<open>A stored value is found until it expires, whatever happens to the other keys.\<close>

lemma found_until_expiry:
  assumes "inv s" and "0 \<le> sint (now + ttl)" and "list_all covered cs"
    and "list_all (spares k (now + ttl)) cs"
  shows "find (store_run ins del upd (ins s k v ttl now) cs) k out = (True, v)"
proof -
  have i: "inv (ins s k v ttl now)" using assms(1,2) by (rule inv_ins)
  have "entry (store_run ins del upd (ins s k v ttl now) cs) k = Some (v, now + ttl)"
    using i assms(3,4) by (rule entry_run) (simp add: ins_law assms(1))
  then show ?thesis
    using find_law [OF inv_run [OF i assms(3)]] by simp
qed

text \<open>And it is gone after the first clean-up that runs past its expiry time.\<close>

lemma gone_after_expiry:
  assumes "inv s" and "0 \<le> sint (now + ttl)" and "list_all covered cs"
    and "list_all (spares k (now + ttl)) cs" and "expired later (now + ttl)"
  shows "find (upd (store_run ins del upd (ins s k v ttl now) cs) later) k out = (False, out)"
proof -
  let ?s = "store_run ins del upd (ins s k v ttl now) cs"
  have i: "inv (ins s k v ttl now)" using assms(1,2) by (rule inv_ins)
  then have run: "inv ?s" using assms(3) by (rule inv_run)
  have "entry ?s k = Some (v, now + ttl)"
    using i assms(3,4) by (rule entry_run) (simp add: ins_law assms(1))
  then have "entry (upd ?s later) k = None"
    using upd_law [OF run] assms(5) by simp
  then show ?thesis
    using find_law [OF inv_upd [OF run]] by simp
qed

end

definition db_entry :: "DBMS \<Rightarrow> string \<rightharpoonup> string \<times> u64" where
  "db_entry db k = map_option (\<lambda>d. (m_strValue d, m_qwTime d)) (m_mapAllData db k)"

interpretation dbms: expiring_store Insert Del UpdateData Find db_entry store_inv
proof unfold_locales
  fix db :: DBMS and k v out :: string and ttl now :: u64
  assume inv: "store_inv db"
  show "Find db k out = (case db_entry db k of None \<Rightarrow> (False, out) | Some (v, t) \<Rightarrow> (True, v))"
    by (simp add: Find_def db_entry_def split: option.split)
  show "db_entry (Insert db k v ttl now) = (db_entry db)(k \<mapsto> (v, now + ttl))"
    by (auto simp: db_entry_def Insert_data)
  show "db_entry (Del db k) = (db_entry db)(k := None)"
    by (auto simp: db_entry_def Del_data)
  show "db_entry (UpdateData db now) k = (case db_entry db k of None \<Rightarrow> None
      | Some (v, t) \<Rightarrow> if expired now t then None else Some (v, t))"
    by (simp add: db_entry_def UpdateData_exact [OF inv] split: option.split)
  show "store_inv (Del db k)" and "store_inv (UpdateData db now)"
    using inv by (simp_all add: store_inv_Del store_inv_UpdateData)
  show "0 \<le> sint (now + ttl) \<Longrightarrow> store_inv (Insert db k v ttl now)"
    using inv by (rule store_inv_Insert)
qed

section \<open>Properties\<close>

text \<open>
  C27: The map and the multimap of the cache agree after every sequence of insertions, deletions and
  clean-ups: the multimap is in time order and lists each key of the map once, under the
  time the map has for it.
\<close>

theorem containers_agree: "db_inv (store_run Insert Del UpdateData DBMS_new cs)"
proof -
  have "db_inv db \<Longrightarrow> db_inv (store_run Insert Del UpdateData db cs)" for db
    by (induction Insert Del UpdateData db cs rule: store_run.induct)
       (simp_all add: db_inv_Insert db_inv_Del db_inv_UpdateData)
  then show ?thesis using db_inv_new by blast
qed

text \<open>
  C25: A stored value is found, whatever is done to other keys and however often the clean-up runs, as
  long as no clean-up sees a clock past the entry's time. The bound on the times is that of
  the comparison as signed numbers.
\<close>

theorem entry_lives:
  assumes "store_inv db" and "0 \<le> sint (now + ttl)" and "list_all covered cs"
    and "list_all (spares k (now + ttl)) cs"
  shows "Find (store_run Insert Del UpdateData (Insert db k v ttl now) cs) k out = (True, v)"
  using assms by (rule dbms.found_until_expiry)

theorem entry_lives_witness:
  "Find (store_run Insert Del UpdateData (Insert DBMS_new ''bob'' ''b'' 10 100)
     [CallUpdate 110, CallInsert ''eve'' ''e'' 5 100, CallDel ''eve'']) ''bob'' '''' = (True, ''b'')"
  by (rule entry_lives) (simp_all add: store_inv_new expired_def)

text \<open>
  C26: And after the first clean-up that does see a later clock it is gone, with the output argument
  of the search left alone.
\<close>

theorem entry_expires:
  assumes "store_inv db" and "0 \<le> sint (now + ttl)" and "list_all covered cs"
    and "list_all (spares k (now + ttl)) cs" and "expired later (now + ttl)"
  shows "Find (UpdateData (store_run Insert Del UpdateData (Insert db k v ttl now) cs) later) k out
     = (False, out)"
  using assms by (rule dbms.gone_after_expiry)

theorem entry_expires_witness:
  "Find (UpdateData (store_run Insert Del UpdateData (Insert DBMS_new ''bob'' ''b'' 10 100)
     [CallUpdate 110]) 111) ''bob'' '''' = (False, '''')"
  by (rule entry_expires) (simp_all add: store_inv_new expired_def)

end
