(* ===== verification/HMessage_Stream.thy ===== *)
theory HMessage_Stream
  imports SG_Prelude
begin

text \<open>
  The class \<open>HMessage\<close> of MyMsg.h (lines 73 to 255): a byte buffer with a cursor, into
  which messages are serialised and from which they are read. The same code, over a
  smaller buffer, is the client's class of GameHMsg.h. The branch under
  \<open>RELASE_\<close> is left out: no build file defines that symbol, and the code under it does
  not compile (\<open>pData\<close> is not declared, \<open>Resize\<close> returns nothing).

  First the class method by method, then what a method writes and reads as a list of
  bytes (\<open>writes\<close>, \<open>reads\<close>), then the interface of a serialisable field as a
  locale, with the four kinds of fields as its interpretations.
\<close>

section \<open>The class\<close>

text \<open>
  \<open>m_pData\<close> points at \<open>m_byBuffer\<close> of the same object from its construction on, and the
  server never copies an object, so the buffer stands for both.
\<close>

record HMessage =
  m_byBuffer :: buffer
  m_iPos :: int
  m_iDataUseSize :: int
  m_iSessionID :: int
  m_DynmicCode :: int

text \<open>
  The constructors leave the buffer, \<open>m_iSessionID\<close> and \<open>m_DynmicCode\<close> indeterminate;
  the argument \<open>junk\<close> is the object's memory before construction. The size of the
  array is that of MyMsg.h.
\<close>

definition HMessage_new :: "HMessage \<Rightarrow> HMessage" where
  "HMessage_new junk =
     junk\<lparr>m_byBuffer := (m_byBuffer junk)\<lparr>buf_size := 10000\<rparr>, m_iPos := 0, m_iDataUseSize := 0\<rparr>"

definition HMessage_from :: "HMessage \<Rightarrow> u8 list \<Rightarrow> HMessage res" where
  "HMessage_from junk dat =
     (let h = junk\<lparr>m_byBuffer := (m_byBuffer junk)\<lparr>buf_size := 10000\<rparr>,
                   m_iPos := 0, m_iDataUseSize := int (length dat)\<rparr>
      in rbind (store_bytes (m_byBuffer h) 0 dat) (\<lambda>b. Inr (h\<lparr>m_byBuffer := b\<rparr>)))"

definition AddPosition :: "HMessage \<Rightarrow> int \<Rightarrow> HMessage res" where
  "AddPosition h iAddition =
     rbind (int_add (m_iPos h) iAddition) (\<lambda>p.
       Inr (if p > m_iDataUseSize h then h\<lparr>m_iPos := p, m_iDataUseSize := p\<rparr>
            else h\<lparr>m_iPos := p\<rparr>))"

definition SetPos :: "HMessage \<Rightarrow> int \<Rightarrow> HMessage" where
  "SetPos h iPos = h\<lparr>m_iPos := iPos\<rparr>"

definition CheckPut :: "HMessage \<Rightarrow> int \<Rightarrow> bool res" where
  "CheckPut h iSize = rbind (int_add (m_iPos h) iSize) (\<lambda>e. Inr (e < 10000))"

text \<open>A \<open>uint16_t\<close> in memory, on the little-endian x86 targets of the project.\<close>

definition u16_le :: "u16 \<Rightarrow> u8 list" where
  "u16_le d = [ucast d, ucast (drop_bit 8 d)]"

definition u16_of_le :: "u8 list \<Rightarrow> u16" where
  "u16_of_le bs = (case bs of [b0, b1] \<Rightarrow> ucast b0 OR push_bit 8 (ucast b1) | _ \<Rightarrow> 0)"

text \<open>\<open>GetPosition\<close> stores the length into the first two bytes and returns it.\<close>

definition GetPosition :: "HMessage \<Rightarrow> (int \<times> HMessage) res" where
  "GetPosition h =
     rbind (store_bytes (m_byBuffer h) 0 (u16_le (word_of_int (m_iPos h)))) (\<lambda>b.
       Inr (m_iPos h, h\<lparr>m_byBuffer := b\<rparr>))"

definition putChar :: "HMessage \<Rightarrow> u8 \<Rightarrow> (bool \<times> HMessage) res" where
  "putChar h dat =
     rbind (CheckPut h 1) (\<lambda>fits.
       if fits = False then Inr (False, h)
       else rbind (store_byte (m_byBuffer h) (m_iPos h) dat) (\<lambda>b.
            rbind (AddPosition (h\<lparr>m_byBuffer := b\<rparr>) 1) (\<lambda>h'. Inr (True, h'))))"

definition putUInt :: "HMessage \<Rightarrow> u32 \<Rightarrow> (bool \<times> HMessage) res" where
  "putUInt h dat =
     rbind (CheckPut h 4) (\<lambda>fits.
       if fits = False then Inr (False, h)
       else rbind (store_byte (m_byBuffer h) (m_iPos h + 0) (ucast (drop_bit 24 dat))) (\<lambda>b0.
            rbind (store_byte b0 (m_iPos h + 1) (ucast (drop_bit 16 dat) AND 0xff)) (\<lambda>b1.
            rbind (store_byte b1 (m_iPos h + 2) (ucast (drop_bit 8 dat) AND 0xff)) (\<lambda>b2.
            rbind (store_byte b2 (m_iPos h + 3) (ucast dat AND 0xff)) (\<lambda>b3.
            rbind (AddPosition (h\<lparr>m_byBuffer := b3\<rparr>) 4) (\<lambda>h'. Inr (True, h')))))))"

definition putUShort :: "HMessage \<Rightarrow> u16 \<Rightarrow> (bool \<times> HMessage) res" where
  "putUShort h dat =
     rbind (CheckPut h 2) (\<lambda>fits.
       if fits = False then Inr (False, h)
       else rbind (store_bytes (m_byBuffer h) (m_iPos h) (u16_le dat)) (\<lambda>b.
            rbind (AddPosition (h\<lparr>m_byBuffer := b\<rparr>) 2) (\<lambda>h'. Inr (True, h'))))"

definition getUShort :: "HMessage \<Rightarrow> (u16 \<times> HMessage) res" where
  "getUShort h =
     rbind (load_bytes (m_byBuffer h) (m_iPos h) 2) (\<lambda>bs.
     rbind (AddPosition h 2) (\<lambda>h'. Inr (u16_of_le bs, h')))"

definition getUInt :: "HMessage \<Rightarrow> (u32 \<times> HMessage) res" where
  "getUInt h =
     rbind (load_byte (m_byBuffer h) (m_iPos h + 0)) (\<lambda>b0.
     rbind (load_byte (m_byBuffer h) (m_iPos h + 1)) (\<lambda>b1.
     rbind (load_byte (m_byBuffer h) (m_iPos h + 2)) (\<lambda>b2.
     rbind (load_byte (m_byBuffer h) (m_iPos h + 3)) (\<lambda>b3.
     rbind (AddPosition h 4) (\<lambda>h'.
       Inr (((0 OR push_bit 24 (ucast b0)) OR push_bit 16 (ucast b1)
             OR push_bit 8 (ucast b2)) OR ucast b3, h'))))))"

definition getByte :: "HMessage \<Rightarrow> (u8 \<times> HMessage) res" where
  "getByte h =
     rbind (load_byte (m_byBuffer h) (m_iPos h)) (\<lambda>b.
     rbind (AddPosition h 1) (\<lambda>h'. Inr (b, h')))"

text \<open>
  \<open>putCharArray\<close> copies \<open>iLen\<close> bytes and moves the cursor, but unlike \<open>AddPosition\<close>
  it does not update \<open>m_iDataUseSize\<close>. A negative \<open>iLen\<close> passes \<open>CheckPut\<close> and becomes
  a huge \<open>size_t\<close> in \<open>memcpy\<close>.
\<close>

definition putCharArray :: "HMessage \<Rightarrow> u8 list \<Rightarrow> int \<Rightarrow> (bool \<times> HMessage) res" where
  "putCharArray h src iLen =
     rbind (CheckPut h iLen) (\<lambda>fits.
       if fits = False then Inr (False, h)
       else if iLen < 0 then Inl WriteOutOfBounds
       else rbind (store_bytes (m_byBuffer h) (m_iPos h) (take (nat iLen) src)) (\<lambda>b.
            rbind (int_add (m_iPos h) iLen) (\<lambda>p.
              Inr (True, h\<lparr>m_byBuffer := b, m_iPos := p\<rparr>))))"

definition putString :: "HMessage \<Rightarrow> string \<Rightarrow> (bool \<times> HMessage) res" where
  "putString h str =
     (let iLen = to_int32 (int (length str)) in
      rbind (putUShort h (word_of_int iLen)) (\<lambda>(done, h').
        if False = done then Inr (False, h')
        else putCharArray h' (map chr_byte str) iLen))"

text \<open>\<open>str = pData\<close> takes the copied bytes as a C string.\<close>

definition getString :: "HMessage \<Rightarrow> (string \<times> HMessage) res" where
  "getString h =
     rbind (getUShort h) (\<lambda>(iLen, h').
     rbind (load_bytes (m_byBuffer h') (m_iPos h') (unat iLen)) (\<lambda>bs.
     rbind (int_add (m_iPos h') (int (unat iLen))) (\<lambda>p.
       Inr (c_string (bs @ [0]), h'\<lparr>m_iPos := p\<rparr>))))"


section \<open>What the methods write and read\<close>

text \<open>
  \<open>emitted h bs h'\<close>: from \<open>h\<close> to \<open>h'\<close> the bytes \<open>bs\<close> were written at the cursor and
  the cursor moved past them. \<open>room h n\<close>: \<open>n\<close> more bytes pass \<open>CheckPut\<close> and lie in the
  buffer.
\<close>

definition emitted :: "HMessage \<Rightarrow> u8 list \<Rightarrow> HMessage \<Rightarrow> bool" where
  "emitted h bs h' \<longleftrightarrow>
     m_iPos h' = m_iPos h + int (length bs) \<and>
     m_byBuffer h' = splice (m_byBuffer h) (m_iPos h) bs \<and>
     m_iSessionID h' = m_iSessionID h \<and> m_DynmicCode h' = m_DynmicCode h"

definition room :: "HMessage \<Rightarrow> nat \<Rightarrow> bool" where
  "room h n \<longleftrightarrow> 0 \<le> m_iPos h \<and> m_iPos h + int n < 10000 \<and>
     m_iPos h + int n \<le> buf_size (m_byBuffer h)"

definition writes :: "(HMessage \<Rightarrow> HMessage res) \<Rightarrow> u8 list \<Rightarrow> bool" where
  "writes f bs \<longleftrightarrow> (\<forall>h. room h (length bs) \<longrightarrow> (\<exists>h'. f h = Inr h' \<and> emitted h bs h'))"

definition puts :: "(HMessage \<Rightarrow> (bool \<times> HMessage) res) \<Rightarrow> u8 list \<Rightarrow> bool" where
  "puts f bs \<longleftrightarrow> (\<forall>h. room h (length bs) \<longrightarrow> (\<exists>h'. f h = Inr (True, h') \<and> emitted h bs h'))"

text \<open>
  \<open>available h bs\<close>: the bytes at the cursor are \<open>bs\<close>. \<open>consumed h n h'\<close>: the cursor
  moved by \<open>n\<close> and nothing else that a later read depends on changed.
\<close>

definition available :: "HMessage \<Rightarrow> u8 list \<Rightarrow> bool" where
  "available h bs \<longleftrightarrow> in_bounds (m_byBuffer h) (m_iPos h) (length bs) \<and>
     buf_size (m_byBuffer h) < 2 ^ 31 \<and>
     bytes_at (m_byBuffer h) (m_iPos h) (length bs) = bs"

definition consumed :: "HMessage \<Rightarrow> nat \<Rightarrow> HMessage \<Rightarrow> bool" where
  "consumed h n h' \<longleftrightarrow>
     m_iPos h' = m_iPos h + int n \<and> m_byBuffer h' = m_byBuffer h \<and>
     m_iSessionID h' = m_iSessionID h \<and> m_DynmicCode h' = m_DynmicCode h"

definition reads :: "(HMessage \<Rightarrow> ('a \<times> HMessage) res) \<Rightarrow> u8 list \<Rightarrow> 'a \<Rightarrow> bool" where
  "reads f bs v \<longleftrightarrow>
     (\<forall>h. available h bs \<longrightarrow> (\<exists>h'. f h = Inr (v, h') \<and> consumed h (length bs) h'))"

named_theorems stream_rules \<comment> \<open>what the methods and the messages write and read\<close>

lemma emitted_Nil: "emitted h [] h"
  by (simp add: emitted_def)

lemma emitted_append: "emitted h a h1 \<Longrightarrow> emitted h1 b h2 \<Longrightarrow> emitted h (a @ b) h2"
  by (simp add: emitted_def splice_append)

lemma room_append1: "room h (length (a @ b)) \<Longrightarrow> room h (length a)"
  by (simp add: room_def)

lemma room_append2: "room h (length (a @ b)) \<Longrightarrow> emitted h a h1 \<Longrightarrow> room h1 (length b)"
  by (simp add: room_def emitted_def)

lemma emitted_available:
  "emitted h bs h' \<Longrightarrow> room h (length bs) \<Longrightarrow> buf_size (m_byBuffer h) < 2 ^ 31 \<Longrightarrow>
   available (SetPos h' (m_iPos h)) bs"
  by (simp add: emitted_def room_def available_def SetPos_def in_bounds_def)

lemma consumed_0: "consumed h 0 h"
  by (simp add: consumed_def)

lemma available_append:
  assumes "available h (a @ b)"
  shows "available h a" and "consumed h (length a) h1 \<Longrightarrow> available h1 b"
  using assms bytes_at_prefixD [of "m_byBuffer h" "m_iPos h" a b]
  by (auto simp: available_def consumed_def in_bounds_def)

lemma consumed_add: "consumed h m h1 \<Longrightarrow> consumed h1 n h2 \<Longrightarrow> consumed h (m + n) h2"
  by (simp add: consumed_def)

lemma writesI: "(\<And>h. room h (length bs) \<Longrightarrow> \<exists>h'. f h = Inr h' \<and> emitted h bs h') \<Longrightarrow> writes f bs"
  by (simp add: writes_def)

lemma writesE:
  assumes "writes f bs" and "room h (length bs)"
  obtains h' where "f h = Inr h'" and "emitted h bs h'"
  using assms by (auto simp: writes_def)

lemma putsE:
  assumes "puts f bs" and "room h (length bs)"
  obtains h' where "f h = Inr (True, h')" and "emitted h bs h'"
  using assms by (auto simp: puts_def)

lemma readsE:
  assumes "reads f bs v" and "available h bs"
  obtains h' where "f h = Inr (v, h')" and "consumed h (length bs) h'"
  using assms by (auto simp: reads_def)

text \<open>Sequential composition: the bytes of the parts, one after the other.\<close>

lemma writes_Nil [stream_rules]: "writes Inr []"
  by (simp add: writes_def emitted_Nil)

lemma writes_seq:
  assumes "writes f a" and "writes g b"
  shows "writes (\<lambda>h. rbind (f h) g) (a @ b)"
proof (rule writesI)
  fix h
  assume r: "room h (length (a @ b))"
  obtain h1 where h1: "f h = Inr h1" "emitted h a h1"
    using assms(1) room_append1 [OF r] by (rule writesE)
  obtain h2 where "g h1 = Inr h2" "emitted h1 b h2"
    using assms(2) room_append2 [OF r h1(2)] by (rule writesE)
  with h1 show "\<exists>h'. rbind (f h) g = Inr h' \<and> emitted h (a @ b) h'"
    by (auto intro: emitted_append)
qed

lemma writes_puts:
  assumes "puts f a" and "writes g b"
  shows "writes (\<lambda>h. rbind (f h) (\<lambda>(_, h'). g h')) (a @ b)"
proof (rule writesI)
  fix h
  assume r: "room h (length (a @ b))"
  obtain h1 where h1: "f h = Inr (True, h1)" "emitted h a h1"
    using assms(1) room_append1 [OF r] by (rule putsE)
  obtain h2 where "g h1 = Inr h2" "emitted h1 b h2"
    using assms(2) room_append2 [OF r h1(2)] by (rule writesE)
  with h1 show "\<exists>h'. rbind (f h) (\<lambda>(_, h'). g h') = Inr h' \<and> emitted h (a @ b) h'"
    by (auto intro: emitted_append)
qed

lemma reads_return [stream_rules]: "reads (\<lambda>h. Inr (v, h)) [] v"
  by (simp add: reads_def consumed_0)

lemma reads_seq:
  assumes "reads f a v" and "reads (g v) b w"
  shows "reads (\<lambda>h. rbind (f h) (\<lambda>(x, h'). g x h')) (a @ b) w"
  unfolding reads_def
proof (intro allI impI)
  fix h
  assume av: "available h (a @ b)"
  obtain h1 where h1: "f h = Inr (v, h1)" "consumed h (length a) h1"
    using assms(1) available_append(1) [OF av] by (rule readsE)
  obtain h2 where h2: "g v h1 = Inr (w, h2)" "consumed h1 (length b) h2"
    using assms(2) available_append(2) [OF av h1(2)] by (rule readsE)
  show "\<exists>h'. rbind (f h) (\<lambda>(x, h'). g x h') = Inr (w, h') \<and> consumed h (length (a @ b)) h'"
    using h1 h2 consumed_add [OF h1(2) h2(2)] by auto
qed

text \<open>The three integer widths.\<close>

definition u32_be :: "u32 \<Rightarrow> u8 list" where
  "u32_be d = [ucast (drop_bit 24 d), ucast (drop_bit 16 d), ucast (drop_bit 8 d), ucast d]"

definition str_enc :: "string \<Rightarrow> u8 list" where
  "str_enc s = u16_le (word_of_nat (length s)) @ map chr_byte s"

lemma length_u16_le [simp]: "length (u16_le d) = 2"
  by (simp add: u16_le_def)

lemma length_u32_be [simp]: "length (u32_be d) = 4"
  by (simp add: u32_be_def)

lemma length_str_enc [simp]: "length (str_enc s) = 2 + length s"
  by (simp add: str_enc_def)

lemma byte_and_ff [simp]: "(x :: u8) AND 255 = x"
proof -
  have "(255 :: u8) = -1" by simp
  then show ?thesis by (simp only: and.right_neutral)
qed

lemma u16_of_le_u16_le [simp]: "u16_of_le (u16_le d) = d"
  unfolding u16_of_le_def u16_le_def list.case
  by (rule bit_word_eqI) (auto simp: bit_simps less_diff_conv2)

lemma u32_of_be:
  "((0 OR push_bit 24 (ucast (ucast (drop_bit 24 d) :: u8))) OR
    push_bit 16 (ucast (ucast (drop_bit 16 d) :: u8)) OR
    push_bit 8 (ucast (ucast (drop_bit 8 d) :: u8))) OR ucast (ucast d :: u8) = (d :: u32)"
  by (rule bit_word_eqI)
     (auto simp: bit_simps less_diff_conv2 not_le not_less, (metis le_add_diff_inverse not_le)+)

text \<open>When the field fits, each put method writes exactly its encoding.\<close>

lemma AddPosition_ok:
  "int32_range (m_iPos h + n) \<Longrightarrow>
   \<exists>h'. AddPosition h n = Inr h' \<and> m_iPos h' = m_iPos h + n \<and> m_byBuffer h' = m_byBuffer h \<and>
        m_iSessionID h' = m_iSessionID h \<and> m_DynmicCode h' = m_DynmicCode h"
  by (simp add: AddPosition_def int_add_def)

lemma AddPosition_emitted:
  assumes "room h (length bs)" and "n = int (length bs)"
  shows "\<exists>h'. AddPosition (h\<lparr>m_byBuffer := splice (m_byBuffer h) (m_iPos h) bs\<rparr>) n = Inr h' \<and>
              emitted h bs h'"
  using assms by (simp add: AddPosition_def int_add_def room_def int32_range_def emitted_def)

lemma AddPosition_consumed:
  assumes "in_bounds (m_byBuffer h) (m_iPos h) n" and "buf_size (m_byBuffer h) < 2 ^ 31"
  shows "\<exists>h'. AddPosition h (int n) = Inr h' \<and> consumed h n h'"
  using assms by (simp add: AddPosition_def int_add_def in_bounds_def int32_range_def consumed_def)

lemma CheckPut_room: "room h n \<Longrightarrow> CheckPut h (int n) = Inr True"
  by (simp add: CheckPut_def int_add_def room_def int32_range_def)

lemma room_in_bounds: "room h n \<Longrightarrow> in_bounds (m_byBuffer h) (m_iPos h) n"
  by (simp add: room_def in_bounds_def)

lemma store_byte_bytes: "store_byte b i x = store_bytes b i [x]"
  by (cases "store_byte b i x") auto

lemma putUInt_bytes:
  "putUInt h dat =
     rbind (CheckPut h 4) (\<lambda>fits.
       if fits = False then Inr (False, h)
       else rbind (store_bytes (m_byBuffer h) (m_iPos h) (u32_be dat)) (\<lambda>b.
            rbind (AddPosition (h\<lparr>m_byBuffer := b\<rparr>) 4) (\<lambda>h'. Inr (True, h'))))"
  by (cases "CheckPut h 4")
     (simp_all add: putUInt_def u32_be_def rbind_assoc add.assoc split: if_split)

lemma puts_putChar [stream_rules]: "puts (\<lambda>h. putChar h d) [d]"
  unfolding puts_def
proof (intro allI impI)
  fix h
  assume r: "room h (length [d])"
  have "store_byte (m_byBuffer h) (m_iPos h) d = Inr (splice (m_byBuffer h) (m_iPos h) [d])"
    unfolding store_byte_bytes by (rule store_bytes_splice [OF room_in_bounds [OF r]])
  with AddPosition_emitted [OF r, of 1] CheckPut_room [OF r]
  show "\<exists>h'. putChar h d = Inr (True, h') \<and> emitted h [d] h'"
    by (auto simp: putChar_def)
qed

lemma puts_putUShort [stream_rules]: "puts (\<lambda>h. putUShort h d) (u16_le d)"
  unfolding puts_def
proof (intro allI impI)
  fix h
  assume r: "room h (length (u16_le d))"
  from AddPosition_emitted [OF r, of 2] CheckPut_room [OF r]
    store_bytes_splice [OF room_in_bounds [OF r]]
  show "\<exists>h'. putUShort h d = Inr (True, h') \<and> emitted h (u16_le d) h'"
    by (auto simp: putUShort_def)
qed

lemma puts_putUInt [stream_rules]: "puts (\<lambda>h. putUInt h d) (u32_be d)"
  unfolding puts_def
proof (intro allI impI)
  fix h
  assume r: "room h (length (u32_be d))"
  from AddPosition_emitted [OF r, of 4] CheckPut_room [OF r]
    store_bytes_splice [OF room_in_bounds [OF r]]
  show "\<exists>h'. putUInt h d = Inr (True, h') \<and> emitted h (u32_be d) h'"
    by (auto simp: putUInt_bytes)
qed

lemma puts_putString [stream_rules]: "puts (\<lambda>h. putString h s) (str_enc s)"
  unfolding puts_def
proof (intro allI impI)
  fix h
  let ?n = "word_of_nat (length s) :: u16"
  assume r: "room h (length (str_enc s))"
  then have len: "int (length s) < 10000"
    by (simp add: room_def)
  then have n32: "to_int32 (int (length s)) = int (length s)"
    by (simp add: to_int32_id int32_range_def)
  have "room h (length (u16_le ?n))"
    using r by (simp add: room_def)
  then obtain h1 where h1: "putUShort h ?n = Inr (True, h1)" "emitted h (u16_le ?n) h1"
    by (rule putsE [OF puts_putUShort])
  have r1: "room h1 (length (map chr_byte s))"
    using r h1(2) by (simp add: room_def emitted_def)
  let ?h2 = "h1\<lparr>m_byBuffer := splice (m_byBuffer h1) (m_iPos h1) (map chr_byte s),
                m_iPos := m_iPos h1 + int (length s)\<rparr>"
  have "putCharArray h1 (map chr_byte s) (int (length s)) = Inr (True, ?h2)"
    using CheckPut_room [OF r1] store_bytes_splice [OF room_in_bounds [OF r1]] r1
    by (simp add: putCharArray_def int_add_def room_def int32_range_def)
  moreover have "emitted h (str_enc s) ?h2"
    using h1(2) unfolding str_enc_def
    by (rule emitted_append) (simp add: emitted_def)
  ultimately show "\<exists>h'. putString h s = Inr (True, h') \<and> emitted h (str_enc s) h'"
    using h1(1) n32 by (simp add: putString_def)
qed

text \<open>And each get method reads that encoding back.\<close>

lemma reads_getByte [stream_rules]: "reads getByte [d] d"
  unfolding reads_def
proof (intro allI impI)
  fix h
  assume "available h [d]"
  then show "\<exists>h'. getByte h = Inr (d, h') \<and> consumed h (length [d]) h'"
    using AddPosition_consumed [of h 1]
    by (auto simp: getByte_def load_byte_def available_def in_bounds_def bytes_at_Suc)
qed

lemma reads_getUShort [stream_rules]: "reads getUShort (u16_le d) d"
  unfolding reads_def
proof (intro allI impI)
  fix h
  assume a: "available h (u16_le d)"
  then have "load_bytes (m_byBuffer h) (m_iPos h) 2 = Inr (u16_le d)"
    by (simp add: available_def load_bytes_at)
  then show "\<exists>h'. getUShort h = Inr (d, h') \<and> consumed h (length (u16_le d)) h'"
    using a AddPosition_consumed [of h 2] by (auto simp: getUShort_def available_def)
qed

lemma reads_getUInt [stream_rules]: "reads getUInt (u32_be d) d"
  unfolding reads_def
proof (intro allI impI)
  fix h
  assume a: "available h (u32_be d)"
  let ?b = "m_byBuffer h" and ?p = "m_iPos h"
  from a have "bytes_at ?b ?p (Suc (Suc (Suc (Suc 0)))) = u32_be d"
    by (simp add: available_def numeral_eq_Suc)
  then have bs: "buf_at ?b ?p = ucast (drop_bit 24 d)" "buf_at ?b (?p + 1) = ucast (drop_bit 16 d)"
    "buf_at ?b (?p + 2) = ucast (drop_bit 8 d)" "buf_at ?b (?p + 3) = ucast d"
    by (simp_all add: bytes_at_Suc u32_be_def add.assoc)
  from a obtain h' where "AddPosition h 4 = Inr h'" "consumed h 4 h'"
    using AddPosition_consumed [of h 4] by (auto simp: available_def)
  then show "\<exists>h'. getUInt h = Inr (d, h') \<and> consumed h (length (u32_be d)) h'"
    using a u32_of_be [of d]
    by (auto simp: getUInt_def load_byte_def available_def in_bounds_def bs)
qed

lemma c_string_snoc_0: "c_string (bs @ [0]) = c_string bs"
  by (induction bs) (auto simp: c_string_def)

lemma reads_getString:
  assumes "no_nul s" and "length s < 2 ^ 16"
  shows "reads getString (str_enc s) s"
  unfolding reads_def
proof (intro allI impI)
  fix h
  let ?n = "word_of_nat (length s) :: u16"
  assume a: "available h (str_enc s)"
  have n: "unat ?n = length s"
    using assms(2) by (simp add: unat_of_nat)
  then have n': "uint ?n = int (length s)"
    by (metis uint_nat)
  obtain h1 where h1: "getUShort h = Inr (?n, h1)" "consumed h (length (u16_le ?n)) h1"
    using available_append(1) [OF a [unfolded str_enc_def]] by (rule readsE [OF reads_getUShort])
  have a1: "available h1 (map chr_byte s)"
    using available_append(2) [OF a [unfolded str_enc_def] h1(2)] .
  then have ld: "load_bytes (m_byBuffer h1) (m_iPos h1) (length s) = Inr (map chr_byte s)"
    by (simp add: available_def load_bytes_at)
  have p: "int_add (m_iPos h1) (int (length s)) = Inr (m_iPos h1 + int (length s))"
    using a1 by (simp add: available_def in_bounds_def int_add_def int32_range_def)
  have "getString h = Inr (s, h1\<lparr>m_iPos := m_iPos h1 + int (length s)\<rparr>)"
    using h1(1) ld p n n' assms(1) by (simp add: getString_def c_string_snoc_0 c_string_no_nul)
  then show "\<exists>h'. getString h = Inr (s, h') \<and> consumed h (length (str_enc s)) h'"
    using h1(2) by (simp add: consumed_def)
qed

section \<open>Memory safety of the write side\<close>

text \<open>
  A message under construction: the cursor is inside the 10000-byte buffer. Every put
  keeps this and none of them faults, whether or not the data fits: what does not fit is
  refused by \<open>CheckPut\<close>.
\<close>

definition wf_out :: "HMessage \<Rightarrow> bool" where
  "wf_out h \<longleftrightarrow> 0 \<le> m_iPos h \<and> m_iPos h < 10000 \<and> buf_size (m_byBuffer h) = 10000"

definition keeps_wf :: "(HMessage \<Rightarrow> HMessage res) \<Rightarrow> bool" where
  "keeps_wf f \<longleftrightarrow> (\<forall>h. wf_out h \<longrightarrow> (\<exists>h'. f h = Inr h' \<and> wf_out h'))"

definition put_safe :: "(HMessage \<Rightarrow> (bool \<times> HMessage) res) \<Rightarrow> bool" where
  "put_safe f \<longleftrightarrow> (\<forall>h. wf_out h \<longrightarrow> (\<exists>b h'. f h = Inr (b, h') \<and> wf_out h'))"

named_theorems safe_rules \<comment> \<open>methods that keep \<open>wf_out\<close> and never fault\<close>

lemma wf_out_new: "wf_out (HMessage_new junk)"
  by (simp add: wf_out_def HMessage_new_def)

lemma keeps_wf_return [safe_rules]: "keeps_wf Inr"
  by (simp add: keeps_wf_def)

lemma keeps_wf_seq: "keeps_wf f \<Longrightarrow> keeps_wf g \<Longrightarrow> keeps_wf (\<lambda>h. rbind (f h) g)"
  by (fastforce simp: keeps_wf_def)

lemma keeps_wf_put: "put_safe f \<Longrightarrow> keeps_wf g \<Longrightarrow> keeps_wf (\<lambda>h. rbind (f h) (\<lambda>(_, h'). g h'))"
  by (fastforce simp: keeps_wf_def put_safe_def)

lemma CheckPut_wf:
  "wf_out h \<Longrightarrow> 0 \<le> n \<Longrightarrow> n < 2 ^ 31 - 10000 \<Longrightarrow> CheckPut h n = Inr (m_iPos h + n < 10000)"
  by (simp add: CheckPut_def int_add_def wf_out_def int32_range_def)

lemma wf_out_room: "wf_out h \<Longrightarrow> m_iPos h + int n < 10000 \<Longrightarrow> room h n"
  by (simp add: wf_out_def room_def)

lemma wf_out_emitted: "emitted h bs h' \<Longrightarrow> wf_out h \<Longrightarrow> m_iPos h + int (length bs) < 10000 \<Longrightarrow> wf_out h'"
  by (simp add: emitted_def wf_out_def)

text \<open>A put method that refuses what does not fit and writes its bytes otherwise is safe.\<close>

lemma put_safeI:
  assumes "puts f bs"
    and "\<And>h. wf_out h \<Longrightarrow> 10000 \<le> m_iPos h + int (length bs) \<Longrightarrow> f h = Inr (False, h)"
  shows "put_safe f"
  unfolding put_safe_def
proof (intro allI impI)
  fix h
  assume wf: "wf_out h"
  show "\<exists>b h'. f h = Inr (b, h') \<and> wf_out h'"
  proof (cases "m_iPos h + int (length bs) < 10000")
    case True
    then obtain h' where "f h = Inr (True, h')" "emitted h bs h'"
      using assms(1) wf_out_room [OF wf] by (auto elim: putsE)
    with wf True show ?thesis by (blast intro: wf_out_emitted)
  next
    case False
    with assms(2) [OF wf] wf show ?thesis by auto
  qed
qed

lemma put_full:
  assumes "wf_out h"
  shows "10000 \<le> m_iPos h + 1 \<Longrightarrow> putChar h c = Inr (False, h)"
    and "10000 \<le> m_iPos h + 2 \<Longrightarrow> putUShort h w = Inr (False, h)"
    and "10000 \<le> m_iPos h + 4 \<Longrightarrow> putUInt h d = Inr (False, h)"
  using assms by (simp_all add: putChar_def putUShort_def putUInt_def CheckPut_wf)

lemma put_safe_putChar [safe_rules]: "put_safe (\<lambda>h. putChar h d)"
  by (rule put_safeI [OF puts_putChar]) (simp add: put_full)

lemma put_safe_putUShort [safe_rules]: "put_safe (\<lambda>h. putUShort h d)"
  by (rule put_safeI [OF puts_putUShort]) (simp add: put_full)

lemma put_safe_putUInt [safe_rules]: "put_safe (\<lambda>h. putUInt h d)"
  by (rule put_safeI [OF puts_putUInt]) (simp add: put_full)

text \<open>
  A string that does not fit is dropped, but its length prefix stays in the message when
  there was room for that. The length of an in-memory \<open>std::string\<close> is below \<open>2 ^ 31 - 10000\<close>
  in any 32-bit process, as the server is built.
\<close>

lemma putString_refused:
  assumes wf: "wf_out h" and big: "10000 \<le> m_iPos h + 2 + int (length s)"
    and mem: "int (length s) < 2 ^ 31 - 10000"
  shows "\<exists>h'. putString h s = Inr (False, h') \<and> wf_out h' \<and>
     (if m_iPos h + 2 < 10000 then emitted h (u16_le (word_of_nat (length s))) h' else h' = h)"
proof -
  let ?n = "word_of_nat (length s) :: u16"
  have n32: "to_int32 (int (length s)) = int (length s)"
    using mem by (simp add: to_int32_id int32_range_def)
  show ?thesis
  proof (cases "m_iPos h + 2 < 10000")
    case True
    have "room h (length (u16_le ?n))"
      using wf_out_room [OF wf, of 2] True by simp
    then obtain h1 where h1: "putUShort h ?n = Inr (True, h1)" "emitted h (u16_le ?n) h1"
      by (rule putsE [OF puts_putUShort])
    have wf1: "wf_out h1"
      using h1(2) wf by (rule wf_out_emitted) (use True in simp)
    have "\<not> m_iPos h1 + int (length s) < 10000"
      using h1(2) big by (simp add: emitted_def)
    then have "putCharArray h1 (map chr_byte s) (int (length s)) = Inr (False, h1)"
      using CheckPut_wf [OF wf1, of "int (length s)"] mem by (simp add: putCharArray_def)
    then show ?thesis
      using h1 wf1 n32 True by (simp add: putString_def)
  next
    case False
    then show ?thesis
      using wf put_full(2) [OF wf] by (simp add: putString_def)
  qed
qed

lemma put_safe_putString:
  assumes "int (length s) < 2 ^ 31 - 10000"
  shows "put_safe (\<lambda>h. putString h s)"
  unfolding put_safe_def
proof (intro allI impI)
  fix h
  assume wf: "wf_out h"
  show "\<exists>b h'. putString h s = Inr (b, h') \<and> wf_out h'"
  proof (cases "m_iPos h + 2 + int (length s) < 10000")
    case True
    then have "room h (length (str_enc s))"
      using wf_out_room [OF wf, of "2 + length s"] by simp
    then obtain h' where "putString h s = Inr (True, h')" "emitted h (str_enc s) h'"
      by (rule putsE [OF puts_putString])
    with wf True show ?thesis by (auto intro: wf_out_emitted)
  next
    case False
    then show ?thesis using putString_refused [OF wf _ assms] by auto
  qed
qed

section \<open>The read side\<close>

text \<open>
  The get methods compare nothing with the number of bytes received: they fault exactly
  when they run over the end of the buffer.
\<close>

definition wf_in :: "HMessage \<Rightarrow> bool" where
  "wf_in h \<longleftrightarrow> 0 \<le> m_iPos h \<and> m_iPos h \<le> buf_size (m_byBuffer h) \<and>
     buf_size (m_byBuffer h) = 10000"

lemma load_byte_ok_iff: "ok (load_byte b i) \<longleftrightarrow> 0 \<le> i \<and> i < buf_size b"
  by (simp add: load_byte_def)

lemma getUShort_ok_iff: "wf_in h \<Longrightarrow> ok (getUShort h) \<longleftrightarrow> m_iPos h + 2 \<le> 10000"
proof -
  assume wf: "wf_in h"
  show ?thesis
  proof (cases "m_iPos h + 2 \<le> 10000")
    case True
    then have "in_bounds (m_byBuffer h) (m_iPos h) 2"
      using wf by (simp add: wf_in_def in_bounds_def)
    then show ?thesis
      using AddPosition_consumed [of h 2] wf True
      by (auto simp: getUShort_def load_bytes_at wf_in_def)
  next
    case False
    then have "load_bytes (m_byBuffer h) (m_iPos h) 2 = Inl ReadOutOfBounds"
      using wf by (intro load_bytes_fault) (simp_all add: wf_in_def in_bounds_def)
    with False show ?thesis by (simp add: getUShort_def)
  qed
qed

lemma getUShort_val:
  assumes "wf_in h" and "m_iPos h + 2 \<le> 10000"
  shows "\<exists>h'. getUShort h = Inr (u16_of_le (bytes_at (m_byBuffer h) (m_iPos h) 2), h') \<and>
              consumed h 2 h' \<and> wf_in h'"
proof -
  have ib: "in_bounds (m_byBuffer h) (m_iPos h) 2"
    using assms by (simp add: wf_in_def in_bounds_def)
  obtain h' where "AddPosition h 2 = Inr h'" "consumed h 2 h'"
    using AddPosition_consumed [OF ib] assms by (auto simp: wf_in_def)
  with assms ib show ?thesis
    by (auto simp: getUShort_def load_bytes_at wf_in_def consumed_def)
qed

lemma getString_faults:
  assumes "wf_in h" and "m_iPos h + 2 \<le> 10000"
    and "10000 < m_iPos h + 2 + uint (u16_of_le (bytes_at (m_byBuffer h) (m_iPos h) 2))"
  shows "getString h = Inl ReadOutOfBounds"
proof -
  let ?n = "u16_of_le (bytes_at (m_byBuffer h) (m_iPos h) 2)"
  obtain h' where h': "getUShort h = Inr (?n, h')" "consumed h 2 h'" "wf_in h'"
    using getUShort_val [OF assms(1,2)] by blast
  have "load_bytes (m_byBuffer h') (m_iPos h') (unat ?n) = Inl ReadOutOfBounds"
  proof (rule load_bytes_fault)
    show "0 < unat ?n"
      using assms(2,3) by (cases "?n = 0") (auto simp: unat_gt_0)
    show "\<not> in_bounds (m_byBuffer h') (m_iPos h') (unat ?n)"
      using h'(2) assms(1,3) by (simp add: in_bounds_def consumed_def wf_in_def)
  qed
  with h'(1) show ?thesis by (simp add: getString_def)
qed

lemma getString_ok_iff:
  assumes wf: "wf_in h" and two: "m_iPos h + 2 \<le> 10000"
  shows "ok (getString h) \<longleftrightarrow>
     m_iPos h + 2 + uint (u16_of_le (bytes_at (m_byBuffer h) (m_iPos h) 2)) \<le> 10000"
proof -
  let ?n = "u16_of_le (bytes_at (m_byBuffer h) (m_iPos h) 2)"
  obtain h' where h': "getUShort h = Inr (?n, h')" "consumed h 2 h'" "wf_in h'"
    using getUShort_val [OF wf two] by blast
  show ?thesis
  proof (cases "m_iPos h + 2 + uint ?n \<le> 10000")
    case True
    then have "in_bounds (m_byBuffer h') (m_iPos h') (unat ?n)"
      using h'(2) wf by (simp add: in_bounds_def consumed_def wf_in_def)
    moreover have "int_add (m_iPos h') (uint ?n) = Inr (m_iPos h' + uint ?n)"
      using h'(2) wf True by (simp add: int_add_def int32_range_def consumed_def wf_in_def)
    ultimately show ?thesis
      using h'(1) True by (simp add: getString_def load_bytes_at)
  next
    case False
    then show ?thesis using getString_faults [OF wf two] by simp
  qed
qed

text \<open>
  So \<open>getString\<close> is decided by the length field at the cursor: it returns the bytes that
  follow, up to the first zero, or reads past the end of the buffer.
\<close>

definition str_len :: "HMessage \<Rightarrow> int" where
  "str_len h = uint (u16_of_le (bytes_at (m_byBuffer h) (m_iPos h) 2))"

definition str_fits :: "HMessage \<Rightarrow> bool" where
  "str_fits h \<longleftrightarrow> m_iPos h + 2 \<le> 10000 \<and> m_iPos h + 2 + str_len h \<le> 10000"

lemma str_len_nonneg [simp]: "0 \<le> str_len h"
  by (simp add: str_len_def)

lemma getString_fits:
  assumes wf: "wf_in h" and fits: "str_fits h"
  shows "\<exists>h'. getString h = Inr (c_string (bytes_at (m_byBuffer h) (m_iPos h + 2) (nat (str_len h))), h') \<and>
     consumed h (2 + nat (str_len h)) h' \<and> wf_in h'"
proof -
  have two: "m_iPos h + 2 \<le> 10000" and len: "m_iPos h + 2 + str_len h \<le> 10000"
    using fits by (simp_all add: str_fits_def)
  let ?n = "u16_of_le (bytes_at (m_byBuffer h) (m_iPos h) 2)"
  obtain h' where h': "getUShort h = Inr (?n, h')" "consumed h 2 h'" "wf_in h'"
    using getUShort_val [OF wf two] by blast
  have n: "nat (str_len h) = unat ?n" by (simp add: str_len_def)
  have ib: "in_bounds (m_byBuffer h') (m_iPos h') (unat ?n)"
    using h'(2) wf len by (simp add: in_bounds_def consumed_def wf_in_def str_len_def)
  have add: "int_add (m_iPos h') (uint ?n) = Inr (m_iPos h' + uint ?n)"
    using h'(2) wf len by (simp add: int_add_def int32_range_def consumed_def wf_in_def str_len_def)
  let ?h = "h'\<lparr>m_iPos := m_iPos h' + uint ?n\<rparr>"
  have "getString h = Inr (c_string (bytes_at (m_byBuffer h') (m_iPos h') (unat ?n)), ?h)"
    using h'(1) ib add by (simp add: getString_def load_bytes_at c_string_snoc_0)
  moreover have "m_byBuffer h' = m_byBuffer h" and "m_iPos h' = m_iPos h + 2"
    using h'(2) by (simp_all add: consumed_def)
  moreover have "consumed h (2 + nat (str_len h)) ?h"
    using h'(2) by (simp add: consumed_def n)
  moreover have "wf_in ?h"
    using h'(2,3) len by (simp add: consumed_def wf_in_def str_len_def)
  ultimately show ?thesis unfolding n by auto
qed

lemma getString_unfit: "wf_in h \<Longrightarrow> \<not> str_fits h \<Longrightarrow> getString h = Inl ReadOutOfBounds"
proof (cases "m_iPos h + 2 \<le> 10000")
  case True
  assume "wf_in h" "\<not> str_fits h"
  then show ?thesis using True getString_faults [of h] by (simp add: str_fits_def str_len_def)
next
  case False
  assume "wf_in h"
  then have "load_bytes (m_byBuffer h) (m_iPos h) 2 = Inl ReadOutOfBounds"
    using False by (intro load_bytes_fault) (simp_all add: wf_in_def in_bounds_def)
  then show ?thesis by (simp add: getString_def getUShort_def)
qed

section \<open>The interface of a serialisable field\<close>

text \<open>
  What the message classes rely on, for each kind of field they put and get: a put that
  writes an encoding, a get that reads it back, no fault on the way out.
\<close>

locale field =
  fixes put_field :: "HMessage \<Rightarrow> 'a \<Rightarrow> (bool \<times> HMessage) res"
    and get_field :: "HMessage \<Rightarrow> ('a \<times> HMessage) res"
    and enc :: "'a \<Rightarrow> u8 list"
    and valid :: "'a \<Rightarrow> bool"
  assumes put_law: "valid x \<Longrightarrow> puts (\<lambda>h. put_field h x) (enc x)"
    and get_law: "valid x \<Longrightarrow> reads get_field (enc x) x"
    and safe_law: "valid x \<Longrightarrow> put_safe (\<lambda>h. put_field h x)"
begin

text \<open>Rewinding to where a field was put and getting it returns the field.\<close>

lemma round_trip:
  assumes "valid x" and "room h (length (enc x))" and "buf_size (m_byBuffer h) < 2 ^ 31"
  shows "\<exists>h' h''. put_field h x = Inr (True, h') \<and>
     get_field (SetPos h' (m_iPos h)) = Inr (x, h'') \<and> m_iPos h'' = m_iPos h' \<and>
     m_byBuffer h'' = m_byBuffer h'"
proof -
  obtain h' where h': "put_field h x = Inr (True, h')" "emitted h (enc x) h'"
    using put_law [OF assms(1)] assms(2) by (rule putsE)
  then have "available (SetPos h' (m_iPos h)) (enc x)"
    using assms by (blast intro: emitted_available)
  then obtain h'' where "get_field (SetPos h' (m_iPos h)) = Inr (x, h'')"
    "consumed (SetPos h' (m_iPos h)) (length (enc x)) h''"
    by (rule readsE [OF get_law [OF assms(1)]])
  with h' show ?thesis by (auto simp: consumed_def SetPos_def emitted_def)
qed

text \<open>A later field does not disturb an earlier one.\<close>

lemma round_trip_then:
  assumes "valid x" and "room h (length (enc x @ bs))" and "buf_size (m_byBuffer h) < 2 ^ 31"
    and "writes g bs"
  shows "\<exists>h1 h2 h3. put_field h x = Inr (True, h1) \<and> g h1 = Inr h2 \<and>
     get_field (SetPos h2 (m_iPos h)) = Inr (x, h3) \<and> available h3 bs"
proof -
  obtain h1 where h1: "put_field h x = Inr (True, h1)" "emitted h (enc x) h1"
    using put_law [OF assms(1)] room_append1 [OF assms(2)] by (rule putsE)
  obtain h2 where h2: "g h1 = Inr h2" "emitted h1 bs h2"
    using assms(4) room_append2 [OF assms(2) h1(2)] by (rule writesE)
  have av: "available (SetPos h2 (m_iPos h)) (enc x @ bs)"
    using emitted_append [OF h1(2) h2(2)] assms(2,3) by (rule emitted_available)
  obtain h3 where h3: "get_field (SetPos h2 (m_iPos h)) = Inr (x, h3)"
    "consumed (SetPos h2 (m_iPos h)) (length (enc x)) h3"
    using get_law [OF assms(1)] available_append(1) [OF av] by (rule readsE)
  with h1 h2 available_append(2) [OF av h3(2)] show ?thesis by blast
qed

end

interpretation u8_field: field putChar getByte "\<lambda>d. [d]" "\<lambda>_. True"
  by unfold_locales (rule stream_rules safe_rules)+

interpretation u16_field: field putUShort getUShort u16_le "\<lambda>_. True"
  by unfold_locales (rule stream_rules safe_rules)+

interpretation u32_field: field putUInt getUInt u32_be "\<lambda>_. True"
  by unfold_locales (rule stream_rules safe_rules)+

interpretation str_field: field putString getString str_enc "\<lambda>s. no_nul s \<and> length s < 2 ^ 16"
proof unfold_locales
  fix s :: string
  assume s: "no_nul s \<and> length s < 2 ^ 16"
  show "puts (\<lambda>h. putString h s) (str_enc s)" by (rule stream_rules)
  show "reads getString (str_enc s) s" using s by (simp add: reads_getString)
  show "put_safe (\<lambda>h. putString h s)" using s by (simp add: put_safe_putString)
qed

section \<open>Sending\<close>

text \<open>
  A constructed message from a buffer of received bytes offers those bytes to the get
  methods, whatever memory the object was built on.
\<close>

lemma HMessage_from_ok:
  assumes "length dat \<le> 10000"
  shows "\<exists>h. HMessage_from junk dat = Inr h \<and> m_iPos h = 0 \<and> wf_in h \<and>
     m_iDataUseSize h = int (length dat) \<and>
     bytes_at (m_byBuffer h) 0 (length dat) = dat \<and> m_iSessionID h = m_iSessionID junk \<and>
     m_DynmicCode h = m_DynmicCode junk"
  using assms
  by (simp add: HMessage_from_def Let_def store_bytes_splice in_bounds_def wf_in_def)

lemma HMessage_from_overflow:
  "10000 < length dat \<Longrightarrow> HMessage_from junk dat = Inl WriteOutOfBounds"
proof -
  assume "10000 < length dat"
  then have "store_bytes ((m_byBuffer junk)\<lparr>buf_size := 10000\<rparr>) 0 dat = Inl WriteOutOfBounds"
    by (intro store_bytes_fault) (auto simp: in_bounds_def)
  then show ?thesis by (simp add: HMessage_from_def Let_def)
qed

lemma available_prefix:
  assumes "m_iPos h = 0" and "wf_in h" and "bytes_at (m_byBuffer h) 0 (length (bs @ rest)) = bs @ rest"
    and "length (bs @ rest) \<le> 10000"
  shows "available h bs"
proof -
  have "available h (bs @ rest)"
    using assms by (simp add: available_def wf_in_def in_bounds_def)
  then show ?thesis by (rule available_append)
qed

text \<open>
  What \<open>SendMsgBySessionID\<close> hands to the socket (MyZServerNetwork.cpp): it appends a
  newline, ignoring whether it fitted, and passes the \<open>GetPosition\<close> first bytes of the
  buffer, whose first two bytes \<open>GetPosition\<close> has just overwritten with the length.
\<close>

definition send_buffer :: "HMessage \<Rightarrow> (u8 list \<times> HMessage) res" where
  "send_buffer h =
     rbind (putChar h (chr_byte (CHR 0x0A))) (\<lambda>(_, h1).
     rbind (GetPosition h1) (\<lambda>(n, h2).
     rbind (load_bytes (m_byBuffer h2) 0 (nat n)) (\<lambda>bs. Inr (bs, h2))))"

lemma newline [simp]: "chr_byte (CHR 0x0A) = 10"
  by (simp add: chr_byte_def)

lemma splice_overwrite:
  assumes "length xs \<le> length ys"
  shows "splice (splice b i ys) i xs = splice b i (xs @ drop (length xs) ys)"
  using assms unfolding splice_def
  by (auto intro!: buffer.equality ext simp: nth_append)

lemma send_buffer_bytes:
  assumes "emitted h0 bs h" and "m_iPos h0 = 0" and "2 \<le> length bs"
    and r: "room h0 (length (bs @ [10]))"
  shows "\<exists>h'. send_buffer h = Inr (u16_le (word_of_nat (length bs + 1)) @ drop 2 bs @ [10], h') \<and>
              m_iPos h' = int (length bs) + 1"
proof -
  let ?n = "length bs + 1"
  let ?out = "u16_le (word_of_nat ?n) @ drop 2 bs @ [10]"
  have "room h (length [10 :: u8])"
    using assms(1) r by (blast intro: room_append2)
  then obtain h1 where h1: "putChar h 10 = Inr (True, h1)" "emitted h [10] h1"
    by (rule putsE [OF puts_putChar])
  have e: "emitted h0 (bs @ [10]) h1"
    using assms(1) h1(2) by (rule emitted_append)
  then have b1: "m_byBuffer h1 = splice (m_byBuffer h0) 0 (bs @ [10])" and p1: "m_iPos h1 = int ?n"
    using assms(2) by (simp_all add: emitted_def)
  have len: "length ?out = ?n"
    using assms(3) by simp
  have "store_bytes (m_byBuffer h1) 0 (u16_le (word_of_nat ?n)) =
      Inr (splice (m_byBuffer h0) 0 ?out)"
    using assms(2,3) r
    by (simp add: b1 store_bytes_splice in_bounds_def room_def splice_overwrite)
  then have g: "GetPosition h1 = Inr (int ?n, h1\<lparr>m_byBuffer := splice (m_byBuffer h0) 0 ?out\<rparr>)"
    by (simp add: GetPosition_def p1 of_nat_Suc [symmetric] del: of_nat_Suc)
  have "load_bytes (splice (m_byBuffer h0) 0 ?out) 0 (length ?out) = Inr ?out"
  proof (subst load_bytes_at)
    show "in_bounds (splice (m_byBuffer h0) 0 ?out) 0 (length ?out)"
      using assms(2) r unfolding len by (simp add: in_bounds_def room_def)
  qed (simp only: bytes_at_splice_same)
  then have "send_buffer h = Inr (?out, h1\<lparr>m_byBuffer := splice (m_byBuffer h0) 0 ?out\<rparr>)"
    unfolding send_buffer_def newline using h1(1) g len
    by (simp add: nat_add_distrib del: length_append)
  then show ?thesis using p1 by simp
qed

lemma writes_send:
  assumes "writes f bs" and "2 \<le> length bs" and "length bs < 9999"
  shows "\<exists>h h'. f (HMessage_new junk) = Inr h \<and>
     send_buffer h = Inr (u16_le (word_of_nat (length bs + 1)) @ drop 2 bs @ [10], h') \<and>
     m_iPos h' = int (length bs) + 1"
proof -
  have n: "m_iPos (HMessage_new junk) = 0" and r: "room (HMessage_new junk) (length (bs @ [10]))"
    using assms(3) by (simp_all add: HMessage_new_def room_def)
  obtain h where h: "f (HMessage_new junk) = Inr h" "emitted (HMessage_new junk) bs h"
    using assms(1) room_append1 [OF r] by (rule writesE)
  with send_buffer_bytes [OF h(2) n assms(2) r] show ?thesis by auto
qed

text \<open>Sending never faults on the server, and the length field tells the size sent.\<close>

lemma wf_out_putChar:
  assumes "wf_out h"
  shows "\<exists>b h'. putChar h c = Inr (b, h') \<and> wf_out h' \<and> m_iPos h \<le> m_iPos h' \<and>
    m_iPos h' \<le> m_iPos h + 1"
proof (cases "m_iPos h + 1 < 10000")
  case True
  then obtain h' where h': "putChar h c = Inr (True, h')" "emitted h [c] h'"
    using puts_putChar [of c] wf_out_room [OF assms, of 1] by (auto elim: putsE)
  moreover have "wf_out h'"
    using h'(2) assms by (rule wf_out_emitted) (use True in simp)
  ultimately show ?thesis by (auto simp: emitted_def)
next
  case False
  then show ?thesis using assms put_full(1) [OF assms] by auto
qed

lemma send_buffer_ok:
  assumes wf: "wf_out h"
  shows "\<exists>bs h'. send_buffer h = Inr (bs, h') \<and> length bs < 10000 \<and> m_iPos h \<le> int (length bs) \<and>
     (2 \<le> length bs \<longrightarrow> uint (u16_of_le (take 2 bs)) = int (length bs))"
proof -
  obtain b h1 where h1: "putChar h 10 = Inr (b, h1)" "wf_out h1" "m_iPos h \<le> m_iPos h1"
    using wf_out_putChar [OF wf] by blast
  let ?w = "word_of_int (m_iPos h1) :: u16"
  let ?b = "splice (m_byBuffer h1) 0 (u16_le ?w)"
  let ?out = "bytes_at ?b 0 (nat (m_iPos h1))"
  from h1 have p: "0 \<le> m_iPos h1" "m_iPos h1 < 10000" and sz: "buf_size (m_byBuffer h1) = 10000"
    by (simp_all add: wf_out_def)
  have "GetPosition h1 = Inr (m_iPos h1, h1\<lparr>m_byBuffer := ?b\<rparr>)"
    using sz by (simp add: GetPosition_def store_bytes_splice in_bounds_def)
  moreover have "load_bytes ?b 0 (nat (m_iPos h1)) = Inr ?out"
    using p sz by (intro load_bytes_at) (simp add: in_bounds_def)
  ultimately have s: "send_buffer h = Inr (?out, h1\<lparr>m_byBuffer := ?b\<rparr>)"
    using h1(1) by (simp add: send_buffer_def)
  have "uint (u16_of_le (take 2 ?out)) = m_iPos h1" if two: "2 \<le> m_iPos h1"
  proof -
    have "nat (m_iPos h1) = length (u16_le ?w) + (nat (m_iPos h1) - 2)"
      using two by simp
    then have "take 2 ?out = bytes_at ?b 0 (length (u16_le ?w))"
      by (metis append_eq_conv_conj bytes_at_add length_bytes_at length_u16_le)
    then have "u16_of_le (take 2 ?out) = ?w"
      by (simp del: length_u16_le)
    then show ?thesis
      using p by (simp add: uint_word_of_int)
  qed
  then show ?thesis
    using s p h1(3) by auto
qed

section \<open>Properties\<close>

text \<open>A new object over zeroed memory, for the instances below.\<close>

definition blank :: HMessage where
  "blank = HMessage_new \<lparr>m_byBuffer = \<lparr>buf_size = 0, buf_at = (\<lambda>_. 0)\<rparr>, m_iPos = 7, m_iDataUseSize = 7,
     m_iSessionID = 0, m_DynmicCode = 0\<rparr>"

lemma blank_pos [simp]: "m_iPos blank = 0"
  by (simp add: blank_def HMessage_new_def)

lemma blank_wf [simp]: "wf_out blank" "wf_in blank"
  by (simp_all add: blank_def HMessage_new_def wf_out_def wf_in_def)

lemma wf_out_size: "wf_out h \<Longrightarrow> buf_size (m_byBuffer h) = 10000"
  by (simp add: wf_out_def)

text \<open>
  A string without a zero character that fits the message is put, and getting it from where it was put
  returns the string and leaves the cursor where the put left it.
\<close>

theorem string_round_trip:
  assumes "wf_out h" and "no_nul s" and "m_iPos h + 2 + int (length s) < 10000"
  shows "\<exists>h' h''. putString h s = Inr (True, h') \<and>
     getString (SetPos h' (m_iPos h)) = Inr (s, h'') \<and> m_iPos h'' = m_iPos h'"
proof -
  have "room h (length (str_enc s))" "length s < 2 ^ 16" "buf_size (m_byBuffer h) < 2 ^ 31"
    using assms by (simp_all add: wf_out_def room_def)
  with assms(2) show ?thesis
    using str_field.round_trip [of s h] by blast
qed

theorem string_round_trip_witness:
  "\<exists>h' h''. putString blank ''alice'' = Inr (True, h') \<and>
     getString (SetPos h' (m_iPos blank)) = Inr (''alice'', h'') \<and> m_iPos h'' = m_iPos h'"
  by (rule string_round_trip) (simp_all add: no_nul_def chr_byte_def)

text \<open>
  A byte, a 16-bit and a 32-bit number survive being put and got, whatever their value, in spite
  of the two byte orders the class uses.
\<close>

theorem number_round_trip:
  assumes "wf_out h" and "m_iPos h + 4 < 10000"
  shows "(\<exists>h' h''. putChar h c = Inr (True, h') \<and> getByte (SetPos h' (m_iPos h)) = Inr (c, h'')) \<and>
     (\<exists>h' h''. putUShort h d = Inr (True, h') \<and> getUShort (SetPos h' (m_iPos h)) = Inr (d, h'')) \<and>
     (\<exists>h' h''. putUInt h e = Inr (True, h') \<and> getUInt (SetPos h' (m_iPos h)) = Inr (e, h''))"
proof -
  have r: "room h (length [c])" "room h (length (u16_le d))" "room h (length (u32_be e))"
    "buf_size (m_byBuffer h) < 2 ^ 31"
    using assms by (simp_all add: wf_out_def room_def)
  show ?thesis
    using u8_field.round_trip [OF TrueI r(1,4)] u16_field.round_trip [OF TrueI r(2,4)]
      u32_field.round_trip [OF TrueI r(3,4)] by blast
qed

theorem number_round_trip_witness:
  "(\<exists>h' h''. putChar blank 7 = Inr (True, h') \<and> getByte (SetPos h' (m_iPos blank)) = Inr (7, h'')) \<and>
   (\<exists>h' h''. putUShort blank 0xBEEF = Inr (True, h') \<and>
      getUShort (SetPos h' (m_iPos blank)) = Inr (0xBEEF, h'')) \<and>
   (\<exists>h' h''. putUInt blank 0xDEADBEEF = Inr (True, h') \<and>
      getUInt (SetPos h' (m_iPos blank)) = Inr (0xDEADBEEF, h''))"
  by (rule number_round_trip) simp_all

text \<open>
  C18: Reading a string is decided by the length field at the cursor. If the string ends inside the
  buffer, the bytes up to the first zero come back and the cursor moves past the field;
  otherwise the read goes out of bounds, which a peer can bring about with a single field.
\<close>

theorem string_get_outcome:
  assumes "wf_in h"
  shows "(str_fits h \<longrightarrow> (\<exists>h'. getString h =
            Inr (c_string (bytes_at (m_byBuffer h) (m_iPos h + 2) (nat (str_len h))), h') \<and>
            m_iPos h' = m_iPos h + 2 + str_len h)) \<and>
         (\<not> str_fits h \<longrightarrow> getString h = Inl ReadOutOfBounds)"
  using getString_fits [OF assms] getString_unfit [OF assms] by (fastforce simp: consumed_def)

theorem string_get_outcome_witness:
  "getString (SetPos blank 9999) = Inl ReadOutOfBounds"
  using string_get_outcome [of "SetPos blank 9999"]
  by (auto simp: blank_def HMessage_new_def SetPos_def wf_in_def str_fits_def)

text \<open>
  A string that does not fit is refused, but when only its characters do not fit, its length
  field has already been written: the message then announces characters it does not hold.
\<close>

theorem string_put_refused:
  assumes "wf_out h" and "10000 \<le> m_iPos h + 2 + int (length s)" and "m_iPos h + 2 < 10000"
    and "int (length s) < 2 ^ 31 - 10000"
  shows "\<exists>h'. putString h s = Inr (False, h') \<and> wf_out h' \<and>
     emitted h (u16_le (word_of_nat (length s))) h'"
  using putString_refused [OF assms(1,2,4)] assms(3) by simp

theorem string_put_refused_witness:
  "\<exists>h'. putString (SetPos blank 9990) ''too long a name'' = Inr (False, h') \<and> wf_out h' \<and>
     emitted (SetPos blank 9990) (u16_le (word_of_nat (length ''too long a name''))) h'"
  by (rule string_put_refused) (simp_all add: blank_def HMessage_new_def SetPos_def wf_out_def)

end
