(* ===== verification/Protocol.thy ===== *)
theory Protocol
  imports HMessage_Stream
begin

text \<open>
  The message protocol of MyMsg.h: its three enumerations, \<open>BaseMessage\<close> and the thirteen
  message classes, each with its constructor, its put and its get. A class derived from
  \<open>BaseMessage\<close> is a record that extends it. Every put is shown to write the header and
  the body of the class as bytes, and every get to read that body back; the interface
  they share is the locale \<open>message\<close>. The one class that does not meet it,
  \<open>DS2C_A_GetAllRole\<close>, is treated on its own.
\<close>

section \<open>Enumerations\<close>

text \<open>The unnamed enumeration of the error codes.\<close>

datatype ErrorCode =
    ERROR_CODE_NONE
  | ERROR_CODE_REGSTER_OK
  | ERROR_CODE_REGSTER_FAIL
  | ERROR_CODE_LOGIN_OK
  | ERROR_CODE_LOGIN_FAIL
  | ERROR_CODE_CHECK_DYNMIC_CODE_OK
  | ERROR_CODE_CHECK_DYNMIC_CODE_FAIL
  | ERROR_CODE_GET_ROLE_OK
  | ERROR_CODE_GET_ROLE_FAIL

primrec error_code :: "ErrorCode \<Rightarrow> int" where
    "error_code ERROR_CODE_NONE = 0"
  | "error_code ERROR_CODE_REGSTER_OK = 1"
  | "error_code ERROR_CODE_REGSTER_FAIL = 2"
  | "error_code ERROR_CODE_LOGIN_OK = 3"
  | "error_code ERROR_CODE_LOGIN_FAIL = 4"
  | "error_code ERROR_CODE_CHECK_DYNMIC_CODE_OK = 5"
  | "error_code ERROR_CODE_CHECK_DYNMIC_CODE_FAIL = 6"
  | "error_code ERROR_CODE_GET_ROLE_OK = 7"
  | "error_code ERROR_CODE_GET_ROLE_FAIL = 8"

datatype MainProtocol =
    SP_TOOL_HEART_BEAT_MESSAGE
  | SP_HEART_BEAT_MESSAGE
  | SP_A_HEART_BEAT_MESSAGE
  | SP_CHAT_HEART_BEAT_MESSAGE
  | FM_ZDQ_SERVER_MESSAGE
  | D_SERVER_LOGIN
  | FM_Q_ROUND_MESSAGE
  | FM_Q_MAIN_MENU_MESSAGE
  | FM_Q_HOME_MESSAGE
  | FM_Q_ITEM_MESSAGE
  | FM_Q_FIGHT_MESSAGE
  | FM_Q_SHOP_MESSAGE
  | FM_Q_GM_MESSAGE
  | FM_Q_SYSTEM_NOTICE_MESSAGE
  | FM_Q_ROLE_MESSAGE
  | FM_Q_MISSION_MESSAGE
  | FM_Q_NEWS_MESSAGE
  | FM_Q_ARENA_MESSAGE
  | FM_Q_ACTIVE_MESSAGE
  | FM_Q_STATISTICS_MESSAGE
  | FM_Q_GROUP_MESSAGE
  | FM_Q_RANK_MESSAGE
  | FM_ZDQ_LOGIN
  | FM_BQ_DB_DATA_SAVE_AND_UPDATE
  | FM_BLQ_PET_MESSAGE
  | ZB_CHAT_MESSAGE
  | ZB_ERROR_MESSAGE

primrec main_code :: "MainProtocol \<Rightarrow> int" where
    "main_code SP_TOOL_HEART_BEAT_MESSAGE = 111"
  | "main_code SP_HEART_BEAT_MESSAGE = 0x111"
  | "main_code SP_A_HEART_BEAT_MESSAGE = 0x112"
  | "main_code SP_CHAT_HEART_BEAT_MESSAGE = 0x221"
  | "main_code FM_ZDQ_SERVER_MESSAGE = 0x9"
  | "main_code D_SERVER_LOGIN = 0x1001"
  | "main_code FM_Q_ROUND_MESSAGE = 0x1037"
  | "main_code FM_Q_MAIN_MENU_MESSAGE = 0x1038"
  | "main_code FM_Q_HOME_MESSAGE = 0x1039"
  | "main_code FM_Q_ITEM_MESSAGE = 0x1040"
  | "main_code FM_Q_FIGHT_MESSAGE = 0x1041"
  | "main_code FM_Q_SHOP_MESSAGE = 0x1042"
  | "main_code FM_Q_GM_MESSAGE = 0x1043"
  | "main_code FM_Q_SYSTEM_NOTICE_MESSAGE = 0x1044"
  | "main_code FM_Q_ROLE_MESSAGE = 0x1045"
  | "main_code FM_Q_MISSION_MESSAGE = 0x1046"
  | "main_code FM_Q_NEWS_MESSAGE = 0x1047"
  | "main_code FM_Q_ARENA_MESSAGE = 0x1048"
  | "main_code FM_Q_ACTIVE_MESSAGE = 0x1049"
  | "main_code FM_Q_STATISTICS_MESSAGE = 0x1050"
  | "main_code FM_Q_GROUP_MESSAGE = 0x1051"
  | "main_code FM_Q_RANK_MESSAGE = 0x1052"
  | "main_code FM_ZDQ_LOGIN = 0x2001"
  | "main_code FM_BQ_DB_DATA_SAVE_AND_UPDATE = 0x2002"
  | "main_code FM_BLQ_PET_MESSAGE = 0x2003"
  | "main_code ZB_CHAT_MESSAGE = 0x2005"
  | "main_code ZB_ERROR_MESSAGE = 0x2006"

datatype SubProtocol =
    C2ZS_R_REGISTER
  | ZS2C_A_REGISTER
  | C2ZS_R_LOGIN
  | ZS2C_A_LOGIN
  | C2DS_R_ALLROLE
  | DS2C_A_ALLROLE
  | DS2ZS_R_CHECKDYNMICCODE
  | ZS2DS_A_CHECKDYNMICCODE
  | C2GS_R_CHECKDYNMICCODE
  | GS2C_A_CHECKDYNMICCODE
  | GS2DS_R_CHECKDYNMICCODE
  | DS2GS_A_CHECKDYNMICCODE

primrec sub_code :: "SubProtocol \<Rightarrow> int" where
    "sub_code C2ZS_R_REGISTER = 1"
  | "sub_code ZS2C_A_REGISTER = 2"
  | "sub_code C2ZS_R_LOGIN = 3"
  | "sub_code ZS2C_A_LOGIN = 4"
  | "sub_code C2DS_R_ALLROLE = 5"
  | "sub_code DS2C_A_ALLROLE = 6"
  | "sub_code DS2ZS_R_CHECKDYNMICCODE = 1000"
  | "sub_code ZS2DS_A_CHECKDYNMICCODE = 1001"
  | "sub_code C2GS_R_CHECKDYNMICCODE = 1002"
  | "sub_code GS2C_A_CHECKDYNMICCODE = 1003"
  | "sub_code GS2DS_R_CHECKDYNMICCODE = 1004"
  | "sub_code DS2GS_A_CHECKDYNMICCODE = 1005"

text \<open>
  No two names of an enumeration share a number, and every protocol number fits the
  16 bits it has in a message: comparing what was received with the number of one name
  matches messages of that name only.
\<close>

lemma error_code_inject [simp]: "error_code a = error_code b \<longleftrightarrow> a = b"
  by (cases a; cases b) simp_all

lemma main_code_inject [simp]: "main_code a = main_code b \<longleftrightarrow> a = b"
  by (cases a; simp; cases b; simp)

lemma sub_code_inject [simp]: "sub_code a = sub_code b \<longleftrightarrow> a = b"
  by (cases a; cases b) simp_all

lemma main_code_range: "0 \<le> main_code a \<and> main_code a < 2 ^ 16"
  by (cases a) simp_all

lemma sub_code_range: "0 \<le> sub_code a \<and> sub_code a < 2 ^ 16"
  by (cases a) simp_all

lemma error_code_range: "0 \<le> error_code a \<and> error_code a < 2 ^ 16"
  by (cases a) simp_all

lemma uint_main_code [simp]: "uint (word_of_int (main_code a) :: u16) = main_code a"
  using main_code_range [of a] by (simp add: uint_word_of_int)

lemma uint_sub_code [simp]: "uint (word_of_int (sub_code a) :: u16) = sub_code a"
  using sub_code_range [of a] by (simp add: uint_word_of_int)

lemma uint_error_code [simp]: "uint (word_of_int (error_code a) :: u32) = error_code a"
  using error_code_range [of a] by (simp add: uint_word_of_int)

section \<open>The base class\<close>

record BaseMessage =
  m_wSize :: u16
  m_iMainProtocol :: u16
  m_iSubProtocol :: u16

definition BaseMessage_put :: "'a BaseMessage_scheme \<Rightarrow> HMessage \<Rightarrow> HMessage res" where
  "BaseMessage_put this hmg =
     rbind (putUShort hmg (m_wSize this)) (\<lambda>(_, hmg).
     rbind (putUShort hmg (m_iMainProtocol this)) (\<lambda>(_, hmg).
     rbind (putUShort hmg (m_iSubProtocol this)) (\<lambda>(_, hmg). Inr hmg)))"

definition BaseMessage_get ::
  "'a BaseMessage_scheme \<Rightarrow> HMessage \<Rightarrow> ('a BaseMessage_scheme \<times> HMessage) res" where
  "BaseMessage_get this hmg =
     rbind (getUShort hmg) (\<lambda>(size, hmg).
     rbind (getUShort hmg) (\<lambda>(mainp, hmg).
     rbind (getUShort hmg) (\<lambda>(subp, hmg).
       Inr (this\<lparr>m_wSize := size, m_iMainProtocol := mainp, m_iSubProtocol := subp\<rparr>, hmg))))"

text \<open>
  \<open>operator=\<close> through a reference to the base class, and \<open>clear\<close>.
\<close>

definition BaseMessage_assign ::
  "'a BaseMessage_scheme \<Rightarrow> 'b BaseMessage_scheme \<Rightarrow> 'a BaseMessage_scheme" where
  "BaseMessage_assign this tmp =
     this\<lparr>m_wSize := m_wSize tmp, m_iMainProtocol := m_iMainProtocol tmp,
          m_iSubProtocol := m_iSubProtocol tmp\<rparr>"

definition BaseMessage_clear :: "'a BaseMessage_scheme \<Rightarrow> 'a BaseMessage_scheme" where
  "BaseMessage_clear this = this\<lparr>m_iSubProtocol := 0, m_iMainProtocol := 0, m_wSize := 0\<rparr>"

definition is_main :: "'a BaseMessage_scheme \<Rightarrow> MainProtocol \<Rightarrow> bool" where
  "is_main b p \<longleftrightarrow> uint (m_iMainProtocol b) = main_code p"

definition is_sub :: "'a BaseMessage_scheme \<Rightarrow> SubProtocol \<Rightarrow> bool" where
  "is_sub b p \<longleftrightarrow> uint (m_iSubProtocol b) = sub_code p"

text \<open>The six bytes of a header, and what the base methods do with them.\<close>

definition base_bytes :: "'a BaseMessage_scheme \<Rightarrow> u8 list" where
  "base_bytes b = u16_le (m_wSize b) @ u16_le (m_iMainProtocol b) @ u16_le (m_iSubProtocol b)"

lemma length_base_bytes [simp]: "length (base_bytes b) = 6"
  by (simp add: base_bytes_def)

lemma drop_2_base_bytes [simp]:
  "drop 2 (base_bytes b) = u16_le (m_iMainProtocol b) @ u16_le (m_iSubProtocol b)"
  by (simp add: base_bytes_def)

lemma writes_cong: "writes f a \<Longrightarrow> a = b \<Longrightarrow> writes f b"
  by simp

lemma reads_cong: "reads f a v \<Longrightarrow> a = b \<Longrightarrow> v = w \<Longrightarrow> reads f b w"
  by simp

lemma writes_BaseMessage [stream_rules]: "writes (BaseMessage_put m) (base_bytes m)"
  unfolding BaseMessage_put_def [abs_def]
  by (rule writes_cong, (rule writes_puts stream_rules)+) (simp add: base_bytes_def)

lemma reads_BaseMessage [stream_rules]:
  "reads (BaseMessage_get x) (base_bytes m) (BaseMessage_assign x m)"
  unfolding BaseMessage_get_def [abs_def]
  by (rule reads_cong, (rule reads_seq stream_rules)+)
     (simp_all add: base_bytes_def BaseMessage_assign_def)

lemma keeps_wf_BaseMessage [safe_rules]: "keeps_wf (BaseMessage_put m)"
  unfolding BaseMessage_put_def [abs_def] by (rule keeps_wf_put safe_rules)+

text \<open>
  A header can always be read at the start of a received message; the bytes it is made of
  are those of the buffer, received or not.
\<close>

lemma BaseMessage_get_total:
  assumes wf: "wf_in h" and p: "m_iPos h = 0"
  shows "\<exists>h'. BaseMessage_get x h = Inr (x\<lparr>m_wSize := u16_of_le (bytes_at (m_byBuffer h) 0 2),
     m_iMainProtocol := u16_of_le (bytes_at (m_byBuffer h) 2 2),
     m_iSubProtocol := u16_of_le (bytes_at (m_byBuffer h) 4 2)\<rparr>, h') \<and> consumed h 6 h' \<and> wf_in h'"
proof -
  obtain h1 where h1: "getUShort h = Inr (u16_of_le (bytes_at (m_byBuffer h) 0 2), h1)"
    "consumed h 2 h1" "wf_in h1"
    using getUShort_val [OF wf] p by auto
  obtain h2 where h2: "getUShort h1 = Inr (u16_of_le (bytes_at (m_byBuffer h) 2 2), h2)"
    "consumed h1 2 h2" "wf_in h2"
    using getUShort_val [OF h1(3)] h1(2) p by (auto simp: consumed_def)
  obtain h3 where h3: "getUShort h2 = Inr (u16_of_le (bytes_at (m_byBuffer h) 4 2), h3)"
    "consumed h2 2 h3" "wf_in h3"
    using getUShort_val [OF h2(3)] h1(2) h2(2) p by (auto simp: consumed_def)
  show ?thesis
    using h1 h2 h3 by (auto simp: BaseMessage_get_def consumed_def)
qed

section \<open>The interface of a message class\<close>

text \<open>
  \<open>put_msg\<close> and \<open>get_msg\<close> are the class's virtual methods, \<open>body m\<close> the bytes after the
  header, \<open>fill x m\<close> the object \<open>x\<close> with the fields of the body of \<open>m\<close>. \<open>valid\<close> says
  which objects come back unchanged, \<open>fits_memory\<close> that the strings of the object are
  shorter than the address space.
\<close>

locale message =
  fixes put_msg :: "'a BaseMessage_scheme \<Rightarrow> HMessage \<Rightarrow> HMessage res"
    and get_msg :: "'a BaseMessage_scheme \<Rightarrow> HMessage \<Rightarrow> ('a BaseMessage_scheme \<times> HMessage) res"
    and body :: "'a BaseMessage_scheme \<Rightarrow> u8 list"
    and fill :: "'a BaseMessage_scheme \<Rightarrow> 'a BaseMessage_scheme \<Rightarrow> 'a BaseMessage_scheme"
    and valid :: "'a BaseMessage_scheme \<Rightarrow> bool"
    and fits_memory :: "'a BaseMessage_scheme \<Rightarrow> bool"
  assumes writes_law: "writes (put_msg m) (base_bytes m @ body m)"
    and reads_law: "valid m \<Longrightarrow> \<exists>k. reads (get_msg x) (take k (body m)) (fill x m)"
    and safe_law: "fits_memory m \<Longrightarrow> keeps_wf (put_msg m)"
begin

text \<open>The bytes on the wire: the length, the two protocol numbers, the body, a newline.\<close>

lemma sent:
  assumes "length (body m) < 9993"
  shows "\<exists>h h'. put_msg m (HMessage_new junk) = Inr h \<and>
     send_buffer h =
       Inr (u16_le (word_of_nat (length (body m) + 7)) @ u16_le (m_iMainProtocol m) @
            u16_le (m_iSubProtocol m) @ body m @ [10], h')"
  using writes_send [OF writes_law, of m junk] assms by (auto simp: algebra_simps)

text \<open>
  Delivery: what the peer reads out of those bytes, header first and then the class's get,
  is the protocol numbers and the body of the object that was put. Nothing depends on the
  memory either object was built on, nor on the size field, which the constructors
  leave uninitialised.
\<close>

lemma delivered:
  assumes "valid m" and len: "length (body m) < 9993"
  shows "\<exists>h h' wire hr h1 h2. put_msg m (HMessage_new junk) = Inr h \<and>
     send_buffer h = Inr (wire, h') \<and> HMessage_from junk' wire = Inr hr \<and>
     BaseMessage_get b hr =
       Inr (b\<lparr>m_wSize := word_of_nat (length wire), m_iMainProtocol := m_iMainProtocol m,
              m_iSubProtocol := m_iSubProtocol m\<rparr>, h1) \<and>
     get_msg x h1 = Inr (fill x m, h2)"
proof -
  let ?hd = "m\<lparr>m_wSize := word_of_nat (length (body m) + 7)\<rparr>"
  let ?wire = "base_bytes ?hd @ body m @ [10]"
  obtain h h' where h: "put_msg m (HMessage_new junk) = Inr h" "send_buffer h = Inr (?wire, h')"
    using sent [OF len, of junk] by (auto simp: base_bytes_def)
  obtain hr where hr: "HMessage_from junk' ?wire = Inr hr" "m_iPos hr = 0" "wf_in hr"
    "bytes_at (m_byBuffer hr) 0 (length ?wire) = ?wire"
    using HMessage_from_ok [of ?wire junk'] len by auto
  have av: "available hr (base_bytes ?hd @ body m)"
    by (rule available_prefix [where rest = "[10]"]) (use hr len in simp_all)
  obtain h1 where h1: "BaseMessage_get b hr = Inr (BaseMessage_assign b ?hd, h1)"
    "consumed hr (length (base_bytes ?hd)) h1"
    using available_append(1) [OF av] by (rule readsE [OF reads_BaseMessage])
  obtain k where k: "reads (get_msg x) (take k (body m)) (fill x m)"
    using reads_law [OF assms(1)] by blast
  have "available h1 (take k (body m) @ drop k (body m))"
    using available_append(2) [OF av h1(2)] by simp
  then obtain h2 where "get_msg x h1 = Inr (fill x m, h2)"
    using readsE [OF k] available_append(1) by metis
  with h hr(1) h1(1) show ?thesis
    by (auto simp: BaseMessage_assign_def)
qed

text \<open>Building and sending any object of the class is memory safe on the server.\<close>

lemma send_safe:
  assumes "fits_memory m"
  shows "\<exists>h bs h'. put_msg m (HMessage_new junk) = Inr h \<and>
    send_buffer h = Inr (bs, h') \<and> length bs < 10000 \<and>
    (2 \<le> length bs \<longrightarrow> uint (u16_of_le (take 2 bs)) = int (length bs))"
proof -
  obtain h where h: "put_msg m (HMessage_new junk) = Inr h" "wf_out h"
    using safe_law [OF assms] wf_out_new [of junk] by (auto simp: keeps_wf_def)
  with send_buffer_ok [OF h(2)] show ?thesis by blast
qed

end
section \<open>The message classes\<close>

text \<open>Strings that survive the trip, and strings shorter than the address space.\<close>

definition str_ok :: "string \<Rightarrow> bool" where
  "str_ok s \<longleftrightarrow> no_nul s \<and> length s < 2 ^ 16"

definition str_mem :: "string \<Rightarrow> bool" where
  "str_mem s \<longleftrightarrow> int (length s) < 2 ^ 31 - 10000"

lemma reads_str_ok: "str_ok s \<Longrightarrow> reads getString (str_enc s) s"
  by (simp add: str_ok_def reads_getString)

lemma put_safe_str_mem: "str_mem s \<Longrightarrow> put_safe (\<lambda>h. putString h s)"
  by (simp add: str_mem_def put_safe_putString)

subsection \<open>\<open>C2ZS_R_Login\<close>\<close>

text \<open>A client asks the account server to log in.\<close>

record C2ZS_R_Login = BaseMessage +
  m_strAccount :: string
  m_strPassword :: string

definition C2ZS_R_Login_new :: "C2ZS_R_Login \<Rightarrow> C2ZS_R_Login" where
  "C2ZS_R_Login_new junk =
     junk\<lparr>m_iMainProtocol := word_of_int (main_code FM_ZDQ_LOGIN),
          m_iSubProtocol := word_of_int (sub_code C2ZS_R_LOGIN),
          C2ZS_R_Login.m_strAccount := '''',
          C2ZS_R_Login.m_strPassword := ''''\<rparr>"

definition C2ZS_R_Login_put :: "C2ZS_R_Login \<Rightarrow> HMessage \<Rightarrow> HMessage res" where
  "C2ZS_R_Login_put this hmg =
     rbind (BaseMessage_put this hmg) (\<lambda>hmg.
     rbind (putString hmg (C2ZS_R_Login.m_strAccount this)) (\<lambda>(_, hmg).
     rbind (putString hmg (C2ZS_R_Login.m_strPassword this)) (\<lambda>(_, hmg). Inr hmg)))"

definition C2ZS_R_Login_get :: "C2ZS_R_Login \<Rightarrow> HMessage \<Rightarrow> (C2ZS_R_Login \<times> HMessage) res" where
  "C2ZS_R_Login_get this hmg =
     rbind (getString hmg) (\<lambda>(v0, hmg).
     rbind (getString hmg) (\<lambda>(v1, hmg).
       Inr (this\<lparr>C2ZS_R_Login.m_strAccount := v0, C2ZS_R_Login.m_strPassword := v1\<rparr>, hmg)))"

definition C2ZS_R_Login_body :: "C2ZS_R_Login \<Rightarrow> u8 list" where
  "C2ZS_R_Login_body m =
     str_enc (C2ZS_R_Login.m_strAccount m) @ str_enc (C2ZS_R_Login.m_strPassword m)"

definition C2ZS_R_Login_fill :: "C2ZS_R_Login \<Rightarrow> C2ZS_R_Login \<Rightarrow> C2ZS_R_Login" where
  "C2ZS_R_Login_fill x m = x\<lparr>C2ZS_R_Login.m_strAccount := C2ZS_R_Login.m_strAccount m,
         C2ZS_R_Login.m_strPassword := C2ZS_R_Login.m_strPassword m\<rparr>"

interpretation login_req: message C2ZS_R_Login_put C2ZS_R_Login_get C2ZS_R_Login_body C2ZS_R_Login_fill
  "\<lambda>m. str_ok (C2ZS_R_Login.m_strAccount m) \<and> str_ok (C2ZS_R_Login.m_strPassword m)"
  "\<lambda>m. str_mem (C2ZS_R_Login.m_strAccount m) \<and> str_mem (C2ZS_R_Login.m_strPassword m)"
proof unfold_locales
  fix m x :: C2ZS_R_Login
  show "writes (C2ZS_R_Login_put m) (base_bytes m @ C2ZS_R_Login_body m)"
    unfolding C2ZS_R_Login_put_def [abs_def] C2ZS_R_Login_body_def
    by (rule writes_cong, (rule writes_seq writes_puts stream_rules)+) simp
  assume v: "str_ok (C2ZS_R_Login.m_strAccount m) \<and> str_ok (C2ZS_R_Login.m_strPassword m)"
  from v have strs: "reads getString (str_enc (C2ZS_R_Login.m_strAccount m)) (C2ZS_R_Login.m_strAccount m)"
    "reads getString (str_enc (C2ZS_R_Login.m_strPassword m)) (C2ZS_R_Login.m_strPassword m)"
    by (simp_all add: reads_str_ok)
  have "reads (C2ZS_R_Login_get x) (str_enc (C2ZS_R_Login.m_strAccount m) @ str_enc (C2ZS_R_Login.m_strPassword m)) (C2ZS_R_Login_fill x m)"
    unfolding C2ZS_R_Login_get_def [abs_def] C2ZS_R_Login_fill_def
    by (rule reads_cong, (rule reads_seq stream_rules strs)+) simp_all
  then have "reads (C2ZS_R_Login_get x) (take (length (C2ZS_R_Login_body m)) (C2ZS_R_Login_body m)) (C2ZS_R_Login_fill x m)"
    by (simp add: C2ZS_R_Login_body_def)
  then show "\<exists>k. reads (C2ZS_R_Login_get x) (take k (C2ZS_R_Login_body m)) (C2ZS_R_Login_fill x m)" ..
next
  fix m :: C2ZS_R_Login
  assume v: "str_mem (C2ZS_R_Login.m_strAccount m) \<and> str_mem (C2ZS_R_Login.m_strPassword m)"
  then have strs: "put_safe (\<lambda>h. putString h (C2ZS_R_Login.m_strAccount m))"
    "put_safe (\<lambda>h. putString h (C2ZS_R_Login.m_strPassword m))"
    by (simp_all add: put_safe_str_mem)
  show "keeps_wf (C2ZS_R_Login_put m)"
    unfolding C2ZS_R_Login_put_def [abs_def]
    by ((rule keeps_wf_seq keeps_wf_put safe_rules strs)+)
qed

subsection \<open>\<open>ZS2C_A_Login\<close>\<close>

text \<open>The answer to a login; the entries of the server list follow it in the same message.\<close>

record ZS2C_A_Login = BaseMessage +
  m_iErrorCode :: u32
  m_DynmicCode :: u32
  m_iCount :: u32
  m_iID :: u32
  m_strName :: string
  m_strIP :: string
  m_wPort :: u16
  m_State :: u8

definition ZS2C_A_Login_new :: "ZS2C_A_Login \<Rightarrow> ZS2C_A_Login" where
  "ZS2C_A_Login_new junk =
     junk\<lparr>m_iMainProtocol := word_of_int (main_code FM_ZDQ_LOGIN),
          m_iSubProtocol := word_of_int (sub_code ZS2C_A_LOGIN),
          ZS2C_A_Login.m_DynmicCode := 0,
          ZS2C_A_Login.m_iCount := 0,
          ZS2C_A_Login.m_iID := 0,
          ZS2C_A_Login.m_strName := '''',
          ZS2C_A_Login.m_strIP := '''',
          ZS2C_A_Login.m_wPort := 0,
          ZS2C_A_Login.m_State := -1\<rparr>"

definition ZS2C_A_Login_put :: "ZS2C_A_Login \<Rightarrow> HMessage \<Rightarrow> HMessage res" where
  "ZS2C_A_Login_put this hmg =
     rbind (BaseMessage_put this hmg) (\<lambda>hmg.
     rbind (putUInt hmg (ZS2C_A_Login.m_iErrorCode this)) (\<lambda>(_, hmg).
     rbind (putUInt hmg (ZS2C_A_Login.m_DynmicCode this)) (\<lambda>(_, hmg).
     rbind (putUInt hmg (ZS2C_A_Login.m_iCount this)) (\<lambda>(_, hmg). Inr hmg))))"

definition ZS2C_A_Login_get :: "ZS2C_A_Login \<Rightarrow> HMessage \<Rightarrow> (ZS2C_A_Login \<times> HMessage) res" where
  "ZS2C_A_Login_get this hmg =
     rbind (getUInt hmg) (\<lambda>(v0, hmg).
     rbind (getUInt hmg) (\<lambda>(v1, hmg).
     rbind (getUInt hmg) (\<lambda>(v2, hmg).
       Inr (this\<lparr>ZS2C_A_Login.m_iErrorCode := v0, ZS2C_A_Login.m_DynmicCode := v1, ZS2C_A_Login.m_iCount := v2\<rparr>, hmg))))"

definition ZS2C_A_Login_putServerData :: "ZS2C_A_Login \<Rightarrow> HMessage \<Rightarrow> HMessage res" where
  "ZS2C_A_Login_putServerData this hmg =
     rbind (putUInt hmg (ZS2C_A_Login.m_iID this)) (\<lambda>(_, hmg).
     rbind (putString hmg (ZS2C_A_Login.m_strName this)) (\<lambda>(_, hmg).
     rbind (putString hmg (ZS2C_A_Login.m_strIP this)) (\<lambda>(_, hmg).
     rbind (putUShort hmg (ZS2C_A_Login.m_wPort this)) (\<lambda>(_, hmg).
     rbind (putChar hmg (ZS2C_A_Login.m_State this)) (\<lambda>(_, hmg). Inr hmg)))))"

definition ZS2C_A_Login_getServerData :: "ZS2C_A_Login \<Rightarrow> HMessage \<Rightarrow> (ZS2C_A_Login \<times> HMessage) res" where
  "ZS2C_A_Login_getServerData this hmg =
     rbind (getUInt hmg) (\<lambda>(v0, hmg).
     rbind (getString hmg) (\<lambda>(v1, hmg).
     rbind (getString hmg) (\<lambda>(v2, hmg).
     rbind (getUShort hmg) (\<lambda>(v3, hmg).
     rbind (getByte hmg) (\<lambda>(v4, hmg).
       Inr (this\<lparr>ZS2C_A_Login.m_iID := v0, ZS2C_A_Login.m_strName := v1, ZS2C_A_Login.m_strIP := v2, ZS2C_A_Login.m_wPort := v3, ZS2C_A_Login.m_State := v4\<rparr>, hmg))))))"

definition ZS2C_A_Login_body :: "ZS2C_A_Login \<Rightarrow> u8 list" where
  "ZS2C_A_Login_body m =
     u32_be (ZS2C_A_Login.m_iErrorCode m) @ u32_be (ZS2C_A_Login.m_DynmicCode m) @ u32_be (ZS2C_A_Login.m_iCount m)"

definition ZS2C_A_Login_fill :: "ZS2C_A_Login \<Rightarrow> ZS2C_A_Login \<Rightarrow> ZS2C_A_Login" where
  "ZS2C_A_Login_fill x m = x\<lparr>ZS2C_A_Login.m_iErrorCode := ZS2C_A_Login.m_iErrorCode m,
         ZS2C_A_Login.m_DynmicCode := ZS2C_A_Login.m_DynmicCode m,
         ZS2C_A_Login.m_iCount := ZS2C_A_Login.m_iCount m\<rparr>"

interpretation login_ans: message ZS2C_A_Login_put ZS2C_A_Login_get ZS2C_A_Login_body ZS2C_A_Login_fill
  "\<lambda>_. True"
  "\<lambda>_. True"
proof unfold_locales
  fix m x :: ZS2C_A_Login
  show "writes (ZS2C_A_Login_put m) (base_bytes m @ ZS2C_A_Login_body m)"
    unfolding ZS2C_A_Login_put_def [abs_def] ZS2C_A_Login_body_def
    by (rule writes_cong, (rule writes_seq writes_puts stream_rules)+) simp
  have "reads (ZS2C_A_Login_get x) (u32_be (ZS2C_A_Login.m_iErrorCode m) @ u32_be (ZS2C_A_Login.m_DynmicCode m) @ u32_be (ZS2C_A_Login.m_iCount m)) (ZS2C_A_Login_fill x m)"
    unfolding ZS2C_A_Login_get_def [abs_def] ZS2C_A_Login_fill_def
    by (rule reads_cong, (rule reads_seq stream_rules)+) simp_all
  then have "reads (ZS2C_A_Login_get x) (take (length (ZS2C_A_Login_body m)) (ZS2C_A_Login_body m)) (ZS2C_A_Login_fill x m)"
    by (simp add: ZS2C_A_Login_body_def)
  then show "\<exists>k. reads (ZS2C_A_Login_get x) (take k (ZS2C_A_Login_body m)) (ZS2C_A_Login_fill x m)" ..
next
  fix m :: ZS2C_A_Login
  show "keeps_wf (ZS2C_A_Login_put m)"
    unfolding ZS2C_A_Login_put_def [abs_def]
    by ((rule keeps_wf_seq keeps_wf_put safe_rules)+)
qed

subsection \<open>\<open>C2ZS_R_RegisterAccount\<close>\<close>

text \<open>A client asks the account server to register an account.\<close>

record C2ZS_R_RegisterAccount = BaseMessage +
  m_strAccount :: string
  m_strPassword :: string

definition C2ZS_R_RegisterAccount_new :: "C2ZS_R_RegisterAccount \<Rightarrow> C2ZS_R_RegisterAccount" where
  "C2ZS_R_RegisterAccount_new junk =
     junk\<lparr>m_iMainProtocol := word_of_int (main_code FM_ZDQ_LOGIN),
          m_iSubProtocol := word_of_int (sub_code C2ZS_R_REGISTER),
          C2ZS_R_RegisterAccount.m_strAccount := '''',
          C2ZS_R_RegisterAccount.m_strPassword := ''''\<rparr>"

definition C2ZS_R_RegisterAccount_put :: "C2ZS_R_RegisterAccount \<Rightarrow> HMessage \<Rightarrow> HMessage res" where
  "C2ZS_R_RegisterAccount_put this hmg =
     rbind (BaseMessage_put this hmg) (\<lambda>hmg.
     rbind (putString hmg (C2ZS_R_RegisterAccount.m_strAccount this)) (\<lambda>(_, hmg).
     rbind (putString hmg (C2ZS_R_RegisterAccount.m_strPassword this)) (\<lambda>(_, hmg). Inr hmg)))"

definition C2ZS_R_RegisterAccount_get :: "C2ZS_R_RegisterAccount \<Rightarrow> HMessage \<Rightarrow> (C2ZS_R_RegisterAccount \<times> HMessage) res" where
  "C2ZS_R_RegisterAccount_get this hmg =
     rbind (getString hmg) (\<lambda>(v0, hmg).
     rbind (getString hmg) (\<lambda>(v1, hmg).
       Inr (this\<lparr>C2ZS_R_RegisterAccount.m_strAccount := v0, C2ZS_R_RegisterAccount.m_strPassword := v1\<rparr>, hmg)))"

definition C2ZS_R_RegisterAccount_body :: "C2ZS_R_RegisterAccount \<Rightarrow> u8 list" where
  "C2ZS_R_RegisterAccount_body m =
     str_enc (C2ZS_R_RegisterAccount.m_strAccount m) @ str_enc (C2ZS_R_RegisterAccount.m_strPassword m)"

definition C2ZS_R_RegisterAccount_fill :: "C2ZS_R_RegisterAccount \<Rightarrow> C2ZS_R_RegisterAccount \<Rightarrow> C2ZS_R_RegisterAccount" where
  "C2ZS_R_RegisterAccount_fill x m = x\<lparr>C2ZS_R_RegisterAccount.m_strAccount := C2ZS_R_RegisterAccount.m_strAccount m,
         C2ZS_R_RegisterAccount.m_strPassword := C2ZS_R_RegisterAccount.m_strPassword m\<rparr>"

interpretation register_req: message C2ZS_R_RegisterAccount_put C2ZS_R_RegisterAccount_get C2ZS_R_RegisterAccount_body C2ZS_R_RegisterAccount_fill
  "\<lambda>m. str_ok (C2ZS_R_RegisterAccount.m_strAccount m) \<and> str_ok (C2ZS_R_RegisterAccount.m_strPassword m)"
  "\<lambda>m. str_mem (C2ZS_R_RegisterAccount.m_strAccount m) \<and> str_mem (C2ZS_R_RegisterAccount.m_strPassword m)"
proof unfold_locales
  fix m x :: C2ZS_R_RegisterAccount
  show "writes (C2ZS_R_RegisterAccount_put m) (base_bytes m @ C2ZS_R_RegisterAccount_body m)"
    unfolding C2ZS_R_RegisterAccount_put_def [abs_def] C2ZS_R_RegisterAccount_body_def
    by (rule writes_cong, (rule writes_seq writes_puts stream_rules)+) simp
  assume v: "str_ok (C2ZS_R_RegisterAccount.m_strAccount m) \<and> str_ok (C2ZS_R_RegisterAccount.m_strPassword m)"
  from v have strs: "reads getString (str_enc (C2ZS_R_RegisterAccount.m_strAccount m)) (C2ZS_R_RegisterAccount.m_strAccount m)"
    "reads getString (str_enc (C2ZS_R_RegisterAccount.m_strPassword m)) (C2ZS_R_RegisterAccount.m_strPassword m)"
    by (simp_all add: reads_str_ok)
  have "reads (C2ZS_R_RegisterAccount_get x) (str_enc (C2ZS_R_RegisterAccount.m_strAccount m) @ str_enc (C2ZS_R_RegisterAccount.m_strPassword m)) (C2ZS_R_RegisterAccount_fill x m)"
    unfolding C2ZS_R_RegisterAccount_get_def [abs_def] C2ZS_R_RegisterAccount_fill_def
    by (rule reads_cong, (rule reads_seq stream_rules strs)+) simp_all
  then have "reads (C2ZS_R_RegisterAccount_get x) (take (length (C2ZS_R_RegisterAccount_body m)) (C2ZS_R_RegisterAccount_body m)) (C2ZS_R_RegisterAccount_fill x m)"
    by (simp add: C2ZS_R_RegisterAccount_body_def)
  then show "\<exists>k. reads (C2ZS_R_RegisterAccount_get x) (take k (C2ZS_R_RegisterAccount_body m)) (C2ZS_R_RegisterAccount_fill x m)" ..
next
  fix m :: C2ZS_R_RegisterAccount
  assume v: "str_mem (C2ZS_R_RegisterAccount.m_strAccount m) \<and> str_mem (C2ZS_R_RegisterAccount.m_strPassword m)"
  then have strs: "put_safe (\<lambda>h. putString h (C2ZS_R_RegisterAccount.m_strAccount m))"
    "put_safe (\<lambda>h. putString h (C2ZS_R_RegisterAccount.m_strPassword m))"
    by (simp_all add: put_safe_str_mem)
  show "keeps_wf (C2ZS_R_RegisterAccount_put m)"
    unfolding C2ZS_R_RegisterAccount_put_def [abs_def]
    by ((rule keeps_wf_seq keeps_wf_put safe_rules strs)+)
qed

subsection \<open>\<open>ZS2C_A_RegisterAccount\<close>\<close>

text \<open>The answer to a registration. The get of this header stops after the error code.\<close>

record ZS2C_A_RegisterAccount = BaseMessage +
  m_iErrorCode :: u32
  m_iErrorCodeIndex :: u32

definition ZS2C_A_RegisterAccount_new :: "ZS2C_A_RegisterAccount \<Rightarrow> ZS2C_A_RegisterAccount" where
  "ZS2C_A_RegisterAccount_new junk =
     junk\<lparr>m_iMainProtocol := word_of_int (main_code FM_ZDQ_LOGIN),
          m_iSubProtocol := word_of_int (sub_code ZS2C_A_REGISTER)\<rparr>"

definition ZS2C_A_RegisterAccount_put :: "ZS2C_A_RegisterAccount \<Rightarrow> HMessage \<Rightarrow> HMessage res" where
  "ZS2C_A_RegisterAccount_put this hmg =
     rbind (BaseMessage_put this hmg) (\<lambda>hmg.
     rbind (putUInt hmg (ZS2C_A_RegisterAccount.m_iErrorCode this)) (\<lambda>(_, hmg).
     rbind (putUInt hmg (ZS2C_A_RegisterAccount.m_iErrorCodeIndex this)) (\<lambda>(_, hmg). Inr hmg)))"

definition ZS2C_A_RegisterAccount_get :: "ZS2C_A_RegisterAccount \<Rightarrow> HMessage \<Rightarrow> (ZS2C_A_RegisterAccount \<times> HMessage) res" where
  "ZS2C_A_RegisterAccount_get this hmg =
     rbind (getUInt hmg) (\<lambda>(v0, hmg).
       Inr (this\<lparr>ZS2C_A_RegisterAccount.m_iErrorCode := v0\<rparr>, hmg))"

definition ZS2C_A_RegisterAccount_body :: "ZS2C_A_RegisterAccount \<Rightarrow> u8 list" where
  "ZS2C_A_RegisterAccount_body m =
     u32_be (ZS2C_A_RegisterAccount.m_iErrorCode m) @ u32_be (ZS2C_A_RegisterAccount.m_iErrorCodeIndex m)"

definition ZS2C_A_RegisterAccount_fill :: "ZS2C_A_RegisterAccount \<Rightarrow> ZS2C_A_RegisterAccount \<Rightarrow> ZS2C_A_RegisterAccount" where
  "ZS2C_A_RegisterAccount_fill x m = x\<lparr>ZS2C_A_RegisterAccount.m_iErrorCode := ZS2C_A_RegisterAccount.m_iErrorCode m\<rparr>"

interpretation register_ans: message ZS2C_A_RegisterAccount_put ZS2C_A_RegisterAccount_get ZS2C_A_RegisterAccount_body ZS2C_A_RegisterAccount_fill
  "\<lambda>_. True"
  "\<lambda>_. True"
proof unfold_locales
  fix m x :: ZS2C_A_RegisterAccount
  show "writes (ZS2C_A_RegisterAccount_put m) (base_bytes m @ ZS2C_A_RegisterAccount_body m)"
    unfolding ZS2C_A_RegisterAccount_put_def [abs_def] ZS2C_A_RegisterAccount_body_def
    by (rule writes_cong, (rule writes_seq writes_puts stream_rules)+) simp
  have "reads (ZS2C_A_RegisterAccount_get x) (u32_be (ZS2C_A_RegisterAccount.m_iErrorCode m)) (ZS2C_A_RegisterAccount_fill x m)"
    unfolding ZS2C_A_RegisterAccount_get_def [abs_def] ZS2C_A_RegisterAccount_fill_def
    by (rule reads_cong, (rule reads_seq stream_rules)+) simp_all
  then have "reads (ZS2C_A_RegisterAccount_get x) (take (4) (ZS2C_A_RegisterAccount_body m)) (ZS2C_A_RegisterAccount_fill x m)"
    by (simp add: ZS2C_A_RegisterAccount_body_def)
  then show "\<exists>k. reads (ZS2C_A_RegisterAccount_get x) (take k (ZS2C_A_RegisterAccount_body m)) (ZS2C_A_RegisterAccount_fill x m)" ..
next
  fix m :: ZS2C_A_RegisterAccount
  show "keeps_wf (ZS2C_A_RegisterAccount_put m)"
    unfolding ZS2C_A_RegisterAccount_put_def [abs_def]
    by ((rule keeps_wf_seq keeps_wf_put safe_rules)+)
qed

subsection \<open>\<open>C2DS_R_GetAllRole\<close>\<close>

text \<open>A client asks for its roles.\<close>

record C2DS_R_GetAllRole = BaseMessage +
  m_DynmicCode :: u32
  m_SessionID :: u32

definition C2DS_R_GetAllRole_new :: "C2DS_R_GetAllRole \<Rightarrow> C2DS_R_GetAllRole" where
  "C2DS_R_GetAllRole_new junk =
     junk\<lparr>m_iMainProtocol := word_of_int (main_code FM_ZDQ_LOGIN),
          m_iSubProtocol := word_of_int (sub_code C2DS_R_ALLROLE)\<rparr>"

definition C2DS_R_GetAllRole_put :: "C2DS_R_GetAllRole \<Rightarrow> HMessage \<Rightarrow> HMessage res" where
  "C2DS_R_GetAllRole_put this hmg =
     rbind (BaseMessage_put this hmg) (\<lambda>hmg.
     rbind (putUInt hmg (C2DS_R_GetAllRole.m_DynmicCode this)) (\<lambda>(_, hmg).
     rbind (putUInt hmg (C2DS_R_GetAllRole.m_SessionID this)) (\<lambda>(_, hmg). Inr hmg)))"

definition C2DS_R_GetAllRole_get :: "C2DS_R_GetAllRole \<Rightarrow> HMessage \<Rightarrow> (C2DS_R_GetAllRole \<times> HMessage) res" where
  "C2DS_R_GetAllRole_get this hmg =
     rbind (getUInt hmg) (\<lambda>(v0, hmg).
     rbind (getUInt hmg) (\<lambda>(v1, hmg).
       Inr (this\<lparr>C2DS_R_GetAllRole.m_DynmicCode := v0, C2DS_R_GetAllRole.m_SessionID := v1\<rparr>, hmg)))"

definition C2DS_R_GetAllRole_body :: "C2DS_R_GetAllRole \<Rightarrow> u8 list" where
  "C2DS_R_GetAllRole_body m =
     u32_be (C2DS_R_GetAllRole.m_DynmicCode m) @ u32_be (C2DS_R_GetAllRole.m_SessionID m)"

definition C2DS_R_GetAllRole_fill :: "C2DS_R_GetAllRole \<Rightarrow> C2DS_R_GetAllRole \<Rightarrow> C2DS_R_GetAllRole" where
  "C2DS_R_GetAllRole_fill x m = x\<lparr>C2DS_R_GetAllRole.m_DynmicCode := C2DS_R_GetAllRole.m_DynmicCode m,
         C2DS_R_GetAllRole.m_SessionID := C2DS_R_GetAllRole.m_SessionID m\<rparr>"

interpretation role_req: message C2DS_R_GetAllRole_put C2DS_R_GetAllRole_get C2DS_R_GetAllRole_body C2DS_R_GetAllRole_fill
  "\<lambda>_. True"
  "\<lambda>_. True"
proof unfold_locales
  fix m x :: C2DS_R_GetAllRole
  show "writes (C2DS_R_GetAllRole_put m) (base_bytes m @ C2DS_R_GetAllRole_body m)"
    unfolding C2DS_R_GetAllRole_put_def [abs_def] C2DS_R_GetAllRole_body_def
    by (rule writes_cong, (rule writes_seq writes_puts stream_rules)+) simp
  have "reads (C2DS_R_GetAllRole_get x) (u32_be (C2DS_R_GetAllRole.m_DynmicCode m) @ u32_be (C2DS_R_GetAllRole.m_SessionID m)) (C2DS_R_GetAllRole_fill x m)"
    unfolding C2DS_R_GetAllRole_get_def [abs_def] C2DS_R_GetAllRole_fill_def
    by (rule reads_cong, (rule reads_seq stream_rules)+) simp_all
  then have "reads (C2DS_R_GetAllRole_get x) (take (length (C2DS_R_GetAllRole_body m)) (C2DS_R_GetAllRole_body m)) (C2DS_R_GetAllRole_fill x m)"
    by (simp add: C2DS_R_GetAllRole_body_def)
  then show "\<exists>k. reads (C2DS_R_GetAllRole_get x) (take k (C2DS_R_GetAllRole_body m)) (C2DS_R_GetAllRole_fill x m)" ..
next
  fix m :: C2DS_R_GetAllRole
  show "keeps_wf (C2DS_R_GetAllRole_put m)"
    unfolding C2DS_R_GetAllRole_put_def [abs_def]
    by ((rule keeps_wf_seq keeps_wf_put safe_rules)+)
qed

subsection \<open>\<open>DS2ZS_R_CheckDynmicCode\<close>\<close>

text \<open>A data server asks the account server to verify a dynamic code.\<close>

record DS2ZS_R_CheckDynmicCode = BaseMessage +
  m_DynmicCode :: u32
  m_SessionID :: u32
  m_SessionIDFromDS :: u32

definition DS2ZS_R_CheckDynmicCode_new :: "DS2ZS_R_CheckDynmicCode \<Rightarrow> DS2ZS_R_CheckDynmicCode" where
  "DS2ZS_R_CheckDynmicCode_new junk =
     junk\<lparr>m_iMainProtocol := word_of_int (main_code FM_Q_ROUND_MESSAGE),
          m_iSubProtocol := word_of_int (sub_code DS2ZS_R_CHECKDYNMICCODE)\<rparr>"

definition DS2ZS_R_CheckDynmicCode_put :: "DS2ZS_R_CheckDynmicCode \<Rightarrow> HMessage \<Rightarrow> HMessage res" where
  "DS2ZS_R_CheckDynmicCode_put this hmg =
     rbind (BaseMessage_put this hmg) (\<lambda>hmg.
     rbind (putUInt hmg (DS2ZS_R_CheckDynmicCode.m_DynmicCode this)) (\<lambda>(_, hmg).
     rbind (putUInt hmg (DS2ZS_R_CheckDynmicCode.m_SessionID this)) (\<lambda>(_, hmg).
     rbind (putUInt hmg (DS2ZS_R_CheckDynmicCode.m_SessionIDFromDS this)) (\<lambda>(_, hmg). Inr hmg))))"

definition DS2ZS_R_CheckDynmicCode_get :: "DS2ZS_R_CheckDynmicCode \<Rightarrow> HMessage \<Rightarrow> (DS2ZS_R_CheckDynmicCode \<times> HMessage) res" where
  "DS2ZS_R_CheckDynmicCode_get this hmg =
     rbind (getUInt hmg) (\<lambda>(v0, hmg).
     rbind (getUInt hmg) (\<lambda>(v1, hmg).
     rbind (getUInt hmg) (\<lambda>(v2, hmg).
       Inr (this\<lparr>DS2ZS_R_CheckDynmicCode.m_DynmicCode := v0, DS2ZS_R_CheckDynmicCode.m_SessionID := v1, DS2ZS_R_CheckDynmicCode.m_SessionIDFromDS := v2\<rparr>, hmg))))"

definition DS2ZS_R_CheckDynmicCode_body :: "DS2ZS_R_CheckDynmicCode \<Rightarrow> u8 list" where
  "DS2ZS_R_CheckDynmicCode_body m =
     u32_be (DS2ZS_R_CheckDynmicCode.m_DynmicCode m) @ u32_be (DS2ZS_R_CheckDynmicCode.m_SessionID m) @ u32_be (DS2ZS_R_CheckDynmicCode.m_SessionIDFromDS m)"

definition DS2ZS_R_CheckDynmicCode_fill :: "DS2ZS_R_CheckDynmicCode \<Rightarrow> DS2ZS_R_CheckDynmicCode \<Rightarrow> DS2ZS_R_CheckDynmicCode" where
  "DS2ZS_R_CheckDynmicCode_fill x m = x\<lparr>DS2ZS_R_CheckDynmicCode.m_DynmicCode := DS2ZS_R_CheckDynmicCode.m_DynmicCode m,
         DS2ZS_R_CheckDynmicCode.m_SessionID := DS2ZS_R_CheckDynmicCode.m_SessionID m,
         DS2ZS_R_CheckDynmicCode.m_SessionIDFromDS := DS2ZS_R_CheckDynmicCode.m_SessionIDFromDS m\<rparr>"

interpretation check_req: message DS2ZS_R_CheckDynmicCode_put DS2ZS_R_CheckDynmicCode_get DS2ZS_R_CheckDynmicCode_body DS2ZS_R_CheckDynmicCode_fill
  "\<lambda>_. True"
  "\<lambda>_. True"
proof unfold_locales
  fix m x :: DS2ZS_R_CheckDynmicCode
  show "writes (DS2ZS_R_CheckDynmicCode_put m) (base_bytes m @ DS2ZS_R_CheckDynmicCode_body m)"
    unfolding DS2ZS_R_CheckDynmicCode_put_def [abs_def] DS2ZS_R_CheckDynmicCode_body_def
    by (rule writes_cong, (rule writes_seq writes_puts stream_rules)+) simp
  have "reads (DS2ZS_R_CheckDynmicCode_get x) (u32_be (DS2ZS_R_CheckDynmicCode.m_DynmicCode m) @ u32_be (DS2ZS_R_CheckDynmicCode.m_SessionID m) @ u32_be (DS2ZS_R_CheckDynmicCode.m_SessionIDFromDS m)) (DS2ZS_R_CheckDynmicCode_fill x m)"
    unfolding DS2ZS_R_CheckDynmicCode_get_def [abs_def] DS2ZS_R_CheckDynmicCode_fill_def
    by (rule reads_cong, (rule reads_seq stream_rules)+) simp_all
  then have "reads (DS2ZS_R_CheckDynmicCode_get x) (take (length (DS2ZS_R_CheckDynmicCode_body m)) (DS2ZS_R_CheckDynmicCode_body m)) (DS2ZS_R_CheckDynmicCode_fill x m)"
    by (simp add: DS2ZS_R_CheckDynmicCode_body_def)
  then show "\<exists>k. reads (DS2ZS_R_CheckDynmicCode_get x) (take k (DS2ZS_R_CheckDynmicCode_body m)) (DS2ZS_R_CheckDynmicCode_fill x m)" ..
next
  fix m :: DS2ZS_R_CheckDynmicCode
  show "keeps_wf (DS2ZS_R_CheckDynmicCode_put m)"
    unfolding DS2ZS_R_CheckDynmicCode_put_def [abs_def]
    by ((rule keeps_wf_seq keeps_wf_put safe_rules)+)
qed

subsection \<open>\<open>ZS2DS_A_CheckDynmicCode\<close>\<close>

text \<open>The answer to the verification of a dynamic code.\<close>

record ZS2DS_A_CheckDynmicCode = BaseMessage +
  m_isOK :: u32
  m_SessionIDFromDS :: u32

definition ZS2DS_A_CheckDynmicCode_new :: "ZS2DS_A_CheckDynmicCode \<Rightarrow> ZS2DS_A_CheckDynmicCode" where
  "ZS2DS_A_CheckDynmicCode_new junk =
     junk\<lparr>m_iMainProtocol := word_of_int (main_code FM_Q_ROUND_MESSAGE),
          m_iSubProtocol := word_of_int (sub_code ZS2DS_A_CHECKDYNMICCODE)\<rparr>"

definition ZS2DS_A_CheckDynmicCode_put :: "ZS2DS_A_CheckDynmicCode \<Rightarrow> HMessage \<Rightarrow> HMessage res" where
  "ZS2DS_A_CheckDynmicCode_put this hmg =
     rbind (BaseMessage_put this hmg) (\<lambda>hmg.
     rbind (putUInt hmg (ZS2DS_A_CheckDynmicCode.m_isOK this)) (\<lambda>(_, hmg).
     rbind (putUInt hmg (ZS2DS_A_CheckDynmicCode.m_SessionIDFromDS this)) (\<lambda>(_, hmg). Inr hmg)))"

definition ZS2DS_A_CheckDynmicCode_get :: "ZS2DS_A_CheckDynmicCode \<Rightarrow> HMessage \<Rightarrow> (ZS2DS_A_CheckDynmicCode \<times> HMessage) res" where
  "ZS2DS_A_CheckDynmicCode_get this hmg =
     rbind (getUInt hmg) (\<lambda>(v0, hmg).
     rbind (getUInt hmg) (\<lambda>(v1, hmg).
       Inr (this\<lparr>ZS2DS_A_CheckDynmicCode.m_isOK := v0, ZS2DS_A_CheckDynmicCode.m_SessionIDFromDS := v1\<rparr>, hmg)))"

definition ZS2DS_A_CheckDynmicCode_body :: "ZS2DS_A_CheckDynmicCode \<Rightarrow> u8 list" where
  "ZS2DS_A_CheckDynmicCode_body m =
     u32_be (ZS2DS_A_CheckDynmicCode.m_isOK m) @ u32_be (ZS2DS_A_CheckDynmicCode.m_SessionIDFromDS m)"

definition ZS2DS_A_CheckDynmicCode_fill :: "ZS2DS_A_CheckDynmicCode \<Rightarrow> ZS2DS_A_CheckDynmicCode \<Rightarrow> ZS2DS_A_CheckDynmicCode" where
  "ZS2DS_A_CheckDynmicCode_fill x m = x\<lparr>ZS2DS_A_CheckDynmicCode.m_isOK := ZS2DS_A_CheckDynmicCode.m_isOK m,
         ZS2DS_A_CheckDynmicCode.m_SessionIDFromDS := ZS2DS_A_CheckDynmicCode.m_SessionIDFromDS m\<rparr>"

interpretation check_ans: message ZS2DS_A_CheckDynmicCode_put ZS2DS_A_CheckDynmicCode_get ZS2DS_A_CheckDynmicCode_body ZS2DS_A_CheckDynmicCode_fill
  "\<lambda>_. True"
  "\<lambda>_. True"
proof unfold_locales
  fix m x :: ZS2DS_A_CheckDynmicCode
  show "writes (ZS2DS_A_CheckDynmicCode_put m) (base_bytes m @ ZS2DS_A_CheckDynmicCode_body m)"
    unfolding ZS2DS_A_CheckDynmicCode_put_def [abs_def] ZS2DS_A_CheckDynmicCode_body_def
    by (rule writes_cong, (rule writes_seq writes_puts stream_rules)+) simp
  have "reads (ZS2DS_A_CheckDynmicCode_get x) (u32_be (ZS2DS_A_CheckDynmicCode.m_isOK m) @ u32_be (ZS2DS_A_CheckDynmicCode.m_SessionIDFromDS m)) (ZS2DS_A_CheckDynmicCode_fill x m)"
    unfolding ZS2DS_A_CheckDynmicCode_get_def [abs_def] ZS2DS_A_CheckDynmicCode_fill_def
    by (rule reads_cong, (rule reads_seq stream_rules)+) simp_all
  then have "reads (ZS2DS_A_CheckDynmicCode_get x) (take (length (ZS2DS_A_CheckDynmicCode_body m)) (ZS2DS_A_CheckDynmicCode_body m)) (ZS2DS_A_CheckDynmicCode_fill x m)"
    by (simp add: ZS2DS_A_CheckDynmicCode_body_def)
  then show "\<exists>k. reads (ZS2DS_A_CheckDynmicCode_get x) (take k (ZS2DS_A_CheckDynmicCode_body m)) (ZS2DS_A_CheckDynmicCode_fill x m)" ..
next
  fix m :: ZS2DS_A_CheckDynmicCode
  show "keeps_wf (ZS2DS_A_CheckDynmicCode_put m)"
    unfolding ZS2DS_A_CheckDynmicCode_put_def [abs_def]
    by ((rule keeps_wf_seq keeps_wf_put safe_rules)+)
qed

subsection \<open>\<open>GS2C_A_Login\<close>\<close>

text \<open>The game server answers a client that enters the game.\<close>

record GS2C_A_Login = BaseMessage +
  m_iErrorCode :: u32

definition GS2C_A_Login_new :: "GS2C_A_Login \<Rightarrow> GS2C_A_Login" where
  "GS2C_A_Login_new junk =
     junk\<lparr>m_iMainProtocol := word_of_int (main_code FM_ZDQ_LOGIN),
          m_iSubProtocol := word_of_int (sub_code GS2C_A_CHECKDYNMICCODE)\<rparr>"

definition GS2C_A_Login_put :: "GS2C_A_Login \<Rightarrow> HMessage \<Rightarrow> HMessage res" where
  "GS2C_A_Login_put this hmg =
     rbind (BaseMessage_put this hmg) (\<lambda>hmg.
     rbind (putUInt hmg (GS2C_A_Login.m_iErrorCode this)) (\<lambda>(_, hmg). Inr hmg))"

definition GS2C_A_Login_get :: "GS2C_A_Login \<Rightarrow> HMessage \<Rightarrow> (GS2C_A_Login \<times> HMessage) res" where
  "GS2C_A_Login_get this hmg =
     rbind (getUInt hmg) (\<lambda>(v0, hmg).
       Inr (this\<lparr>GS2C_A_Login.m_iErrorCode := v0\<rparr>, hmg))"

definition GS2C_A_Login_body :: "GS2C_A_Login \<Rightarrow> u8 list" where
  "GS2C_A_Login_body m =
     u32_be (GS2C_A_Login.m_iErrorCode m)"

definition GS2C_A_Login_fill :: "GS2C_A_Login \<Rightarrow> GS2C_A_Login \<Rightarrow> GS2C_A_Login" where
  "GS2C_A_Login_fill x m = x\<lparr>GS2C_A_Login.m_iErrorCode := GS2C_A_Login.m_iErrorCode m\<rparr>"

interpretation game_ans: message GS2C_A_Login_put GS2C_A_Login_get GS2C_A_Login_body GS2C_A_Login_fill
  "\<lambda>_. True"
  "\<lambda>_. True"
proof unfold_locales
  fix m x :: GS2C_A_Login
  show "writes (GS2C_A_Login_put m) (base_bytes m @ GS2C_A_Login_body m)"
    unfolding GS2C_A_Login_put_def [abs_def] GS2C_A_Login_body_def
    by (rule writes_cong, (rule writes_seq writes_puts stream_rules)+) simp
  have "reads (GS2C_A_Login_get x) (u32_be (GS2C_A_Login.m_iErrorCode m)) (GS2C_A_Login_fill x m)"
    unfolding GS2C_A_Login_get_def [abs_def] GS2C_A_Login_fill_def
    by (rule reads_cong, (rule reads_seq stream_rules)+) simp_all
  then have "reads (GS2C_A_Login_get x) (take (length (GS2C_A_Login_body m)) (GS2C_A_Login_body m)) (GS2C_A_Login_fill x m)"
    by (simp add: GS2C_A_Login_body_def)
  then show "\<exists>k. reads (GS2C_A_Login_get x) (take k (GS2C_A_Login_body m)) (GS2C_A_Login_fill x m)" ..
next
  fix m :: GS2C_A_Login
  show "keeps_wf (GS2C_A_Login_put m)"
    unfolding GS2C_A_Login_put_def [abs_def]
    by ((rule keeps_wf_seq keeps_wf_put safe_rules)+)
qed

subsection \<open>\<open>GS2DS_R_CheckDynmicCode\<close>\<close>

text \<open>The game server asks the data server to verify a dynamic code.\<close>

record GS2DS_R_CheckDynmicCode = BaseMessage +
  m_DynmicCode :: u32
  m_SessionID :: u32

definition GS2DS_R_CheckDynmicCode_new :: "GS2DS_R_CheckDynmicCode \<Rightarrow> GS2DS_R_CheckDynmicCode" where
  "GS2DS_R_CheckDynmicCode_new junk =
     junk\<lparr>m_iMainProtocol := word_of_int (main_code FM_Q_ROUND_MESSAGE),
          m_iSubProtocol := word_of_int (sub_code GS2DS_R_CHECKDYNMICCODE)\<rparr>"

definition GS2DS_R_CheckDynmicCode_put :: "GS2DS_R_CheckDynmicCode \<Rightarrow> HMessage \<Rightarrow> HMessage res" where
  "GS2DS_R_CheckDynmicCode_put this hmg =
     rbind (BaseMessage_put this hmg) (\<lambda>hmg.
     rbind (putUInt hmg (GS2DS_R_CheckDynmicCode.m_DynmicCode this)) (\<lambda>(_, hmg).
     rbind (putUInt hmg (GS2DS_R_CheckDynmicCode.m_SessionID this)) (\<lambda>(_, hmg). Inr hmg)))"

definition GS2DS_R_CheckDynmicCode_get :: "GS2DS_R_CheckDynmicCode \<Rightarrow> HMessage \<Rightarrow> (GS2DS_R_CheckDynmicCode \<times> HMessage) res" where
  "GS2DS_R_CheckDynmicCode_get this hmg =
     rbind (getUInt hmg) (\<lambda>(v0, hmg).
     rbind (getUInt hmg) (\<lambda>(v1, hmg).
       Inr (this\<lparr>GS2DS_R_CheckDynmicCode.m_DynmicCode := v0, GS2DS_R_CheckDynmicCode.m_SessionID := v1\<rparr>, hmg)))"

definition GS2DS_R_CheckDynmicCode_body :: "GS2DS_R_CheckDynmicCode \<Rightarrow> u8 list" where
  "GS2DS_R_CheckDynmicCode_body m =
     u32_be (GS2DS_R_CheckDynmicCode.m_DynmicCode m) @ u32_be (GS2DS_R_CheckDynmicCode.m_SessionID m)"

definition GS2DS_R_CheckDynmicCode_fill :: "GS2DS_R_CheckDynmicCode \<Rightarrow> GS2DS_R_CheckDynmicCode \<Rightarrow> GS2DS_R_CheckDynmicCode" where
  "GS2DS_R_CheckDynmicCode_fill x m = x\<lparr>GS2DS_R_CheckDynmicCode.m_DynmicCode := GS2DS_R_CheckDynmicCode.m_DynmicCode m,
         GS2DS_R_CheckDynmicCode.m_SessionID := GS2DS_R_CheckDynmicCode.m_SessionID m\<rparr>"

interpretation gscheck_req: message GS2DS_R_CheckDynmicCode_put GS2DS_R_CheckDynmicCode_get GS2DS_R_CheckDynmicCode_body GS2DS_R_CheckDynmicCode_fill
  "\<lambda>_. True"
  "\<lambda>_. True"
proof unfold_locales
  fix m x :: GS2DS_R_CheckDynmicCode
  show "writes (GS2DS_R_CheckDynmicCode_put m) (base_bytes m @ GS2DS_R_CheckDynmicCode_body m)"
    unfolding GS2DS_R_CheckDynmicCode_put_def [abs_def] GS2DS_R_CheckDynmicCode_body_def
    by (rule writes_cong, (rule writes_seq writes_puts stream_rules)+) simp
  have "reads (GS2DS_R_CheckDynmicCode_get x) (u32_be (GS2DS_R_CheckDynmicCode.m_DynmicCode m) @ u32_be (GS2DS_R_CheckDynmicCode.m_SessionID m)) (GS2DS_R_CheckDynmicCode_fill x m)"
    unfolding GS2DS_R_CheckDynmicCode_get_def [abs_def] GS2DS_R_CheckDynmicCode_fill_def
    by (rule reads_cong, (rule reads_seq stream_rules)+) simp_all
  then have "reads (GS2DS_R_CheckDynmicCode_get x) (take (length (GS2DS_R_CheckDynmicCode_body m)) (GS2DS_R_CheckDynmicCode_body m)) (GS2DS_R_CheckDynmicCode_fill x m)"
    by (simp add: GS2DS_R_CheckDynmicCode_body_def)
  then show "\<exists>k. reads (GS2DS_R_CheckDynmicCode_get x) (take k (GS2DS_R_CheckDynmicCode_body m)) (GS2DS_R_CheckDynmicCode_fill x m)" ..
next
  fix m :: GS2DS_R_CheckDynmicCode
  show "keeps_wf (GS2DS_R_CheckDynmicCode_put m)"
    unfolding GS2DS_R_CheckDynmicCode_put_def [abs_def]
    by ((rule keeps_wf_seq keeps_wf_put safe_rules)+)
qed

subsection \<open>\<open>DS2GS_A_CheckDynmicCode\<close>\<close>

text \<open>The answer of the data server to the game server.\<close>

record DS2GS_A_CheckDynmicCode = BaseMessage +
  m_isOK :: u32
  m_SessionID :: u32

definition DS2GS_A_CheckDynmicCode_new :: "DS2GS_A_CheckDynmicCode \<Rightarrow> DS2GS_A_CheckDynmicCode" where
  "DS2GS_A_CheckDynmicCode_new junk =
     junk\<lparr>m_iMainProtocol := word_of_int (main_code FM_Q_ROUND_MESSAGE),
          m_iSubProtocol := word_of_int (sub_code DS2GS_A_CHECKDYNMICCODE)\<rparr>"

definition DS2GS_A_CheckDynmicCode_put :: "DS2GS_A_CheckDynmicCode \<Rightarrow> HMessage \<Rightarrow> HMessage res" where
  "DS2GS_A_CheckDynmicCode_put this hmg =
     rbind (BaseMessage_put this hmg) (\<lambda>hmg.
     rbind (putUInt hmg (DS2GS_A_CheckDynmicCode.m_isOK this)) (\<lambda>(_, hmg).
     rbind (putUInt hmg (DS2GS_A_CheckDynmicCode.m_SessionID this)) (\<lambda>(_, hmg). Inr hmg)))"

definition DS2GS_A_CheckDynmicCode_get :: "DS2GS_A_CheckDynmicCode \<Rightarrow> HMessage \<Rightarrow> (DS2GS_A_CheckDynmicCode \<times> HMessage) res" where
  "DS2GS_A_CheckDynmicCode_get this hmg =
     rbind (getUInt hmg) (\<lambda>(v0, hmg).
     rbind (getUInt hmg) (\<lambda>(v1, hmg).
       Inr (this\<lparr>DS2GS_A_CheckDynmicCode.m_isOK := v0, DS2GS_A_CheckDynmicCode.m_SessionID := v1\<rparr>, hmg)))"

definition DS2GS_A_CheckDynmicCode_body :: "DS2GS_A_CheckDynmicCode \<Rightarrow> u8 list" where
  "DS2GS_A_CheckDynmicCode_body m =
     u32_be (DS2GS_A_CheckDynmicCode.m_isOK m) @ u32_be (DS2GS_A_CheckDynmicCode.m_SessionID m)"

definition DS2GS_A_CheckDynmicCode_fill :: "DS2GS_A_CheckDynmicCode \<Rightarrow> DS2GS_A_CheckDynmicCode \<Rightarrow> DS2GS_A_CheckDynmicCode" where
  "DS2GS_A_CheckDynmicCode_fill x m = x\<lparr>DS2GS_A_CheckDynmicCode.m_isOK := DS2GS_A_CheckDynmicCode.m_isOK m,
         DS2GS_A_CheckDynmicCode.m_SessionID := DS2GS_A_CheckDynmicCode.m_SessionID m\<rparr>"

interpretation gscheck_ans: message DS2GS_A_CheckDynmicCode_put DS2GS_A_CheckDynmicCode_get DS2GS_A_CheckDynmicCode_body DS2GS_A_CheckDynmicCode_fill
  "\<lambda>_. True"
  "\<lambda>_. True"
proof unfold_locales
  fix m x :: DS2GS_A_CheckDynmicCode
  show "writes (DS2GS_A_CheckDynmicCode_put m) (base_bytes m @ DS2GS_A_CheckDynmicCode_body m)"
    unfolding DS2GS_A_CheckDynmicCode_put_def [abs_def] DS2GS_A_CheckDynmicCode_body_def
    by (rule writes_cong, (rule writes_seq writes_puts stream_rules)+) simp
  have "reads (DS2GS_A_CheckDynmicCode_get x) (u32_be (DS2GS_A_CheckDynmicCode.m_isOK m) @ u32_be (DS2GS_A_CheckDynmicCode.m_SessionID m)) (DS2GS_A_CheckDynmicCode_fill x m)"
    unfolding DS2GS_A_CheckDynmicCode_get_def [abs_def] DS2GS_A_CheckDynmicCode_fill_def
    by (rule reads_cong, (rule reads_seq stream_rules)+) simp_all
  then have "reads (DS2GS_A_CheckDynmicCode_get x) (take (length (DS2GS_A_CheckDynmicCode_body m)) (DS2GS_A_CheckDynmicCode_body m)) (DS2GS_A_CheckDynmicCode_fill x m)"
    by (simp add: DS2GS_A_CheckDynmicCode_body_def)
  then show "\<exists>k. reads (DS2GS_A_CheckDynmicCode_get x) (take k (DS2GS_A_CheckDynmicCode_body m)) (DS2GS_A_CheckDynmicCode_fill x m)" ..
next
  fix m :: DS2GS_A_CheckDynmicCode
  show "keeps_wf (DS2GS_A_CheckDynmicCode_put m)"
    unfolding DS2GS_A_CheckDynmicCode_put_def [abs_def]
    by ((rule keeps_wf_seq keeps_wf_put safe_rules)+)
qed

subsection \<open>\<open>ZS2C_A_ErrorMessage\<close>\<close>

text \<open>An error message; its sub-protocol is the bare number 2.\<close>

record ZS2C_A_ErrorMessage = BaseMessage +
  m_iErrorCode :: u32

definition ZS2C_A_ErrorMessage_new :: "ZS2C_A_ErrorMessage \<Rightarrow> ZS2C_A_ErrorMessage" where
  "ZS2C_A_ErrorMessage_new junk =
     junk\<lparr>m_iMainProtocol := word_of_int (main_code ZB_ERROR_MESSAGE),
          m_iSubProtocol := 2\<rparr>"

definition ZS2C_A_ErrorMessage_put :: "ZS2C_A_ErrorMessage \<Rightarrow> HMessage \<Rightarrow> HMessage res" where
  "ZS2C_A_ErrorMessage_put this hmg =
     rbind (BaseMessage_put this hmg) (\<lambda>hmg.
     rbind (putUInt hmg (ZS2C_A_ErrorMessage.m_iErrorCode this)) (\<lambda>(_, hmg). Inr hmg))"

definition ZS2C_A_ErrorMessage_get :: "ZS2C_A_ErrorMessage \<Rightarrow> HMessage \<Rightarrow> (ZS2C_A_ErrorMessage \<times> HMessage) res" where
  "ZS2C_A_ErrorMessage_get this hmg =
     rbind (getUInt hmg) (\<lambda>(v0, hmg).
       Inr (this\<lparr>ZS2C_A_ErrorMessage.m_iErrorCode := v0\<rparr>, hmg))"

definition ZS2C_A_ErrorMessage_body :: "ZS2C_A_ErrorMessage \<Rightarrow> u8 list" where
  "ZS2C_A_ErrorMessage_body m =
     u32_be (ZS2C_A_ErrorMessage.m_iErrorCode m)"

definition ZS2C_A_ErrorMessage_fill :: "ZS2C_A_ErrorMessage \<Rightarrow> ZS2C_A_ErrorMessage \<Rightarrow> ZS2C_A_ErrorMessage" where
  "ZS2C_A_ErrorMessage_fill x m = x\<lparr>ZS2C_A_ErrorMessage.m_iErrorCode := ZS2C_A_ErrorMessage.m_iErrorCode m\<rparr>"

interpretation error_msg: message ZS2C_A_ErrorMessage_put ZS2C_A_ErrorMessage_get ZS2C_A_ErrorMessage_body ZS2C_A_ErrorMessage_fill
  "\<lambda>_. True"
  "\<lambda>_. True"
proof unfold_locales
  fix m x :: ZS2C_A_ErrorMessage
  show "writes (ZS2C_A_ErrorMessage_put m) (base_bytes m @ ZS2C_A_ErrorMessage_body m)"
    unfolding ZS2C_A_ErrorMessage_put_def [abs_def] ZS2C_A_ErrorMessage_body_def
    by (rule writes_cong, (rule writes_seq writes_puts stream_rules)+) simp
  have "reads (ZS2C_A_ErrorMessage_get x) (u32_be (ZS2C_A_ErrorMessage.m_iErrorCode m)) (ZS2C_A_ErrorMessage_fill x m)"
    unfolding ZS2C_A_ErrorMessage_get_def [abs_def] ZS2C_A_ErrorMessage_fill_def
    by (rule reads_cong, (rule reads_seq stream_rules)+) simp_all
  then have "reads (ZS2C_A_ErrorMessage_get x) (take (length (ZS2C_A_ErrorMessage_body m)) (ZS2C_A_ErrorMessage_body m)) (ZS2C_A_ErrorMessage_fill x m)"
    by (simp add: ZS2C_A_ErrorMessage_body_def)
  then show "\<exists>k. reads (ZS2C_A_ErrorMessage_get x) (take k (ZS2C_A_ErrorMessage_body m)) (ZS2C_A_ErrorMessage_fill x m)" ..
next
  fix m :: ZS2C_A_ErrorMessage
  show "keeps_wf (ZS2C_A_ErrorMessage_put m)"
    unfolding ZS2C_A_ErrorMessage_put_def [abs_def]
    by ((rule keeps_wf_seq keeps_wf_put safe_rules)+)
qed
subsection \<open>The server list of a login answer\<close>

text \<open>
  One entry of the list, as \<open>putServerData\<close> writes it and \<open>getServerData\<close> reads it.
\<close>

definition server_bytes :: "ZS2C_A_Login \<Rightarrow> u8 list" where
  "server_bytes m =
     u32_be (m_iID m) @ str_enc (m_strName m) @ str_enc (m_strIP m) @ u16_le (m_wPort m) @
     [m_State m]"

lemma writes_putServerData [stream_rules]:
  "writes (ZS2C_A_Login_putServerData m) (server_bytes m)"
  unfolding ZS2C_A_Login_putServerData_def [abs_def] server_bytes_def
  by (rule writes_cong, (rule writes_seq writes_puts stream_rules)+) simp

lemma reads_getServerData:
  assumes "str_ok (m_strName m)" and "str_ok (m_strIP m)"
  shows "reads (ZS2C_A_Login_getServerData x) (server_bytes m)
     (x\<lparr>m_iID := m_iID m, m_strName := m_strName m, m_strIP := m_strIP m,
        m_wPort := m_wPort m, m_State := m_State m\<rparr>)"
proof -
  have strs: "reads getString (str_enc (m_strName m)) (m_strName m)"
    "reads getString (str_enc (m_strIP m)) (m_strIP m)"
    using assms by (simp_all add: reads_str_ok)
  show ?thesis
    unfolding ZS2C_A_Login_getServerData_def [abs_def] server_bytes_def
    by (rule reads_cong, (rule reads_seq stream_rules strs)+) simp_all
qed

lemma keeps_wf_putServerData:
  assumes "str_mem (m_strName m)" and "str_mem (m_strIP m)"
  shows "keeps_wf (ZS2C_A_Login_putServerData m)"
proof -
  have strs: "put_safe (\<lambda>h. putString h (m_strName m))" "put_safe (\<lambda>h. putString h (m_strIP m))"
    using assms by (simp_all add: put_safe_str_mem)
  show ?thesis
    unfolding ZS2C_A_Login_putServerData_def [abs_def]
    by ((rule keeps_wf_seq keeps_wf_put safe_rules strs)+)
qed

subsection \<open>\<open>C2GS_R_Login\<close>\<close>

text \<open>A client asks to enter the game: a message with a header and no body.\<close>

type_synonym C2GS_R_Login = BaseMessage

definition C2GS_R_Login_new :: "C2GS_R_Login \<Rightarrow> C2GS_R_Login" where
  "C2GS_R_Login_new junk =
     junk\<lparr>m_iMainProtocol := word_of_int (main_code FM_ZDQ_LOGIN),
          m_iSubProtocol := word_of_int (sub_code C2GS_R_CHECKDYNMICCODE)\<rparr>"

definition C2GS_R_Login_put :: "C2GS_R_Login \<Rightarrow> HMessage \<Rightarrow> HMessage res" where
  "C2GS_R_Login_put this hmg = BaseMessage_put this hmg"

definition C2GS_R_Login_get :: "C2GS_R_Login \<Rightarrow> HMessage \<Rightarrow> (C2GS_R_Login \<times> HMessage) res" where
  "C2GS_R_Login_get this hmg = Inr (this, hmg)"

interpretation enter_req: message C2GS_R_Login_put C2GS_R_Login_get "\<lambda>_. []" "\<lambda>x _. x"
  "\<lambda>_. True" "\<lambda>_. True"
proof unfold_locales
  fix m x :: C2GS_R_Login
  show "writes (C2GS_R_Login_put m) (base_bytes m @ [])"
    unfolding C2GS_R_Login_put_def [abs_def] by (rule writes_cong, rule stream_rules) simp
  have "reads (C2GS_R_Login_get x) (take 0 []) x"
    unfolding C2GS_R_Login_get_def [abs_def] by (rule reads_cong, rule stream_rules) simp_all
  then show "\<exists>k. reads (C2GS_R_Login_get x) (take k []) x" ..
  show "keeps_wf (C2GS_R_Login_put m)"
    unfolding C2GS_R_Login_put_def [abs_def] by (rule safe_rules)
qed

subsection \<open>\<open>DS2C_A_GetAllRole\<close>\<close>

text \<open>
  The answer with the roles. Its put writes the number of roles and its get reads a
  string, so the class does not meet the interface \<open>message\<close>.
\<close>

record DS2C_A_GetAllRole = BaseMessage +
  m_iCount :: u32
  m_rolename :: string

definition DS2C_A_GetAllRole_new :: "DS2C_A_GetAllRole \<Rightarrow> DS2C_A_GetAllRole" where
  "DS2C_A_GetAllRole_new junk =
     junk\<lparr>m_iMainProtocol := word_of_int (main_code FM_ZDQ_LOGIN),
          m_iSubProtocol := word_of_int (sub_code DS2C_A_ALLROLE), m_rolename := ''''\<rparr>"

definition DS2C_A_GetAllRole_put :: "DS2C_A_GetAllRole \<Rightarrow> HMessage \<Rightarrow> HMessage res" where
  "DS2C_A_GetAllRole_put this hmg =
     rbind (BaseMessage_put this hmg) (\<lambda>hmg.
     rbind (putUInt hmg (DS2C_A_GetAllRole.m_iCount this)) (\<lambda>(_, hmg). Inr hmg))"

definition DS2C_A_GetAllRole_putRole :: "DS2C_A_GetAllRole \<Rightarrow> HMessage \<Rightarrow> HMessage res" where
  "DS2C_A_GetAllRole_putRole this hmg =
     rbind (putString hmg (m_rolename this)) (\<lambda>(_, hmg). Inr hmg)"

definition DS2C_A_GetAllRole_get ::
  "DS2C_A_GetAllRole \<Rightarrow> HMessage \<Rightarrow> (DS2C_A_GetAllRole \<times> HMessage) res" where
  "DS2C_A_GetAllRole_get this hmg =
     rbind (getString hmg) (\<lambda>(v, hmg). Inr (this\<lparr>m_rolename := v\<rparr>, hmg))"

definition DS2C_A_GetAllRole_getRole ::
  "DS2C_A_GetAllRole \<Rightarrow> HMessage \<Rightarrow> (DS2C_A_GetAllRole \<times> HMessage) res" where
  "DS2C_A_GetAllRole_getRole this hmg =
     rbind (getString hmg) (\<lambda>(v, hmg). Inr (this\<lparr>m_rolename := v\<rparr>, hmg))"

lemma writes_GetAllRole:
  "writes (DS2C_A_GetAllRole_put m) (base_bytes m @ u32_be (DS2C_A_GetAllRole.m_iCount m))"
  unfolding DS2C_A_GetAllRole_put_def [abs_def]
  by (rule writes_cong, (rule writes_seq writes_puts stream_rules)+) simp

lemma writes_putRole [stream_rules]:
  "writes (DS2C_A_GetAllRole_putRole m) (str_enc (m_rolename m))"
  unfolding DS2C_A_GetAllRole_putRole_def [abs_def]
  by (rule writes_cong, (rule writes_seq writes_puts stream_rules)+) simp

section \<open>Properties\<close>

text \<open>
  C9: A login request is delivered. The message the sender builds and sends is read back by the
  receiver, header first and then the body, as the protocol numbers, the account and the
  password that were put. Nothing depends on the memory the objects were built on, nor on
  the size field, which no constructor sets: the size received is the number of bytes.
\<close>

theorem login_request_delivered:
  assumes "str_ok acc" and "str_ok pw" and "length acc + length pw < 9989"
  shows "\<exists>h h' wire hr h1 h2.
     C2ZS_R_Login_put ((C2ZS_R_Login_new jm)\<lparr>C2ZS_R_Login.m_strAccount := acc,
       C2ZS_R_Login.m_strPassword := pw\<rparr>) (HMessage_new jh) = Inr h \<and>
     send_buffer h = Inr (wire, h') \<and> HMessage_from jr wire = Inr hr \<and>
     BaseMessage_get b hr = Inr (b\<lparr>m_wSize := word_of_nat (length wire),
       m_iMainProtocol := word_of_int (main_code FM_ZDQ_LOGIN),
       m_iSubProtocol := word_of_int (sub_code C2ZS_R_LOGIN)\<rparr>, h1) \<and>
     C2ZS_R_Login_get x h1 = Inr (x\<lparr>C2ZS_R_Login.m_strAccount := acc, C2ZS_R_Login.m_strPassword := pw\<rparr>, h2)"
proof -
  let ?m = "(C2ZS_R_Login_new jm)\<lparr>C2ZS_R_Login.m_strAccount := acc, C2ZS_R_Login.m_strPassword := pw\<rparr>"
  have hd: "m_iMainProtocol ?m = word_of_int (main_code FM_ZDQ_LOGIN)"
    "m_iSubProtocol ?m = word_of_int (sub_code C2ZS_R_LOGIN)"
    and fill: "C2ZS_R_Login_fill x ?m = x\<lparr>C2ZS_R_Login.m_strAccount := acc, C2ZS_R_Login.m_strPassword := pw\<rparr>"
    and body: "length (C2ZS_R_Login_body ?m) < 9993"
    using assms(3) by (simp_all add: C2ZS_R_Login_new_def C2ZS_R_Login_fill_def C2ZS_R_Login_body_def)
  show ?thesis
    using login_req.delivered [of ?m jh jr b x, OF _ body, unfolded hd fill] assms(1,2) by simp
qed

theorem login_request_delivered_witness:
  "\<forall>jm b x. \<exists>h h' wire hr h1 h2.
     C2ZS_R_Login_put ((C2ZS_R_Login_new jm)\<lparr>C2ZS_R_Login.m_strAccount := ''alice'',
       C2ZS_R_Login.m_strPassword := ''secret''\<rparr>) (HMessage_new blank) = Inr h \<and>
     send_buffer h = Inr (wire, h') \<and> HMessage_from blank wire = Inr hr \<and>
     BaseMessage_get b hr = Inr (b\<lparr>m_wSize := word_of_nat (length wire),
       m_iMainProtocol := word_of_int (main_code FM_ZDQ_LOGIN),
       m_iSubProtocol := word_of_int (sub_code C2ZS_R_LOGIN)\<rparr>, h1) \<and>
     C2ZS_R_Login_get x h1 = Inr (x\<lparr>C2ZS_R_Login.m_strAccount := ''alice'',
       C2ZS_R_Login.m_strPassword := ''secret''\<rparr>, h2)"
  by (intro allI, rule login_request_delivered) (simp_all add: str_ok_def no_nul_def chr_byte_def)

text \<open>
  The request of a data server to check a dynamic code is delivered with its three numbers.
\<close>

lemma check_request_delivered:
  "\<exists>h h' wire hr h1 h2.
     DS2ZS_R_CheckDynmicCode_put ((DS2ZS_R_CheckDynmicCode_new jm)
       \<lparr>DS2ZS_R_CheckDynmicCode.m_DynmicCode := dc, DS2ZS_R_CheckDynmicCode.m_SessionID := sid,
        DS2ZS_R_CheckDynmicCode.m_SessionIDFromDS := ds\<rparr>) (HMessage_new jh) = Inr h \<and>
     send_buffer h = Inr (wire, h') \<and> HMessage_from jr wire = Inr hr \<and>
     BaseMessage_get b hr = Inr (b\<lparr>m_wSize := 19,
       m_iMainProtocol := word_of_int (main_code FM_Q_ROUND_MESSAGE),
       m_iSubProtocol := word_of_int (sub_code DS2ZS_R_CHECKDYNMICCODE)\<rparr>, h1) \<and>
     DS2ZS_R_CheckDynmicCode_get x h1 = Inr (x\<lparr>DS2ZS_R_CheckDynmicCode.m_DynmicCode := dc,
       DS2ZS_R_CheckDynmicCode.m_SessionID := sid, DS2ZS_R_CheckDynmicCode.m_SessionIDFromDS := ds\<rparr>, h2)"
proof -
  let ?m = "(DS2ZS_R_CheckDynmicCode_new jm)
       \<lparr>DS2ZS_R_CheckDynmicCode.m_DynmicCode := dc, DS2ZS_R_CheckDynmicCode.m_SessionID := sid,
        DS2ZS_R_CheckDynmicCode.m_SessionIDFromDS := ds\<rparr>"
  have hd: "m_iMainProtocol ?m = word_of_int (main_code FM_Q_ROUND_MESSAGE)"
    "m_iSubProtocol ?m = word_of_int (sub_code DS2ZS_R_CHECKDYNMICCODE)"
    and body: "length (DS2ZS_R_CheckDynmicCode_body ?m) = 12"
    and fill: "DS2ZS_R_CheckDynmicCode_fill x ?m = x\<lparr>DS2ZS_R_CheckDynmicCode.m_DynmicCode := dc,
       DS2ZS_R_CheckDynmicCode.m_SessionID := sid, DS2ZS_R_CheckDynmicCode.m_SessionIDFromDS := ds\<rparr>"
    by (simp_all add: DS2ZS_R_CheckDynmicCode_new_def DS2ZS_R_CheckDynmicCode_fill_def
        DS2ZS_R_CheckDynmicCode_body_def)
  have len: "length (DS2ZS_R_CheckDynmicCode_body ?m) < 9993" unfolding body by simp
  obtain h h' where s: "DS2ZS_R_CheckDynmicCode_put ?m (HMessage_new jh) = Inr h"
    "send_buffer h = Inr (u16_le (word_of_nat 19) @ u16_le (m_iMainProtocol ?m) @
       u16_le (m_iSubProtocol ?m) @ DS2ZS_R_CheckDynmicCode_body ?m @ [10], h')" (is "_ = Inr (?wire, _)")
    using check_req.sent [OF len, of jh] by (auto simp: body)
  have wire: "length ?wire = 19" using body by simp
  show ?thesis
    using check_req.delivered [OF TrueI len, of jh jr b x, unfolded hd fill] s wire by auto
qed

text \<open>
  The entry of a game server that follows a login answer is read back field by field.
\<close>

theorem server_list_round_trip:
  assumes "str_ok (m_strName m)" and "str_ok (m_strIP m)" and "wf_out h"
    and "m_iPos h + int (length (server_bytes m)) < 10000"
  shows "\<exists>h' h''. ZS2C_A_Login_putServerData m h = Inr h' \<and>
     ZS2C_A_Login_getServerData x (SetPos h' (m_iPos h)) =
       Inr (x\<lparr>m_iID := m_iID m, m_strName := m_strName m, m_strIP := m_strIP m,
              m_wPort := m_wPort m, m_State := m_State m\<rparr>, h'')"
proof -
  have r: "room h (length (server_bytes m))" using assms(3,4) by (rule wf_out_room)
  obtain h' where h': "ZS2C_A_Login_putServerData m h = Inr h'" "emitted h (server_bytes m) h'"
    using writes_putServerData r by (rule writesE)
  have "available (SetPos h' (m_iPos h)) (server_bytes m)"
    using h'(2) r by (rule emitted_available) (use assms(3) in \<open>simp add: wf_out_size\<close>)
  then show ?thesis
    using readsE [OF reads_getServerData [OF assms(1,2)]] h'(1) by metis
qed

definition demo_login :: ZS2C_A_Login where
  "demo_login = ZS2C_A_Login_new \<lparr>m_wSize = 0, m_iMainProtocol = 0, m_iSubProtocol = 0,
     ZS2C_A_Login.m_iErrorCode = 0, ZS2C_A_Login.m_DynmicCode = 0, ZS2C_A_Login.m_iCount = 0,
     m_iID = 0, m_strName = '''', m_strIP = '''', m_wPort = 0, m_State = 0\<rparr>"

theorem server_list_round_trip_witness:
  "\<exists>h' h''. ZS2C_A_Login_putServerData (demo_login\<lparr>m_strIP := ''10.0.0.1''\<rparr>) blank = Inr h' \<and>
     ZS2C_A_Login_getServerData demo_login (SetPos h' (m_iPos blank)) =
       Inr (demo_login\<lparr>m_iID := m_iID (demo_login\<lparr>m_strIP := ''10.0.0.1''\<rparr>),
              m_strName := m_strName (demo_login\<lparr>m_strIP := ''10.0.0.1''\<rparr>),
              m_strIP := m_strIP (demo_login\<lparr>m_strIP := ''10.0.0.1''\<rparr>),
              m_wPort := m_wPort (demo_login\<lparr>m_strIP := ''10.0.0.1''\<rparr>),
              m_State := m_State (demo_login\<lparr>m_strIP := ''10.0.0.1''\<rparr>)\<rparr>, h'')"
  by (rule server_list_round_trip)
     (simp_all add: demo_login_def ZS2C_A_Login_new_def str_ok_def no_nul_def chr_byte_def server_bytes_def)

text \<open>
  C10: In the server's buffer, building and sending a registration request stays inside the
  array, however long its two strings, and the length in the first two bytes of what goes
  out is the number of bytes that go out.
\<close>

theorem server_send_safe:
  assumes "str_mem (C2ZS_R_RegisterAccount.m_strAccount m)" and "str_mem (C2ZS_R_RegisterAccount.m_strPassword m)"
  shows "\<exists>h bs h'. C2ZS_R_RegisterAccount_put m (HMessage_new junk) = Inr h \<and>
    send_buffer h = Inr (bs, h') \<and> length bs < 10000 \<and>
    (2 \<le> length bs \<longrightarrow> uint (u16_of_le (take 2 bs)) = int (length bs))"
  using assms by (intro register_req.send_safe) simp

definition demo_register :: C2ZS_R_RegisterAccount where
  "demo_register = \<lparr>m_wSize = 0, m_iMainProtocol = 0, m_iSubProtocol = 0,
     m_strAccount = replicate 20000 (CHR ''a''), m_strPassword = ''b''\<rparr>"

theorem server_send_safe_witness:
  "\<exists>h bs h'. C2ZS_R_RegisterAccount_put demo_register (HMessage_new blank) = Inr h \<and>
    send_buffer h = Inr (bs, h') \<and> length bs < 10000"
  using server_send_safe [of demo_register blank] by (auto simp: demo_register_def str_mem_def)

text \<open>
  The answer with the roles is not read the way it is written. A count of up to 65535 roles is
  written as four bytes, the first two zero, and read as the length of a string: the get
  returns the empty string and the cursor stops two bytes short.
\<close>

theorem roles_not_read:
  assumes "available h (u32_be (DS2C_A_GetAllRole.m_iCount m))" and "uint (DS2C_A_GetAllRole.m_iCount m) < 2 ^ 16"
  shows "\<exists>h'. DS2C_A_GetAllRole_get x h = Inr (x\<lparr>m_rolename := ''''\<rparr>, h') \<and> m_iPos h' = m_iPos h + 2"
proof -
  let ?c = "DS2C_A_GetAllRole.m_iCount m"
  have z: "drop_bit 24 ?c = 0" "drop_bit 16 ?c = 0"
    using assms(2) by (simp_all add: drop_bit_eq_div word_uint_eq_iff uint_div)
  then have "u32_be ?c = str_enc '''' @ [ucast (drop_bit 8 ?c), ucast ?c]"
    by (simp add: u32_be_def str_enc_def u16_le_def)
  then have "available h (str_enc '''')"
    using assms(1) available_append(1) by metis
  moreover have "reads getString (str_enc '''') ''''"
    by (rule reads_getString) (simp_all add: no_nul_def)
  ultimately obtain h' where "getString h = Inr ('''', h')" "consumed h (length (str_enc '''')) h'"
    using readsE by metis
  then show ?thesis by (simp add: DS2C_A_GetAllRole_get_def consumed_def)
qed

definition demo_roles :: DS2C_A_GetAllRole where
  "demo_roles = \<lparr>m_wSize = 0, m_iMainProtocol = 0, m_iSubProtocol = 0, m_iCount = 0, m_rolename = ''x''\<rparr>"

theorem roles_not_read_witness:
  "\<exists>h'. DS2C_A_GetAllRole_get demo_roles blank = Inr (demo_roles\<lparr>m_rolename := ''''\<rparr>, h') \<and>
     m_iPos h' = m_iPos blank + 2"
  by (rule roles_not_read [where m = demo_roles])
     (simp_all add: demo_roles_def available_def in_bounds_def blank_def HMessage_new_def u32_be_def
       bytes_at_def numeral_eq_Suc)

end
