(* ===== verification/Mailbox.thy ===== *)
theory Mailbox
  imports SG_Prelude
begin

text \<open>
  The hand-over between two threads of the server: one side appends to a vector under its
  lock, the other takes the whole vector and clears it under the same lock. Three vectors
  of the program are used in this way (the received messages of \<open>MyZServerNetwork\<close>, the
  requests and the finished requests of \<open>DBSqlThread\<close>); each interprets the locale in its
  own theory.
\<close>

text \<open>
  A run of a mailbox: an interleaving of posts and takes, with the batches the takes
  return.
\<close>

datatype 'm mail_event = Post 'm | TakeAll

fun mail_run ::
  "('s \<Rightarrow> 'm \<Rightarrow> 's) \<Rightarrow> ('s \<Rightarrow> 'm list \<times> 's) \<Rightarrow> 's \<Rightarrow> 'm mail_event list \<Rightarrow> 'm list list \<times> 's" where
  "mail_run post takeall s [] = ([], s)"
| "mail_run post takeall s (Post m # es) = mail_run post takeall (post s m) es"
| "mail_run post takeall s (TakeAll # es) =
     (case takeall s of (b, s') \<Rightarrow>
        case mail_run post takeall s' es of (bs, t) \<Rightarrow> (b # bs, t))"

fun posted :: "'m mail_event list \<Rightarrow> 'm list" where
  "posted [] = []"
| "posted (Post m # es) = m # posted es"
| "posted (TakeAll # es) = posted es"

locale mailbox =
  fixes contents :: "'s \<Rightarrow> 'm list"
    and post :: "'s \<Rightarrow> 'm \<Rightarrow> 's"
    and takeall :: "'s \<Rightarrow> 'm list \<times> 's"
  assumes post_law: "contents (post s m) = contents s @ [m]"
    and take_law: "fst (takeall s) = contents s"
    and empty_law: "contents (snd (takeall s)) = []"
begin

text \<open>
  Whatever the interleaving, the batches taken and the vector left at the end are the
  messages posted, in order: none lost, none duplicated, none out of order.
\<close>

lemma no_loss:
  "mail_run post takeall s es = (bs, t) \<Longrightarrow> concat bs @ contents t = contents s @ posted es"
proof (induction es arbitrary: s bs)
  case Nil
  then show ?case by simp
next
  case (Cons e es)
  show ?case
  proof (cases e)
    case (Post m)
    with Cons.prems have "mail_run post takeall (post s m) es = (bs, t)" by simp
    from Cons.IH [OF this] Post show ?thesis by (simp add: post_law)
  next
    case TakeAll
    obtain b s' where b: "takeall s = (b, s')" by (cases "takeall s")
    then have s': "contents s' = []" "b = contents s"
      using take_law [of s] empty_law [of s] by simp_all
    from Cons.prems TakeAll b obtain bs' where
      "mail_run post takeall s' es = (bs', t)" and "bs = b # bs'"
      by (auto split: prod.splits)
    with Cons.IH [OF this(1)] s' TakeAll show ?thesis by simp
  qed
qed

text \<open>A take after the last post empties the mailbox: everything posted has been taken.\<close>

lemma drained:
  assumes "mail_run post takeall s (es @ [TakeAll]) = (bs, t)"
  shows "concat bs = contents s @ posted es" and "contents t = []"
proof -
  have split: "mail_run post takeall s (es @ [TakeAll]) =
      (case mail_run post takeall s es of (bs, u) \<Rightarrow> (bs @ [fst (takeall u)], snd (takeall u)))"
    by (induction post takeall s es rule: mail_run.induct) (auto split: prod.splits)
  then show e: "contents t = []"
    using assms empty_law by (auto split: prod.splits)
  have "posted (es @ [TakeAll]) = posted es"
    by (induction es rule: posted.induct) simp_all
  with no_loss [OF assms] e show "concat bs = contents s @ posted es" by simp
qed

end

end
