(* ===== verification/ZServer_Network.thy ===== *)
theory ZServer_Network
  imports Protocol Mailbox
begin

text \<open>
  The network side of the account server: \<open>SessionClient\<close> and \<open>MyZServerNetwork\<close>
  (MyZServerNetwork.h, MyZServerNetwork.cpp). The asynchronous operations are those of
  boost: the model records which are under way and with which bound session, and
  \<open>net_step\<close> lets any of them complete, in any order, as the thread in
  \<open>io_service::run\<close> does.
\<close>

section \<open>Sessions and the state\<close>

text \<open>
  A socket is known by a number. \<open>m_szSendBuffer\<close> is the 4000-byte buffer asio reads into;
  only the completion handler of the read looks at it.
\<close>

record SessionClient =
  m_iID :: int
  m_iQQ :: int
  m_DynmicCode :: u32
  m_szSendBuffer :: "u8 list"
  m_pSocketClient :: nat

text \<open>
  \<open>m_mapAllClientSock\<close> holds shared pointers, and its \<open>operator[]\<close> inserts a null one for
  a key it does not have: \<open>None\<close> is that null pointer. The last four fields are the
  environment: the sessions bound to the pending accepts and reads, the number of sockets
  created, and which bytes \<open>write_some\<close> was given for which socket.
\<close>

record MyZServerNetwork =
  m_mapAllPlayer :: "int std_map"
  m_mapAllClientSock :: "SessionClient option std_map"
  m_vecAllClientMsg :: "HMessage list"
  g_iCurrentID :: int
  pending_accept :: "SessionClient list"
  pending_read :: "SessionClient list"
  sockets :: nat
  written :: "(nat \<times> u8 list) list"

definition net_init :: MyZServerNetwork where
  "net_init = \<lparr>m_mapAllPlayer = [], m_mapAllClientSock = [], m_vecAllClientMsg = [],
     g_iCurrentID = 0, pending_accept = [], pending_read = [], sockets = 0, written = []\<rparr>"

section \<open>Operations\<close>

text \<open>
  \<open>init\<close> opens the listening socket, which throws when it cannot be bound; \<open>listens\<close> says
  whether an address and a port can. The acceptor and the service it keeps are the environment.
\<close>

definition network_init :: "(string \<Rightarrow> int \<Rightarrow> bool) \<Rightarrow> MyZServerNetwork \<Rightarrow> MyZServerNetwork res" where
  "network_init listens net = (if listens ''0.0.0.0'' 2300 then Inr net else Inl UncaughtException)"

text \<open>The session identifiers run from 1 to 999999999 and start again.\<close>

definition next_id :: "int \<Rightarrow> int" where
  "next_id g = (let g' = g + 1 in if g' > 999999999 then 1 else g')"

text \<open>
  \<open>junk\<close> is the memory a new \<open>SessionClient\<close> is built on. Only the session of
  \<open>AcceptConnect\<close> is given a dynamic code.
\<close>

definition AcceptConnect :: "SessionClient \<Rightarrow> u32 \<Rightarrow> MyZServerNetwork \<Rightarrow> MyZServerNetwork" where
  "AcceptConnect junk rnd net =
     (let g = next_id (g_iCurrentID net);
          pSession = junk\<lparr>m_iID := g, m_DynmicCode := rnd, m_pSocketClient := sockets net\<rparr>
      in net\<lparr>sockets := sockets net + 1, g_iCurrentID := g,
             pending_accept := pending_accept net @ [pSession]\<rparr>)"

text \<open>\<open>Handle_accept\<close> does not look at its error argument.\<close>

definition Handle_accept ::
  "SessionClient \<Rightarrow> SessionClient \<Rightarrow> bool \<Rightarrow> MyZServerNetwork \<Rightarrow> MyZServerNetwork" where
  "Handle_accept junk pCurrentSession err net =
     (let net1 = net\<lparr>pending_read := pending_read net @ [pCurrentSession]\<rparr>;
          net2 = net1\<lparr>m_mapAllClientSock :=
                   smap_set (g_iCurrentID net1) (Some pCurrentSession) (m_mapAllClientSock net1)\<rparr>;
          g = next_id (g_iCurrentID net2);
          pNextSession = junk\<lparr>m_iID := g, m_pSocketClient := sockets net2\<rparr>
      in net2\<lparr>sockets := sockets net2 + 1, g_iCurrentID := g,
              pending_accept := pending_accept net2 @ [pNextSession]\<rparr>)"

text \<open>Appending to the vector of received messages, under its lock.\<close>

definition push_msg :: "MyZServerNetwork \<Rightarrow> HMessage \<Rightarrow> MyZServerNetwork" where
  "push_msg net pHmg = net\<lparr>m_vecAllClientMsg := m_vecAllClientMsg net @ [pHmg]\<rparr>"

text \<open>
  \<open>Handle_Read\<close>: on an error the session leaves the map, and then the handler goes on as
  on success, posting a message of the \<open>iLen\<close> bytes it was told of and reading again.
  \<open>junk\<close> is the memory of the new \<open>HMessage\<close>. Nothing in the \<open>try\<close> block throws: a failed
  asynchronous read is reported to the handler.
\<close>

definition Handle_Read ::
  "HMessage \<Rightarrow> SessionClient \<Rightarrow> bool \<Rightarrow> nat \<Rightarrow> MyZServerNetwork \<Rightarrow> MyZServerNetwork res" where
  "Handle_Read junk pSessionClient err iLen net =
     (let net1 = (if err
                  then net\<lparr>m_mapAllClientSock :=
                         smap_erase (m_iID pSessionClient) (m_mapAllClientSock net)\<rparr>
                  else net)
      in rbind (HMessage_from junk (take iLen (m_szSendBuffer pSessionClient))) (\<lambda>pHmg.
         let pHmg' = pHmg\<lparr>m_iSessionID := m_iID pSessionClient,
                          HMessage.m_DynmicCode := sint (m_DynmicCode pSessionClient)\<rparr>;
             net2 = push_msg net1 pHmg'
         in Inr (net2\<lparr>pending_read := pending_read net2 @ [pSessionClient]\<rparr>)))"

definition GetAllMsg :: "MyZServerNetwork \<Rightarrow> HMessage list \<times> MyZServerNetwork" where
  "GetAllMsg net = (m_vecAllClientMsg net, net\<lparr>m_vecAllClientMsg := []\<rparr>)"

definition GetAllClient :: "MyZServerNetwork \<Rightarrow> SessionClient option std_map" where
  "GetAllClient net = m_mapAllClientSock net"

text \<open>
  \<open>wr s bs\<close> tells whether \<open>write_some\<close> of \<open>bs\<close> on socket \<open>s\<close> returns; it throws
  otherwise, and the callers catch nothing. How many of the bytes it took, which may be fewer
  than all, it returns, and the code does not look: \<open>written\<close> records what \<open>write_some\<close> was given.
\<close>

definition SendMsgBySessionID ::
  "(nat \<Rightarrow> u8 list \<Rightarrow> bool) \<Rightarrow> MyZServerNetwork \<Rightarrow> int \<Rightarrow> HMessage \<Rightarrow>
   (MyZServerNetwork \<times> HMessage) res" where
  "SendMsgBySessionID wr net iSessionID hmg =
     rbind (send_buffer hmg) (\<lambda>(bs, hmg').
       let clients = (case map_of (m_mapAllClientSock net) iSessionID of
                        None \<Rightarrow> smap_set iSessionID None (m_mapAllClientSock net)
                      | Some _ \<Rightarrow> m_mapAllClientSock net)
       in case map_of clients iSessionID of
            Some (Some s) \<Rightarrow>
              if wr (m_pSocketClient s) bs
              then Inr (net\<lparr>m_mapAllClientSock := clients,
                            written := written net @ [(m_pSocketClient s, bs)]\<rparr>, hmg')
              else Inl UncaughtException
          | _ \<Rightarrow> Inl NullPointer)"

definition SendMsgByPlayerID ::
  "(nat \<Rightarrow> u8 list \<Rightarrow> bool) \<Rightarrow> MyZServerNetwork \<Rightarrow> int \<Rightarrow> HMessage \<Rightarrow>
   (MyZServerNetwork \<times> HMessage) res" where
  "SendMsgByPlayerID wr net iPlayerID hmg =
     (let players = (case map_of (m_mapAllPlayer net) iPlayerID of
                       None \<Rightarrow> smap_set iPlayerID 0 (m_mapAllPlayer net)
                     | Some _ \<Rightarrow> m_mapAllPlayer net);
          iSessionID = (case map_of players iPlayerID of Some i \<Rightarrow> i | None \<Rightarrow> 0)
      in SendMsgBySessionID wr (net\<lparr>m_mapAllPlayer := players\<rparr>) iSessionID hmg)"

section \<open>The received messages as a mailbox\<close>

interpretation inbox: mailbox m_vecAllClientMsg push_msg GetAllMsg
  by unfold_locales (simp_all add: push_msg_def GetAllMsg_def)

section \<open>What sending does\<close>

definition live :: "MyZServerNetwork \<Rightarrow> int \<Rightarrow> SessionClient \<Rightarrow> bool" where
  "live net i s \<longleftrightarrow> map_of (m_mapAllClientSock net) i = Some (Some s)"

lemma SendMsgBySessionID_live:
  assumes "live net i s" and "send_buffer h = Inr (bs, h')" and "wr (m_pSocketClient s) bs"
  shows "SendMsgBySessionID wr net i h =
     Inr (net\<lparr>written := written net @ [(m_pSocketClient s, bs)]\<rparr>, h')"
  using assms by (simp add: SendMsgBySessionID_def live_def Let_def)

lemma SendMsgBySessionID_unknown:
  assumes "map_of (m_mapAllClientSock net) i = None" and "wf_out h"
  shows "SendMsgBySessionID wr net i h = Inl NullPointer"
  using assms send_buffer_ok [OF assms(2)] by (auto simp: SendMsgBySessionID_def Let_def)

text \<open>A successful send changes nothing but what was written.\<close>

lemma SendMsgBySessionID_frame:
  assumes "SendMsgBySessionID wr net i h = Inr (net', h')"
  shows "\<exists>s bs. live net i s \<and> wr (m_pSocketClient s) bs \<and>
     send_buffer h = Inr (bs, h') \<and> net' = net\<lparr>written := written net @ [(m_pSocketClient s, bs)]\<rparr>"
proof -
  from assms obtain bs h1 where sb: "send_buffer h = Inr (bs, h1)"
    by (auto simp: SendMsgBySessionID_def rbind_Inr_iff)
  with assms show ?thesis
    by (auto simp: SendMsgBySessionID_def Let_def live_def split: option.splits if_splits)
qed

section \<open>The network thread\<close>

text \<open>
  The completion of an accept, successful or not, and of a read: asio has stored at most
  4000 bytes in the session's buffer and reports how many, with or without an error.
\<close>

definition with_data :: "SessionClient \<Rightarrow> u8 list \<Rightarrow> SessionClient" where
  "with_data s dat = s\<lparr>m_szSendBuffer := dat @ drop (length dat) (m_szSendBuffer s)\<rparr>"

inductive net_step :: "MyZServerNetwork \<Rightarrow> MyZServerNetwork \<Rightarrow> bool" where
  accepted: "s \<in> set (pending_accept net) \<Longrightarrow>
     net_step net (Handle_accept junk s err (net\<lparr>pending_accept := remove1 s (pending_accept net)\<rparr>))"
| read_done: "s \<in> set (pending_read net) \<Longrightarrow> length dat \<le> 4000 \<Longrightarrow>
     Handle_Read junk (with_data s dat) err (length dat)
       (net\<lparr>pending_read := remove1 s (pending_read net)\<rparr>) = Inr net' \<Longrightarrow>
     net_step net net'"

inductive_cases net_stepE: "net_step net net'"

definition id_range :: "int \<Rightarrow> bool" where
  "id_range i \<longleftrightarrow> 1 \<le> i \<and> i \<le> 999999999"

text \<open>
  The invariant: every entry of the client map is a session filed under its own
  identifier, one accept is pending and its session has the current identifier, the
  received messages are unread and come from a session with a proper identifier.
\<close>

definition clients_ok :: "SessionClient option std_map \<Rightarrow> bool" where
  "clients_ok m \<longleftrightarrow> smap_wf m \<and>
     (\<forall>k v. (k, v) \<in> set m \<longrightarrow> id_range k \<and> (\<exists>s. v = Some s \<and> m_iID s = k))"

definition fresh_msg :: "HMessage \<Rightarrow> bool" where
  "fresh_msg h \<longleftrightarrow> wf_in h \<and> m_iPos h = 0 \<and> id_range (m_iSessionID h)"

definition net_inv :: "MyZServerNetwork \<Rightarrow> bool" where
  "net_inv net \<longleftrightarrow> clients_ok (m_mapAllClientSock net) \<and>
     id_range (g_iCurrentID net) \<and>
     (\<exists>s. pending_accept net = [s] \<and> m_iID s = g_iCurrentID net) \<and>
     (\<forall>s\<in>set (pending_read net). id_range (m_iID s)) \<and>
     (\<forall>h\<in>set (m_vecAllClientMsg net). fresh_msg h) \<and>
     m_mapAllPlayer net = []"

lemma next_id_range: "0 \<le> g \<Longrightarrow> id_range (next_id g)"
  by (simp add: next_id_def id_range_def Let_def)

lemma net_inv_start: "net_inv (AcceptConnect junk rnd net_init)"
  by (simp add: net_inv_def AcceptConnect_def net_init_def clients_ok_def next_id_range Let_def)

lemma clients_ok_set:
  assumes "clients_ok m" and "m_iID s = k" and "id_range k"
  shows "clients_ok (smap_set k (Some s) m)"
  using assms set_smap_set [of k "Some s" m] by (fastforce simp: clients_ok_def smap_wf_set)

lemma clients_ok_erase: "clients_ok m \<Longrightarrow> clients_ok (smap_erase k m)"
  unfolding clients_ok_def by (auto intro: smap_wf_erase)

lemma net_inv_accept:
  assumes inv: "net_inv net" and s: "s \<in> set (pending_accept net)"
  shows "net_inv (Handle_accept junk s err (net\<lparr>pending_accept := remove1 s (pending_accept net)\<rparr>))"
proof -
  from inv s have "pending_accept net = [s]" "m_iID s = g_iCurrentID net" "id_range (g_iCurrentID net)"
    by (auto simp: net_inv_def)
  with inv show ?thesis
    by (simp add: net_inv_def Handle_accept_def Let_def clients_ok_set next_id_range)
       (auto simp: id_range_def intro: next_id_range [unfolded id_range_def, THEN conjunct1]
         next_id_range [unfolded id_range_def, THEN conjunct2])
qed

text \<open>
  A read completion never overruns the message buffer, and posts exactly one message,
  holding the bytes received and the identifier of the session.
\<close>

lemma Handle_Read_ok:
  assumes "length dat \<le> 4000"
  shows "\<exists>h. Handle_Read junk (with_data s dat) err (length dat) net =
     Inr ((push_msg (net\<lparr>m_mapAllClientSock :=
             (if err then smap_erase (m_iID s) (m_mapAllClientSock net) else m_mapAllClientSock net)\<rparr>) h)
          \<lparr>pending_read := pending_read net @ [with_data s dat]\<rparr>) \<and>
     wf_in h \<and> m_iPos h = 0 \<and> m_iSessionID h = m_iID s \<and>
     HMessage.m_DynmicCode h = sint (m_DynmicCode s) \<and>
     bytes_at (m_byBuffer h) 0 (length dat) = dat"
proof -
  obtain h where h: "HMessage_from junk dat = Inr h" "m_iPos h = 0" "wf_in h"
    "bytes_at (m_byBuffer h) 0 (length dat) = dat"
    using HMessage_from_ok [of dat junk] assms by auto
  let ?h = "h\<lparr>m_iSessionID := m_iID s, HMessage.m_DynmicCode := sint (m_DynmicCode s)\<rparr>"
  show ?thesis
    by (rule exI [of _ ?h])
       (use h in \<open>simp add: Handle_Read_def with_data_def Let_def push_msg_def wf_in_def\<close>)
qed

lemma net_inv_read:
  assumes inv: "net_inv net" and s: "s \<in> set (pending_read net)" and len: "length dat \<le> 4000"
    and r: "Handle_Read junk (with_data s dat) err (length dat)
       (net\<lparr>pending_read := remove1 s (pending_read net)\<rparr>) = Inr net'"
  shows "net_inv net'"
proof -
  have id: "id_range (m_iID s)" using inv s by (simp add: net_inv_def)
  have rest: "\<forall>x\<in>set (remove1 s (pending_read net)). id_range (m_iID x)"
    using inv by (auto simp: net_inv_def dest: set_remove1_subset [THEN subsetD])
  have cl: "clients_ok (if err then smap_erase (m_iID s) (m_mapAllClientSock net)
      else m_mapAllClientSock net)"
    using inv by (simp add: net_inv_def clients_ok_erase)
  let ?net = "net\<lparr>pending_read := remove1 s (pending_read net)\<rparr>"
  obtain h where eq: "Handle_Read junk (with_data s dat) err (length dat) ?net =
     Inr ((push_msg (?net\<lparr>m_mapAllClientSock :=
             (if err then smap_erase (m_iID s) (m_mapAllClientSock ?net) else m_mapAllClientSock ?net)\<rparr>) h)
          \<lparr>pending_read := pending_read ?net @ [with_data s dat]\<rparr>)"
    and fresh: "wf_in h" "m_iPos h = 0" "m_iSessionID h = m_iID s"
    using Handle_Read_ok [OF len] by blast
  have h: "fresh_msg h" using fresh id by (simp add: fresh_msg_def)
  have net': "net' = (push_msg (?net\<lparr>m_mapAllClientSock :=
         (if err then smap_erase (m_iID s) (m_mapAllClientSock ?net) else m_mapAllClientSock ?net)\<rparr>) h)
      \<lparr>pending_read := pending_read ?net @ [with_data s dat]\<rparr>"
    using eq r by (simp only: sum.inject)
  show ?thesis
    unfolding net' using inv id rest cl h
    by (cases err) (auto simp: net_inv_def push_msg_def with_data_def)
qed

lemma net_inv_step: "net_step net net' \<Longrightarrow> net_inv net \<Longrightarrow> net_inv net'"
  by (induction rule: net_step.induct) (blast intro: net_inv_accept net_inv_read)+

text \<open>The network thread never stops: it always waits for a connection.\<close>

lemma net_step_progress: "net_inv net \<Longrightarrow> \<exists>net'. net_step net net'"
  unfolding net_inv_def by (metis list.set_intros(1) net_step.accepted)

lemma net_inv_send:
  "SendMsgBySessionID wr net i h = Inr (net', h') \<Longrightarrow> net_inv net \<Longrightarrow> net_inv net'"
  by (drule SendMsgBySessionID_frame) (auto simp: net_inv_def)

lemma net_inv_GetAllMsg: "net_inv net \<Longrightarrow> net_inv (snd (GetAllMsg net))"
  by (simp add: net_inv_def GetAllMsg_def)

lemma clients_ok_lookup:
  "clients_ok m \<Longrightarrow> map_of m k = Some v \<Longrightarrow> id_range k \<and> (\<exists>s. v = Some s \<and> m_iID s = k)"
  by (auto simp: clients_ok_def dest: map_of_SomeD)

section \<open>Properties\<close>

definition blank_session :: SessionClient where
  "blank_session = \<lparr>m_iID = 0, m_iQQ = 0, m_DynmicCode = 0, m_szSendBuffer = [], m_pSocketClient = 0\<rparr>"

text \<open>
  C6: Whatever completes, in whatever order, the network thread keeps its state in shape: every
  entry of the client map is a session filed under its own identifier between 1 and
  999999999, exactly one accept is pending, and every message waiting has been read into a
  buffer of its own and carries such an identifier.
\<close>

theorem network_invariant:
  assumes "net_step\<^sup>*\<^sup>* (AcceptConnect junk rnd net_init) net"
  shows "net_inv net"
  using assms by (induction rule: rtranclp_induct) (auto intro: net_inv_start net_inv_step)

theorem network_invariant_witness: "net_inv (AcceptConnect blank_session 5 net_init)"
  by (rule network_invariant) (rule rtranclp.rtrancl_refl)

text \<open>
  C7: The completion of a read never overruns the message it builds, and always does the same three
  things: it posts one message with the bytes received, the session's identifier and its
  dynamic code, it reads from the socket again, and it removes the session from the client
  map if there was an error. The two last together mean that a closed connection keeps
  being read, and keeps posting messages, for a session that can no longer be answered.
\<close>

theorem read_completion:
  assumes "length dat \<le> 4000"
  shows "\<exists>h net'. Handle_Read junk (with_data s dat) err (length dat) net = Inr net' \<and>
     m_vecAllClientMsg net' = m_vecAllClientMsg net @ [h] \<and>
     pending_read net' = pending_read net @ [with_data s dat] \<and>
     map_of (m_mapAllClientSock net') =
       (if err then (map_of (m_mapAllClientSock net))(m_iID s := None) else map_of (m_mapAllClientSock net)) \<and>
     m_iSessionID h = m_iID s \<and> HMessage.m_DynmicCode h = sint (m_DynmicCode s) \<and>
     bytes_at (m_byBuffer h) 0 (length dat) = dat"
  using Handle_Read_ok [OF assms, of junk s err net] by (cases err) (auto simp: push_msg_def)

theorem read_completion_witness:
  "\<exists>h net'. Handle_Read blank (with_data blank_session [1, 2, 3]) True (length [1, 2, 3 :: u8]) net_init = Inr net' \<and>
     m_vecAllClientMsg net' = m_vecAllClientMsg net_init @ [h] \<and>
     pending_read net' = pending_read net_init @ [with_data blank_session [1, 2, 3]] \<and>
     map_of (m_mapAllClientSock net') =
       (if True then (map_of (m_mapAllClientSock net_init))(m_iID blank_session := None)
        else map_of (m_mapAllClientSock net_init)) \<and>
     m_iSessionID h = m_iID blank_session \<and>
     HMessage.m_DynmicCode h = sint (m_DynmicCode blank_session) \<and>
     bytes_at (m_byBuffer h) 0 (length [1, 2, 3 :: u8]) = [1, 2, 3]"
  by (rule read_completion) simp

text \<open>
  C8: For every interleaving of the network thread's posts with the main thread's takes, the
  batches the main thread takes and what is left are the messages posted, in order: no
  message is lost, duplicated or reordered.
\<close>

theorem inbox_lossless:
  assumes "mail_run push_msg GetAllMsg net es = (batches, net')"
  shows "concat batches @ m_vecAllClientMsg net' = m_vecAllClientMsg net @ posted es"
  using assms by (rule inbox.no_loss)

theorem inbox_lossless_witness:
  "concat [[blank], [blank, blank]] @ m_vecAllClientMsg (net_init\<lparr>m_vecAllClientMsg := []\<rparr>) =
     m_vecAllClientMsg net_init @ posted [Post blank, TakeAll, Post blank, Post blank, TakeAll]"
  by (rule inbox_lossless) (simp add: push_msg_def GetAllMsg_def net_init_def)

text \<open>
  A send that returns found the session in the client map, wrote the message, its length
  field filled in and a newline appended, to that session's socket, and changed nothing
  else. Any other outcome is a crash of the caller.
\<close>

theorem send_effect:
  assumes "SendMsgBySessionID wr net i h = Inr (net', h')"
  shows "\<exists>s bs. live net i s \<and> wr (m_pSocketClient s) bs \<and>
     send_buffer h = Inr (bs, h') \<and> net' = net\<lparr>written := written net @ [(m_pSocketClient s, bs)]\<rparr>"
  using assms by (rule SendMsgBySessionID_frame)

definition one_client :: MyZServerNetwork where
  "one_client = net_init\<lparr>m_mapAllClientSock := [(1, Some (blank_session\<lparr>m_iID := 1\<rparr>))]\<rparr>"

theorem send_effect_witness:
  "\<exists>net' h'. SendMsgBySessionID (\<lambda>_ _. True) one_client 1 blank = Inr (net', h') \<and>
     (\<exists>s bs. live one_client 1 s \<and> (\<lambda>_ _. True) (m_pSocketClient s) bs \<and>
        send_buffer blank = Inr (bs, h') \<and>
        net' = one_client\<lparr>written := written one_client @ [(m_pSocketClient s, bs)]\<rparr>)"
proof -
  have l: "live one_client 1 (blank_session\<lparr>m_iID := 1\<rparr>)" by (simp add: live_def one_client_def)
  obtain bs h' where sb: "send_buffer blank = Inr (bs, h')" using send_buffer_ok [of blank] by auto
  have "SendMsgBySessionID (\<lambda>_ _. True) one_client 1 blank =
      Inr (one_client\<lparr>written := written one_client @ [(m_pSocketClient (blank_session\<lparr>m_iID := 1\<rparr>), bs)]\<rparr>, h')"
    using SendMsgBySessionID_live [OF l sb] by simp
  from send_effect [OF this] this show ?thesis by blast
qed

text \<open>
  Sending by player number never works. Nothing enters a player into the map of players,
  so every player has session number 0, which no session has: the send follows a null
  pointer.
\<close>

theorem send_to_player_crashes:
  assumes "net_inv net" and "wf_out h"
  shows "SendMsgByPlayerID wr net iPlayerID h = Inl NullPointer"
proof -
  have "map_of (m_mapAllClientSock net) 0 = None"
    using assms(1) clients_ok_lookup [of "m_mapAllClientSock net" 0]
    by (cases "map_of (m_mapAllClientSock net) 0") (auto simp: net_inv_def id_range_def)
  then show ?thesis
    using assms by (simp add: SendMsgByPlayerID_def net_inv_def SendMsgBySessionID_unknown)
qed

theorem send_to_player_crashes_witness:
  "SendMsgByPlayerID (\<lambda>_ _. True) (AcceptConnect blank_session 5 net_init) 12 blank = Inl NullPointer"
  by (rule send_to_player_crashes) (simp_all add: net_inv_start)

end
