(* ===== verification/DB_Sql.thy ===== *)
theory DB_Sql
  imports DB_Connect DBMS_Cache ZServer_Network
begin

text \<open>
  The requests served by the database thread (DBSqlThread.h, DBSqlThread.cpp): the
  registration and login nodes with their statements, and the thread with its two queues.
  \<open>api\<close> is the MySQL library, \<open>charset\<close> the character set of the build, \<open>'w\<close> the world of
  the library.
\<close>

section \<open>Standard library\<close>

definition is_space :: "char \<Rightarrow> bool" where
  "is_space c \<longleftrightarrow> c = CHR 0x20 \<or> c \<in> {CHR 0x09, CHR 0x0A, CHR 0x0B, CHR 0x0C, CHR 0x0D}"

definition is_digit :: "char \<Rightarrow> bool" where
  "is_digit c \<longleftrightarrow> 48 \<le> (of_char c :: nat) \<and> (of_char c :: nat) \<le> 57"

definition digits_value :: "string \<Rightarrow> int" where
  "digits_value s = foldl (\<lambda>a c. a * 10 + (of_char c - 48)) 0 s"

text \<open>\<open>atoi\<close>; a number outside the range of \<open>int\<close> has no defined result.\<close>

definition atoi :: "string \<Rightarrow> int res" where
  "atoi s =
     (let t = dropWhile is_space s;
          neg = (case t of [] \<Rightarrow> False | c # _ \<Rightarrow> c = CHR ''-'');
          u = (case t of [] \<Rightarrow> [] | c # cs \<Rightarrow> if c = CHR ''-'' \<or> c = CHR ''+'' then cs else t);
          v = digits_value (takeWhile is_digit u);
          r = (if neg then - v else v)
      in if int32_range r then Inr r else Inl SignedOverflow)"

text \<open>The column \<open>row[i]\<close> of a row.\<close>

definition column :: "string option list \<Rightarrow> nat \<Rightarrow> string option res" where
  "column row i = (if i < length row then Inr (row ! i) else Inl ReadOutOfBounds)"

definition atoi_column :: "string option list \<Rightarrow> nat \<Rightarrow> int res" where
  "atoi_column row i =
     rbind (column row i) (\<lambda>c. case c of None \<Rightarrow> Inl NullPointer | Some s \<Rightarrow> atoi s)"

section \<open>The nodes\<close>

record CWaitNode =
  m_dwSessionID :: u32

record CRegisterWaitNode = CWaitNode +
  m_strAccount :: string
  m_strPassword :: string
  m_outdata :: int

record CLoginWaitNode = CWaitNode +
  m_strAccount :: string
  m_strPassword :: string
  m_dwDynamicCode :: u32
  m_checkisOK :: bool
  m_servercount :: u32

text \<open>A \<open>shared_ptr<CWaitNode>\<close>, by the class it points to.\<close>

datatype wait_node = RegisterNode CRegisterWaitNode | LoginNode CLoginWaitNode

text \<open>No constructor sets \<open>m_dwSessionID\<close>: it stays what the memory \<open>junk\<close> held.\<close>

definition CRegisterWaitNode_new ::
  "CRegisterWaitNode \<Rightarrow> string \<Rightarrow> string \<Rightarrow> CRegisterWaitNode" where
  "CRegisterWaitNode_new junk strAccount strPassword =
     junk\<lparr>CRegisterWaitNode.m_strAccount := strAccount,
          CRegisterWaitNode.m_strPassword := strPassword\<rparr>"

definition CLoginWaitNode_new ::
  "CLoginWaitNode \<Rightarrow> string \<Rightarrow> string \<Rightarrow> u32 \<Rightarrow> CLoginWaitNode" where
  "CLoginWaitNode_new junk strAccount strPassword dwDynamicCode =
     junk\<lparr>m_dwDynamicCode := dwDynamicCode, CLoginWaitNode.m_strAccount := strAccount,
          CLoginWaitNode.m_strPassword := strPassword\<rparr>"

text \<open>An entry of the list of game servers, \<open>g_vecServerList\<close>.\<close>

record ServerData =
  dwID :: u32
  strName :: string
  strIP :: string
  wPort :: u16
  byState :: u8

subsection \<open>Registration\<close>

abbreviation quote :: string where
  "quote \<equiv> [CHR 0x27]"

definition register_sql :: "string \<Rightarrow> string \<Rightarrow> string" where
  "register_sql strAccount strPassword =
     ''call p_addAccountByMyself('' @ quote @ strAccount @ quote @ '' ,'' @ quote @ strPassword
       @ quote @ '',@accountid,@isNew);''"

text \<open>
  The result set is released when the function returns. The loop over the rows returns in
  its first round, and nothing in its \<open>try\<close> block throws.
\<close>

definition CheckAndInsertAccountAndPasswd ::
  "'w mysql \<Rightarrow> string \<Rightarrow> string \<Rightarrow> string \<Rightarrow> DBConnect \<times> 'w \<Rightarrow> (int \<times> DBConnect \<times> 'w) res" where
  "CheckAndInsertAccountAndPasswd api charset strAccount strPassword = (\<lambda>(db, w).
     if length strAccount > 20 then Inr (-1, db, w)
     else if con db = None then Inr (-2, db, w)
     else rbind (loadtabledata api charset (Some (c_str (register_sql strAccount strPassword))) (db, w))
       (\<lambda>(iret, mres, db1, w1).
         let w2 = DBresultSet_delete api mres w1
         in if iret \<le> 0 then Inr (-3, db1, w2)
            else case mres of
              Some (row # _) \<Rightarrow>
                rbind (atoi_column row 0) (\<lambda>iAccountID.
                rbind (atoi_column row 1) (\<lambda>iIsNew.
                  Inr (if iIsNew \<noteq> 0 then iAccountID else -4, db1, w2)))
            | _ \<Rightarrow> Inr (-6, db1, w2)))"

definition CRegisterWaitNode_DoDBSql ::
  "'w mysql \<Rightarrow> string \<Rightarrow> CRegisterWaitNode \<Rightarrow> DBConnect \<times> 'w \<Rightarrow>
   (CRegisterWaitNode \<times> DBConnect \<times> 'w) res" where
  "CRegisterWaitNode_DoDBSql api charset this c =
     rbind (CheckAndInsertAccountAndPasswd api charset (CRegisterWaitNode.m_strAccount this)
              (CRegisterWaitNode.m_strPassword this) c)
       (\<lambda>(r, c'). Inr (this\<lparr>m_outdata := r\<rparr>, c'))"

definition CRegisterWaitNode_DoLogic ::
  "(nat \<Rightarrow> u8 list \<Rightarrow> bool) \<Rightarrow> ZS2C_A_RegisterAccount \<Rightarrow> HMessage \<Rightarrow>
   CRegisterWaitNode \<Rightarrow> MyZServerNetwork \<Rightarrow> MyZServerNetwork res" where
  "CRegisterWaitNode_DoLogic wr junkM junkH this net =
     (let sendMsg = (ZS2C_A_RegisterAccount_new junkM)
            \<lparr>ZS2C_A_RegisterAccount.m_iErrorCode := word_of_int (error_code
               (if m_outdata this > 0 then ERROR_CODE_REGSTER_OK else ERROR_CODE_REGSTER_FAIL)),
             m_iErrorCodeIndex := word_of_int (m_outdata this)\<rparr>
      in rbind (ZS2C_A_RegisterAccount_put sendMsg (HMessage_new junkH)) (\<lambda>sendHmg.
         rbind (SendMsgBySessionID wr net (sint (m_dwSessionID this)) sendHmg) (\<lambda>(net', _).
           Inr net')))"

subsection \<open>Login\<close>

definition login_sql :: "string \<Rightarrow> string \<Rightarrow> string" where
  "login_sql Account password =
     ''selsect * frome account where loginname = '' @ quote @ Account @ quote
       @ '' and password = '' @ quote @ password @ quote @ '';''"

text \<open>
  \<open>tmpcon\<close> is the handle as it was before the query; when the query had to reconnect, it is
  the handle of a connection that has been closed.
\<close>

definition field_count :: "'w mysql \<Rightarrow> nat option \<Rightarrow> DBConnect \<times> 'w \<Rightarrow> int res" where
  "field_count api tmpcon = (\<lambda>(db, w).
     case tmpcon of
       None \<Rightarrow> Inl NullPointer
     | Some h \<Rightarrow> if con db = Some h then Inr (sint (mysql_field_count api h w)) else Inl UseAfterFree)"

definition CheckLoginData ::
  "'w mysql \<Rightarrow> string \<Rightarrow> string \<Rightarrow> string \<Rightarrow> DBConnect \<times> 'w \<Rightarrow> (bool \<times> DBConnect \<times> 'w) res" where
  "CheckLoginData api charset Account password = (\<lambda>(db, w).
     if con db = None then Inr (False, db, w)
     else rbind (loadtabledata api charset (Some (c_str (login_sql Account password))) (db, w))
       (\<lambda>(iret, mres, db1, w1).
         let w2 = DBresultSet_delete api mres w1
         in if iret \<le> 0 then Inr (False, db1, w2)
            else case mres of
              Some (row # _) \<Rightarrow>
                rbind (field_count api (con db) (db1, w1)) (\<lambda>iFeildCount.
                  Inr (iFeildCount = 1, db1, w2))
            | _ \<Rightarrow> Inr (False, db1, w2)))"

definition int_column :: "string option list \<Rightarrow> nat \<Rightarrow> int res" where
  "int_column row i =
     rbind (column row i) (\<lambda>c. case c of None \<Rightarrow> Inr 0 | Some s \<Rightarrow> atoi s)"

definition str_column :: "string option list \<Rightarrow> nat \<Rightarrow> string res" where
  "str_column row i =
     rbind (column row i) (\<lambda>c. case c of None \<Rightarrow> Inr '''' | Some s \<Rightarrow> Inr (c_str s))"

definition server_of_row :: "string option list \<Rightarrow> ServerData res" where
  "server_of_row row =
     rbind (int_column row 0) (\<lambda>a.
     rbind (str_column row 1) (\<lambda>b.
     rbind (str_column row 2) (\<lambda>c.
     rbind (int_column row 3) (\<lambda>d.
     rbind (int_column row 7) (\<lambda>e.
       Inr \<lparr>dwID = word_of_int a, strName = b, strIP = c, wPort = word_of_int d,
            byState = word_of_int e\<rparr>)))))"

text \<open>
  The loop over the rows: \<open>n\<close> is the field count that each round reads, \<open>iFeildCount\<close> the
  variable it is kept in, indeterminate before the first round.
\<close>

fun read_servers ::
  "int \<Rightarrow> rows \<Rightarrow> int \<Rightarrow> ServerData list \<Rightarrow> (int \<times> ServerData list) res" where
  "read_servers n [] iFeildCount svs = Inr (iFeildCount, svs)"
| "read_servers n (row # rows) iFeildCount svs =
     (if n \<le> 0 then Inr (0, svs)
      else rbind (server_of_row row) (\<lambda>s. read_servers n rows n (svs @ [s])))"

definition GetAllPerganaFromSql ::
  "'w mysql \<Rightarrow> string \<Rightarrow> int \<Rightarrow> ServerData list \<Rightarrow> DBConnect \<times> 'w \<Rightarrow>
   (int \<times> ServerData list \<times> DBConnect \<times> 'w) res" where
  "GetAllPerganaFromSql api charset junk g_vecServerList = (\<lambda>(db, w).
     if con db = None then Inr (0, g_vecServerList, db, w)
     else rbind (loadtabledata api charset (Some (c_str ''selsect * frome gm_serverlist;'')) (db, w))
       (\<lambda>(iret, mres, db1, w1).
         let w2 = DBresultSet_delete api mres w1
         in if iret \<le> 0 then Inr (0, g_vecServerList, db1, w2)
            else case mres of
              Some (row # rows) \<Rightarrow>
                rbind (field_count api (con db) (db1, w1)) (\<lambda>n.
                rbind (read_servers n (row # rows) junk g_vecServerList) (\<lambda>(r, svs).
                  Inr (r, svs, db1, w2)))
            | _ \<Rightarrow> Inr (junk, g_vecServerList, db1, w2)))"

definition CLoginWaitNode_DoDBSql ::
  "'w mysql \<Rightarrow> string \<Rightarrow> int \<Rightarrow> CLoginWaitNode \<Rightarrow> ServerData list \<times> DBConnect \<times> 'w \<Rightarrow>
   (CLoginWaitNode \<times> ServerData list \<times> DBConnect \<times> 'w) res" where
  "CLoginWaitNode_DoDBSql api charset junk this = (\<lambda>(g_vecServerList, db, w).
     rbind (CheckLoginData api charset (CLoginWaitNode.m_strAccount this)
              (CLoginWaitNode.m_strPassword this) (db, w)) (\<lambda>(okay, db1, w1).
     rbind (GetAllPerganaFromSql api charset junk g_vecServerList (db1, w1)) (\<lambda>(r, svs, db2, w2).
       Inr (this\<lparr>m_checkisOK := okay, m_servercount := word_of_int r\<rparr>, svs, db2, w2))))"

text \<open>The loop of \<open>DoLogic\<close> that appends the servers, \<open>i\<close> from its current value for \<open>n\<close> rounds.\<close>

fun put_servers ::
  "ServerData list \<Rightarrow> nat \<Rightarrow> nat \<Rightarrow> ZS2C_A_Login \<Rightarrow> HMessage \<Rightarrow> HMessage res" where
  "put_servers g_vecServerList i 0 sendMsg sendHmg = Inr sendHmg"
| "put_servers g_vecServerList i (Suc n) sendMsg sendHmg =
     (if i < length g_vecServerList then
        let s = g_vecServerList ! i;
            sendMsg' = sendMsg\<lparr>ZS2C_A_Login.m_iID := dwID s, m_strIP := strIP s,
                               m_wPort := wPort s, m_State := byState s\<rparr>
        in rbind (ZS2C_A_Login_putServerData sendMsg' sendHmg) (\<lambda>sendHmg'.
             put_servers g_vecServerList (i + 1) n sendMsg' sendHmg')
      else Inl ReadOutOfBounds)"

definition login_answer ::
  "ZS2C_A_Login \<Rightarrow> HMessage \<Rightarrow> ServerData list \<Rightarrow> CLoginWaitNode \<Rightarrow> HMessage res" where
  "login_answer junkM junkH g_vecServerList this =
     (let sendMsg = ZS2C_A_Login_new junkM
      in if m_checkisOK this \<and> 0 < m_servercount this then
           let sendMsg1 = sendMsg
                 \<lparr>ZS2C_A_Login.m_iErrorCode := word_of_int (error_code ERROR_CODE_LOGIN_OK),
                  ZS2C_A_Login.m_DynmicCode := m_dwDynamicCode this\<rparr>
           in rbind (ZS2C_A_Login_put sendMsg1 (HMessage_new junkH)) (\<lambda>sendHmg.
                put_servers g_vecServerList 0 (unat (m_servercount this)) sendMsg1 sendHmg)
         else
           ZS2C_A_Login_put (sendMsg\<lparr>ZS2C_A_Login.m_iErrorCode :=
               word_of_int (error_code ERROR_CODE_LOGIN_FAIL)\<rparr>) (HMessage_new junkH))"

text \<open>\<open>now\<close> is the clock reading of \<open>DBMS::Insert\<close>.\<close>

definition CLoginWaitNode_DoLogic ::
  "(nat \<Rightarrow> u8 list \<Rightarrow> bool) \<Rightarrow> ZS2C_A_Login \<Rightarrow> HMessage \<Rightarrow> u64 \<Rightarrow> ServerData list \<Rightarrow>
   CLoginWaitNode \<Rightarrow> DBMS \<times> MyZServerNetwork \<Rightarrow> (DBMS \<times> MyZServerNetwork) res" where
  "CLoginWaitNode_DoLogic wr junkM junkH now g_vecServerList this = (\<lambda>(dbms, net).
     let dbms' = (if m_checkisOK this \<and> 0 < m_servercount this
                  then Insert dbms (CLoginWaitNode.m_strAccount this)
                         (CLoginWaitNode.m_strAccount this) 10000 now
                  else dbms)
     in rbind (login_answer junkM junkH g_vecServerList this) (\<lambda>sendHmg.
        rbind (SendMsgBySessionID wr net (sint (m_dwSessionID this)) sendHmg) (\<lambda>(net', _).
          Inr (dbms', net'))))"

section \<open>The thread\<close>

text \<open>The virtual calls of the two queues.\<close>

fun DoDBSql ::
  "'w mysql \<Rightarrow> string \<Rightarrow> int \<Rightarrow> wait_node \<Rightarrow> ServerData list \<times> DBConnect \<times> 'w \<Rightarrow>
   (wait_node \<times> ServerData list \<times> DBConnect \<times> 'w) res" where
  "DoDBSql api charset junk (RegisterNode n) (svs, db, w) =
     rbind (CRegisterWaitNode_DoDBSql api charset n (db, w)) (\<lambda>(n', c). Inr (RegisterNode n', svs, c))"
| "DoDBSql api charset junk (LoginNode n) (svs, db, w) =
     rbind (CLoginWaitNode_DoDBSql api charset junk n (svs, db, w)) (\<lambda>(n', c). Inr (LoginNode n', c))"

text \<open>The memory the local objects of the two \<open>DoLogic\<close> methods are built on.\<close>

record logic_junk =
  junk_register :: ZS2C_A_RegisterAccount
  junk_login :: ZS2C_A_Login
  junk_hmsg :: HMessage

fun DoLogic ::
  "(nat \<Rightarrow> u8 list \<Rightarrow> bool) \<Rightarrow> logic_junk \<Rightarrow> u64 \<Rightarrow> ServerData list \<Rightarrow> wait_node \<Rightarrow>
   DBMS \<times> MyZServerNetwork \<Rightarrow> (DBMS \<times> MyZServerNetwork) res" where
  "DoLogic wr j now svs (RegisterNode n) (dbms, net) =
     rbind (CRegisterWaitNode_DoLogic wr (junk_register j) (junk_hmsg j) n net) (\<lambda>net'. Inr (dbms, net'))"
| "DoLogic wr j now svs (LoginNode n) (dbms, net) =
     CLoginWaitNode_DoLogic wr (junk_login j) (junk_hmsg j) now svs n (dbms, net)"

record DBSqlThread =
  m_vecWrite :: "wait_node list"
  m_vecWriteFinish :: "wait_node list"
  m_dbSqlThreadConnect :: DBConnect

text \<open>The first call of \<open>GetInstance\<close> creates the object and connects it.\<close>

definition DBSqlThread_GetInstance ::
  "'w mysql \<Rightarrow> string \<Rightarrow> DBSqlThread option \<times> 'w \<Rightarrow> (DBSqlThread \<times> 'w) res" where
  "DBSqlThread_GetInstance api charset = (\<lambda>(pOne, w).
     case pOne of
       Some t \<Rightarrow> Inr (t, w)
     | None \<Rightarrow> rbind (DBConnect_init api charset ''127.0.0.1'' ''daypet'' (DBConnect_new, w))
         (\<lambda>(_, db, w'). Inr (\<lparr>m_vecWrite = [], m_vecWriteFinish = [], m_dbSqlThreadConnect = db\<rparr>, w')))"

definition AddWaitNode :: "DBSqlThread \<Rightarrow> wait_node \<Rightarrow> DBSqlThread" where
  "AddWaitNode t pNode = t\<lparr>m_vecWrite := m_vecWrite t @ [pNode]\<rparr>"

definition GetFinishDBWait :: "DBSqlThread \<Rightarrow> wait_node list \<times> DBSqlThread" where
  "GetFinishDBWait t = (m_vecWriteFinish t, t\<lparr>m_vecWriteFinish := []\<rparr>)"

text \<open>
  One round of \<open>run\<close>, which holds a lock in each half: it takes the waiting nodes, then
  works them off in order, each ending in the finished ones.
\<close>

definition TakeWaiting :: "DBSqlThread \<Rightarrow> wait_node list \<times> DBSqlThread" where
  "TakeWaiting t = (m_vecWrite t, t\<lparr>m_vecWrite := []\<rparr>)"

definition FinishNode :: "DBSqlThread \<Rightarrow> wait_node \<Rightarrow> DBSqlThread" where
  "FinishNode t pNode = t\<lparr>m_vecWriteFinish := m_vecWriteFinish t @ [pNode]\<rparr>"

fun run_nodes ::
  "'w mysql \<Rightarrow> string \<Rightarrow> int \<Rightarrow> wait_node list \<Rightarrow> DBSqlThread \<times> ServerData list \<times> 'w \<Rightarrow>
   (DBSqlThread \<times> ServerData list \<times> 'w) res" where
  "run_nodes api charset junk [] c = Inr c"
| "run_nodes api charset junk (n # ns) (t, svs, w) =
     rbind (DoDBSql api charset junk n (svs, m_dbSqlThreadConnect t, w)) (\<lambda>(n', svs', db, w').
       run_nodes api charset junk ns (FinishNode (t\<lparr>m_dbSqlThreadConnect := db\<rparr>) n', svs', w'))"

definition DBSqlThread_run ::
  "'w mysql \<Rightarrow> string \<Rightarrow> int \<Rightarrow> DBSqlThread \<times> ServerData list \<times> 'w \<Rightarrow>
   (DBSqlThread \<times> ServerData list \<times> 'w) res" where
  "DBSqlThread_run api charset junk = (\<lambda>(t, svs, w).
     let (tmp, t') = TakeWaiting t in run_nodes api charset junk tmp (t', svs, w))"

interpretation waiting: mailbox m_vecWrite AddWaitNode TakeWaiting
  by unfold_locales (simp_all add: AddWaitNode_def TakeWaiting_def)

interpretation finished: mailbox m_vecWriteFinish FinishNode GetFinishDBWait
  by unfold_locales (simp_all add: FinishNode_def GetFinishDBWait_def)

section \<open>The statements\<close>

lemma c_str_append: "no_nul a \<Longrightarrow> c_str (a @ b) = a @ c_str b"
  by (induction a) (auto simp: c_str_def no_nul_def)

lemma c_str_id: "no_nul a \<Longrightarrow> c_str a = a"
  by (induction a) (auto simp: c_str_def no_nul_def)

lemma no_nul_append [simp]: "no_nul (a @ b) \<longleftrightarrow> no_nul a \<and> no_nul b"
  by (auto simp: no_nul_def)

lemma no_nul_Cons [simp]: "no_nul (c # s) \<longleftrightarrow> chr_byte c \<noteq> 0 \<and> no_nul s"
  by (auto simp: no_nul_def)

lemma no_nul_Nil [simp]: "no_nul ''''"
  by (simp add: no_nul_def)

text \<open>
  Registration of a name and a password free of the characters the code looks for: the
  follow-up query asks for the two output parameters.
\<close>

lemma callsql_register:
  assumes "CHR 0x40 \<notin> set acc" and "CHR 0x29 \<notin> set acc"
    and "CHR 0x40 \<notin> set pw" and "CHR 0x29 \<notin> set pw"
  shows "callsql (register_sql acc pw) = Some ''SELECT @accountid,@isNew''"
proof -
  let ?pre = "''call p_addAccountByMyself('' @ quote @ acc @ quote @ '' ,'' @ quote @ pw @ quote @ '',''"
  have "register_sql acc pw = ?pre @ (CHR 0x40 # ''accountid,@isNew'') @ CHR 0x29 # '';''"
    by (simp add: register_sql_def)
  moreover have "callsql \<dots> = Some (''SELECT '' @ CHR 0x40 # ''accountid,@isNew'')"
    by (rule callsql_args) (use assms in auto)
  ultimately show ?thesis by simp
qed

text \<open>
  Two quoted fields can be told apart as long as the first holds no quote: the statement
  determines the name and the password. With a quote in the name it does not.
\<close>

lemma split_at_quote:
  assumes "c \<notin> set a" and "c \<notin> set a'" and "a @ c # r = a' @ c # r'"
  shows "a = a' \<and> r = r'"
  using assms
proof (induction a arbitrary: a')
  case Nil
  then show ?case by (cases a') auto
next
  case (Cons x a)
  then show ?case by (cases a') auto
qed

lemma register_sql_inject:
  assumes "CHR 0x27 \<notin> set a" and "CHR 0x27 \<notin> set a'"
  shows "register_sql a p = register_sql a' p' \<longleftrightarrow> a = a' \<and> p = p'"
proof
  assume "register_sql a p = register_sql a' p'"
  then have "a @ CHR 0x27 # '' ,'' @ quote @ p @ quote @ '',@accountid,@isNew);'' =
      a' @ CHR 0x27 # '' ,'' @ quote @ p' @ quote @ '',@accountid,@isNew);''"
    by (simp add: register_sql_def)
  from split_at_quote [OF assms this] show "a = a' \<and> p = p'" by simp
qed simp

lemma login_sql_inject:
  assumes "CHR 0x27 \<notin> set a" and "CHR 0x27 \<notin> set a'"
  shows "login_sql a p = login_sql a' p' \<longleftrightarrow> a = a' \<and> p = p'"
proof
  assume "login_sql a p = login_sql a' p'"
  then have "a @ CHR 0x27 # '' and password = '' @ quote @ p @ quote @ '';'' =
      a' @ CHR 0x27 # '' and password = '' @ quote @ p' @ quote @ '';''"
    by (simp add: login_sql_def)
  from split_at_quote [OF assms this] show "a = a' \<and> p = p'" by simp
qed simp

section \<open>Registration\<close>

lemma atoi_range: "atoi s = Inr r \<Longrightarrow> int32_range r"
  by (auto simp: atoi_def Let_def split: if_splits)

text \<open>
  The two numbers the code takes out of the first row, or the fault of taking them: a null
  column, a row that is too short, or a number that is no \<open>int\<close>.
\<close>

definition account_row :: "string option list \<Rightarrow> (int \<times> int) res" where
  "account_row row =
     rbind (atoi_column row 0) (\<lambda>iAccountID. rbind (atoi_column row 1) (\<lambda>iIsNew. Inr (iAccountID, iIsNew)))"

lemma account_row_null: "account_row (None # row) = Inl NullPointer"
  by (simp add: account_row_def atoi_column_def column_def)

text \<open>The statement of a registration and its outcome.\<close>

abbreviation register_query ::
  "'w mysql \<Rightarrow> string \<Rightarrow> string \<Rightarrow> string \<Rightarrow> DBConnect \<times> 'w \<Rightarrow> (int \<times> rows option \<times> DBConnect \<times> 'w) res" where
  "register_query api charset acc pw \<equiv> loadtabledata api charset (Some (c_str (register_sql acc pw)))"

lemma loadtabledata_unconnected:
  "loadtabledata api charset sqlp (db, w) = Inr (1, mres, c) \<Longrightarrow> con db \<noteq> None"
  by (cases "con db") (simp_all add: loadtabledata_def)

lemma CheckAndInsert_row:
  assumes "length acc \<le> 20" and "register_query api charset acc pw (db, w) = Inr (1, Some (row # rs), db1, w1)"
  shows "CheckAndInsertAccountAndPasswd api charset acc pw (db, w) =
     rbind (account_row row) (\<lambda>(i, n). Inr (if n \<noteq> 0 then i else -4, db1,
       DBresultSet_delete api (Some (row # rs)) w1))"
  using assms loadtabledata_unconnected [OF assms(2)]
  by (auto simp: CheckAndInsertAccountAndPasswd_def account_row_def rbind_assoc)

text \<open>Without such a row the outcome is one of the codes.\<close>

lemma CheckAndInsert_long: "20 < length acc \<Longrightarrow>
   CheckAndInsertAccountAndPasswd api charset acc pw (db, w) = Inr (-1, db, w)"
  by (simp add: CheckAndInsertAccountAndPasswd_def)

lemma CheckAndInsert_no_row:
  assumes "init_allocates api"
    and "\<not> (length acc \<le> 20 \<and> (\<exists>row rs c. register_query api charset acc pw (db, w) = Inr (1, Some (row # rs), c)))"
  obtains r c' where "CheckAndInsertAccountAndPasswd api charset acc pw (db, w) = Inr (r, c')" and "r \<in> {-6, -3, -2, -1}"
proof (cases "length acc \<le> 20")
  case False
  then show thesis using CheckAndInsert_long [of acc api charset pw db w] that by auto
next
  case True
  obtain iret mres db1 w1 where l: "register_query api charset acc pw (db, w) = Inr (iret, mres, db1, w1)"
    and i: "iret \<in> {-3, -2, -1, 1}" and m: "mres \<noteq> None \<longrightarrow> iret = 1"
    using loadtabledata_result [OF assms(1)] by blast
  have "mres = None \<or> mres = Some []"
    using assms(2) True l m by (cases mres; cases "the mres") auto
  then have "\<exists>r c'. CheckAndInsertAccountAndPasswd api charset acc pw (db, w) = Inr (r, c') \<and> r \<in> {-6, -3, -2, -1}"
    using l i True by (auto simp: CheckAndInsertAccountAndPasswd_def Let_def)
  then show thesis using that by blast
qed

lemma CheckAndInsert_fault_iff:
  assumes "init_allocates api"
  shows "CheckAndInsertAccountAndPasswd api charset acc pw (db, w) = Inl e \<longleftrightarrow>
     length acc \<le> 20 \<and> (\<exists>row rs c. register_query api charset acc pw (db, w) = Inr (1, Some (row # rs), c) \<and>
       account_row row = Inl e)"
proof (cases "length acc \<le> 20 \<and> (\<exists>row rs c. register_query api charset acc pw (db, w) = Inr (1, Some (row # rs), c))")
  case True
  then obtain row rs db1 w1 where "register_query api charset acc pw (db, w) = Inr (1, Some (row # rs), db1, w1)"
    by fast
  with CheckAndInsert_row [OF _ this] True show ?thesis by (cases "account_row row") auto
next
  case False
  from assms False obtain r c' where "CheckAndInsertAccountAndPasswd api charset acc pw (db, w) = Inr (r, c')"
    by (rule CheckAndInsert_no_row)
  with False show ?thesis by auto
qed

text \<open>A number above 0 is that of a row marked as new.\<close>

lemma CheckAndInsert_success_iff:
  assumes "init_allocates api" and "0 < r"
  shows "(\<exists>c'. CheckAndInsertAccountAndPasswd api charset acc pw (db, w) = Inr (r, c')) \<longleftrightarrow>
     length acc \<le> 20 \<and> (\<exists>row rs c n. register_query api charset acc pw (db, w) = Inr (1, Some (row # rs), c) \<and>
       account_row row = Inr (r, n) \<and> n \<noteq> 0)"
proof (cases "length acc \<le> 20 \<and> (\<exists>row rs c. register_query api charset acc pw (db, w) = Inr (1, Some (row # rs), c))")
  case True
  then obtain row rs db1 w1 where "register_query api charset acc pw (db, w) = Inr (1, Some (row # rs), db1, w1)"
    by fast
  with CheckAndInsert_row [OF _ this] True assms(2) show ?thesis by (cases "account_row row") auto
next
  case False
  from assms(1) False obtain r' c' where "CheckAndInsertAccountAndPasswd api charset acc pw (db, w) = Inr (r', c')"
    and "r' \<in> {-6, -3, -2, -1}" by (rule CheckAndInsert_no_row)
  with False assms(2) show ?thesis by auto
qed

lemma CheckAndInsert_code:
  assumes "init_allocates api" and "CheckAndInsertAccountAndPasswd api charset acc pw (db, w) = Inr (r, c0)"
  shows "r \<in> {-6, -4, -3, -2, -1} \<or>
     (\<exists>row rs c n. register_query api charset acc pw (db, w) = Inr (1, Some (row # rs), c) \<and>
        account_row row = Inr (r, n) \<and> n \<noteq> 0)"
proof (cases "length acc \<le> 20 \<and> (\<exists>row rs c. register_query api charset acc pw (db, w) = Inr (1, Some (row # rs), c))")
  case True
  then obtain row rs db1 w1 where q: "register_query api charset acc pw (db, w) = Inr (1, Some (row # rs), db1, w1)"
    by fast
  have "rbind (account_row row) (\<lambda>(i, n). Inr (if n \<noteq> 0 then i else -4, db1,
      DBresultSet_delete api (Some (row # rs)) w1)) = Inr (r, c0)"
    using CheckAndInsert_row [OF _ q] True assms(2) by simp
  then obtain i n where "account_row row = Inr (i, n)" and "r = (if n \<noteq> 0 then i else -4)"
    by (auto simp: rbind_Inr_iff)
  then show ?thesis using q by (cases "n = 0") auto
next
  case False
  from assms(1) False obtain r' c' where "CheckAndInsertAccountAndPasswd api charset acc pw (db, w) = Inr (r', c')"
    and "r' \<in> {-6, -3, -2, -1}" by (rule CheckAndInsert_no_row)
  with assms(2) show ?thesis by auto
qed

text \<open>
  A registration whose password has an at-sign and a closing parenthesis after it: the query
  that follows the call asks for what stands between them.
\<close>

lemma callsql_captured:
  assumes "CHR 0x40 \<notin> set (acc @ pre)" and "CHR 0x29 \<notin> set (acc @ pre @ vars)"
    and "int (length vars) < 2 ^ 30"
  shows "callsql (register_sql acc (pre @ CHR 0x40 # vars @ CHR 0x29 # post)) = Some (''SELECT '' @ CHR 0x40 # vars)"
proof -
  let ?pre = "''call p_addAccountByMyself('' @ quote @ acc @ quote @ '' ,'' @ quote @ pre"
  have "register_sql acc (pre @ CHR 0x40 # vars @ CHR 0x29 # post) =
      ?pre @ (CHR 0x40 # vars) @ CHR 0x29 # post @ quote @ '',@accountid,@isNew);''"
    by (simp add: register_sql_def)
  moreover have "callsql \<dots> = Some (''SELECT '' @ CHR 0x40 # vars)"
    by (rule callsql_args) (use assms in auto)
  ultimately show ?thesis by simp
qed

lemma register_query_captured:
  assumes "CHR 0x40 \<notin> set (acc @ pre)" and "CHR 0x29 \<notin> set (acc @ pre @ vars)"
    and "no_nul acc" and "no_nul (pre @ CHR 0x40 # vars @ CHR 0x29 # post)" and "int (length vars) < 2 ^ 30"
    and "con db = Some h" and "mysql_ping api h w = (False, w1)"
    and "mysql_real_query api h (register_sql acc (pre @ CHR 0x40 # vars @ CHR 0x29 # post)) w1 = (False, w2)"
    and "mysql_query api h (''SELECT '' @ CHR 0x40 # vars) w2 = (b, w3)"
    and "mysql_store_result api h w3 = (Some rs, w4)"
  shows "register_query api charset acc (pre @ CHR 0x40 # vars @ CHR 0x29 # post) (db, w) =
     Inr (1, Some rs, db, w4)"
proof -
  let ?sql = "register_sql acc (pre @ CHR 0x40 # vars @ CHR 0x29 # post)"
  have sql: "c_str ?sql = ?sql"
    using assms(3,4) by (intro c_str_id) (simp add: register_sql_def chr_byte_def)
  have q: "c_str (''SELECT '' @ CHR 0x40 # vars) = ''SELECT '' @ CHR 0x40 # vars"
    using assms(4) by (intro c_str_id) (simp add: chr_byte_def)
  have f: "first_char ?sql ''c''" "first_char ?sql ''scSC''" and c: "str_find ''call'' ?sql = Some 0"
    by (simp_all add: register_sql_def first_char_def)
  show ?thesis
    using assms(6-10) callsql_captured [OF assms(1,2,5), of post] q f c
    by (simp add: loadtabledata_def KeepAlive_def sql)
qed

text \<open>
  The whole conversation with the database when the connection is alive and the server
  accepts the call: one ping, the call, the query for its two output parameters, and the
  row that answers it.
\<close>

lemma register_conversation:
  assumes len: "length acc \<le> 20" and clean: "no_nul acc" "no_nul pw"
      "CHR 0x40 \<notin> set (acc @ pw)" "CHR 0x29 \<notin> set (acc @ pw)"
    and h: "con db = Some h"
    and ping: "mysql_ping api h w = (False, w1)"
    and call: "mysql_real_query api h (register_sql acc pw) w1 = (False, w2)"
    and query: "mysql_query api h ''SELECT @accountid,@isNew'' w2 = (b, w3)"
    and res: "mysql_store_result api h w3 = (Some ([Some i, Some n] # rows), w4)"
    and nums: "atoi i = Inr acct" "atoi n = Inr isnew"
  shows "CheckAndInsertAccountAndPasswd api charset acc pw (db, w) =
     Inr (if isnew \<noteq> 0 then acct else -4, db, mysql_free_result api ([Some i, Some n] # rows) w4)"
proof -
  have sql: "c_str (register_sql acc pw) = register_sql acc pw"
    using clean(1,2) by (intro c_str_id) (simp add: register_sql_def chr_byte_def)
  have cs: "callsql (register_sql acc pw) = Some ''SELECT @accountid,@isNew''"
    using clean by (intro callsql_register) auto
  have q: "c_str ''SELECT @accountid,@isNew'' = ''SELECT @accountid,@isNew''"
    by (rule c_str_id) (simp add: chr_byte_def)
  have f: "first_char (register_sql acc pw) ''c''" "first_char (register_sql acc pw) ''scSC''"
    and c: "str_find ''call'' (register_sql acc pw) = Some 0"
    by (simp_all add: register_sql_def first_char_def)
  have "loadtabledata api charset (Some (register_sql acc pw)) (db, w) =
      Inr (1, Some ([Some i, Some n] # rows), db, w4)"
    using h ping call query res cs q f c by (simp add: loadtabledata_def KeepAlive_def)
  then show ?thesis
    using len h nums
    by (simp add: CheckAndInsertAccountAndPasswd_def sql DBresultSet_delete_def atoi_column_def column_def)
qed

section \<open>Login\<close>

text \<open>
  A MySQL server answers a statement that begins with an unknown keyword by a syntax
  error. The two statements of the login begin with \<open>selsect\<close>.
\<close>

definition rejects_selsect :: "'w mysql \<Rightarrow> bool" where
  "rejects_selsect api \<longleftrightarrow> (\<forall>h sql w. take 7 sql = ''selsect'' \<longrightarrow> fst (mysql_real_query api h sql w))"

lemma loadtabledata_rejected:
  assumes "init_allocates api" and "rejects_selsect api" and "take 7 sql = ''selsect''"
  shows "\<exists>iret db' w'. loadtabledata api charset (Some sql) (db, w) = Inr (iret, None, db', w') \<and> iret < 0"
proof (cases "con db = None")
  case True
  then show ?thesis by (simp add: loadtabledata_def)
next
  case False
  from KeepAlive_result [OF assms(1) this, of charset w] obtain r db1 w1 where
    k: "KeepAlive api charset (db, w) = Inr (r, db1, w1)"
    and r: "r = 0 \<and> con db1 = None \<or> r = 1 \<and> con db1 \<noteq> None" by blast
  have q: "fst (mysql_real_query api h sql w1)" for h
    using assms(2,3) unfolding rejects_selsect_def by blast
  show ?thesis
  proof (cases "r = 0")
    case True
    then show ?thesis using False k by (simp add: loadtabledata_def)
  next
    case r1: False
    then obtain h where h: "con db1 = Some h" using r by blast
    obtain w2 where w2: "mysql_real_query api h sql w1 = (True, w2)"
      using q [of h] by (cases "mysql_real_query api h sql w1") simp
    have "loadtabledata api charset (Some sql) (db, w) = Inr (-2, None, db1, w2)"
      using False k r1 h w2 by (simp add: loadtabledata_def)
    then show ?thesis by auto
  qed
qed

text \<open>Whenever such a statement comes back, it comes back with an error and no rows.\<close>

lemma loadtabledata_refused:
  assumes "rejects_selsect api" and "take 7 sql = ''selsect''"
    and "loadtabledata api charset (Some sql) (db, w) = Inr (iret, mres, c)"
  shows "iret < 0 \<and> mres = None"
proof -
  have q: "mysql_real_query api h sql w = (b, w') \<Longrightarrow> b" for h w b w'
    using assms(1,2) unfolding rejects_selsect_def by (metis fst_conv)
  show ?thesis
    using assms(3) by (auto simp: loadtabledata_def Let_def rbind_Inr_iff split: if_splits option.splits prod.splits
        dest: q)
qed

lemma login_sql_selsect: "take 7 (c_str (login_sql a p)) = ''selsect''"
  by (simp add: login_sql_def c_str_def chr_byte_def)

lemma CheckLoginData_rejected:
  assumes "init_allocates api" and "rejects_selsect api"
  shows "\<exists>db' w'. CheckLoginData api charset a p (db, w) = Inr (False, db', w')"
  using loadtabledata_rejected [OF assms login_sql_selsect [of a p], of charset db w]
  by (auto simp: CheckLoginData_def Let_def)

lemma GetAllPergana_rejected:
  assumes "init_allocates api" and "rejects_selsect api"
  shows "\<exists>db' w'. GetAllPerganaFromSql api charset junk svs (db, w) = Inr (0, svs, db', w')"
proof -
  have "take 7 (c_str ''selsect * frome gm_serverlist;'') = ''selsect''"
    by (simp add: c_str_def chr_byte_def)
  from loadtabledata_rejected [OF assms this, of charset db w] show ?thesis
    by (auto simp: GetAllPerganaFromSql_def Let_def)
qed

lemma Login_DoDBSql_rejected:
  assumes "init_allocates api" and "rejects_selsect api"
  shows "\<exists>db' w'. CLoginWaitNode_DoDBSql api charset junk n (svs, db, w) =
     Inr (n\<lparr>m_checkisOK := False, m_servercount := 0\<rparr>, svs, db', w')"
proof -
  obtain db1 w1 where c: "CheckLoginData api charset (CLoginWaitNode.m_strAccount n)
      (CLoginWaitNode.m_strPassword n) (db, w) = Inr (False, db1, w1)"
    using CheckLoginData_rejected [OF assms] by blast
  obtain db2 w2 where "GetAllPerganaFromSql api charset junk svs (db1, w1) = Inr (0, svs, db2, w2)"
    using GetAllPergana_rejected [OF assms] by blast
  with c show ?thesis by (simp add: CLoginWaitNode_DoDBSql_def)
qed

lemma Login_DoDBSql_refused:
  assumes "rejects_selsect api" and "CLoginWaitNode_DoDBSql api charset junk n (svs, db, w) = Inr (n', svs', c)"
  shows "n' = n\<lparr>m_checkisOK := False, m_servercount := 0\<rparr> \<and> svs' = svs"
proof -
  have g: "take 7 (c_str ''selsect * frome gm_serverlist;'') = ''selsect''"
    by (simp add: c_str_def chr_byte_def)
  have check: "b = False"
    if "CheckLoginData api charset (CLoginWaitNode.m_strAccount n) (CLoginWaitNode.m_strPassword n) (db, w) =
      Inr (b, db1, w1)" for b db1 w1
    using that by (auto simp: CheckLoginData_def Let_def rbind_Inr_iff split: if_splits
        dest: loadtabledata_refused [OF assms(1) login_sql_selsect])
  have list: "r = 0 \<and> svs1 = svs"
    if "GetAllPerganaFromSql api charset junk svs (db1, w1) = Inr (r, svs1, db2, w2)" for r svs1 db1 w1 db2 w2
    using that by (auto simp: GetAllPerganaFromSql_def Let_def rbind_Inr_iff split: if_splits
        dest: loadtabledata_refused [OF assms(1) g])
  show ?thesis
    using assms(2) by (auto simp: CLoginWaitNode_DoDBSql_def rbind_Inr_iff dest!: check list)
qed

section \<open>The server list of a login answer\<close>

text \<open>The object \<open>sendMsg\<close> as \<open>putServerData\<close> sees it for a server.\<close>

definition with_server :: "ZS2C_A_Login \<Rightarrow> ServerData \<Rightarrow> ZS2C_A_Login" where
  "with_server m s = m\<lparr>ZS2C_A_Login.m_iID := dwID s, m_strIP := strIP s, m_wPort := wPort s,
     m_State := byState s\<rparr>"

lemma server_bytes_with_server [simp]:
  "server_bytes (with_server (with_server m s) s') = server_bytes (with_server m s')"
  by (simp add: server_bytes_def with_server_def)

lemma put_servers_Suc:
  "i < length svs \<Longrightarrow> put_servers svs i (Suc n) m h =
     rbind (ZS2C_A_Login_putServerData (with_server m (svs ! i)) h)
       (put_servers svs (Suc i) n (with_server m (svs ! i)))"
  by (simp add: with_server_def Let_def)

text \<open>The entries on the wire, one after the other.\<close>

lemma writes_put_servers:
  "i + n \<le> length svs \<Longrightarrow>
   writes (put_servers svs i n m)
     (concat (map (\<lambda>s. server_bytes (with_server m s)) (take n (drop i svs))))"
proof (induction n arbitrary: i m)
  case 0
  have "put_servers svs i 0 m = Inr" by (rule ext) simp
  then show ?case by (simp add: writes_Nil)
next
  case (Suc n)
  then have i: "i < length svs" by simp
  let ?m = "with_server m (svs ! i)"
  have "writes (put_servers svs (Suc i) n ?m)
      (concat (map (\<lambda>s. server_bytes (with_server ?m s)) (take n (drop (Suc i) svs))))"
    using Suc.prems by (intro Suc.IH) simp
  from writes_seq [OF writes_putServerData [of ?m] this]
  have "writes (\<lambda>h. rbind (ZS2C_A_Login_putServerData ?m h) (put_servers svs (Suc i) n ?m))
      (server_bytes ?m @ concat (map (\<lambda>s. server_bytes (with_server m s)) (take n (drop (Suc i) svs))))"
    by simp
  moreover have "drop i svs = svs ! i # drop (Suc i) svs"
    using i by (simp add: Cons_nth_drop_Suc)
  ultimately show ?case
    using i put_servers_Suc [OF i, of n m] by (simp add: writes_def del: put_servers.simps)
qed

text \<open>The loop faults exactly when the count exceeds the list.\<close>

lemma put_servers_ok_iff:
  assumes "\<forall>s\<in>set svs. str_mem (strIP s)" and "str_mem (m_strName m)" and "wf_out h"
  shows "ok (put_servers svs i n m h) \<longleftrightarrow> n = 0 \<or> i + n \<le> length svs"
  using assms(2,3)
proof (induction n arbitrary: i m h)
  case 0
  then show ?case by simp
next
  case (Suc n)
  show ?case
  proof (cases "i < length svs")
    case False
    then show ?thesis by simp
  next
    case True
    let ?m = "with_server m (svs ! i)"
    have nm: "str_mem (m_strName ?m)" "str_mem (m_strIP ?m)"
      using Suc.prems assms(1) True by (simp_all add: with_server_def)
    then obtain h' where h': "ZS2C_A_Login_putServerData ?m h = Inr h'" "wf_out h'"
      using keeps_wf_putServerData Suc.prems(2) by (meson keeps_wf_def)
    then show ?thesis
      using Suc.IH [OF nm(1) h'(2), of "Suc i"] True by (auto simp: put_servers_Suc [OF True] simp del: put_servers.simps)
  qed
qed

text \<open>
  \<open>m_servercount\<close> is the number of columns of the table, not the number of servers: the
  loop over the list runs past its end when the table has more columns than the list has
  servers.
\<close>

lemma read_servers_Cons:
  assumes "read_servers n (row # rows) f svs = Inr (r, svs')" and "0 < n"
  shows "r = n" and "length svs' = length svs + length (row # rows)"
proof -
  have "r = n \<and> length svs' = length svs + length (row # rows)"
    using assms(1)
  proof (induction rows arbitrary: row f svs)
    case Nil
    then show ?case using assms(2) by (auto simp: rbind_Inr_iff)
  next
    case (Cons row2 rows)
    from Cons.prems have "rbind (server_of_row row) (\<lambda>s. read_servers n (row2 # rows) n (svs @ [s])) =
        Inr (r, svs')"
      using assms(2) by (simp only: read_servers.simps(2) [of n row] not_le [symmetric] if_False)
    then obtain s where "read_servers n (row2 # rows) n (svs @ [s]) = Inr (r, svs')"
      by (auto simp only: rbind_Inr_iff)
    from Cons.IH [OF this] show ?case by simp
  qed
  then show "r = n" and "length svs' = length svs + length (row # rows)" by simp_all
qed

lemma login_answer_ok_iff:
  assumes "\<forall>s\<in>set svs. str_mem (strIP s)" and "m_checkisOK n" and "0 < m_servercount n"
  shows "ok (login_answer junkM junkH svs n) \<longleftrightarrow> unat (m_servercount n) \<le> length svs"
proof -
  let ?m = "(ZS2C_A_Login_new junkM)\<lparr>ZS2C_A_Login.m_iErrorCode :=
      word_of_int (error_code ERROR_CODE_LOGIN_OK), ZS2C_A_Login.m_DynmicCode := m_dwDynamicCode n\<rparr>"
  obtain h where h: "ZS2C_A_Login_put ?m (HMessage_new junkH) = Inr h" "wf_out h"
    using login_ans.safe_law wf_out_new unfolding keeps_wf_def by blast
  have "str_mem (m_strName ?m)" by (simp add: ZS2C_A_Login_new_def str_mem_def)
  from put_servers_ok_iff [OF assms(1) this h(2)] h(1) assms(2,3) show ?thesis
    by (auto simp: login_answer_def Let_def)
qed

section \<open>The thread\<close>

text \<open>Working a node off keeps its request and its session.\<close>

fun same_request :: "wait_node \<Rightarrow> wait_node \<Rightarrow> bool" where
  "same_request (RegisterNode a) (RegisterNode b) \<longleftrightarrow> b = a\<lparr>m_outdata := m_outdata b\<rparr>"
| "same_request (LoginNode a) (LoginNode b) \<longleftrightarrow>
     b = a\<lparr>m_checkisOK := m_checkisOK b, m_servercount := m_servercount b\<rparr>"
| "same_request _ _ \<longleftrightarrow> False"

lemma DoDBSql_same: "DoDBSql api charset junk n c = Inr (n', c') \<Longrightarrow> same_request n n'"
  by (cases n; cases c)
     (auto simp: rbind_Inr_iff CRegisterWaitNode_DoDBSql_def CLoginWaitNode_DoDBSql_def)

lemma run_nodes_result:
  "run_nodes api charset junk ns (t, svs, w) = Inr (t', svs', w') \<Longrightarrow>
   m_vecWrite t' = m_vecWrite t \<and>
   (\<exists>fs. m_vecWriteFinish t' = m_vecWriteFinish t @ fs \<and> list_all2 same_request ns fs)"
proof (induction ns arbitrary: t svs w)
  case Nil
  then show ?case by simp
next
  case (Cons n ns)
  from Cons.prems obtain n' svs1 db w1 where
    d: "DoDBSql api charset junk n (svs, m_dbSqlThreadConnect t, w) = Inr (n', svs1, db, w1)" and
    r: "run_nodes api charset junk ns (FinishNode (t\<lparr>m_dbSqlThreadConnect := db\<rparr>) n', svs1, w1) =
      Inr (t', svs', w')"
    by (auto simp: rbind_Inr_iff)
  from Cons.IH [OF r] DoDBSql_same [OF d] show ?case
    by (fastforce simp: FinishNode_def)
qed

lemma run_result:
  assumes "DBSqlThread_run api charset junk (t, svs, w) = Inr (t', svs', w')"
  shows "m_vecWrite t' = []"
    and "\<exists>fs. m_vecWriteFinish t' = m_vecWriteFinish t @ fs \<and> list_all2 same_request (m_vecWrite t) fs"
  using run_nodes_result [of api charset junk "m_vecWrite t" "t\<lparr>m_vecWrite := []\<rparr>" svs w t' svs' w']
    assms by (simp_all add: DBSqlThread_run_def TakeWaiting_def)

text \<open>No login request that was worked off has succeeded.\<close>

definition no_login :: "wait_node \<Rightarrow> bool" where
  "no_login n \<longleftrightarrow> (case n of LoginNode l \<Rightarrow> \<not> m_checkisOK l \<and> m_servercount l = 0 | RegisterNode _ \<Rightarrow> True)"

lemma DoDBSql_refused:
  assumes "rejects_selsect api" and "DoDBSql api charset junk n (svs, db, w) = Inr (n', svs', c)"
  shows "no_login n' \<and> svs' = svs"
proof (cases n)
  case (RegisterNode r)
  with assms(2) show ?thesis by (auto simp: rbind_Inr_iff no_login_def)
next
  case (LoginNode l)
  with assms(2) show ?thesis
    by (auto simp: rbind_Inr_iff no_login_def dest!: Login_DoDBSql_refused [OF assms(1)])
qed

lemma run_nodes_refused:
  assumes "rejects_selsect api"
  shows "run_nodes api charset junk ns (t, svs, w) = Inr (t', svs', w') \<Longrightarrow>
     svs' = svs \<and> (\<exists>fs. m_vecWriteFinish t' = m_vecWriteFinish t @ fs \<and> list_all no_login fs)"
proof (induction ns arbitrary: t svs w)
  case Nil
  then show ?case by simp
next
  case (Cons n ns)
  from Cons.prems obtain n' svs1 db w1 where
    d: "DoDBSql api charset junk n (svs, m_dbSqlThreadConnect t, w) = Inr (n', svs1, db, w1)" and
    r: "run_nodes api charset junk ns (FinishNode (t\<lparr>m_dbSqlThreadConnect := db\<rparr>) n', svs1, w1) =
      Inr (t', svs', w')"
    by (auto simp: rbind_Inr_iff)
  from Cons.IH [OF r] DoDBSql_refused [OF assms d] show ?case
    by (auto simp: FinishNode_def intro: exI [of _ "n' # _"])
qed

text \<open>
  A node ends the thread only as a registration whose answer has a first row out of which the
  two numbers cannot be taken.
\<close>

definition ends_thread ::
  "'w mysql \<Rightarrow> string \<Rightarrow> DBConnect \<times> 'w \<Rightarrow> wait_node \<Rightarrow> fault \<Rightarrow> bool" where
  "ends_thread api charset c n e \<longleftrightarrow>
     (\<exists>r row rs c'. n = RegisterNode r \<and> length (CRegisterWaitNode.m_strAccount r) \<le> 20 \<and>
        register_query api charset (CRegisterWaitNode.m_strAccount r) (CRegisterWaitNode.m_strPassword r) c =
          Inr (1, Some (row # rs), c') \<and> account_row row = Inl e)"

lemma DoDBSql_outcome:
  assumes "init_allocates api" and "rejects_selsect api"
  shows "(\<exists>n' db' w'. DoDBSql api charset junk n (svs, db, w) = Inr (n', svs, db', w')) \<or>
     (\<exists>e. DoDBSql api charset junk n (svs, db, w) = Inl e \<and> ends_thread api charset (db, w) n e)"
proof (cases n)
  case (RegisterNode r)
  show ?thesis
  proof (cases "CheckAndInsertAccountAndPasswd api charset (CRegisterWaitNode.m_strAccount r)
      (CRegisterWaitNode.m_strPassword r) (db, w)")
    case (Inl e)
    then have "ends_thread api charset (db, w) n e"
      using CheckAndInsert_fault_iff [OF assms(1), THEN iffD1, OF Inl] RegisterNode
      unfolding ends_thread_def by blast
    with Inl RegisterNode show ?thesis by (auto simp: CRegisterWaitNode_DoDBSql_def)
  next
    case (Inr p)
    with RegisterNode show ?thesis by (cases p) (simp add: CRegisterWaitNode_DoDBSql_def)
  qed
next
  case (LoginNode l)
  with Login_DoDBSql_rejected [OF assms, of charset junk l svs db w] show ?thesis by auto
qed

lemma run_nodes_outcome:
  assumes "init_allocates api" and "rejects_selsect api"
  shows "(\<exists>t' w'. run_nodes api charset junk ns (t, svs, w) = Inr (t', svs, w')) \<or>
     (\<exists>before n after t1 w1 e. ns = before @ n # after \<and>
        run_nodes api charset junk before (t, svs, w) = Inr (t1, svs, w1) \<and>
        ends_thread api charset (m_dbSqlThreadConnect t1, w1) n e \<and>
        run_nodes api charset junk ns (t, svs, w) = Inl e)"
proof (induction ns arbitrary: t w)
  case Nil
  then show ?case by simp
next
  case (Cons n ns)
  from DoDBSql_outcome [OF assms, of charset junk n svs "m_dbSqlThreadConnect t" w] show ?case
  proof (elim disjE exE conjE)
    fix n' db w1
    assume d: "DoDBSql api charset junk n (svs, m_dbSqlThreadConnect t, w) = Inr (n', svs, db, w1)"
    from Cons.IH [of "FinishNode (t\<lparr>m_dbSqlThreadConnect := db\<rparr>) n'" w1] show ?thesis
    proof (elim disjE exE conjE)
      fix before m after t1 w2 e
      assume "ns = before @ m # after"
        and "run_nodes api charset junk before (FinishNode (t\<lparr>m_dbSqlThreadConnect := db\<rparr>) n', svs, w1) =
          Inr (t1, svs, w2)"
        and "ends_thread api charset (m_dbSqlThreadConnect t1, w2) m e"
        and "run_nodes api charset junk ns (FinishNode (t\<lparr>m_dbSqlThreadConnect := db\<rparr>) n', svs, w1) = Inl e"
      with d show ?thesis
        by (intro disjI2 exI [of _ "n # before"] exI [of _ m] exI [of _ after] exI [of _ t1] exI [of _ w2]
            exI [of _ e]) simp
    qed (use d in simp)
  next
    fix e
    assume "DoDBSql api charset junk n (svs, m_dbSqlThreadConnect t, w) = Inl e"
      and "ends_thread api charset (m_dbSqlThreadConnect t, w) n e"
    then show ?thesis
      by (intro disjI2 exI [of _ "[]"] exI [of _ n] exI [of _ ns] exI [of _ t] exI [of _ w] exI [of _ e]) simp
  qed
qed

text \<open>Logins do not end it.\<close>

lemma run_nodes_logins:
  assumes "init_allocates api" and "rejects_selsect api" and "\<forall>n\<in>set ns. \<exists>l. n = LoginNode l"
  shows "\<exists>t' w'. run_nodes api charset junk ns (t, svs, w) = Inr (t', svs, w')"
  using run_nodes_outcome [OF assms(1,2), of charset junk ns t svs w] assms(3)
  by (auto simp: ends_thread_def)

section \<open>The answers\<close>

lemma send_message:
  assumes "live net i s" and "wr (m_pSocketClient s) bs" and "send_buffer h = Inr (bs, h')"
  shows "rbind (SendMsgBySessionID wr net i h) (\<lambda>(net', _). Inr net') =
     Inr (net\<lparr>written := written net @ [(m_pSocketClient s, bs)]\<rparr>)"
  using SendMsgBySessionID_live [OF assms(1,3), of wr] assms(2) by simp

lemma Register_DoLogic_form:
  "\<exists>h h'. send_buffer h = Inr (u16_le 15 @ u16_le 0x2001 @ u16_le 2 @
       u32_be (if m_outdata n > 0 then 1 else 2) @ u32_be (word_of_int (m_outdata n)) @ [10], h') \<and>
     CRegisterWaitNode_DoLogic wr junkM junkH n net =
       rbind (SendMsgBySessionID wr net (sint (m_dwSessionID n)) h) (\<lambda>(net', _). Inr net')"
proof -
  let ?m = "(ZS2C_A_RegisterAccount_new junkM)\<lparr>ZS2C_A_RegisterAccount.m_iErrorCode :=
      word_of_int (error_code (if m_outdata n > 0 then ERROR_CODE_REGSTER_OK else ERROR_CODE_REGSTER_FAIL)),
      m_iErrorCodeIndex := word_of_int (m_outdata n)\<rparr>"
  have body: "ZS2C_A_RegisterAccount_body ?m =
      u32_be (if m_outdata n > 0 then 1 else 2) @ u32_be (word_of_int (m_outdata n))"
    by (simp add: ZS2C_A_RegisterAccount_body_def)
  have "length (ZS2C_A_RegisterAccount_body ?m) < 9993" by (simp add: body)
  from register_ans.sent [OF this, of junkH] obtain h h' where
    "ZS2C_A_RegisterAccount_put ?m (HMessage_new junkH) = Inr h" and
    "send_buffer h = Inr (u16_le 15 @ u16_le 0x2001 @ u16_le 2 @
      u32_be (if m_outdata n > 0 then 1 else 2) @ u32_be (word_of_int (m_outdata n)) @ [10], h')"
    by (auto simp: body) (simp add: ZS2C_A_RegisterAccount_new_def)
  then show ?thesis
    by (intro exI [of _ h] exI [of _ h']) (simp add: CRegisterWaitNode_DoLogic_def Let_def)
qed

definition login_refused_wire :: "u8 list" where
  "login_refused_wire = u16_le 19 @ u16_le 0x2001 @ u16_le 4 @ u32_be 4 @ u32_be 0 @ u32_be 0 @ [10]"

lemma Login_DoLogic_form:
  assumes "\<not> (m_checkisOK n \<and> 0 < m_servercount n)"
  shows "\<exists>h h'. send_buffer h = Inr (login_refused_wire, h') \<and>
     CLoginWaitNode_DoLogic wr junkM junkH now svs n (dbms, net) =
       rbind (SendMsgBySessionID wr net (sint (m_dwSessionID n)) h) (\<lambda>(net', _). Inr (dbms, net'))"
proof -
  let ?m = "(ZS2C_A_Login_new junkM)\<lparr>ZS2C_A_Login.m_iErrorCode := word_of_int (error_code ERROR_CODE_LOGIN_FAIL)\<rparr>"
  have body: "ZS2C_A_Login_body ?m = u32_be 4 @ u32_be 0 @ u32_be 0"
    and bm: "m_iMainProtocol ?m = 0x2001" "m_iSubProtocol ?m = 4"
    by (simp_all add: ZS2C_A_Login_body_def ZS2C_A_Login_new_def)
  have "length (ZS2C_A_Login_body ?m) < 9993" unfolding body by simp
  from login_ans.sent [OF this, of junkH, unfolded body bm] obtain h h' where
    h: "ZS2C_A_Login_put ?m (HMessage_new junkH) = Inr h" and
    sb: "send_buffer h = Inr (login_refused_wire, h')"
    by (auto simp: login_refused_wire_def)
  have "login_answer junkM junkH svs n = Inr h"
    using assms h by (auto simp: login_answer_def Let_def)
  with assms sb show ?thesis
    by (intro exI [of _ h] exI [of _ h']) (auto simp: CLoginWaitNode_DoLogic_def Let_def)
qed

lemma Login_DoLogic_refuses:
  assumes "\<not> (m_checkisOK n \<and> 0 < m_servercount n)"
    and "live net (sint (m_dwSessionID n)) s" and "\<forall>bs. wr (m_pSocketClient s) bs"
  shows "CLoginWaitNode_DoLogic wr junkM junkH now svs n (dbms, net) =
     Inr (dbms, net\<lparr>written := written net @ [(m_pSocketClient s,
       u16_le 19 @ u16_le 0x2001 @ u16_le 4 @ u32_be 4 @ u32_be 0 @ u32_be 0 @ [10])]\<rparr>)"
proof -
  obtain h h' where "send_buffer h = Inr (login_refused_wire, h')"
    and "CLoginWaitNode_DoLogic wr junkM junkH now svs n (dbms, net) =
      rbind (SendMsgBySessionID wr net (sint (m_dwSessionID n)) h) (\<lambda>(net', _). Inr (dbms, net'))"
    using Login_DoLogic_form [OF assms(1)] by blast
  with SendMsgBySessionID_live [OF assms(2), of h login_refused_wire h' wr] assms(3) show ?thesis
    by (simp add: login_refused_wire_def)
qed

text \<open>The bytes of an accepted login's answer.\<close>

lemma login_answer_sent:
  assumes "m_checkisOK n" and "0 < m_servercount n" and "unat (m_servercount n) \<le> length svs"
    and "length (concat (map (\<lambda>s. server_bytes (with_server (ZS2C_A_Login_new junkM) s))
           (take (unat (m_servercount n)) svs))) < 9980"
  shows "\<exists>h h' sz. login_answer junkM junkH svs n = Inr h \<and> length sz = 2 \<and>
     send_buffer h = Inr (sz @ u16_le 0x2001 @ u16_le 4 @ u32_be 3 @ u32_be (m_dwDynamicCode n) @ u32_be 0 @
       concat (map (\<lambda>s. server_bytes (with_server (ZS2C_A_Login_new junkM) s))
         (take (unat (m_servercount n)) svs)) @ [10], h')"
proof -
  let ?m = "(ZS2C_A_Login_new junkM)\<lparr>ZS2C_A_Login.m_iErrorCode := word_of_int (error_code ERROR_CODE_LOGIN_OK),
       ZS2C_A_Login.m_DynmicCode := m_dwDynamicCode n\<rparr>"
  let ?k = "unat (m_servercount n)"
  let ?list = "concat (map (\<lambda>s. server_bytes (with_server (ZS2C_A_Login_new junkM) s)) (take ?k svs))"
  have same: "server_bytes (with_server ?m s) = server_bytes (with_server (ZS2C_A_Login_new junkM) s)" for s
    by (simp add: server_bytes_def with_server_def)
  have "0 + ?k \<le> length svs" using assms(3) by simp
  from writes_put_servers [OF this, of ?m]
  have ws: "writes (put_servers svs 0 ?k ?m) ?list"
    by (simp only: same drop_0)
  have w: "writes (\<lambda>h. rbind (ZS2C_A_Login_put ?m h) (put_servers svs 0 ?k ?m))
      ((base_bytes ?m @ ZS2C_A_Login_body ?m) @ ?list)"
    by (rule writes_seq [OF login_ans.writes_law ws])
  have body: "ZS2C_A_Login_body ?m = u32_be 3 @ u32_be (m_dwDynamicCode n) @ u32_be 0"
    and bm: "m_iMainProtocol ?m = 0x2001" "m_iSubProtocol ?m = 4"
    by (simp_all add: ZS2C_A_Login_body_def ZS2C_A_Login_new_def)
  have "2 \<le> length ((base_bytes ?m @ ZS2C_A_Login_body ?m) @ ?list)"
    and "length ((base_bytes ?m @ ZS2C_A_Login_body ?m) @ ?list) < 9999"
    using assms(4) unfolding body by simp_all
  from writes_send [OF w this, of junkH] obtain h h' where
    h: "rbind (ZS2C_A_Login_put ?m (HMessage_new junkH)) (put_servers svs 0 ?k ?m) = Inr h" and
    sb: "send_buffer h = Inr (u16_le (word_of_nat (length ((base_bytes ?m @ ZS2C_A_Login_body ?m) @ ?list) + 1)) @
       drop 2 ((base_bytes ?m @ ZS2C_A_Login_body ?m) @ ?list) @ [10], h')"
    by blast
  have d: "drop 2 ((base_bytes ?m @ ZS2C_A_Login_body ?m) @ ?list) =
      u16_le 0x2001 @ u16_le 4 @ u32_be 3 @ u32_be (m_dwDynamicCode n) @ u32_be 0 @ ?list"
    unfolding body append_assoc drop_append length_base_bytes drop_2_base_bytes bm by simp
  have "login_answer junkM junkH svs n = Inr h"
    using assms(1,2) h by (simp add: login_answer_def Let_def)
  with sb show ?thesis
    unfolding d by (intro exI [of _ h] exI [of _ h'] exI conjI) (assumption, simp_all)
qed

section \<open>Properties\<close>

lemma demo_mysql_rejects: "rejects_selsect demo_mysql"
  by (simp add: rejects_selsect_def demo_mysql_def)

lemma atoi_42: "atoi ''42'' = Inr 42"
  by (simp add: atoi_def is_space_def is_digit_def digits_value_def int32_range_def Let_def)

lemma atoi_1: "atoi ''1'' = Inr 1"
  by (simp add: atoi_def is_space_def is_digit_def digits_value_def int32_range_def Let_def)

text \<open>
  The follow-up query of a registration asks for the two output parameters of the procedure,
  whenever name and password are free of at-signs and closing parentheses.
\<close>

theorem register_statement:
  assumes "CHR 0x40 \<notin> set acc" and "CHR 0x29 \<notin> set acc"
    and "CHR 0x40 \<notin> set pw" and "CHR 0x29 \<notin> set pw"
  shows "callsql (register_sql acc pw) = Some ''SELECT @accountid,@isNew''"
  using assms by (rule callsql_register)

theorem register_statement_witness:
  "callsql (register_sql ''alice'' ''secret'') = Some ''SELECT @accountid,@isNew''"
  by (rule register_statement) simp_all

text \<open>
  A password with an at-sign breaks the follow-up query: it then asks for the rest of the
  password as well.
\<close>

theorem register_statement_broken:
  assumes "CHR 0x40 \<notin> set (acc @ pre)" and "CHR 0x29 \<notin> set (acc @ pre @ post)"
    and "int (length post) < 2 ^ 29"
  shows "callsql (register_sql acc (pre @ CHR 0x40 # post)) =
     Some (''SELECT '' @ CHR 0x40 # post @ quote @ '',@accountid,@isNew'')"
proof -
  let ?pre = "''call p_addAccountByMyself('' @ quote @ acc @ quote @ '' ,'' @ quote @ pre"
  have "register_sql acc (pre @ CHR 0x40 # post) =
      ?pre @ (CHR 0x40 # post @ quote @ '',@accountid,@isNew'') @ CHR 0x29 # '';''"
    by (simp add: register_sql_def)
  moreover have "callsql \<dots> = Some (''SELECT '' @ CHR 0x40 # post @ quote @ '',@accountid,@isNew'')"
    by (rule callsql_args) (use assms in auto)
  ultimately show ?thesis by simp
qed

theorem register_statement_broken_witness:
  "callsql (register_sql ''alice'' (''p'' @ CHR 0x40 # ''w'')) =
     Some (''SELECT '' @ CHR 0x40 # ''w'' @ quote @ '',@accountid,@isNew'')"
  by (rule register_statement_broken) simp_all

text \<open>
  As long as the account name holds no quote, the statements of registration and login tell
  apart every two pairs of name and password.
\<close>

theorem statements_injective:
  assumes "CHR 0x27 \<notin> set a" and "CHR 0x27 \<notin> set a'"
  shows "(register_sql a p = register_sql a' p' \<longleftrightarrow> a = a' \<and> p = p') \<and>
     (login_sql a p = login_sql a' p' \<longleftrightarrow> a = a' \<and> p = p')"
  using register_sql_inject [OF assms] login_sql_inject [OF assms] by simp

theorem statements_injective_witness:
  "(register_sql ''bob'' ''x'' = register_sql ''bob'' ''y'' \<longleftrightarrow> ''bob'' = ''bob'' \<and> ''x'' = ''y'') \<and>
     (login_sql ''bob'' ''x'' = login_sql ''bob'' ''y'' \<longleftrightarrow> ''bob'' = ''bob'' \<and> ''x'' = ''y'')"
  by (rule statements_injective) simp_all

text \<open>
  With a quote in the name they do not: the statement for one name and password is that for
  another, which is what an injection needs.
\<close>

lemma statement_injection:
  "register_sql (a @ quote @ '' ,'' @ quote @ b) p = register_sql a (b @ quote @ '' ,'' @ quote @ p) \<and>
   login_sql (a @ quote @ '' and password = '' @ quote @ b) p =
     login_sql a (b @ quote @ '' and password = '' @ quote @ p)"
  by (simp add: register_sql_def login_sql_def)

text \<open>
  C21: A registration over a connection that answers the ping, with a name of at most 20
  characters, name and password free of at-signs, closing parentheses and zero characters, and
  a server that accepts the call and answers the follow-up query by a row of two numbers, is one
  ping, one call, one query for the two output parameters and one row: a new account gives its
  number, an existing one -4, and the result set is released.
\<close>

theorem registration_conversation:
  assumes "length acc \<le> 20" and "no_nul acc" and "no_nul pw"
    and "CHR 0x40 \<notin> set (acc @ pw)" and "CHR 0x29 \<notin> set (acc @ pw)"
    and "con db = Some h"
    and "mysql_ping api h w = (False, w1)"
    and "mysql_real_query api h (register_sql acc pw) w1 = (False, w2)"
    and "mysql_query api h ''SELECT @accountid,@isNew'' w2 = (b, w3)"
    and "mysql_store_result api h w3 = (Some ([Some i, Some n] # rows), w4)"
    and "atoi i = Inr acct" and "atoi n = Inr isnew"
  shows "CheckAndInsertAccountAndPasswd api charset acc pw (db, w) =
     Inr (if isnew \<noteq> 0 then acct else -4, db, mysql_free_result api ([Some i, Some n] # rows) w4)"
  using assms by (rule register_conversation)

theorem registration_conversation_witness:
  "CheckAndInsertAccountAndPasswd demo_mysql ''utf8'' ''alice'' ''secret'' (demo_db, []) =
     Inr (42, demo_db, [register_sql ''alice'' ''secret'', ''SELECT @accountid,@isNew''])"
proof -
  have "CheckAndInsertAccountAndPasswd demo_mysql ''utf8'' ''alice'' ''secret'' (demo_db, []) =
     Inr (if (1 :: int) \<noteq> 0 then 42 else -4, demo_db,
       mysql_free_result demo_mysql ([Some ''42'', Some ''1''] # [])
         [register_sql ''alice'' ''secret'', ''SELECT @accountid,@isNew''])"
    by (rule registration_conversation [where h = 1 and b = False])
       (simp_all add: no_nul_def chr_byte_def demo_db_def demo_mysql_def atoi_42 atoi_1 register_sql_def)
  then show ?thesis by (simp add: demo_mysql_def)
qed

text \<open>
  C22: What the outcome of a registration tells, for every state of the connection and every answer of
  the server. It is a number r above 0 exactly when the name has at most 20 characters, the
  statement was answered by rows, and the first of them holds the number r and a second number
  that is not 0. It is a fault exactly when the first row is null in one of the two columns, too
  short, or out of the range of \<open>int\<close>. Any other outcome that is not such a row's number is one of
  five codes, -1 if the name is too long.
\<close>

theorem registration_result:
  assumes "init_allocates api"
  shows "(0 < r \<longrightarrow> (\<exists>c'. CheckAndInsertAccountAndPasswd api charset acc pw (db, w) = Inr (r, c')) =
       (length acc \<le> 20 \<and> (\<exists>row rs c n. register_query api charset acc pw (db, w) = Inr (1, Some (row # rs), c) \<and>
          account_row row = Inr (r, n) \<and> n \<noteq> 0))) \<and>
     (CheckAndInsertAccountAndPasswd api charset acc pw (db, w) = Inl e \<longleftrightarrow>
       length acc \<le> 20 \<and> (\<exists>row rs c. register_query api charset acc pw (db, w) = Inr (1, Some (row # rs), c) \<and>
          account_row row = Inl e)) \<and>
     (CheckAndInsertAccountAndPasswd api charset acc pw (db, w) = Inr (r, c0) \<longrightarrow> r \<in> {-6, -4, -3, -2, -1} \<or>
       (\<exists>row rs c n. register_query api charset acc pw (db, w) = Inr (1, Some (row # rs), c) \<and>
          account_row row = Inr (r, n) \<and> n \<noteq> 0)) \<and>
     (20 < length acc \<longrightarrow> CheckAndInsertAccountAndPasswd api charset acc pw (db, w) = Inr (-1, db, w))"
  using CheckAndInsert_success_iff [OF assms, of r charset acc pw db w]
    CheckAndInsert_fault_iff [OF assms, of charset acc pw db w e]
    CheckAndInsert_code [OF assms, of charset acc pw db w r c0] CheckAndInsert_long [of acc api charset pw db w]
  by blast

theorem registration_result_witness:
  "CheckAndInsertAccountAndPasswd demo_mysql ''utf8'' (replicate 21 (CHR ''a'')) ''p'' (demo_db, []) =
     Inr (-1, demo_db, [])"
  using registration_result [OF demo_mysql_allocates, of 1 "''utf8''"
      "replicate 21 (CHR ''a'')" "''p''" demo_db "[]"] by simp

text \<open>
  C23: A password can end the database thread. With an at-sign and, after it, a closing
  parenthesis in the password, the follow-up query asks for the user variables the password
  names. Where these are not set, which a MySQL server answers by nulls, the code reads a number
  out of a null pointer, and the round of the thread that works the request off faults. The
  connection is alive, the server accepts the call, and the name has at most 20 characters and
  none of the two that the code looks for.
\<close>

theorem registration_null_fault:
  assumes "CHR 0x40 \<notin> set (acc @ pre)" and "CHR 0x29 \<notin> set (acc @ pre @ vars)"
    and "no_nul acc" and "no_nul (pre @ CHR 0x40 # vars @ CHR 0x29 # post)"
    and "length acc \<le> 20" and "int (length vars) < 2 ^ 30"
    and "con (m_dbSqlThreadConnect t) = Some h" and "mysql_ping api h w = (False, w1)"
    and "mysql_real_query api h (register_sql acc (pre @ CHR 0x40 # vars @ CHR 0x29 # post)) w1 = (False, w2)"
    and "mysql_query api h (''SELECT '' @ CHR 0x40 # vars) w2 = (b, w3)"
    and "mysql_store_result api h w3 = (Some ((None # cols) # rows), w4)"
    and "m_vecWrite t = RegisterNode n # ns"
    and "CRegisterWaitNode.m_strAccount n = acc"
    and "CRegisterWaitNode.m_strPassword n = pre @ CHR 0x40 # vars @ CHR 0x29 # post"
  shows "DBSqlThread_run api charset junk (t, svs, w) = Inl NullPointer"
proof -
  have "register_query api charset acc (pre @ CHR 0x40 # vars @ CHR 0x29 # post) (m_dbSqlThreadConnect t, w) =
      Inr (1, Some ((None # cols) # rows), m_dbSqlThreadConnect t, w4)"
    by (rule register_query_captured [OF assms(1-4,6-11)])
  from CheckAndInsert_row [OF assms(5) this] show ?thesis
    using assms(12-14)
    by (simp add: DBSqlThread_run_def TakeWaiting_def CRegisterWaitNode_DoDBSql_def account_row_null)
qed

text \<open>The library above, with no variable set; a registration with such a password.\<close>

definition unset_mysql :: "string list mysql" where
  "unset_mysql = demo_mysql\<lparr>mysql_store_result := (\<lambda>_ w. (Some [[None, None]], w))\<rparr>"

definition unset_node :: CRegisterWaitNode where
  "unset_node = \<lparr>m_dwSessionID = 1, CRegisterWaitNode.m_strAccount = ''bob'',
     CRegisterWaitNode.m_strPassword = CHR 0x40 # ''a'' @ CHR 0x29 # [], m_outdata = 0\<rparr>"

definition unset_thread :: DBSqlThread where
  "unset_thread = \<lparr>m_vecWrite = [RegisterNode unset_node], m_vecWriteFinish = [], m_dbSqlThreadConnect = demo_db\<rparr>"

theorem registration_null_fault_witness:
  "DBSqlThread_run unset_mysql ''utf8'' 7 (unset_thread, [], []) = Inl NullPointer"
  by (rule registration_null_fault [where acc = "''bob''" and pre = "[]" and vars = "''a''" and post = "[]"
        and h = 1 and ns = "[]" and n = unset_node and cols = "[None]" and rows = "[]" and b = False])
     (simp_all add: unset_mysql_def demo_mysql_def unset_thread_def unset_node_def demo_db_def chr_byte_def register_sql_def)

text \<open>
  No login is ever accepted through the database. Both statements of a login node start with
  the word \<open>selsect\<close>, which a MySQL server answers by a syntax error: the node comes out
  unverified and without servers, and its answer is a refusal, with the cache untouched.
\<close>

theorem login_never_accepted:
  assumes "init_allocates api" and "rejects_selsect api"
    and "live net (sint (m_dwSessionID n)) s" and "\<forall>bs. wr (m_pSocketClient s) bs"
  shows "\<exists>n' db' w'. CLoginWaitNode_DoDBSql api charset junk n (svs, db, w) = Inr (n', svs, db', w') \<and>
     CLoginWaitNode_DoLogic wr junkM junkH now svs n' (dbms, net) =
       Inr (dbms, net\<lparr>written := written net @ [(m_pSocketClient s,
         u16_le 19 @ u16_le 0x2001 @ u16_le 4 @ u32_be 4 @ u32_be 0 @ u32_be 0 @ [10])]\<rparr>)"
proof -
  let ?n = "n\<lparr>m_checkisOK := False, m_servercount := 0\<rparr>"
  obtain db' w' where d: "CLoginWaitNode_DoDBSql api charset junk n (svs, db, w) = Inr (?n, svs, db', w')"
    using Login_DoDBSql_rejected [OF assms(1,2)] by blast
  have no: "\<not> (m_checkisOK ?n \<and> 0 < m_servercount ?n)"
    and live: "live net (sint (m_dwSessionID ?n)) s" using assms(3) by simp_all
  from Login_DoLogic_refuses [where wr = wr, OF no live assms(4), of junkM junkH now svs dbms] d show ?thesis
    by (intro exI [of _ ?n] exI [of _ db'] exI [of _ w']) simp
qed

definition demo_login_node :: CLoginWaitNode where
  "demo_login_node = \<lparr>m_dwSessionID = 1, m_strAccount = ''alice'', m_strPassword = ''secret'',
     m_dwDynamicCode = 9, m_checkisOK = True, m_servercount = 3\<rparr>"

theorem login_never_accepted_witness:
  "\<exists>n' db' w'. CLoginWaitNode_DoDBSql demo_mysql ''utf8'' 7 demo_login_node ([], demo_db, []) =
       Inr (n', [], db', w') \<and>
     CLoginWaitNode_DoLogic (\<lambda>_ _. True) demo_login blank 0 [] n' (DBMS_new, one_client) =
       Inr (DBMS_new, one_client\<lparr>written := written one_client @ [(m_pSocketClient (blank_session\<lparr>m_iID := 1\<rparr>),
         u16_le 19 @ u16_le 0x2001 @ u16_le 4 @ u32_be 4 @ u32_be 0 @ u32_be 0 @ [10])]\<rparr>)"
  by (rule login_never_accepted [OF demo_mysql_allocates demo_mysql_rejects])
     (simp_all add: live_def one_client_def demo_login_node_def)

text \<open>
  C28: The count of servers a verified login works with is the number of columns of the server
  table. Building the answer reads past the end of the list exactly when that number is
  larger than the number of servers known.
\<close>

theorem server_count_overrun:
  assumes "read_servers c (row # rows) junk svs0 = Inr (r, svs)" and "0 < c" and "c < 2 ^ 31"
    and "m_checkisOK n" and "m_servercount n = word_of_int r" and "\<forall>s\<in>set svs. str_mem (strIP s)"
  shows "ok (login_answer junkM junkH svs n) \<longleftrightarrow> c \<le> int (length svs0 + length (row # rows))"
proof -
  have r: "r = c" and len: "length svs = length svs0 + length (row # rows)"
    using read_servers_Cons [OF assms(1,2)] by simp_all
  have u: "int (unat (m_servercount n)) = c"
    using assms(2,3,5) r by (simp add: uint_word_of_int)
  have "0 < unat (m_servercount n)" using u assms(2) by linarith
  then have "0 < m_servercount n" by (simp only: word_less_nat_alt unat_0)
  from login_answer_ok_iff [OF assms(6,4) this, of junkM junkH] u len show ?thesis by linarith
qed

definition demo_row :: "string option list" where
  "demo_row = [Some ''1'', None, Some ''ip'', None, None, None, None, None]"

theorem server_count_overrun_witness:
  "ok (login_answer demo_login blank
        [\<lparr>dwID = 1, strName = '''', strIP = ''ip'', wPort = 0, byState = 0\<rparr>]
        (demo_login_node\<lparr>m_servercount := 8\<rparr>)) \<longleftrightarrow> (8 :: int) \<le> int (length ([] :: ServerData list) + length [demo_row])"
  by (rule server_count_overrun [where r = 8 and junk = 0])
     (simp_all add: demo_row_def server_of_row_def int_column_def str_column_def column_def atoi_1
       demo_login_node_def str_mem_def c_str_def chr_byte_def)

text \<open>
  The servers of an accepted login follow the answer one after the other, but the answer
  announces none: its count field stays 0.
\<close>

theorem server_list_unannounced:
  assumes "m_checkisOK n" and "0 < m_servercount n" and "unat (m_servercount n) \<le> length svs"
    and "length (concat (map (\<lambda>s. server_bytes (with_server (ZS2C_A_Login_new junkM) s))
           (take (unat (m_servercount n)) svs))) < 9980"
  shows "\<exists>h h' sz. login_answer junkM junkH svs n = Inr h \<and> length sz = 2 \<and>
     send_buffer h = Inr (sz @ u16_le 0x2001 @ u16_le 4 @ u32_be 3 @ u32_be (m_dwDynamicCode n) @ u32_be 0 @
       concat (map (\<lambda>s. server_bytes (with_server (ZS2C_A_Login_new junkM) s))
         (take (unat (m_servercount n)) svs)) @ [10], h')"
  using assms by (rule login_answer_sent)

theorem server_list_unannounced_witness:
  "\<exists>h h' sz. login_answer demo_login blank
        [\<lparr>dwID = 1, strName = '''', strIP = ''ip'', wPort = 0, byState = 0\<rparr>]
        (demo_login_node\<lparr>m_servercount := 1\<rparr>) = Inr h \<and> length sz = 2 \<and>
     send_buffer h = Inr (sz @ u16_le 0x2001 @ u16_le 4 @ u32_be 3 @
       u32_be (m_dwDynamicCode (demo_login_node\<lparr>m_servercount := 1\<rparr>)) @ u32_be 0 @
       concat (map (\<lambda>s. server_bytes (with_server (ZS2C_A_Login_new demo_login) s))
         (take (unat (m_servercount (demo_login_node\<lparr>m_servercount := 1\<rparr>)))
            [\<lparr>dwID = 1, strName = '''', strIP = ''ip'', wPort = 0, byState = 0\<rparr>])) @ [10], h')"
  by (rule server_list_unannounced)
     (simp_all add: demo_login_node_def server_bytes_def with_server_def ZS2C_A_Login_new_def)

text \<open>
  A round of the database thread works off every request that was waiting, each once and
  in order, and hands them on with their account, password and session unchanged.
\<close>

theorem database_thread_serves_all:
  assumes "DBSqlThread_run api charset junk (t, svs, w) = Inr (t', svs', w')"
  shows "m_vecWrite t' = [] \<and>
     (\<exists>fs. m_vecWriteFinish t' = m_vecWriteFinish t @ fs \<and> list_all2 same_request (m_vecWrite t) fs)"
  using run_result [OF assms] by simp

definition demo_thread :: DBSqlThread where
  "demo_thread = \<lparr>m_vecWrite = [LoginNode demo_login_node], m_vecWriteFinish = [], m_dbSqlThreadConnect = demo_db\<rparr>"

theorem database_thread_serves_all_witness:
  "\<exists>t' w'. DBSqlThread_run demo_mysql ''utf8'' 7 (demo_thread, [], []) = Inr (t', [], w') \<and> m_vecWrite t' = [] \<and>
     (\<exists>fs. m_vecWriteFinish t' = m_vecWriteFinish demo_thread @ fs \<and>
        list_all2 same_request (m_vecWrite demo_thread) fs)"
proof -
  obtain t' w' where "run_nodes demo_mysql ''utf8'' 7 (m_vecWrite demo_thread)
      (demo_thread\<lparr>m_vecWrite := []\<rparr>, [], []) = Inr (t', [], w')"
    using run_nodes_logins [OF demo_mysql_allocates demo_mysql_rejects, of "m_vecWrite demo_thread" "''utf8''" 7
        "demo_thread\<lparr>m_vecWrite := []\<rparr>" "[]" "[]"] by (auto simp: demo_thread_def)
  then have "DBSqlThread_run demo_mysql ''utf8'' 7 (demo_thread, [], []) = Inr (t', [], w')"
    by (simp add: DBSqlThread_run_def TakeWaiting_def)
  with database_thread_serves_all [OF this] show ?thesis by blast
qed

text \<open>
  C24: When a round of the database thread ends, for a library whose \<open>mysql_init\<close> does not run out
  of memory and that reports an error for a statement beginning with \<open>selsect\<close>. Either every
  request that was waiting is worked off, and no login among them is verified, or the round
  faults, and then at a registration: those before it were worked off, its name has at most 20
  characters, and the first row that answered its statement has a column that is missing, null
  or out of the range of \<open>int\<close>. A round in which only logins wait ends.
\<close>

theorem database_round_ends:
  assumes "init_allocates api" and "rejects_selsect api"
  shows "((\<exists>t' w' fs. DBSqlThread_run api charset junk (t, svs, w) = Inr (t', svs, w') \<and>
        m_vecWrite t' = [] \<and> m_vecWriteFinish t' = m_vecWriteFinish t @ fs \<and>
        list_all2 same_request (m_vecWrite t) fs \<and> list_all no_login fs) \<or>
      (\<exists>before r after t1 w1 row rs c e. m_vecWrite t = before @ RegisterNode r # after \<and>
        DBSqlThread_run api charset junk (t\<lparr>m_vecWrite := before\<rparr>, svs, w) = Inr (t1, svs, w1) \<and>
        length (CRegisterWaitNode.m_strAccount r) \<le> 20 \<and>
        register_query api charset (CRegisterWaitNode.m_strAccount r) (CRegisterWaitNode.m_strPassword r)
          (m_dbSqlThreadConnect t1, w1) = Inr (1, Some (row # rs), c) \<and> account_row row = Inl e \<and>
        DBSqlThread_run api charset junk (t, svs, w) = Inl e)) \<and>
     ((\<forall>n\<in>set (m_vecWrite t). \<exists>l. n = LoginNode l) \<longrightarrow>
        (\<exists>t' w'. DBSqlThread_run api charset junk (t, svs, w) = Inr (t', svs, w')))"
proof -
  let ?t = "t\<lparr>m_vecWrite := []\<rparr>"
  have run: "DBSqlThread_run api charset junk (t\<lparr>m_vecWrite := ns\<rparr>, svs, w) =
      run_nodes api charset junk ns (?t, svs, w)" for ns
    by (simp add: DBSqlThread_run_def TakeWaiting_def)
  have all: "DBSqlThread_run api charset junk (t, svs, w) = run_nodes api charset junk (m_vecWrite t) (?t, svs, w)"
    by (simp add: DBSqlThread_run_def TakeWaiting_def)
  have worked: "\<exists>fs. m_vecWrite t' = [] \<and> m_vecWriteFinish t' = m_vecWriteFinish t @ fs \<and>
      list_all2 same_request (m_vecWrite t) fs \<and> list_all no_login fs"
    if "run_nodes api charset junk (m_vecWrite t) (?t, svs, w) = Inr (t', svs, w')" for t' w'
    using run_nodes_refused [OF assms(2) that] run_result [OF that [folded all]] by auto
  show ?thesis
    unfolding all run
    using run_nodes_outcome [OF assms, of charset junk "m_vecWrite t" ?t svs w] worked
      run_nodes_logins [OF assms, of "m_vecWrite t" charset junk ?t svs w]
    unfolding ends_thread_def by (intro conjI impI) (blast, blast)
qed

theorem database_round_ends_witness:
  "\<exists>t' w'. DBSqlThread_run demo_mysql ''utf8'' 7 (demo_thread, [], []) = Inr (t', [], w')"
  using database_round_ends [OF demo_mysql_allocates demo_mysql_rejects, of "''utf8''" 7 demo_thread "[]" "[]"]
  by (simp add: demo_thread_def)

end
