(* ===== verification/Msg_Logic.thy ===== *)
theory Msg_Logic
  imports DB_Sql
begin

text \<open>
  The message handling of the account server: the class \<open>MsgLogic\<close> (MsgLogic.h,
  MsgLogic.cpp), the loop of \<open>main\<close> (main2.cpp) that drives it, and the whole server as a
  step relation in which the network thread and the main thread interleave.
\<close>

section \<open>The class\<close>

record MsgLogic =
  m_vecAllClientMsg :: "HMessage list"
  m_mapAllClient :: "SessionClient option std_map"
  m_vecAllFinishWaitNode :: "wait_node list"

definition MsgLogic_new :: MsgLogic where
  "MsgLogic_new = \<lparr>MsgLogic.m_vecAllClientMsg = [], m_mapAllClient = [], m_vecAllFinishWaitNode = []\<rparr>"

definition GetvecMsg :: "MsgLogic \<Rightarrow> HMessage list \<Rightarrow> MsgLogic" where
  "GetvecMsg logic vecmsg = logic\<lparr>MsgLogic.m_vecAllClientMsg := vecmsg\<rparr>"

definition GetmapAllClient :: "MsgLogic \<Rightarrow> SessionClient option std_map \<Rightarrow> MsgLogic" where
  "GetmapAllClient logic mapClient = logic\<lparr>m_mapAllClient := mapClient\<rparr>"

text \<open>
  The search stops at the first match; a null pointer in the map is followed. The code
  \<open>dc\<close> is an \<open>int\<close> that the comparison converts to \<open>uint32_t\<close>.
\<close>

fun check_loop :: "int \<Rightarrow> int \<Rightarrow> SessionClient option std_map \<Rightarrow> bool res" where
  "check_loop sid dc [] = Inr False"
| "check_loop sid dc ((k, None) # it) = Inl NullPointer"
| "check_loop sid dc ((k, Some s) # it) =
     (if sid = m_iID s \<and> word_of_int dc = SessionClient.m_DynmicCode s then Inr True
      else check_loop sid dc it)"

definition CheckDynmicCode :: "MsgLogic \<Rightarrow> int \<Rightarrow> int \<Rightarrow> bool res" where
  "CheckDynmicCode logic sid dc = check_loop sid dc (m_mapAllClient logic)"

text \<open>The memory the local objects of one round of \<open>DealMsg\<close> are built on.\<close>

record deal_junk =
  junk_base :: BaseMessage
  junk_register_req :: C2ZS_R_RegisterAccount
  junk_login_req :: C2ZS_R_Login
  junk_login_ans :: ZS2C_A_Login
  junk_check_req :: DS2ZS_R_CheckDynmicCode
  junk_check_ans :: ZS2DS_A_CheckDynmicCode
  junk_send :: HMessage

definition deal_register :: "deal_junk \<Rightarrow> BaseMessage \<Rightarrow> HMessage \<Rightarrow> MyZServerNetwork \<Rightarrow> MyZServerNetwork res" where
  "deal_register j baseMsg hmg net =
     rbind (C2ZS_R_RegisterAccount_get
              (BaseMessage_assign (C2ZS_R_RegisterAccount_new (junk_register_req j)) baseMsg) hmg)
       (\<lambda>_. Inr net)"

definition login_reply :: "ZS2C_A_Login \<Rightarrow> ZS2C_A_Login" where
  "login_reply junk = (ZS2C_A_Login_new junk)
     \<lparr>ZS2C_A_Login.m_iErrorCode := word_of_int (error_code ERROR_CODE_LOGIN_OK),
      ZS2C_A_Login.m_DynmicCode := 0\<rparr>"

definition deal_login ::
  "(nat \<Rightarrow> u8 list \<Rightarrow> bool) \<Rightarrow> deal_junk \<Rightarrow> BaseMessage \<Rightarrow> HMessage \<Rightarrow> MyZServerNetwork \<Rightarrow>
   MyZServerNetwork res" where
  "deal_login wr j baseMsg hmg net =
     rbind (C2ZS_R_Login_get
              (BaseMessage_assign (C2ZS_R_Login_new (junk_login_req j)) baseMsg) hmg) (\<lambda>(_, hmg').
     rbind (ZS2C_A_Login_put (login_reply (junk_login_ans j)) (HMessage_new (junk_send j))) (\<lambda>sendHmg.
     rbind (SendMsgBySessionID wr net (m_iSessionID hmg') sendHmg) (\<lambda>(net', _). Inr net')))"

definition check_reply :: "ZS2DS_A_CheckDynmicCode \<Rightarrow> bool \<Rightarrow> u32 \<Rightarrow> ZS2DS_A_CheckDynmicCode" where
  "check_reply junk okay ds = (ZS2DS_A_CheckDynmicCode_new junk)
     \<lparr>ZS2DS_A_CheckDynmicCode.m_isOK := word_of_int (error_code
        (if okay then ERROR_CODE_CHECK_DYNMIC_CODE_OK else ERROR_CODE_CHECK_DYNMIC_CODE_FAIL)),
      ZS2DS_A_CheckDynmicCode.m_SessionIDFromDS := ds\<rparr>"

definition deal_check ::
  "(nat \<Rightarrow> u8 list \<Rightarrow> bool) \<Rightarrow> deal_junk \<Rightarrow> MsgLogic \<Rightarrow> BaseMessage \<Rightarrow> HMessage \<Rightarrow> MyZServerNetwork \<Rightarrow>
   MyZServerNetwork res" where
  "deal_check wr j logic baseMsg hmg net =
     rbind (DS2ZS_R_CheckDynmicCode_get
              (BaseMessage_assign (DS2ZS_R_CheckDynmicCode_new (junk_check_req j)) baseMsg) hmg)
       (\<lambda>(recvMsg, hmg').
     rbind (CheckDynmicCode logic (sint (DS2ZS_R_CheckDynmicCode.m_SessionID recvMsg))
              (sint (DS2ZS_R_CheckDynmicCode.m_DynmicCode recvMsg))) (\<lambda>okay.
     rbind (ZS2DS_A_CheckDynmicCode_put
              (check_reply (junk_check_ans j) okay (DS2ZS_R_CheckDynmicCode.m_SessionIDFromDS recvMsg))
              (HMessage_new (junk_send j))) (\<lambda>sendHmg.
     rbind (SendMsgBySessionID wr net (m_iSessionID hmg') sendHmg) (\<lambda>(net', _). Inr net'))))"

text \<open>One round of the loop of \<open>DealMsg\<close>.\<close>

definition deal_one ::
  "(nat \<Rightarrow> u8 list \<Rightarrow> bool) \<Rightarrow> deal_junk \<Rightarrow> MsgLogic \<Rightarrow> HMessage \<Rightarrow> MyZServerNetwork \<Rightarrow>
   MyZServerNetwork res" where
  "deal_one wr j logic hmg net =
     rbind (BaseMessage_get (junk_base j) hmg) (\<lambda>(baseMsg, hmg').
       if is_main baseMsg FM_ZDQ_LOGIN then
         (if is_sub baseMsg C2ZS_R_REGISTER then deal_register j baseMsg hmg' net
          else if is_sub baseMsg C2ZS_R_LOGIN then deal_login wr j baseMsg hmg' net
          else Inr net)
       else if is_main baseMsg FM_Q_ROUND_MESSAGE then
         (if is_sub baseMsg DS2ZS_R_CHECKDYNMICCODE then deal_check wr j logic baseMsg hmg' net
          else Inr net)
       else Inr net)"

text \<open>\<open>jk i\<close> is the memory of round \<open>i\<close>.\<close>

fun deal_loop ::
  "(nat \<Rightarrow> u8 list \<Rightarrow> bool) \<Rightarrow> (nat \<Rightarrow> deal_junk) \<Rightarrow> MsgLogic \<Rightarrow> nat \<Rightarrow> HMessage list \<Rightarrow>
   MyZServerNetwork \<Rightarrow> MyZServerNetwork res" where
  "deal_loop wr jk logic i [] net = Inr net"
| "deal_loop wr jk logic i (hmg # hs) net =
     rbind (deal_one wr (jk i) logic hmg net) (deal_loop wr jk logic (Suc i) hs)"

definition DealMsg ::
  "(nat \<Rightarrow> u8 list \<Rightarrow> bool) \<Rightarrow> (nat \<Rightarrow> deal_junk) \<Rightarrow> MsgLogic \<times> MyZServerNetwork \<Rightarrow>
   (MsgLogic \<times> MyZServerNetwork) res" where
  "DealMsg wr jk = (\<lambda>(logic, net).
     if MsgLogic.m_vecAllClientMsg logic = [] then Inr (logic, net)
     else rbind (deal_loop wr jk logic 0 (MsgLogic.m_vecAllClientMsg logic) net) (\<lambda>net'.
       Inr (logic\<lparr>MsgLogic.m_vecAllClientMsg := []\<rparr>, net')))"

text \<open>
  \<open>DealSqlMsg\<close>, which the loop of \<open>main\<close> has commented out; \<open>lj i\<close> and \<open>now i\<close> are the
  memory and the clock of round \<open>i\<close>.
\<close>

fun sql_loop ::
  "(nat \<Rightarrow> u8 list \<Rightarrow> bool) \<Rightarrow> (nat \<Rightarrow> logic_junk) \<Rightarrow> (nat \<Rightarrow> u64) \<Rightarrow> ServerData list \<Rightarrow> nat \<Rightarrow>
   wait_node list \<Rightarrow> DBMS \<times> MyZServerNetwork \<Rightarrow> (DBMS \<times> MyZServerNetwork) res" where
  "sql_loop wr lj now svs i [] c = Inr c"
| "sql_loop wr lj now svs i (n # ns) c =
     rbind (DoLogic wr (lj i) (now i) svs n c) (sql_loop wr lj now svs (Suc i) ns)"

definition DealSqlMsg ::
  "(nat \<Rightarrow> u8 list \<Rightarrow> bool) \<Rightarrow> (nat \<Rightarrow> logic_junk) \<Rightarrow> (nat \<Rightarrow> u64) \<Rightarrow> ServerData list \<Rightarrow>
   MsgLogic \<times> DBSqlThread \<times> DBMS \<times> MyZServerNetwork \<Rightarrow>
   (MsgLogic \<times> DBSqlThread \<times> DBMS \<times> MyZServerNetwork) res" where
  "DealSqlMsg wr lj now svs = (\<lambda>(logic, t, c).
     let (ns, t') = GetFinishDBWait t;
         logic' = logic\<lparr>m_vecAllFinishWaitNode := ns\<rparr>
     in if ns = [] then Inr (logic', t', c)
        else rbind (sql_loop wr lj now svs 0 ns c) (\<lambda>c'.
          Inr (logic'\<lparr>m_vecAllFinishWaitNode := []\<rparr>, t', c')))"

section \<open>The main loop\<close>

text \<open>One round of the loop of \<open>main\<close>.\<close>

definition main_round ::
  "(nat \<Rightarrow> u8 list \<Rightarrow> bool) \<Rightarrow> (nat \<Rightarrow> deal_junk) \<Rightarrow> MsgLogic \<times> MyZServerNetwork \<Rightarrow>
   (MsgLogic \<times> MyZServerNetwork) res" where
  "main_round wr jk = (\<lambda>(logic, net).
     let (msgs, net') = GetAllMsg net in DealMsg wr jk (GetvecMsg logic msgs, net'))"

text \<open>
  What \<open>main\<close> does before the loop, and the state it has then. Nothing catches the exception of
  \<open>init\<close>.
\<close>

definition main_start :: "SessionClient \<Rightarrow> u32 \<Rightarrow> MsgLogic \<times> MyZServerNetwork" where
  "main_start junk rnd = (MsgLogic_new, AcceptConnect junk rnd net_init)"

definition main_boot ::
  "(string \<Rightarrow> int \<Rightarrow> bool) \<Rightarrow> SessionClient \<Rightarrow> u32 \<Rightarrow> (MsgLogic \<times> MyZServerNetwork) res" where
  "main_boot listens junk rnd =
     rbind (network_init listens net_init) (\<lambda>net. Inr (MsgLogic_new, AcceptConnect junk rnd net))"

lemma main_boot_start:
  "main_boot listens junk rnd =
     (if listens ''0.0.0.0'' 2300 then Inr (main_start junk rnd) else Inl UncaughtException)"
  by (simp add: main_boot_def main_start_def network_init_def)

text \<open>
  The server with its two threads. \<open>at\<close> is where the main thread is: at the head of its
  loop, or in \<open>DealMsg\<close> about to handle message \<open>i\<close>. Between any two of these steps the
  network thread may take one of its own.
\<close>

record server =
  srv_logic :: MsgLogic
  srv_net :: MyZServerNetwork
  srv_at :: "nat option"

definition server_start :: "SessionClient \<Rightarrow> u32 \<Rightarrow> server" where
  "server_start junk rnd =
     (let (logic, net) = main_start junk rnd in \<lparr>srv_logic = logic, srv_net = net, srv_at = None\<rparr>)"

inductive server_step :: "(nat \<Rightarrow> u8 list \<Rightarrow> bool) \<Rightarrow> server \<Rightarrow> server \<Rightarrow> bool" for wr where
  network: "net_step (srv_net s) net' \<Longrightarrow> server_step wr s (s\<lparr>srv_net := net'\<rparr>)"
| fetch: "srv_at s = None \<Longrightarrow> GetAllMsg (srv_net s) = (msgs, net') \<Longrightarrow>
     server_step wr s \<lparr>srv_logic = GetvecMsg (srv_logic s) msgs, srv_net = net', srv_at = Some 0\<rparr>"
| deal: "srv_at s = Some i \<Longrightarrow> i < length (MsgLogic.m_vecAllClientMsg (srv_logic s)) \<Longrightarrow>
     deal_one wr j (srv_logic s) (MsgLogic.m_vecAllClientMsg (srv_logic s) ! i) (srv_net s) = Inr net' \<Longrightarrow>
     server_step wr s (s\<lparr>srv_net := net', srv_at := Some (Suc i)\<rparr>)"
| finish: "srv_at s = Some i \<Longrightarrow> length (MsgLogic.m_vecAllClientMsg (srv_logic s)) \<le> i \<Longrightarrow>
     server_step wr s (s\<lparr>srv_logic := (srv_logic s)\<lparr>MsgLogic.m_vecAllClientMsg := []\<rparr>, srv_at := None\<rparr>)"

inductive server_reach :: "(nat \<Rightarrow> u8 list \<Rightarrow> bool) \<Rightarrow> server \<Rightarrow> bool" for wr where
  start: "server_reach wr (server_start junk rnd)"
| step: "server_reach wr s \<Longrightarrow> server_step wr s s' \<Longrightarrow> server_reach wr s'"

inductive_cases server_stepE: "server_step wr s s'"

section \<open>Checking a dynamic code\<close>

text \<open>
  On a map without null pointers the check finds a session with that identifier and that
  code, wherever it stands.
\<close>

lemma check_loop_iff:
  "\<forall>k. (k, None) \<notin> set es \<Longrightarrow>
   check_loop sid dc es = Inr (\<exists>k s. (k, Some s) \<in> set es \<and> m_iID s = sid \<and>
     SessionClient.m_DynmicCode s = word_of_int dc)"
  by (induction sid dc es rule: check_loop.induct) auto

lemma CheckDynmicCode_clients:
  assumes "clients_ok (m_mapAllClient logic)"
  shows "CheckDynmicCode logic sid dc = Inr
     (case map_of (m_mapAllClient logic) sid of
        Some (Some s) \<Rightarrow> SessionClient.m_DynmicCode s = word_of_int dc
      | _ \<Rightarrow> False)"
proof -
  let ?m = "m_mapAllClient logic"
  have e: "\<exists>s. v = Some s \<and> m_iID s = k" if "(k, v) \<in> set ?m" for k v
    using assms that by (auto simp: clients_ok_def)
  have dist: "distinct (map fst ?m)"
    using assms by (auto simp: clients_ok_def smap_wf_def strict_sorted_iff)
  let ?P = "\<lambda>s. SessionClient.m_DynmicCode s = word_of_int dc"
  have "(\<exists>k s. (k, Some s) \<in> set ?m \<and> m_iID s = sid \<and> ?P s) \<longleftrightarrow>
      (\<exists>s. map_of ?m sid = Some (Some s) \<and> ?P s)"
  proof
    assume "\<exists>k s. (k, Some s) \<in> set ?m \<and> m_iID s = sid \<and> ?P s"
    then obtain k s where s: "(k, Some s) \<in> set ?m" "m_iID s = sid" "?P s" by blast
    with e [OF s(1)] have "(sid, Some s) \<in> set ?m" by simp
    with dist s(3) show "\<exists>s. map_of ?m sid = Some (Some s) \<and> ?P s"
      by (metis map_of_is_SomeI)
  next
    assume "\<exists>s. map_of ?m sid = Some (Some s) \<and> ?P s"
    then obtain s where s: "(sid, Some s) \<in> set ?m" "?P s" by (blast dest: map_of_SomeD)
    with e [OF s(1)] show "\<exists>k s. (k, Some s) \<in> set ?m \<and> m_iID s = sid \<and> ?P s" by auto
  qed
  moreover have "\<forall>k. (k, None) \<notin> set ?m" using e by blast
  ultimately show ?thesis
    by (simp add: CheckDynmicCode_def check_loop_iff split: option.split)
qed

section \<open>Handling one message\<close>

text \<open>The two protocol numbers of a received message, wherever they come from.\<close>

definition msg_main :: "HMessage \<Rightarrow> u16" where
  "msg_main h = u16_of_le (bytes_at (m_byBuffer h) 2 2)"

definition msg_sub :: "HMessage \<Rightarrow> u16" where
  "msg_sub h = u16_of_le (bytes_at (m_byBuffer h) 4 2)"

definition asks :: "HMessage \<Rightarrow> MainProtocol \<Rightarrow> SubProtocol \<Rightarrow> bool" where
  "asks h p q \<longleftrightarrow> uint (msg_main h) = main_code p \<and> uint (msg_sub h) = sub_code q"

lemma deal_one_cases:
  assumes "fresh_msg h"
  shows "\<exists>b h1. consumed h 6 h1 \<and> wf_in h1 \<and> m_iSessionID h1 = m_iSessionID h \<and>
     deal_one wr j logic h net =
       (if asks h FM_ZDQ_LOGIN C2ZS_R_REGISTER then deal_register j b h1 net
        else if asks h FM_ZDQ_LOGIN C2ZS_R_LOGIN then deal_login wr j b h1 net
        else if asks h FM_Q_ROUND_MESSAGE DS2ZS_R_CHECKDYNMICCODE then deal_check wr j logic b h1 net
        else Inr net)"
proof -
  let ?b = "(junk_base j)\<lparr>m_wSize := u16_of_le (bytes_at (m_byBuffer h) 0 2),
     m_iMainProtocol := msg_main h, m_iSubProtocol := msg_sub h\<rparr>"
  from assms have "wf_in h" "m_iPos h = 0" by (simp_all add: fresh_msg_def)
  from BaseMessage_get_total [OF this, of "junk_base j"] obtain h1 where
    g: "BaseMessage_get (junk_base j) h = Inr (?b, h1)" and c: "consumed h 6 h1" "wf_in h1"
    by (auto simp: msg_main_def msg_sub_def)
  have "m_iSessionID h1 = m_iSessionID h" using c(1) by (simp add: consumed_def)
  with g c show ?thesis
    by (auto simp: deal_one_def asks_def is_main_def is_sub_def)
qed

text \<open>The bytes of the two answers.\<close>

definition login_ok_wire :: "u8 list" where
  "login_ok_wire = u16_le 19 @ u16_le 0x2001 @ u16_le 4 @ u32_be 3 @ u32_be 0 @ u32_be 0 @ [10]"

definition check_wire :: "bool \<Rightarrow> u32 \<Rightarrow> u8 list" where
  "check_wire okay ds = u16_le 15 @ u16_le 0x1037 @ u16_le 1001 @
     u32_be (if okay then 5 else 6) @ u32_be ds @ [10]"

lemma login_ok_sent:
  "\<exists>h h'. ZS2C_A_Login_put (login_reply jm) (HMessage_new jh) = Inr h \<and>
     send_buffer h = Inr (login_ok_wire, h')"
proof -
  have body: "ZS2C_A_Login_body (login_reply jm) = u32_be 3 @ u32_be 0 @ u32_be 0"
    and hd: "m_iMainProtocol (login_reply jm) = 0x2001" "m_iSubProtocol (login_reply jm) = 4"
    by (simp_all add: ZS2C_A_Login_body_def ZS2C_A_Login_new_def login_reply_def)
  have "length (ZS2C_A_Login_body (login_reply jm)) < 9993" unfolding body by simp
  from login_ans.sent [OF this, of jh] show ?thesis
    unfolding body hd login_ok_wire_def by auto
qed

lemma check_sent:
  "\<exists>h h'. ZS2DS_A_CheckDynmicCode_put (check_reply jm okay ds) (HMessage_new jh) = Inr h \<and>
     send_buffer h = Inr (check_wire okay ds, h')"
proof -
  let ?m = "check_reply jm okay ds"
  have body: "ZS2DS_A_CheckDynmicCode_body ?m = u32_be (if okay then 5 else 6) @ u32_be ds"
    and hd: "m_iMainProtocol ?m = 0x1037" "m_iSubProtocol ?m = 1001"
    by (simp_all add: ZS2DS_A_CheckDynmicCode_body_def ZS2DS_A_CheckDynmicCode_new_def check_reply_def)
  have "length (ZS2DS_A_CheckDynmicCode_body ?m) < 9993" unfolding body by simp
  from check_ans.sent [OF this, of jh] show ?thesis
    unfolding body hd check_wire_def by auto
qed

section \<open>Parsing a request\<close>

text \<open>Two strings, one after the other at the cursor, end within the buffer.\<close>

definition two_strings_fit :: "HMessage \<Rightarrow> bool" where
  "two_strings_fit h \<longleftrightarrow> str_fits h \<and> str_fits (h\<lparr>m_iPos := m_iPos h + 2 + str_len h\<rparr>)"

text \<open>In a received message the two strings start after the six bytes of the header.\<close>

definition request_fits :: "HMessage \<Rightarrow> bool" where
  "request_fits h \<longleftrightarrow> two_strings_fit (h\<lparr>m_iPos := 6\<rparr>)"

lemma two_strings_fit_cong:
  "m_byBuffer h = m_byBuffer h' \<Longrightarrow> m_iPos h = m_iPos h' \<Longrightarrow> two_strings_fit h = two_strings_fit h'"
  by (simp add: two_strings_fit_def str_fits_def str_len_def)

lemma two_strings:
  assumes "wf_in h"
  shows "two_strings_fit h \<Longrightarrow> \<exists>a p h1 h2. getString h = Inr (a, h1) \<and> getString h1 = Inr (p, h2) \<and>
      m_iSessionID h2 = m_iSessionID h"
    and "\<not> two_strings_fit h \<Longrightarrow> getString h = Inl ReadOutOfBounds \<or>
      (\<exists>a h1. getString h = Inr (a, h1) \<and> getString h1 = Inl ReadOutOfBounds)"
proof -
  have snd_fits: "str_fits (h\<lparr>m_iPos := m_iPos h + 2 + str_len h\<rparr>) = str_fits h1"
    if "consumed h (2 + nat (str_len h)) h1" for h1
  proof -
    from that have "m_iPos h1 = m_iPos h + 2 + str_len h" "m_byBuffer h1 = m_byBuffer h"
      by (simp_all add: consumed_def)
    then show ?thesis by (simp add: str_fits_def str_len_def)
  qed
  {
    assume f: "two_strings_fit h"
    then obtain a h1 where 1: "getString h = Inr (a, h1)" "consumed h (2 + nat (str_len h)) h1" "wf_in h1"
      using getString_fits [OF assms] by (auto simp: two_strings_fit_def)
    with f snd_fits obtain p h2 where "getString h1 = Inr (p, h2)" "m_iSessionID h2 = m_iSessionID h1"
      using getString_fits [OF 1(3)] by (auto simp: two_strings_fit_def consumed_def)
    with 1 show "\<exists>a p h1 h2. getString h = Inr (a, h1) \<and> getString h1 = Inr (p, h2) \<and>
        m_iSessionID h2 = m_iSessionID h"
      by (auto simp: consumed_def)
  next
    assume nf: "\<not> two_strings_fit h"
    show "getString h = Inl ReadOutOfBounds \<or>
        (\<exists>a h1. getString h = Inr (a, h1) \<and> getString h1 = Inl ReadOutOfBounds)"
    proof (cases "str_fits h")
      case False
      then show ?thesis using getString_unfit [OF assms] by blast
    next
      case True
      then obtain a h1 where 1: "getString h = Inr (a, h1)" "consumed h (2 + nat (str_len h)) h1" "wf_in h1"
        using getString_fits [OF assms] by blast
      with nf True snd_fits have "\<not> str_fits h1" by (auto simp: two_strings_fit_def)
      with 1 show ?thesis using getString_unfit by blast
    qed
  }
qed

section \<open>The outcome of each request\<close>

definition all_written :: "(nat \<Rightarrow> u8 list \<Rightarrow> bool) \<Rightarrow> SessionClient \<Rightarrow> bool" where
  "all_written wr s \<longleftrightarrow> (\<forall>bs. wr (m_pSocketClient s) bs)"

lemma deal_register_outcome:
  assumes "wf_in h"
  shows "deal_register j b h net = (if two_strings_fit h then Inr net else Inl ReadOutOfBounds)"
  using two_strings [OF assms]
  by (auto simp: deal_register_def C2ZS_R_RegisterAccount_get_def)

lemma deal_login_outcome:
  assumes "wf_in h"
  shows "\<not> two_strings_fit h \<Longrightarrow> deal_login wr j b h net = Inl ReadOutOfBounds"
    and "two_strings_fit h \<Longrightarrow> live net (m_iSessionID h) s \<Longrightarrow> all_written wr s \<Longrightarrow>
      deal_login wr j b h net =
        Inr (net\<lparr>written := written net @ [(m_pSocketClient s, login_ok_wire)]\<rparr>)"
    and "two_strings_fit h \<Longrightarrow> map_of (m_mapAllClientSock net) (m_iSessionID h) = None \<Longrightarrow>
      deal_login wr j b h net = Inl NullPointer"
proof -
  obtain m m' where m: "ZS2C_A_Login_put (login_reply (junk_login_ans j)) (HMessage_new (junk_send j)) = Inr m"
    and sb: "send_buffer m = Inr (login_ok_wire, m')"
    using login_ok_sent by blast
  have d: "deal_login wr j b h net =
      rbind (SendMsgBySessionID wr net (m_iSessionID h) m) (\<lambda>(net', _). Inr net')"
    if fit: "two_strings_fit h"
  proof -
    obtain a p h1 h2 where "getString h = Inr (a, h1)" "getString h1 = Inr (p, h2)"
      and "m_iSessionID h2 = m_iSessionID h"
      using two_strings(1) [OF assms fit] by blast
    then show ?thesis by (simp add: deal_login_def C2ZS_R_Login_get_def m)
  qed
  show "\<not> two_strings_fit h \<Longrightarrow> deal_login wr j b h net = Inl ReadOutOfBounds"
    using two_strings(2) [OF assms] by (auto simp: deal_login_def C2ZS_R_Login_get_def)
  show "two_strings_fit h \<Longrightarrow> live net (m_iSessionID h) s \<Longrightarrow> all_written wr s \<Longrightarrow>
      deal_login wr j b h net =
        Inr (net\<lparr>written := written net @ [(m_pSocketClient s, login_ok_wire)]\<rparr>)"
    using d send_message [OF _ _ sb] by (simp add: all_written_def)
  show "two_strings_fit h \<Longrightarrow> map_of (m_mapAllClientSock net) (m_iSessionID h) = None \<Longrightarrow>
      deal_login wr j b h net = Inl NullPointer"
    using d sb by (simp add: SendMsgBySessionID_def)
qed

lemma get_three_uints:
  assumes "wf_in h" and "m_iPos h = 6"
  shows "\<exists>a b c h1 h2 h3. getUInt h = Inr (a, h1) \<and> getUInt h1 = Inr (b, h2) \<and>
     getUInt h2 = Inr (c, h3) \<and> m_iSessionID h3 = m_iSessionID h"
proof -
  have one: "\<exists>a h'. getUInt h = Inr (a, h') \<and> m_iPos h' = m_iPos h + 4 \<and>
      wf_in h' \<and> m_iSessionID h' = m_iSessionID h" if "wf_in h" "m_iPos h < 9000" for h
  proof -
    have "in_bounds (m_byBuffer h) (m_iPos h) 4" "buf_size (m_byBuffer h) < 2 ^ 31"
      using that by (simp_all add: in_bounds_def wf_in_def)
    from AddPosition_consumed [OF this] obtain h' where "AddPosition h 4 = Inr h'" "consumed h 4 h'"
      by auto
    with that show ?thesis
      by (auto simp: getUInt_def load_byte_def wf_in_def consumed_def)
  qed
  from one [OF assms(1)] assms(2) obtain a h1 where
    1: "getUInt h = Inr (a, h1)" "m_iPos h1 = 10" "wf_in h1" "m_iSessionID h1 = m_iSessionID h" by auto
  from one [OF 1(3)] 1(2) obtain b h2 where
    2: "getUInt h1 = Inr (b, h2)" "m_iPos h2 = 14" "wf_in h2" "m_iSessionID h2 = m_iSessionID h1" by auto
  from one [OF 2(3)] 2(2) obtain c h3 where
    "getUInt h2 = Inr (c, h3)" "m_iSessionID h3 = m_iSessionID h2" by auto
  with 1 2 show ?thesis by auto
qed

text \<open>
  A code check is answered whatever the request holds: with the verdict of the search over
  the map the logic has, and with the number the data server sent along.
\<close>

lemma deal_check_outcome:
  assumes "wf_in h" and "m_iPos h = 6"
  shows "\<exists>sid dc ds. \<forall>okay. CheckDynmicCode logic sid dc = Inr okay \<longrightarrow>
     (\<forall>s. live net (m_iSessionID h) s \<longrightarrow> all_written wr s \<longrightarrow>
        deal_check wr j logic b h net =
          Inr (net\<lparr>written := written net @ [(m_pSocketClient s, check_wire okay ds)]\<rparr>)) \<and>
     (map_of (m_mapAllClientSock net) (m_iSessionID h) = None \<longrightarrow>
        deal_check wr j logic b h net = Inl NullPointer)"
proof -
  obtain x y z h1 h2 h3 where g: "getUInt h = Inr (x, h1)" "getUInt h1 = Inr (y, h2)"
    "getUInt h2 = Inr (z, h3)" and sess: "m_iSessionID h3 = m_iSessionID h"
    using get_three_uints [OF assms] by blast
  show ?thesis
  proof (rule exI [of _ "sint y"], rule exI [of _ "sint x"], rule exI [of _ z], intro allI impI)
    fix okay
    assume c: "CheckDynmicCode logic (sint y) (sint x) = Inr okay"
    obtain m m' where m: "ZS2DS_A_CheckDynmicCode_put (check_reply (junk_check_ans j) okay z)
        (HMessage_new (junk_send j)) = Inr m" and sb: "send_buffer m = Inr (check_wire okay z, m')"
      using check_sent by blast
    have d: "deal_check wr j logic b h net =
        rbind (SendMsgBySessionID wr net (m_iSessionID h) m) (\<lambda>(net', _). Inr net')"
      by (simp add: deal_check_def DS2ZS_R_CheckDynmicCode_get_def g sess c m)
    show "(\<forall>s. live net (m_iSessionID h) s \<longrightarrow> all_written wr s \<longrightarrow>
        deal_check wr j logic b h net =
          Inr (net\<lparr>written := written net @ [(m_pSocketClient s, check_wire okay z)]\<rparr>)) \<and>
      (map_of (m_mapAllClientSock net) (m_iSessionID h) = None \<longrightarrow>
        deal_check wr j logic b h net = Inl NullPointer)"
      unfolding d using sb send_message [OF _ _ sb]
      by (simp add: all_written_def SendMsgBySessionID_def)
  qed
qed

text \<open>All of it together, for a message out of the network thread's hands.\<close>

lemma request_fits_at:
  assumes "fresh_msg h" and "consumed h 6 h1"
  shows "two_strings_fit h1 = request_fits h"
  unfolding request_fits_def
  by (rule two_strings_fit_cong) (use assms in \<open>simp_all add: consumed_def fresh_msg_def\<close>)

lemma asks_unique:
  "asks h p q \<Longrightarrow> asks h p' q' \<longleftrightarrow> p = p' \<and> q = q'"
  by (auto simp: asks_def)

lemma deal_one_register:
  assumes "fresh_msg h" and "asks h FM_ZDQ_LOGIN C2ZS_R_REGISTER"
  shows "deal_one wr j logic h net = (if request_fits h then Inr net else Inl ReadOutOfBounds)"
  using deal_one_cases [OF assms(1), of wr j logic net] assms(2) deal_register_outcome
    request_fits_at [OF assms(1)] by auto

lemma deal_one_login:
  assumes f: "fresh_msg h" and a: "asks h FM_ZDQ_LOGIN C2ZS_R_LOGIN"
  shows "\<not> request_fits h \<Longrightarrow> deal_one wr j logic h net = Inl ReadOutOfBounds"
    and "request_fits h \<Longrightarrow> live net (m_iSessionID h) s \<Longrightarrow> all_written wr s \<Longrightarrow>
      deal_one wr j logic h net =
        Inr (net\<lparr>written := written net @ [(m_pSocketClient s, login_ok_wire)]\<rparr>)"
    and "request_fits h \<Longrightarrow> map_of (m_mapAllClientSock net) (m_iSessionID h) = None \<Longrightarrow>
      deal_one wr j logic h net = Inl NullPointer"
proof -
  obtain b h1 where 1: "consumed h 6 h1" "wf_in h1" "m_iSessionID h1 = m_iSessionID h"
    and d: "deal_one wr j logic h net = deal_login wr j b h1 net"
    using deal_one_cases [OF f, of wr j logic net] a asks_unique [OF a] by auto
  note out = deal_login_outcome [OF 1(2)] and fit = request_fits_at [OF f 1(1)]
  show "\<not> request_fits h \<Longrightarrow> deal_one wr j logic h net = Inl ReadOutOfBounds"
    and "request_fits h \<Longrightarrow> live net (m_iSessionID h) s \<Longrightarrow> all_written wr s \<Longrightarrow>
      deal_one wr j logic h net =
        Inr (net\<lparr>written := written net @ [(m_pSocketClient s, login_ok_wire)]\<rparr>)"
    and "request_fits h \<Longrightarrow> map_of (m_mapAllClientSock net) (m_iSessionID h) = None \<Longrightarrow>
      deal_one wr j logic h net = Inl NullPointer"
    using out fit d 1(3) by simp_all
qed

text \<open>
  \<open>main\<close> never calls \<open>GetmapAllClient\<close>, so the search runs over an empty map.
\<close>

lemma deal_one_check:
  assumes f: "fresh_msg h" and a: "asks h FM_Q_ROUND_MESSAGE DS2ZS_R_CHECKDYNMICCODE"
    and empty: "m_mapAllClient logic = []"
  shows "live net (m_iSessionID h) s \<Longrightarrow> all_written wr s \<Longrightarrow>
      \<exists>ds. deal_one wr j logic h net =
        Inr (net\<lparr>written := written net @ [(m_pSocketClient s, check_wire False ds)]\<rparr>)"
    and "map_of (m_mapAllClientSock net) (m_iSessionID h) = None \<Longrightarrow>
      deal_one wr j logic h net = Inl NullPointer"
proof -
  obtain b h1 where 1: "consumed h 6 h1" "wf_in h1" "m_iSessionID h1 = m_iSessionID h"
    and d: "deal_one wr j logic h net = deal_check wr j logic b h1 net"
    using deal_one_cases [OF f, of wr j logic net] a asks_unique [OF a] by auto
  have "m_iPos h1 = 6" using f 1(1) by (simp add: fresh_msg_def consumed_def)
  from deal_check_outcome [OF 1(2) this] obtain sid dc ds where
    all: "\<forall>okay. CheckDynmicCode logic sid dc = Inr okay \<longrightarrow>
     (\<forall>s. live net (m_iSessionID h1) s \<longrightarrow> all_written wr s \<longrightarrow> deal_check wr j logic b h1 net =
          Inr (net\<lparr>written := written net @ [(m_pSocketClient s, check_wire okay ds)]\<rparr>)) \<and>
     (map_of (m_mapAllClientSock net) (m_iSessionID h1) = None \<longrightarrow>
        deal_check wr j logic b h1 net = Inl NullPointer)" by blast
  have "CheckDynmicCode logic sid dc = Inr False" by (simp add: CheckDynmicCode_def empty)
  note out = all [rule_format, OF this, unfolded 1(3)]
  show "live net (m_iSessionID h) s \<Longrightarrow> all_written wr s \<Longrightarrow>
      \<exists>ds. deal_one wr j logic h net =
        Inr (net\<lparr>written := written net @ [(m_pSocketClient s, check_wire False ds)]\<rparr>)"
    unfolding d using out by (intro exI [of _ ds]) simp
  show "map_of (m_mapAllClientSock net) (m_iSessionID h) = None \<Longrightarrow>
      deal_one wr j logic h net = Inl NullPointer"
    using out d by simp
qed

lemma deal_one_other:
  assumes "fresh_msg h" and "\<not> asks h FM_ZDQ_LOGIN C2ZS_R_REGISTER"
    and "\<not> asks h FM_ZDQ_LOGIN C2ZS_R_LOGIN" and "\<not> asks h FM_Q_ROUND_MESSAGE DS2ZS_R_CHECKDYNMICCODE"
  shows "deal_one wr j logic h net = Inr net"
  using deal_one_cases [OF assms(1), of wr j logic net] assms(2-4) by auto

text \<open>
  When the main thread survives a message, with sockets that take what is written: the
  requests it parses must fit the buffer and the sessions it answers must still be there.
\<close>

definition survives :: "MyZServerNetwork \<Rightarrow> HMessage \<Rightarrow> bool" where
  "survives net h \<longleftrightarrow>
     (if asks h FM_ZDQ_LOGIN C2ZS_R_REGISTER then request_fits h
      else if asks h FM_ZDQ_LOGIN C2ZS_R_LOGIN
      then request_fits h \<and> map_of (m_mapAllClientSock net) (m_iSessionID h) \<noteq> None
      else if asks h FM_Q_ROUND_MESSAGE DS2ZS_R_CHECKDYNMICCODE
      then map_of (m_mapAllClientSock net) (m_iSessionID h) \<noteq> None
      else True)"

lemma deal_one_ok_iff:
  assumes f: "fresh_msg h" and cl: "clients_ok (m_mapAllClientSock net)"
    and empty: "m_mapAllClient logic = []" and wr: "\<forall>s. all_written wr s"
  shows "ok (deal_one wr j logic h net) \<longleftrightarrow> survives net h"
proof -
  have live: "\<exists>s. live net (m_iSessionID h) s"
    if "map_of (m_mapAllClientSock net) (m_iSessionID h) \<noteq> None"
    using that clients_ok_lookup [OF cl] by (auto simp: live_def)
  consider (reg) "asks h FM_ZDQ_LOGIN C2ZS_R_REGISTER" | (log) "asks h FM_ZDQ_LOGIN C2ZS_R_LOGIN"
    | (chk) "asks h FM_Q_ROUND_MESSAGE DS2ZS_R_CHECKDYNMICCODE"
    | (other) "\<not> asks h FM_ZDQ_LOGIN C2ZS_R_REGISTER" "\<not> asks h FM_ZDQ_LOGIN C2ZS_R_LOGIN"
        "\<not> asks h FM_Q_ROUND_MESSAGE DS2ZS_R_CHECKDYNMICCODE" by blast
  then show ?thesis
  proof cases
    case reg
    then show ?thesis using deal_one_register [OF f reg] by (simp add: survives_def)
  next
    case log
    show ?thesis
    proof (cases "request_fits h \<and> map_of (m_mapAllClientSock net) (m_iSessionID h) \<noteq> None")
      case True
      with live obtain s where "live net (m_iSessionID h) s" by blast
      with True show ?thesis
        using deal_one_login(2) [OF f log] wr log asks_unique [OF log] by (simp add: survives_def)
    next
      case False
      then show ?thesis
        using deal_one_login(1,3) [OF f log] log asks_unique [OF log]
        by (cases "request_fits h") (auto simp: survives_def)
    qed
  next
    case chk
    show ?thesis
    proof (cases "map_of (m_mapAllClientSock net) (m_iSessionID h) = None")
      case True
      then show ?thesis
        using deal_one_check(2) [OF f chk empty True] asks_unique [OF chk] chk by (simp add: survives_def)
    next
      case False
      with live obtain s where "live net (m_iSessionID h) s" by blast
      then obtain ds where "deal_one wr j logic h net =
          Inr (net\<lparr>written := written net @ [(m_pSocketClient s, check_wire False ds)]\<rparr>)"
        using deal_one_check(1) [OF f chk empty] wr by blast
      with False show ?thesis
        using asks_unique [OF chk] chk by (simp add: survives_def)
    qed
  next
    case other
    then show ?thesis using deal_one_other [OF f other] by (simp add: survives_def)
  qed
qed

section \<open>The running server\<close>

definition srv_inv :: "server \<Rightarrow> bool" where
  "srv_inv s \<longleftrightarrow> net_inv (srv_net s) \<and> m_mapAllClient (srv_logic s) = [] \<and>
     (\<forall>h\<in>set (MsgLogic.m_vecAllClientMsg (srv_logic s)). fresh_msg h)"

lemma srv_inv_start: "srv_inv (server_start junk rnd)"
  by (simp add: srv_inv_def server_start_def main_start_def MsgLogic_new_def net_inv_start)

lemma net_inv_send_rbind:
  "rbind (SendMsgBySessionID wr net i h) (\<lambda>(net', _). Inr net') = Inr net1 \<Longrightarrow> net_inv net \<Longrightarrow> net_inv net1"
  by (auto simp: rbind_Inr_iff dest: net_inv_send)

lemma net_inv_deal:
  assumes "deal_one wr j logic h net = Inr net'" and "net_inv net"
  shows "net_inv net'"
  using assms
  by (auto simp: deal_one_def deal_register_def deal_login_def deal_check_def rbind_Inr_iff
      split: if_splits dest: net_inv_send)

lemma srv_inv_step: "server_step wr s s' \<Longrightarrow> srv_inv s \<Longrightarrow> srv_inv s'"
proof (induction rule: server_step.induct)
  case (network s net')
  then show ?case by (auto simp: srv_inv_def dest: net_inv_step)
next
  case (fetch s msgs net')
  then have "net' = snd (GetAllMsg (srv_net s))" "msgs = MyZServerNetwork.m_vecAllClientMsg (srv_net s)"
    by (auto simp: GetAllMsg_def)
  with fetch show ?case
    using net_inv_GetAllMsg [of "srv_net s"] by (auto simp: srv_inv_def GetvecMsg_def net_inv_def)
next
  case (deal s i j net')
  then show ?case by (auto simp: srv_inv_def dest: net_inv_deal)
next
  case (finish s i)
  then show ?case by (simp add: srv_inv_def)
qed

lemma srv_inv_reach: "server_reach wr s \<Longrightarrow> srv_inv s"
  by (induction rule: server_reach.induct) (auto intro: srv_inv_start srv_inv_step)

text \<open>A round of \<open>main\<close> is a run of the main thread's steps.\<close>

lemma deal_loop_steps:
  assumes "deal_loop wr jk logic i (drop i (MsgLogic.m_vecAllClientMsg logic)) net = Inr net'"
    and "i \<le> length (MsgLogic.m_vecAllClientMsg logic)"
  shows "(server_step wr)\<^sup>*\<^sup>* \<lparr>srv_logic = logic, srv_net = net, srv_at = Some i\<rparr>
     \<lparr>srv_logic = logic, srv_net = net', srv_at = Some (length (MsgLogic.m_vecAllClientMsg logic))\<rparr>"
  using assms
proof (induction "length (MsgLogic.m_vecAllClientMsg logic) - i" arbitrary: i net)
  case 0
  then show ?case by simp
next
  case (Suc n)
  let ?v = "MsgLogic.m_vecAllClientMsg logic"
  from Suc.hyps(2) have i: "i < length ?v" by simp
  then have dr: "drop i ?v = ?v ! i # drop (Suc i) ?v" by (simp add: Cons_nth_drop_Suc)
  from Suc.prems(1) dr obtain net1 where d: "deal_one wr (jk i) logic (?v ! i) net = Inr net1"
    and r: "deal_loop wr jk logic (Suc i) (drop (Suc i) ?v) net1 = Inr net'"
    by (auto simp: rbind_Inr_iff)
  have "server_step wr \<lparr>srv_logic = logic, srv_net = net, srv_at = Some i\<rparr>
      \<lparr>srv_logic = logic, srv_net = net1, srv_at = Some (Suc i)\<rparr>"
    using server_step.deal [of "\<lparr>srv_logic = logic, srv_net = net, srv_at = Some i\<rparr>" i wr "jk i" net1] i d
    by simp
  moreover have "(server_step wr)\<^sup>*\<^sup>* \<lparr>srv_logic = logic, srv_net = net1, srv_at = Some (Suc i)\<rparr>
      \<lparr>srv_logic = logic, srv_net = net', srv_at = Some (length ?v)\<rparr>"
    using Suc.hyps(2) i r by (intro Suc.hyps(1)) simp_all
  ultimately show ?case by (rule converse_rtranclp_into_rtranclp)
qed

lemma main_round_steps:
  assumes "main_round wr jk (logic, net) = Inr (logic', net')"
  shows "(server_step wr)\<^sup>*\<^sup>* \<lparr>srv_logic = logic, srv_net = net, srv_at = None\<rparr>
     \<lparr>srv_logic = logic', srv_net = net', srv_at = None\<rparr>"
proof -
  obtain msgs net1 where g: "GetAllMsg net = (msgs, net1)" by (cases "GetAllMsg net")
  let ?l = "GetvecMsg logic msgs"
  have v: "MsgLogic.m_vecAllClientMsg ?l = msgs" by (simp add: GetvecMsg_def)
  have l': "deal_loop wr jk ?l 0 (drop 0 msgs) net1 = Inr net' \<and>
      logic' = ?l\<lparr>MsgLogic.m_vecAllClientMsg := []\<rparr>"
    using assms g v by (auto simp: main_round_def DealMsg_def rbind_Inr_iff GetvecMsg_def split: if_splits)
  have "server_step wr \<lparr>srv_logic = logic, srv_net = net, srv_at = None\<rparr>
      \<lparr>srv_logic = ?l, srv_net = net1, srv_at = Some 0\<rparr>"
    using server_step.fetch [of "\<lparr>srv_logic = logic, srv_net = net, srv_at = None\<rparr>" msgs net1] g by simp
  moreover have "(server_step wr)\<^sup>*\<^sup>* \<lparr>srv_logic = ?l, srv_net = net1, srv_at = Some 0\<rparr>
      \<lparr>srv_logic = ?l, srv_net = net', srv_at = Some (length msgs)\<rparr>"
    using deal_loop_steps [of wr jk ?l 0 net1 net'] l' v by simp
  moreover have "server_step wr \<lparr>srv_logic = ?l, srv_net = net', srv_at = Some (length msgs)\<rparr>
      \<lparr>srv_logic = logic', srv_net = net', srv_at = None\<rparr>"
    using server_step.finish [of "\<lparr>srv_logic = ?l, srv_net = net', srv_at = Some (length msgs)\<rparr>"
        "length msgs" wr] l' v by simp
  ultimately show ?thesis
    by (meson converse_rtranclp_into_rtranclp rtranclp.rtrancl_into_rtrancl)
qed

section \<open>From the bytes of a client to the answer\<close>

text \<open>What the two-string requests look like once they have been read from the socket.\<close>

definition request_bytes :: "u16 \<Rightarrow> u16 \<Rightarrow> string \<Rightarrow> string \<Rightarrow> u8 list \<Rightarrow> bool" where
  "request_bytes mainp subp a p dat \<longleftrightarrow>
     (\<exists>sz rest. length sz = 2 \<and> dat = sz @ u16_le mainp @ u16_le subp @ str_enc a @ str_enc p @ rest)"

lemma bytes_at_slice:
  assumes "bytes_at b 0 (length dat) = dat" and "dat = pre @ mid @ post"
  shows "bytes_at b (int (length pre)) (length mid) = mid"
proof -
  have "length dat = length pre + (length mid + length post)" using assms(2) by simp
  then have "bytes_at b 0 (length pre) @ bytes_at b (int (length pre)) (length mid) @
      bytes_at b (int (length pre) + int (length mid)) (length post) = pre @ mid @ post"
    using assms by (simp add: bytes_at_add)
  then show ?thesis by (simp add: append_eq_append_conv)
qed

lemma request_bytes_parse:
  assumes f: "fresh_msg h" and b: "bytes_at (m_byBuffer h) 0 (length dat) = dat"
    and len: "length dat \<le> 4000" and r: "request_bytes mainp subp a p dat"
  shows "msg_main h = mainp" and "msg_sub h = subp" and "request_fits h"
proof -
  from r obtain sz rest where sz: "length sz = 2"
    and dat: "dat = sz @ u16_le mainp @ u16_le subp @ str_enc a @ str_enc p @ rest"
    by (auto simp: request_bytes_def)
  note slice = bytes_at_slice [OF b]
  have "bytes_at (m_byBuffer h) 2 2 = u16_le mainp"
    using slice [of sz "u16_le mainp"] dat sz by simp
  then show "msg_main h = mainp" by (simp add: msg_main_def)
  have "bytes_at (m_byBuffer h) 4 2 = u16_le subp"
    using slice [of "sz @ u16_le mainp" "u16_le subp"] dat sz by simp
  then show "msg_sub h = subp" by (simp add: msg_sub_def)
  have la: "length a + length p \<le> 4000" using len dat by simp
  have "bytes_at (m_byBuffer h) 6 2 = u16_le (word_of_nat (length a))"
    using slice [of "sz @ u16_le mainp @ u16_le subp" "u16_le (word_of_nat (length a))"] dat sz
    by (simp add: str_enc_def)
  then have 1: "str_len (h\<lparr>m_iPos := 6\<rparr>) = int (length a)"
    using la by (simp add: str_len_def uint_nat unat_of_nat)
  have "bytes_at (m_byBuffer h) (8 + int (length a)) 2 = u16_le (word_of_nat (length p))"
    using slice [of "sz @ u16_le mainp @ u16_le subp @ str_enc a" "u16_le (word_of_nat (length p))"] dat sz
    by (simp add: str_enc_def algebra_simps)
  then have 2: "str_len (h\<lparr>m_iPos := 8 + int (length a)\<rparr>) = int (length p)"
    using la by (simp add: str_len_def uint_nat unat_of_nat)
  show "request_fits h"
    using 1 2 la by (simp add: request_fits_def two_strings_fit_def str_fits_def)
qed

text \<open>A read completion in the running server.\<close>

lemma read_done_step:
  assumes inv: "net_inv net" and x: "x \<in> set (pending_read net)" and len: "length dat \<le> 4000"
  shows "\<exists>net' h. Handle_Read junk (with_data x dat) err (length dat)
       (net\<lparr>pending_read := remove1 x (pending_read net)\<rparr>) = Inr net' \<and> net_step net net' \<and>
     MyZServerNetwork.m_vecAllClientMsg net' = MyZServerNetwork.m_vecAllClientMsg net @ [h] \<and>
     m_mapAllClientSock net' = (if err then smap_erase (m_iID x) (m_mapAllClientSock net)
                                else m_mapAllClientSock net) \<and>
     written net' = written net \<and> with_data x dat \<in> set (pending_read net') \<and>
     fresh_msg h \<and> m_iSessionID h = m_iID x \<and> bytes_at (m_byBuffer h) 0 (length dat) = dat"
proof -
  let ?n = "net\<lparr>pending_read := remove1 x (pending_read net)\<rparr>"
  obtain h where eq: "Handle_Read junk (with_data x dat) err (length dat) ?n =
     Inr ((push_msg (?n\<lparr>m_mapAllClientSock :=
             (if err then smap_erase (m_iID x) (m_mapAllClientSock ?n) else m_mapAllClientSock ?n)\<rparr>) h)
          \<lparr>pending_read := pending_read ?n @ [with_data x dat]\<rparr>)" (is "_ = Inr ?n'")
    and h: "wf_in h" "m_iPos h = 0" "m_iSessionID h = m_iID x"
      "bytes_at (m_byBuffer h) 0 (length dat) = dat"
    using Handle_Read_ok [OF len] by blast
  have "fresh_msg h" using h inv x by (simp add: fresh_msg_def net_inv_def)
  moreover have "net_step net ?n'"
    using x len eq by (rule net_step.read_done)
  ultimately show ?thesis
    using h eq by (intro exI [of _ ?n'] exI [of _ h]) (simp add: push_msg_def)
qed

text \<open>
  A client that asks to log in and closes its connection before the main thread gets to
  the request takes the server down: the answer goes through a null pointer.
\<close>

lemma disconnect_before_answer:
  assumes inv: "srv_inv s" and at: "srv_at s = None"
    and empty: "MyZServerNetwork.m_vecAllClientMsg (srv_net s) = []"
    and x: "x \<in> set (pending_read (srv_net s))"
    and len: "length dat \<le> 4000" and req: "request_bytes 0x2001 3 a p dat"
  shows "\<exists>s' h hs. (server_step wr)\<^sup>*\<^sup>* s s' \<and> srv_at s' = Some 0 \<and>
     MsgLogic.m_vecAllClientMsg (srv_logic s') = h # hs \<and>
     (\<forall>j. deal_one wr j (srv_logic s') h (srv_net s') = Inl NullPointer)"
proof -
  have ni: "net_inv (srv_net s)" using inv by (simp add: srv_inv_def)
  obtain n1 h where 1: "net_step (srv_net s) n1" "MyZServerNetwork.m_vecAllClientMsg n1 = [h]"
    "with_data x dat \<in> set (pending_read n1)" "fresh_msg h" "m_iSessionID h = m_iID x"
    "bytes_at (m_byBuffer h) 0 (length dat) = dat"
    using read_done_step [OF ni x len, of blank False] empty by auto
  have ni1: "net_inv n1" using 1(1) ni by (rule net_inv_step)
  obtain n2 h2 where 2: "net_step n1 n2" "MyZServerNetwork.m_vecAllClientMsg n2 = [h, h2]"
    "m_mapAllClientSock n2 = smap_erase (m_iID x) (m_mapAllClientSock n1)"
    using read_done_step [OF ni1 1(3), of "[]" blank True] 1(2) by (auto simp: with_data_def)
  let ?s2 = "s\<lparr>srv_net := n2\<rparr>"
  let ?s3 = "\<lparr>srv_logic = GetvecMsg (srv_logic s) [h, h2],
     srv_net = n2\<lparr>MyZServerNetwork.m_vecAllClientMsg := []\<rparr>, srv_at = Some 0\<rparr>"
  have "server_step wr s (s\<lparr>srv_net := n1\<rparr>)" using 1(1) by (rule server_step.network)
  moreover have "server_step wr (s\<lparr>srv_net := n1\<rparr>) ?s2"
    using server_step.network [of "s\<lparr>srv_net := n1\<rparr>" n2 wr] 2(1) by simp
  moreover have "server_step wr ?s2 ?s3"
    using server_step.fetch [of ?s2 "[h, h2]" "n2\<lparr>MyZServerNetwork.m_vecAllClientMsg := []\<rparr>" wr] at 2(2)
    by (simp add: GetAllMsg_def)
  ultimately have steps: "(server_step wr)\<^sup>*\<^sup>* s ?s3"
    by (meson converse_rtranclp_into_rtranclp r_into_rtranclp)
  have "asks h FM_ZDQ_LOGIN C2ZS_R_LOGIN" and "request_fits h"
    using request_bytes_parse [OF 1(4,6) len req] by (simp_all add: asks_def)
  moreover have "map_of (m_mapAllClientSock (srv_net ?s3)) (m_iSessionID h) = None"
    using 2(3) 1(5) by simp
  ultimately have "deal_one wr j (srv_logic ?s3) h (srv_net ?s3) = Inl NullPointer" for j
    using deal_one_login(3) [OF 1(4)] by blast
  with steps show ?thesis
    by (intro exI [of _ ?s3] exI [of _ h] exI [of _ "[h2]"]) (simp add: GetvecMsg_def)
qed

text \<open>And one that stays gets the answer in the next round of the main loop.\<close>

lemma login_round:
  assumes inv: "net_inv net" and x: "x \<in> set (pending_read net)"
    and empty: "MyZServerNetwork.m_vecAllClientMsg net = []"
    and c: "live net (m_iID x) c" "all_written wr c"
    and len: "length dat \<le> 4000" and req: "request_bytes 0x2001 3 a p dat"
  shows "\<exists>net' logic' net''. Handle_Read junk (with_data x dat) False (length dat)
       (net\<lparr>pending_read := remove1 x (pending_read net)\<rparr>) = Inr net' \<and> 
     net_step net net' \<and> main_round wr jk (logic, net') = Inr (logic', net'') \<and>
     written net'' = written net @ [(m_pSocketClient c, login_ok_wire)]"
proof -
  obtain n1 h where 1: "net_step net n1" "MyZServerNetwork.m_vecAllClientMsg n1 = [h]"
    "m_mapAllClientSock n1 = m_mapAllClientSock net" "written n1 = written net" "fresh_msg h"
    "m_iSessionID h = m_iID x" "bytes_at (m_byBuffer h) 0 (length dat) = dat"
    and hr: "Handle_Read junk (with_data x dat) False (length dat)
       (net\<lparr>pending_read := remove1 x (pending_read net)\<rparr>) = Inr n1"
    using read_done_step [OF inv x len, of junk False] empty by auto
  let ?n = "n1\<lparr>MyZServerNetwork.m_vecAllClientMsg := []\<rparr>"
  have "asks h FM_ZDQ_LOGIN C2ZS_R_LOGIN" and "request_fits h"
    using request_bytes_parse [OF 1(5,7) len req] by (simp_all add: asks_def)
  moreover have "live ?n (m_iSessionID h) c" using c(1) 1(3,6) by (simp add: live_def)
  ultimately have "deal_one wr (jk 0) (GetvecMsg logic [h]) h ?n =
      Inr (?n\<lparr>written := written ?n @ [(m_pSocketClient c, login_ok_wire)]\<rparr>)"
    using deal_one_login(2) [OF 1(5)] c(2) by blast
  then have "main_round wr jk (logic, n1) =
      Inr ((GetvecMsg logic [h])\<lparr>MsgLogic.m_vecAllClientMsg := []\<rparr>,
           ?n\<lparr>written := written ?n @ [(m_pSocketClient c, login_ok_wire)]\<rparr>)"
    using 1(2) by (simp add: main_round_def GetAllMsg_def DealMsg_def GetvecMsg_def)
  with 1(1,4) hr show ?thesis by fastforce
qed

section \<open>Properties\<close>

text \<open>A server that has accepted one connection.\<close>

definition connected_server :: server where
  "connected_server = (server_start blank_session 5)\<lparr>srv_net :=
     Handle_accept blank_session (blank_session\<lparr>m_iID := 1, m_DynmicCode := 5, m_pSocketClient := 0\<rparr>) False
       ((AcceptConnect blank_session 5 net_init)\<lparr>pending_accept := []\<rparr>)\<rparr>"

definition first_session :: SessionClient where
  "first_session = blank_session\<lparr>m_iID := 1, SessionClient.m_DynmicCode := 5, m_pSocketClient := 0\<rparr>"

lemma connected_reach: "server_reach wr connected_server"
proof -
  let ?p = "blank_session\<lparr>m_iID := 1, SessionClient.m_DynmicCode := 5, m_pSocketClient := 0\<rparr>"
  let ?s = "server_start blank_session 5"
  have net: "srv_net ?s = AcceptConnect blank_session 5 net_init"
    by (simp add: server_start_def main_start_def)
  have pa: "pending_accept (AcceptConnect blank_session 5 net_init) = [?p]"
    by (simp add: AcceptConnect_def next_id_def net_init_def Let_def)
  have "net_step (srv_net ?s) (Handle_accept blank_session ?p False
      ((srv_net ?s)\<lparr>pending_accept := remove1 ?p (pending_accept (srv_net ?s))\<rparr>))"
    by (rule net_step.accepted) (simp add: net pa)
  then have "server_step wr ?s connected_server"
    using server_step.network [of ?s] by (simp add: pa connected_server_def net)
  then show ?thesis by (rule server_reach.step [OF server_reach.start])
qed

lemma connected_facts:
  "srv_at connected_server = None" "m_vecAllClientMsg (srv_logic connected_server) = []"
  "MyZServerNetwork.m_vecAllClientMsg (srv_net connected_server) = []"
  "pending_read (srv_net connected_server) = [first_session]"
  "m_mapAllClientSock (srv_net connected_server) = [(1, Some first_session)]"
  by (simp_all add: connected_server_def server_start_def main_start_def MsgLogic_new_def
      Handle_accept_def AcceptConnect_def net_init_def next_id_def first_session_def Let_def)

definition demo_login_bytes :: "u8 list" where
  "demo_login_bytes = [0, 0] @ u16_le 0x2001 @ u16_le 3 @ str_enc ''alice'' @ str_enc ''secret'' @ [10]"

lemma demo_login_request: "request_bytes 0x2001 3 ''alice'' ''secret'' demo_login_bytes"
  unfolding request_bytes_def demo_login_bytes_def
  by (intro exI [of _ "[0, 0]"] exI [of _ "[10]"]) simp

text \<open>A message of the first session that is all header.\<close>

definition demo_msg :: "u16 \<Rightarrow> u16 \<Rightarrow> HMessage" where
  "demo_msg mainp subp = blank\<lparr>m_byBuffer := splice (m_byBuffer blank) 0 ([0, 0] @ u16_le mainp @ u16_le subp),
     m_iSessionID := 1\<rparr>"

lemma demo_msg_fresh: "fresh_msg (demo_msg mainp subp)"
  by (simp add: fresh_msg_def demo_msg_def wf_in_def blank_def HMessage_new_def splice_def id_range_def)

lemma demo_msg_header: "msg_main (demo_msg mainp subp) = mainp" "msg_sub (demo_msg mainp subp) = subp"
proof -
  let ?d = "[0, 0] @ u16_le mainp @ u16_le subp"
  have b: "bytes_at (m_byBuffer (demo_msg mainp subp)) 0 (length ?d) = ?d"
    using bytes_at_splice_same [of "m_byBuffer blank" 0 ?d] by (simp only: demo_msg_def HMessage.simps HMessage.select_convs HMessage.update_convs) simp
  have "bytes_at (m_byBuffer (demo_msg mainp subp)) 2 2 = u16_le mainp"
    using bytes_at_slice [OF b, of "[0, 0]" "u16_le mainp" "u16_le subp"] by simp
  then show "msg_main (demo_msg mainp subp) = mainp" by (simp add: msg_main_def)
  have "bytes_at (m_byBuffer (demo_msg mainp subp)) 4 2 = u16_le subp"
    using bytes_at_slice [OF b, of "[0, 0] @ u16_le mainp" "u16_le subp" "[]"] by simp
  then show "msg_sub (demo_msg mainp subp) = subp" by (simp add: msg_sub_def)
qed

text \<open>A request to check a code, and a request to register.\<close>

definition demo_check :: HMessage where
  "demo_check = demo_msg 0x1037 1000"

definition demo_registration :: HMessage where
  "demo_registration = demo_msg 0x2001 1"

lemma demo_check_facts: "fresh_msg demo_check" "asks demo_check FM_Q_ROUND_MESSAGE DS2ZS_R_CHECKDYNMICCODE"
  "m_iSessionID demo_check = 1"
  by (simp_all add: demo_check_def demo_msg_fresh asks_def demo_msg_header) (simp add: demo_msg_def)

text \<open>
  C3: The invariant of the running server, over every interleaving of its two threads: the network
  state is in shape, every message in the main thread's hands is unread and carries a proper
  session number, and the map of clients of \<open>MsgLogic\<close> is empty, since nothing fills it.
\<close>

theorem server_invariant:
  assumes "server_reach wr s"
  shows "net_inv (srv_net s) \<and> m_mapAllClient (srv_logic s) = [] \<and>
     (\<forall>h\<in>set (MsgLogic.m_vecAllClientMsg (srv_logic s)). fresh_msg h)"
  using srv_inv_reach [OF assms] by (simp add: srv_inv_def)

theorem server_invariant_witness:
  "net_inv (srv_net connected_server) \<and> m_mapAllClient (srv_logic connected_server) = []"
  using server_invariant [OF connected_reach [of "\<lambda>_ _. True"]] by blast

text \<open>
  C2: Which messages the running server survives, with sockets that take what is written. A request
  with two strings must keep both inside the buffer, and a request that is answered must
  come from a session that is still there. Every other message, however malformed, is
  handled; each of these, sent by any peer, ends the server.
\<close>

theorem message_survival:
  assumes "server_reach wr s" and "fresh_msg h" and "\<forall>s. all_written wr s"
  shows "ok (deal_one wr j (srv_logic s) h (srv_net s)) \<longleftrightarrow> survives (srv_net s) h"
  using deal_one_ok_iff [OF assms(2) _ _ assms(3)] srv_inv_reach [OF assms(1)]
  by (simp add: srv_inv_def net_inv_def)

theorem message_survival_witness:
  "\<forall>j. ok (deal_one (\<lambda>_ _. True) j (srv_logic connected_server) demo_check (srv_net connected_server)) \<longleftrightarrow>
     survives (srv_net connected_server) demo_check"
  by (intro allI, rule message_survival [OF connected_reach demo_check_facts(1)]) (simp add: all_written_def)

text \<open>
  C4: A client brings the running server down by closing its connection early. From every reachable
  state in which the main thread is at the head of its loop and no message is waiting, a
  login request followed by the end of the connection leads to a state in which handling the
  request follows a null pointer.
\<close>

theorem disconnect_crash:
  assumes "server_reach wr s" and "srv_at s = None"
    and "MyZServerNetwork.m_vecAllClientMsg (srv_net s) = []"
    and "x \<in> set (pending_read (srv_net s))"
    and "length dat \<le> 4000" and "request_bytes 0x2001 3 a p dat"
  shows "\<exists>s' h hs. (server_step wr)\<^sup>*\<^sup>* s s' \<and> srv_at s' = Some 0 \<and>
     MsgLogic.m_vecAllClientMsg (srv_logic s') = h # hs \<and>
     (\<forall>j. deal_one wr j (srv_logic s') h (srv_net s') = Inl NullPointer)"
  using srv_inv_reach [OF assms(1)] assms(2-) by (rule disconnect_before_answer)

theorem disconnect_crash_witness:
  "\<exists>s' h hs. (server_step (\<lambda>_ _. True))\<^sup>*\<^sup>* connected_server s' \<and> srv_at s' = Some 0 \<and>
     MsgLogic.m_vecAllClientMsg (srv_logic s') = h # hs \<and>
     (\<forall>j. deal_one (\<lambda>_ _. True) j (srv_logic s') h (srv_net s') = Inl NullPointer)"
  by (rule disconnect_crash [OF connected_reach _ _ _ _ demo_login_request, of first_session])
     (simp_all add: connected_facts demo_login_bytes_def)

text \<open>
  C5: The running server refuses every dynamic code. Whatever session and code a data server asks
  about, the answer is the failure code, because the search runs over a map that \<open>main\<close>
  never fills.
\<close>

theorem code_check_refused:
  assumes "server_reach wr s" and "fresh_msg h" and "asks h FM_Q_ROUND_MESSAGE DS2ZS_R_CHECKDYNMICCODE"
    and "live (srv_net s) (m_iSessionID h) c" and "all_written wr c"
  shows "\<exists>ds. deal_one wr j (srv_logic s) h (srv_net s) =
     Inr ((srv_net s)\<lparr>written := written (srv_net s) @ [(m_pSocketClient c, check_wire False ds)]\<rparr>)"
  using deal_one_check(1) [OF assms(2,3) _ assms(4,5)] srv_inv_reach [OF assms(1)]
  by (simp add: srv_inv_def)

theorem code_check_refused_witness:
  "\<forall>j. \<exists>ds. deal_one (\<lambda>_ _. True) j (srv_logic connected_server) demo_check (srv_net connected_server) =
     Inr ((srv_net connected_server)\<lparr>written := written (srv_net connected_server) @
       [(m_pSocketClient first_session, check_wire False ds)]\<rparr>)"
  by (intro allI, rule code_check_refused [OF connected_reach demo_check_facts(1,2)])
     (simp_all add: live_def connected_facts demo_check_facts all_written_def)

text \<open>
  The search itself is right: over a map of live sessions it finds exactly the session with
  that number, and accepts it when its code equals the number asked about, the signed
  number of the request being compared modulo the width of the code.
\<close>

theorem code_search_correct:
  assumes "clients_ok (m_mapAllClient logic)"
  shows "CheckDynmicCode logic sid dc = Inr
     (case map_of (m_mapAllClient logic) sid of
        Some (Some s) \<Rightarrow> SessionClient.m_DynmicCode s = word_of_int dc
      | _ \<Rightarrow> False)"
  using assms by (rule CheckDynmicCode_clients)

theorem code_search_correct_witness:
  "CheckDynmicCode (GetmapAllClient MsgLogic_new [(1, Some first_session)]) 1 5 = Inr True"
proof -
  have "CheckDynmicCode (GetmapAllClient MsgLogic_new [(1, Some first_session)]) 1 5 = Inr
     (case map_of (m_mapAllClient (GetmapAllClient MsgLogic_new [(1, Some first_session)])) 1 of
        Some (Some s) \<Rightarrow> SessionClient.m_DynmicCode s = word_of_int 5
      | _ \<Rightarrow> False)"
    by (rule code_search_correct)
       (simp add: GetmapAllClient_def clients_ok_def smap_wf_def first_session_def id_range_def)
  then show ?thesis by (simp add: GetmapAllClient_def first_session_def)
qed

text \<open>
  A registration request that reaches the server is read and dropped: no answer, no change of any
  state. One whose strings leave the buffer is a read out of bounds.
\<close>

theorem registration_unanswered:
  assumes "fresh_msg h" and "asks h FM_ZDQ_LOGIN C2ZS_R_REGISTER"
  shows "deal_one wr j logic h net = (if request_fits h then Inr net else Inl ReadOutOfBounds)"
  using assms by (rule deal_one_register)

theorem registration_unanswered_witness:
  "\<forall>j. deal_one (\<lambda>_ _. True) j MsgLogic_new demo_registration net_init =
     (if request_fits demo_registration then Inr net_init else Inl ReadOutOfBounds)"
  by (intro allI, rule registration_unanswered)
     (simp_all add: demo_registration_def demo_msg_fresh asks_def demo_msg_header)

text \<open>
  A round of the main loop is a run of the main thread in the step relation: what is shown of
  every interleaving holds of the loop.
\<close>

theorem main_round_refines:
  assumes "main_round wr jk (logic, net) = Inr (logic', net')"
  shows "(server_step wr)\<^sup>*\<^sup>* \<lparr>srv_logic = logic, srv_net = net, srv_at = None\<rparr>
     \<lparr>srv_logic = logic', srv_net = net', srv_at = None\<rparr>"
  using assms by (rule main_round_steps)

theorem main_round_refines_witness:
  "(server_step (\<lambda>_ _. True))\<^sup>*\<^sup>* \<lparr>srv_logic = MsgLogic_new, srv_net = net_init, srv_at = None\<rparr>
     \<lparr>srv_logic = MsgLogic_new, srv_net = net_init, srv_at = None\<rparr>"
  by (rule main_round_refines [where jk = undefined])
     (simp add: main_round_def GetAllMsg_def net_init_def DealMsg_def GetvecMsg_def MsgLogic_new_def)

text \<open>
  A login request is answered in the next round of the main loop, and the answer is an
  acceptance whatever the account and the password are: one message with the success code,
  dynamic code 0 and no servers, to the socket of the session.
\<close>

theorem login_answered:
  assumes "net_inv net" and "x \<in> set (pending_read net)"
    and "MyZServerNetwork.m_vecAllClientMsg net = []"
    and "live net (m_iID x) c" and "all_written wr c"
    and "length dat \<le> 4000" and "request_bytes 0x2001 3 a p dat"
  shows "\<exists>net' logic' net''. Handle_Read junk (with_data x dat) False (length dat)
       (net\<lparr>pending_read := remove1 x (pending_read net)\<rparr>) = Inr net' \<and> 
     net_step net net' \<and> main_round wr jk (logic, net') = Inr (logic', net'') \<and>
     written net'' = written net @ [(m_pSocketClient c, login_ok_wire)]"
  using assms by (rule login_round)

theorem login_answered_witness:
  "\<forall>jk. \<exists>net' logic' net''.
     Handle_Read blank (with_data first_session demo_login_bytes) False (length demo_login_bytes)
       ((srv_net connected_server)\<lparr>pending_read := remove1 first_session (pending_read (srv_net connected_server))\<rparr>)
       = Inr net' \<and> net_step (srv_net connected_server) net' \<and>
     main_round (\<lambda>_ _. True) jk (MsgLogic_new, net') = Inr (logic', net'') \<and>
     written net'' = written (srv_net connected_server) @ [(m_pSocketClient first_session, login_ok_wire)]"
proof (intro allI, rule login_answered [OF _ _ _ _ _ _ demo_login_request])
  show "net_inv (srv_net connected_server)"
    using srv_inv_reach [OF connected_reach [of "\<lambda>_ _. True"]] by (simp add: srv_inv_def)
  show "first_session \<in> set (pending_read (srv_net connected_server))"
    and "MyZServerNetwork.m_vecAllClientMsg (srv_net connected_server) = []"
    and "live (srv_net connected_server) (m_iID first_session) first_session"
    by (simp_all add: connected_facts live_def first_session_def)
qed (simp_all add: all_written_def demo_login_bytes_def)

end
