(* ===== verification/Server_Race.thy ===== *)
theory Server_Race
  imports Msg_Logic
begin

text \<open>
  The two threads of the server and what they share, below the level of whole messages: the map
  of clients and the vector of received messages of \<open>MyZServerNetwork\<close>, and the two mutexes that
  are there to guard them. The handlers of Msg_Logic and ZServer_Network are cut where a thread
  enters or leaves one of the two containers and where it takes or releases a mutex. A race is a
  state in which both threads are inside the same container and one of them writes.
\<close>

section \<open>Where the threads are\<close>

datatype container = ClientMap | Inbox
datatype access = Reading | Writing
datatype mutex = AllClientSockLock | AllClientMsgLock

text \<open>
  The main thread: at the head of its loop, inside \<open>GetAllMsg\<close>, about to handle message \<open>i\<close>, or
  inside the \<open>operator[]\<close> of \<open>SendMsgBySessionID\<close> with the answer to message \<open>i\<close> for a session.
  The network thread: between two completions, inside the map in \<open>Handle_accept\<close> or in
  \<open>Handle_Read\<close> after an error, between the two blocks of \<open>Handle_Read\<close>, or inside the vector.
  What a completion was called with goes along.
\<close>

datatype main_place = AtHead | InGetAllMsg | AtMessage nat | InSend nat int

datatype net_place =
    BetweenCompletions
  | InAccept SessionClient bool
  | InErase SessionClient "u8 list"
  | AfterErase SessionClient "u8 list"
  | InPush SessionClient "u8 list"

record threads =
  th_logic :: MsgLogic
  th_net :: MyZServerNetwork
  th_main :: main_place
  th_network :: net_place

text \<open>
  The mutexes held in a place. \<open>SendMsgBySessionID\<close> takes none; its \<open>operator[]\<close> writes when
  the map has no entry for the session.
\<close>

fun main_locks :: "main_place \<Rightarrow> mutex list" where
  "main_locks InGetAllMsg = [AllClientMsgLock]"
| "main_locks (InSend i sid) = []"
| "main_locks _ = []"

fun net_locks :: "net_place \<Rightarrow> mutex list" where
  "net_locks (InAccept s err) = [AllClientSockLock]"
| "net_locks (InErase s dat) = [AllClientSockLock]"
| "net_locks (InPush s dat) = [AllClientMsgLock]"
| "net_locks _ = []"

fun main_access :: "MyZServerNetwork \<Rightarrow> main_place \<Rightarrow> (container \<times> access) option" where
  "main_access net InGetAllMsg = Some (Inbox, Writing)"
| "main_access net (InSend i sid) =
     Some (ClientMap, if map_of (m_mapAllClientSock net) sid = None then Writing else Reading)"
| "main_access net _ = None"

fun net_access :: "net_place \<Rightarrow> (container \<times> access) option" where
  "net_access (InAccept s err) = Some (ClientMap, Writing)"
| "net_access (InErase s dat) = Some (ClientMap, Writing)"
| "net_access (InPush s dat) = Some (Inbox, Writing)"
| "net_access _ = None"

definition racing :: "threads \<Rightarrow> container \<Rightarrow> bool" where
  "racing st ob \<longleftrightarrow> (\<exists>a b. main_access (th_net st) (th_main st) = Some (ob, a) \<and>
     net_access (th_network st) = Some (ob, b) \<and> (a = Writing \<or> b = Writing))"

section \<open>The steps\<close>

text \<open>
  The two blocks of \<open>Handle_Read\<close>: the removal from the map, which is done after an error, and
  the rest.
\<close>

definition erase_session :: "SessionClient \<Rightarrow> MyZServerNetwork \<Rightarrow> MyZServerNetwork" where
  "erase_session s net = net\<lparr>m_mapAllClientSock := smap_erase (m_iID s) (m_mapAllClientSock net)\<rparr>"

definition push_and_read :: "HMessage \<Rightarrow> SessionClient \<Rightarrow> nat \<Rightarrow> MyZServerNetwork \<Rightarrow> MyZServerNetwork res" where
  "push_and_read junk s n net = Handle_Read junk s False n net"

text \<open>The messages that are answered, and so reach \<open>SendMsgBySessionID\<close>.\<close>

definition answered :: "HMessage \<Rightarrow> bool" where
  "answered h \<longleftrightarrow> (asks h FM_ZDQ_LOGIN C2ZS_R_LOGIN \<and> request_fits h) \<or>
     asks h FM_Q_ROUND_MESSAGE DS2ZS_R_CHECKDYNMICCODE"

abbreviation inbox_of :: "threads \<Rightarrow> HMessage list" where
  "inbox_of st \<equiv> MsgLogic.m_vecAllClientMsg (th_logic st)"

inductive thread_step :: "(nat \<Rightarrow> u8 list \<Rightarrow> bool) \<Rightarrow> threads \<Rightarrow> threads \<Rightarrow> bool" for wr where
  accept_enter: "th_network st = BetweenCompletions \<Longrightarrow> s \<in> set (pending_accept (th_net st)) \<Longrightarrow>
     AllClientSockLock \<notin> set (main_locks (th_main st)) \<Longrightarrow>
     thread_step wr st (st\<lparr>th_net := (th_net st)\<lparr>pending_accept := remove1 s (pending_accept (th_net st))\<rparr>,
       th_network := InAccept s err\<rparr>)"
| accept_leave: "th_network st = InAccept s err \<Longrightarrow>
     thread_step wr st (st\<lparr>th_net := Handle_accept junk s err (th_net st), th_network := BetweenCompletions\<rparr>)"
| error_enter: "th_network st = BetweenCompletions \<Longrightarrow> s \<in> set (pending_read (th_net st)) \<Longrightarrow> length dat \<le> 4000 \<Longrightarrow>
     AllClientSockLock \<notin> set (main_locks (th_main st)) \<Longrightarrow>
     thread_step wr st (st\<lparr>th_net := (th_net st)\<lparr>pending_read := remove1 s (pending_read (th_net st))\<rparr>,
       th_network := InErase (with_data s dat) dat\<rparr>)"
| error_leave: "th_network st = InErase s dat \<Longrightarrow>
     thread_step wr st (st\<lparr>th_net := erase_session s (th_net st), th_network := AfterErase s dat\<rparr>)"
| read_enter: "th_network st = BetweenCompletions \<Longrightarrow> s \<in> set (pending_read (th_net st)) \<Longrightarrow> length dat \<le> 4000 \<Longrightarrow>
     thread_step wr st (st\<lparr>th_net := (th_net st)\<lparr>pending_read := remove1 s (pending_read (th_net st))\<rparr>,
       th_network := AfterErase (with_data s dat) dat\<rparr>)"
| push_enter: "th_network st = AfterErase s dat \<Longrightarrow> AllClientMsgLock \<notin> set (main_locks (th_main st)) \<Longrightarrow>
     thread_step wr st (st\<lparr>th_network := InPush s dat\<rparr>)"
| push_leave: "th_network st = InPush s dat \<Longrightarrow> push_and_read junk s (length dat) (th_net st) = Inr net' \<Longrightarrow>
     thread_step wr st (st\<lparr>th_net := net', th_network := BetweenCompletions\<rparr>)"
| take_enter: "th_main st = AtHead \<Longrightarrow> AllClientMsgLock \<notin> set (net_locks (th_network st)) \<Longrightarrow>
     thread_step wr st (st\<lparr>th_main := InGetAllMsg\<rparr>)"
| take_leave: "th_main st = InGetAllMsg \<Longrightarrow> GetAllMsg (th_net st) = (msgs, net') \<Longrightarrow>
     thread_step wr st (st\<lparr>th_logic := GetvecMsg (th_logic st) msgs, th_net := net', th_main := AtMessage 0\<rparr>)"
| unanswered: "th_main st = AtMessage i \<Longrightarrow> i < length (inbox_of st) \<Longrightarrow> \<not> answered (inbox_of st ! i) \<Longrightarrow>
     deal_one wr j (th_logic st) (inbox_of st ! i) (th_net st) = Inr net' \<Longrightarrow>
     thread_step wr st (st\<lparr>th_net := net', th_main := AtMessage (Suc i)\<rparr>)"
| send_enter: "th_main st = AtMessage i \<Longrightarrow> i < length (inbox_of st) \<Longrightarrow> answered (inbox_of st ! i) \<Longrightarrow>
     thread_step wr st (st\<lparr>th_main := InSend i (HMessage.m_iSessionID (inbox_of st ! i))\<rparr>)"
| send_leave: "th_main st = InSend i sid \<Longrightarrow>
     deal_one wr j (th_logic st) (inbox_of st ! i) (th_net st) = Inr net' \<Longrightarrow>
     thread_step wr st (st\<lparr>th_net := net', th_main := AtMessage (Suc i)\<rparr>)"
| finish: "th_main st = AtMessage i \<Longrightarrow> length (inbox_of st) \<le> i \<Longrightarrow>
     thread_step wr st (st\<lparr>th_logic := (th_logic st)\<lparr>MsgLogic.m_vecAllClientMsg := []\<rparr>, th_main := AtHead\<rparr>)"

definition threads_start :: "SessionClient \<Rightarrow> u32 \<Rightarrow> threads" where
  "threads_start junk rnd =
     (let (logic, net) = main_start junk rnd
      in \<lparr>th_logic = logic, th_net = net, th_main = AtHead, th_network = BetweenCompletions\<rparr>)"

inductive threads_reach :: "(nat \<Rightarrow> u8 list \<Rightarrow> bool) \<Rightarrow> threads \<Rightarrow> bool" for wr where
  start: "threads_reach wr (threads_start junk rnd)"
| step: "threads_reach wr st \<Longrightarrow> thread_step wr st st' \<Longrightarrow> threads_reach wr st'"

section \<open>Lemmas\<close>

text \<open>The blocks one after the other are the handler.\<close>

lemma Handle_Read_blocks:
  "Handle_Read junk s True n net = push_and_read junk s n (erase_session s net)"
  "Handle_Read junk s False n net = push_and_read junk s n net"
  by (simp_all add: Handle_Read_def push_and_read_def erase_session_def)

text \<open>
  The invariant: no mutex is held twice, and once the operation that the network thread is
  completing is counted as pending again, the state is in the shape it has between completions.
\<close>

definition settled :: "threads \<Rightarrow> MyZServerNetwork" where
  "settled st = (let net = th_net st in
     case th_network st of
       BetweenCompletions \<Rightarrow> net
     | InAccept s err \<Rightarrow> net\<lparr>pending_accept := s # pending_accept net\<rparr>
     | InErase s dat \<Rightarrow> net\<lparr>pending_read := s # pending_read net\<rparr>
     | AfterErase s dat \<Rightarrow> net\<lparr>pending_read := s # pending_read net\<rparr>
     | InPush s dat \<Rightarrow> net\<lparr>pending_read := s # pending_read net\<rparr>)"

fun reads_fit :: "net_place \<Rightarrow> bool" where
  "reads_fit (InErase s dat) = (length dat \<le> 4000)"
| "reads_fit (AfterErase s dat) = (length dat \<le> 4000)"
| "reads_fit (InPush s dat) = (length dat \<le> 4000)"
| "reads_fit _ = True"

definition threads_inv :: "threads \<Rightarrow> bool" where
  "threads_inv st \<longleftrightarrow> set (main_locks (th_main st)) \<inter> set (net_locks (th_network st)) = {} \<and>
     net_inv (settled st) \<and> reads_fit (th_network st) \<and> m_mapAllClient (th_logic st) = [] \<and>
     (\<forall>h \<in> set (inbox_of st). fresh_msg h)"

lemma threads_inv_start: "threads_inv (threads_start junk rnd)"
  using srv_inv_start [of junk rnd]
  by (simp add: threads_inv_def threads_start_def settled_def srv_inv_def server_start_def split_beta)

lemma push_and_read_inv:
  assumes inv: "net_inv (net\<lparr>pending_read := s # pending_read net\<rparr>)" and n: "n \<le> 4000"
    and r: "push_and_read junk s n net = Inr net'"
  shows "net_inv net'"
proof -
  have "length (take n (m_szSendBuffer s)) \<le> 10000" using n by simp
  then obtain h where h: "HMessage_from junk (take n (m_szSendBuffer s)) = Inr h" "m_iPos h = 0" "wf_in h"
    using HMessage_from_ok by blast
  let ?h = "h\<lparr>m_iSessionID := m_iID s, HMessage.m_DynmicCode := sint (SessionClient.m_DynmicCode s)\<rparr>"
  have "fresh_msg ?h"
    using h inv by (simp add: fresh_msg_def net_inv_def wf_in_def)
  moreover have "net' = (push_msg net ?h)\<lparr>pending_read := pending_read net @ [s]\<rparr>"
    using r h(1) by (simp add: push_and_read_def Handle_Read_def push_msg_def)
  ultimately show ?thesis
    using inv by (auto simp: net_inv_def push_msg_def)
qed

text \<open>Handling a message changes nothing but what was written.\<close>

lemma deal_one_frame:
  assumes "deal_one wr j logic h net = Inr net'"
  shows "\<exists>w. net' = net\<lparr>written := w\<rparr>"
proof -
  have send: "\<exists>w. net' = net\<lparr>written := w\<rparr>" if "SendMsgBySessionID wr net i hm = Inr (net', hm')" for i hm hm'
    using SendMsgBySessionID_frame [OF that] by blast
  have none: "\<exists>w. net = net\<lparr>written := w\<rparr>"
    by (rule exI [of _ "written net"]) simp
  show ?thesis
    using assms none
    by (auto simp: deal_one_def deal_register_def deal_login_def deal_check_def rbind_Inr_iff
        split: if_splits dest: send)
qed

lemma threads_inv_written:
  "threads_inv st \<Longrightarrow> set (main_locks m) \<inter> set (net_locks (th_network st)) = {} \<Longrightarrow>
   threads_inv (st\<lparr>th_net := (th_net st)\<lparr>written := w\<rparr>, th_main := m\<rparr>)"
  by (cases "th_network st") (simp_all add: threads_inv_def settled_def Let_def net_inv_def)

lemma threads_inv_step: "thread_step wr st st' \<Longrightarrow> threads_inv st \<Longrightarrow> threads_inv st'"
proof (induction rule: thread_step.induct)
  case (accept_enter st s err)
  then obtain a where "pending_accept (th_net st) = [a]"
    by (auto simp: threads_inv_def settled_def net_inv_def)
  with accept_enter show ?case by (simp add: threads_inv_def settled_def Let_def net_inv_def)
next
  case (accept_leave st s err junk)
  let ?net = "(th_net st)\<lparr>pending_accept := s # pending_accept (th_net st)\<rparr>"
  have inv: "net_inv ?net"
    using accept_leave by (simp add: threads_inv_def settled_def Let_def)
  have "net_inv (Handle_accept junk s err (?net\<lparr>pending_accept := remove1 s (pending_accept ?net)\<rparr>))"
    by (rule net_inv_accept [OF inv]) simp
  then show ?case
    using accept_leave by (simp add: threads_inv_def settled_def)
next
  case (error_enter st s dat)
  then show ?case
    by (auto simp: threads_inv_def settled_def Let_def net_inv_def with_data_def dest: set_remove1_subset [THEN subsetD])
next
  case (error_leave st s dat)
  then show ?case
    by (simp add: threads_inv_def settled_def Let_def net_inv_def erase_session_def clients_ok_erase)
next
  case (read_enter st s dat)
  then show ?case
    by (auto simp: threads_inv_def settled_def Let_def net_inv_def with_data_def dest: set_remove1_subset [THEN subsetD])
next
  case (push_enter st s dat)
  then show ?case by (simp add: threads_inv_def settled_def)
next
  case (push_leave st s dat junk net')
  then have "net_inv ((th_net st)\<lparr>pending_read := s # pending_read (th_net st)\<rparr>)" "length dat \<le> 4000"
    by (simp_all add: threads_inv_def settled_def Let_def)
  from push_and_read_inv [OF this push_leave(2)] show ?case
    using push_leave by (simp add: threads_inv_def settled_def)
next
  case (take_enter st)
  then show ?case by (simp add: threads_inv_def settled_def)
next
  case (take_leave st msgs net')
  then show ?case
    by (cases "th_network st") (auto simp: threads_inv_def settled_def Let_def net_inv_def GetAllMsg_def GetvecMsg_def)
next
  case (unanswered st i j net')
  then obtain w where "net' = (th_net st)\<lparr>written := w\<rparr>" using deal_one_frame by blast
  with unanswered show ?case by (simp add: threads_inv_written)
next
  case (send_enter st i)
  then show ?case by (simp add: threads_inv_def settled_def)
next
  case (send_leave st i sid j net')
  then obtain w where "net' = (th_net st)\<lparr>written := w\<rparr>" using deal_one_frame by blast
  with send_leave show ?case by (simp add: threads_inv_written)
next
  case (finish st i)
  then show ?case by (simp add: threads_inv_def settled_def)
qed

lemma threads_inv_reach: "threads_reach wr st \<Longrightarrow> threads_inv st"
  by (induction rule: threads_reach.induct) (auto intro: threads_inv_start threads_inv_step)

lemma threads_reach_run: "(thread_step wr)\<^sup>*\<^sup>* st st' \<Longrightarrow> threads_reach wr st \<Longrightarrow> threads_reach wr st'"
  by (induction rule: rtranclp_induct) (auto intro: threads_reach.step)

text \<open>Both threads inside the vector would both hold its mutex.\<close>

lemma inbox_guarded: "threads_inv st \<Longrightarrow> \<not> racing st Inbox"
  by (cases "th_main st"; cases "th_network st") (auto simp: racing_def threads_inv_def)

text \<open>With an answer to send and the network thread free, two steps are enough.\<close>

lemma race_in_two_steps:
  assumes "threads_inv st" and "th_main st = AtMessage i" and "i < length (inbox_of st)"
    and "answered (inbox_of st ! i)" and "th_network st = BetweenCompletions"
  shows "\<exists>st'. (thread_step wr)\<^sup>*\<^sup>* st st' \<and> racing st' ClientMap \<and>
    th_main st' = InSend i (HMessage.m_iSessionID (inbox_of st ! i))"
proof -
  have "pending_accept (th_net st) \<noteq> []"
    using assms(1,5) by (auto simp: threads_inv_def settled_def net_inv_def)
  then obtain s where s: "s \<in> set (pending_accept (th_net st))"
    by (meson hd_in_set)
  let ?sid = "HMessage.m_iSessionID (inbox_of st ! i)"
  let ?st1 = "st\<lparr>th_main := InSend i ?sid\<rparr>"
  let ?st2 = "?st1\<lparr>th_net := (th_net ?st1)\<lparr>pending_accept := remove1 s (pending_accept (th_net ?st1))\<rparr>,
      th_network := InAccept s False\<rparr>"
  have "thread_step wr st ?st1"
    using assms(2-4) by (rule thread_step.send_enter)
  moreover have "thread_step wr ?st1 ?st2"
    using s assms(5) by (intro thread_step.accept_enter) simp_all
  ultimately have "(thread_step wr)\<^sup>*\<^sup>* st ?st2"
    by (rule converse_rtranclp_into_rtranclp [OF _ r_into_rtranclp])
  then show ?thesis
    by (intro exI [of _ ?st2]) (simp add: racing_def)
qed

section \<open>Properties\<close>

text \<open>
  C11: The server's invariant holds between any two accesses of its threads. They never hold the same
  mutex and are never both inside the vector of received messages; and with the operation under
  completion counted as pending, the network state is in shape, the messages in the main thread's
  hands are unread and the map of clients of \<open>MsgLogic\<close> is empty.
\<close>

theorem threads_invariant:
  assumes "threads_reach wr st"
  shows "set (main_locks (th_main st)) \<inter> set (net_locks (th_network st)) = {} \<and> \<not> racing st Inbox \<and>
    net_inv (settled st) \<and> m_mapAllClient (th_logic st) = [] \<and> (\<forall>h. h \<in> set (inbox_of st) \<longrightarrow> fresh_msg h)"
  using threads_inv_reach [OF assms] inbox_guarded [OF threads_inv_reach [OF assms]]
  by (simp add: threads_inv_def)

theorem threads_invariant_witness:
  "\<not> racing ((threads_start blank_session 5)\<lparr>th_main := InGetAllMsg\<rparr>) Inbox"
proof -
  have "thread_step (\<lambda>_ _. True) (threads_start blank_session 5) ((threads_start blank_session 5)\<lparr>th_main := InGetAllMsg\<rparr>)"
    by (rule thread_step.take_enter) (simp_all add: threads_start_def main_start_def)
  then have "threads_reach (\<lambda>_ _. True) ((threads_start blank_session 5)\<lparr>th_main := InGetAllMsg\<rparr>)"
    by (rule threads_reach.step [OF threads_reach.start])
  from threads_invariant [OF this] show ?thesis by blast
qed

text \<open>
  C12: The map of clients is not guarded. \<open>SendMsgBySessionID\<close> looks the session up without the
  mutex the network thread changes the map under, so whenever the main thread has an answer to
  send, while the network thread waits, a connection is enough to have both threads
  inside the map, one of them writing.
\<close>

theorem client_map_races:
  assumes "threads_reach wr st" and "th_main st = AtMessage i" and "i < length (inbox_of st)"
    and "answered (inbox_of st ! i)" and "th_network st = BetweenCompletions"
  shows "\<exists>st'. threads_reach wr st' \<and> (thread_step wr)\<^sup>*\<^sup>* st st' \<and> racing st' ClientMap \<and>
    th_main st' = InSend i (HMessage.m_iSessionID (inbox_of st ! i))"
  using race_in_two_steps [OF threads_inv_reach [OF assms(1)] assms(2-5)] threads_reach_run [OF _ assms(1)]
  by blast

text \<open>A client that connects and asks to log in gets the server there.\<close>

lemma login_waiting:
  "\<exists>st. threads_reach wr st \<and> th_main st = AtMessage 0 \<and> 0 < length (inbox_of st) \<and>
     answered (inbox_of st ! 0) \<and> th_network st = BetweenCompletions"
proof -
  let ?net = "srv_net connected_server"
  let ?st0 = "threads_start blank_session 5"
  let ?st1 = "?st0\<lparr>th_net := (AcceptConnect blank_session 5 net_init)\<lparr>pending_accept := []\<rparr>,
      th_network := InAccept first_session False\<rparr>"
  let ?st2 = "?st1\<lparr>th_net := ?net, th_network := BetweenCompletions\<rparr>"
  have pa: "pending_accept (AcceptConnect blank_session 5 net_init) = [first_session]"
    by (simp add: AcceptConnect_def next_id_def net_init_def first_session_def Let_def)
  have net0: "th_net ?st0 = AcceptConnect blank_session 5 net_init"
    by (simp add: threads_start_def main_start_def)
  have "thread_step wr ?st0 (?st0\<lparr>th_net := (th_net ?st0)\<lparr>pending_accept := remove1 first_session (pending_accept (th_net ?st0))\<rparr>,
       th_network := InAccept first_session False\<rparr>)"
    by (rule thread_step.accept_enter) (simp_all add: net0 pa, simp_all add: threads_start_def main_start_def)
  then have 1: "thread_step wr ?st0 ?st1" by (simp add: net0 pa)
  have "thread_step wr ?st1 (?st1\<lparr>th_net := Handle_accept blank_session first_session False (th_net ?st1), th_network := BetweenCompletions\<rparr>)"
    by (rule thread_step.accept_leave) simp
  then have 2: "thread_step wr ?st1 ?st2"
    by (simp add: connected_server_def first_session_def)
  have inv: "net_inv ?net"
    using srv_inv_reach [OF connected_reach [of wr]] by (simp add: srv_inv_def)
  have len: "length demo_login_bytes \<le> 4000" by (simp add: demo_login_bytes_def)
  obtain net' h where h: "push_and_read blank (with_data first_session demo_login_bytes) (length demo_login_bytes)
       (?net\<lparr>pending_read := []\<rparr>) = Inr net'" "MyZServerNetwork.m_vecAllClientMsg net' = [h]"
      "fresh_msg h" "bytes_at (m_byBuffer h) 0 (length demo_login_bytes) = demo_login_bytes"
    using read_done_step [OF inv, of first_session demo_login_bytes blank False] len
    by (auto simp: connected_facts push_and_read_def)
  have ans: "answered h"
    using request_bytes_parse [OF h(3,4) len demo_login_request] by (simp add: answered_def asks_def)
  let ?x = "with_data first_session demo_login_bytes"
  let ?st3 = "?st2\<lparr>th_net := ?net\<lparr>pending_read := []\<rparr>, th_network := AfterErase ?x demo_login_bytes\<rparr>"
  let ?st4 = "?st3\<lparr>th_network := InPush ?x demo_login_bytes\<rparr>"
  let ?st5 = "?st4\<lparr>th_net := net', th_network := BetweenCompletions\<rparr>"
  let ?st6 = "?st5\<lparr>th_main := InGetAllMsg\<rparr>"
  let ?st7 = "?st6\<lparr>th_logic := GetvecMsg (th_logic ?st6) [h],
      th_net := net'\<lparr>MyZServerNetwork.m_vecAllClientMsg := []\<rparr>, th_main := AtMessage 0\<rparr>"
  have "thread_step wr ?st2 (?st2\<lparr>th_net := (th_net ?st2)\<lparr>pending_read := remove1 first_session (pending_read (th_net ?st2))\<rparr>,
       th_network := AfterErase ?x demo_login_bytes\<rparr>)"
    by (rule thread_step.read_enter) (simp_all add: connected_facts len)
  then have 3: "thread_step wr ?st2 ?st3" by (simp add: connected_facts)
  have 4: "thread_step wr ?st3 ?st4"
    by (rule thread_step.push_enter) (simp_all add: threads_start_def main_start_def)
  have 5: "thread_step wr ?st4 ?st5"
    by (rule thread_step.push_leave [where junk = blank]) (simp, simp add: h(1))
  have 6: "thread_step wr ?st5 ?st6"
    by (rule thread_step.take_enter) (simp_all add: threads_start_def main_start_def)
  have 7: "thread_step wr ?st6 ?st7"
    by (rule thread_step.take_leave) (simp_all add: GetAllMsg_def h(2))
  have "threads_reach wr ?st7"
    by (rule threads_reach.step [OF threads_reach.step [OF threads_reach.step [OF threads_reach.step [OF
        threads_reach.step [OF threads_reach.step [OF threads_reach.step [OF threads_reach.start 1] 2] 3] 4] 5] 6] 7])
  moreover have "inbox_of ?st7 = [h]" "th_main ?st7 = AtMessage 0" "th_network ?st7 = BetweenCompletions"
    by (simp_all add: GetvecMsg_def)
  ultimately show ?thesis
    using ans by (intro exI [of _ ?st7]) (simp del: threads.simps threads.select_convs threads.update_convs)
qed

theorem client_map_races_witness:
  "\<exists>st. threads_reach (\<lambda>_ _. True) st \<and> racing st ClientMap"
proof -
  obtain st where st: "threads_reach (\<lambda>_ _. True) st" "th_main st = AtMessage 0" "0 < length (inbox_of st)"
    "answered (inbox_of st ! 0)" "th_network st = BetweenCompletions"
    using login_waiting by blast
  show ?thesis using client_map_races [OF st] by blast
qed

end
