(* ===== verification/Game_Protocol.thy ===== *)
theory Game_Protocol
  imports Protocol
begin

text \<open>
  The client's copy of the message header, GameHMsg.h, method by method. It was copied
  from MyMsg.h and then diverged: the buffer has 4096 bytes where \<open>CheckPut\<close> still allows
  10000, \<open>operator=\<close> and \<open>clear\<close> skip the size (which is called \<open>m_Size\<close> there), and the
  answer to a registration is read in full. The objects are the records of the server's
  header. Every method that was not changed is shown equal to the server's, so that the
  lemmas of Protocol apply to it; the methods that were changed are the rest of the
  theory.
\<close>

named_theorems game_same \<comment> \<open>a method of the client that equals the server's\<close>

section \<open>The numbers\<close>

text \<open>
  The three enumerations of GameHMsg.h, over the constructors of the server's; the first has a
  name here.
\<close>

primrec Game_error_code :: "ErrorCode \<Rightarrow> int" where
    "Game_error_code ERROR_CODE_NONE = 0"
  | "Game_error_code ERROR_CODE_REGSTER_OK = 1"
  | "Game_error_code ERROR_CODE_REGSTER_FAIL = 2"
  | "Game_error_code ERROR_CODE_LOGIN_OK = 3"
  | "Game_error_code ERROR_CODE_LOGIN_FAIL = 4"
  | "Game_error_code ERROR_CODE_CHECK_DYNMIC_CODE_OK = 5"
  | "Game_error_code ERROR_CODE_CHECK_DYNMIC_CODE_FAIL = 6"
  | "Game_error_code ERROR_CODE_GET_ROLE_OK = 7"
  | "Game_error_code ERROR_CODE_GET_ROLE_FAIL = 8"

lemma Game_error_code [game_same]: "Game_error_code = error_code"
proof
  fix p
  show "Game_error_code p = error_code p" by (cases p) simp_all
qed

primrec Game_main_code :: "MainProtocol \<Rightarrow> int" where
    "Game_main_code SP_TOOL_HEART_BEAT_MESSAGE = 111"
  | "Game_main_code SP_HEART_BEAT_MESSAGE = 0x111"
  | "Game_main_code SP_A_HEART_BEAT_MESSAGE = 0x112"
  | "Game_main_code SP_CHAT_HEART_BEAT_MESSAGE = 0x221"
  | "Game_main_code FM_ZDQ_SERVER_MESSAGE = 0x9"
  | "Game_main_code D_SERVER_LOGIN = 0x1001"
  | "Game_main_code FM_Q_ROUND_MESSAGE = 0x1037"
  | "Game_main_code FM_Q_MAIN_MENU_MESSAGE = 0x1038"
  | "Game_main_code FM_Q_HOME_MESSAGE = 0x1039"
  | "Game_main_code FM_Q_ITEM_MESSAGE = 0x1040"
  | "Game_main_code FM_Q_FIGHT_MESSAGE = 0x1041"
  | "Game_main_code FM_Q_SHOP_MESSAGE = 0x1042"
  | "Game_main_code FM_Q_GM_MESSAGE = 0x1043"
  | "Game_main_code FM_Q_SYSTEM_NOTICE_MESSAGE = 0x1044"
  | "Game_main_code FM_Q_ROLE_MESSAGE = 0x1045"
  | "Game_main_code FM_Q_MISSION_MESSAGE = 0x1046"
  | "Game_main_code FM_Q_NEWS_MESSAGE = 0x1047"
  | "Game_main_code FM_Q_ARENA_MESSAGE = 0x1048"
  | "Game_main_code FM_Q_ACTIVE_MESSAGE = 0x1049"
  | "Game_main_code FM_Q_STATISTICS_MESSAGE = 0x1050"
  | "Game_main_code FM_Q_GROUP_MESSAGE = 0x1051"
  | "Game_main_code FM_Q_RANK_MESSAGE = 0x1052"
  | "Game_main_code FM_ZDQ_LOGIN = 0x2001"
  | "Game_main_code FM_BQ_DB_DATA_SAVE_AND_UPDATE = 0x2002"
  | "Game_main_code FM_BLQ_PET_MESSAGE = 0x2003"
  | "Game_main_code ZB_CHAT_MESSAGE = 0x2005"
  | "Game_main_code ZB_ERROR_MESSAGE = 0x2006"

lemma Game_main_code [game_same]: "Game_main_code = main_code"
proof
  fix p
  show "Game_main_code p = main_code p" by (cases p) simp_all
qed

primrec Game_sub_code :: "SubProtocol \<Rightarrow> int" where
    "Game_sub_code C2ZS_R_REGISTER = 1"
  | "Game_sub_code ZS2C_A_REGISTER = 2"
  | "Game_sub_code C2ZS_R_LOGIN = 3"
  | "Game_sub_code ZS2C_A_LOGIN = 4"
  | "Game_sub_code C2DS_R_ALLROLE = 5"
  | "Game_sub_code DS2C_A_ALLROLE = 6"
  | "Game_sub_code DS2ZS_R_CHECKDYNMICCODE = 1000"
  | "Game_sub_code ZS2DS_A_CHECKDYNMICCODE = 1001"
  | "Game_sub_code C2GS_R_CHECKDYNMICCODE = 1002"
  | "Game_sub_code GS2C_A_CHECKDYNMICCODE = 1003"
  | "Game_sub_code GS2DS_R_CHECKDYNMICCODE = 1004"
  | "Game_sub_code DS2GS_A_CHECKDYNMICCODE = 1005"

lemma Game_sub_code [game_same]: "Game_sub_code = sub_code"
proof
  fix p
  show "Game_sub_code p = sub_code p" by (cases p) simp_all
qed

section \<open>The buffer\<close>

definition Game_HMessage_new :: "HMessage \<Rightarrow> HMessage" where
  "Game_HMessage_new junk =
     junk\<lparr>m_byBuffer := (m_byBuffer junk)\<lparr>buf_size := 4096\<rparr>, m_iPos := 0, m_iDataUseSize := 0\<rparr>"

definition Game_HMessage_from :: "HMessage \<Rightarrow> u8 list \<Rightarrow> HMessage res" where
  "Game_HMessage_from junk dat =
     (let h = junk\<lparr>m_byBuffer := (m_byBuffer junk)\<lparr>buf_size := 4096\<rparr>,
                   m_iPos := 0, m_iDataUseSize := int (length dat)\<rparr>
      in rbind (store_bytes (m_byBuffer h) 0 dat) (\<lambda>b. Inr (h\<lparr>m_byBuffer := b\<rparr>)))"

definition Game_AddPosition :: "HMessage \<Rightarrow> int \<Rightarrow> HMessage res" where
  "Game_AddPosition h iAddition =
     rbind (int_add (m_iPos h) iAddition) (\<lambda>p.
       Inr (if p > m_iDataUseSize h then h\<lparr>m_iPos := p, m_iDataUseSize := p\<rparr>
            else h\<lparr>m_iPos := p\<rparr>))"

lemma Game_AddPosition [game_same]: "Game_AddPosition = AddPosition"
  by (intro ext) (unfold Game_AddPosition_def AddPosition_def game_same, rule refl)

definition Game_SetPos :: "HMessage \<Rightarrow> int \<Rightarrow> HMessage" where
  "Game_SetPos h iPos = h\<lparr>m_iPos := iPos\<rparr>"

lemma Game_SetPos [game_same]: "Game_SetPos = SetPos"
  by (intro ext) (unfold Game_SetPos_def SetPos_def game_same, rule refl)

text \<open>The limit is still the 10000 bytes of the server.\<close>

definition Game_CheckPut :: "HMessage \<Rightarrow> int \<Rightarrow> bool res" where
  "Game_CheckPut h iSize = rbind (int_add (m_iPos h) iSize) (\<lambda>e. Inr (e < 10000))"

lemma Game_CheckPut [game_same]: "Game_CheckPut = CheckPut"
  by (intro ext) (unfold Game_CheckPut_def CheckPut_def game_same, rule refl)

definition Game_GetPosition :: "HMessage \<Rightarrow> (int \<times> HMessage) res" where
  "Game_GetPosition h =
     rbind (store_bytes (m_byBuffer h) 0 (u16_le (word_of_int (m_iPos h)))) (\<lambda>b.
       Inr (m_iPos h, h\<lparr>m_byBuffer := b\<rparr>))"

lemma Game_GetPosition [game_same]: "Game_GetPosition = GetPosition"
  by (intro ext) (unfold Game_GetPosition_def GetPosition_def game_same, rule refl)

definition Game_putChar :: "HMessage \<Rightarrow> u8 \<Rightarrow> (bool \<times> HMessage) res" where
  "Game_putChar h dat =
     rbind (Game_CheckPut h 1) (\<lambda>fits.
       if fits = False then Inr (False, h)
       else rbind (store_byte (m_byBuffer h) (m_iPos h) dat) (\<lambda>b.
            rbind (Game_AddPosition (h\<lparr>m_byBuffer := b\<rparr>) 1) (\<lambda>h'. Inr (True, h'))))"

lemma Game_putChar [game_same]: "Game_putChar = putChar"
  by (intro ext) (unfold Game_putChar_def putChar_def game_same, rule refl)

definition Game_putUInt :: "HMessage \<Rightarrow> u32 \<Rightarrow> (bool \<times> HMessage) res" where
  "Game_putUInt h dat =
     rbind (Game_CheckPut h 4) (\<lambda>fits.
       if fits = False then Inr (False, h)
       else rbind (store_byte (m_byBuffer h) (m_iPos h + 0) (ucast (drop_bit 24 dat))) (\<lambda>b0.
            rbind (store_byte b0 (m_iPos h + 1) (ucast (drop_bit 16 dat) AND 0xff)) (\<lambda>b1.
            rbind (store_byte b1 (m_iPos h + 2) (ucast (drop_bit 8 dat) AND 0xff)) (\<lambda>b2.
            rbind (store_byte b2 (m_iPos h + 3) (ucast dat AND 0xff)) (\<lambda>b3.
            rbind (Game_AddPosition (h\<lparr>m_byBuffer := b3\<rparr>) 4) (\<lambda>h'. Inr (True, h')))))))"

lemma Game_putUInt [game_same]: "Game_putUInt = putUInt"
  by (intro ext) (unfold Game_putUInt_def putUInt_def game_same, rule refl)

definition Game_putUShort :: "HMessage \<Rightarrow> u16 \<Rightarrow> (bool \<times> HMessage) res" where
  "Game_putUShort h dat =
     rbind (Game_CheckPut h 2) (\<lambda>fits.
       if fits = False then Inr (False, h)
       else rbind (store_bytes (m_byBuffer h) (m_iPos h) (u16_le dat)) (\<lambda>b.
            rbind (Game_AddPosition (h\<lparr>m_byBuffer := b\<rparr>) 2) (\<lambda>h'. Inr (True, h'))))"

lemma Game_putUShort [game_same]: "Game_putUShort = putUShort"
  by (intro ext) (unfold Game_putUShort_def putUShort_def game_same, rule refl)

definition Game_getUShort :: "HMessage \<Rightarrow> (u16 \<times> HMessage) res" where
  "Game_getUShort h =
     rbind (load_bytes (m_byBuffer h) (m_iPos h) 2) (\<lambda>bs.
     rbind (Game_AddPosition h 2) (\<lambda>h'. Inr (u16_of_le bs, h')))"

lemma Game_getUShort [game_same]: "Game_getUShort = getUShort"
  by (intro ext) (unfold Game_getUShort_def getUShort_def game_same, rule refl)

definition Game_getUInt :: "HMessage \<Rightarrow> (u32 \<times> HMessage) res" where
  "Game_getUInt h =
     rbind (load_byte (m_byBuffer h) (m_iPos h + 0)) (\<lambda>b0.
     rbind (load_byte (m_byBuffer h) (m_iPos h + 1)) (\<lambda>b1.
     rbind (load_byte (m_byBuffer h) (m_iPos h + 2)) (\<lambda>b2.
     rbind (load_byte (m_byBuffer h) (m_iPos h + 3)) (\<lambda>b3.
     rbind (Game_AddPosition h 4) (\<lambda>h'.
       Inr (((0 OR push_bit 24 (ucast b0)) OR push_bit 16 (ucast b1)
             OR push_bit 8 (ucast b2)) OR ucast b3, h'))))))"

lemma Game_getUInt [game_same]: "Game_getUInt = getUInt"
  by (intro ext) (unfold Game_getUInt_def getUInt_def game_same, rule refl)

definition Game_getByte :: "HMessage \<Rightarrow> (u8 \<times> HMessage) res" where
  "Game_getByte h =
     rbind (load_byte (m_byBuffer h) (m_iPos h)) (\<lambda>b.
     rbind (Game_AddPosition h 1) (\<lambda>h'. Inr (b, h')))"

lemma Game_getByte [game_same]: "Game_getByte = getByte"
  by (intro ext) (unfold Game_getByte_def getByte_def game_same, rule refl)

definition Game_putCharArray :: "HMessage \<Rightarrow> u8 list \<Rightarrow> int \<Rightarrow> (bool \<times> HMessage) res" where
  "Game_putCharArray h src iLen =
     rbind (Game_CheckPut h iLen) (\<lambda>fits.
       if fits = False then Inr (False, h)
       else if iLen < 0 then Inl WriteOutOfBounds
       else rbind (store_bytes (m_byBuffer h) (m_iPos h) (take (nat iLen) src)) (\<lambda>b.
            rbind (int_add (m_iPos h) iLen) (\<lambda>p.
              Inr (True, h\<lparr>m_byBuffer := b, m_iPos := p\<rparr>))))"

lemma Game_putCharArray [game_same]: "Game_putCharArray = putCharArray"
  by (intro ext) (unfold Game_putCharArray_def putCharArray_def game_same, rule refl)

definition Game_putString :: "HMessage \<Rightarrow> string \<Rightarrow> (bool \<times> HMessage) res" where
  "Game_putString h str =
     (let iLen = to_int32 (int (length str)) in
      rbind (Game_putUShort h (word_of_int iLen)) (\<lambda>(done, h').
        if False = done then Inr (False, h')
        else Game_putCharArray h' (map chr_byte str) iLen))"

lemma Game_putString [game_same]: "Game_putString = putString"
  by (intro ext) (unfold Game_putString_def putString_def game_same, rule refl)

definition Game_getString :: "HMessage \<Rightarrow> (string \<times> HMessage) res" where
  "Game_getString h =
     rbind (Game_getUShort h) (\<lambda>(iLen, h').
     rbind (load_bytes (m_byBuffer h') (m_iPos h') (unat iLen)) (\<lambda>bs.
     rbind (int_add (m_iPos h') (int (unat iLen))) (\<lambda>p.
       Inr (c_string (bs @ [0]), h'\<lparr>m_iPos := p\<rparr>))))"

lemma Game_getString [game_same]: "Game_getString = getString"
  by (intro ext) (unfold Game_getString_def getString_def game_same, rule refl)

section \<open>The base class\<close>

definition Game_BaseMessage_put :: "'a BaseMessage_scheme \<Rightarrow> HMessage \<Rightarrow> HMessage res" where
  "Game_BaseMessage_put this hmg =
     rbind (Game_putUShort hmg (m_wSize this)) (\<lambda>(_, hmg).
     rbind (Game_putUShort hmg (m_iMainProtocol this)) (\<lambda>(_, hmg).
     rbind (Game_putUShort hmg (m_iSubProtocol this)) (\<lambda>(_, hmg). Inr hmg)))"

lemma Game_BaseMessage_put [game_same]: "Game_BaseMessage_put = BaseMessage_put"
  by (intro ext) (unfold Game_BaseMessage_put_def BaseMessage_put_def game_same, rule refl)

definition Game_BaseMessage_get ::
  "'a BaseMessage_scheme \<Rightarrow> HMessage \<Rightarrow> ('a BaseMessage_scheme \<times> HMessage) res" where
  "Game_BaseMessage_get this hmg =
     rbind (Game_getUShort hmg) (\<lambda>(size, hmg).
     rbind (Game_getUShort hmg) (\<lambda>(mainp, hmg).
     rbind (Game_getUShort hmg) (\<lambda>(subp, hmg).
       Inr (this\<lparr>m_wSize := size, m_iMainProtocol := mainp, m_iSubProtocol := subp\<rparr>, hmg))))"

lemma Game_BaseMessage_get [game_same]: "Game_BaseMessage_get = BaseMessage_get"
  by (intro ext) (unfold Game_BaseMessage_get_def BaseMessage_get_def game_same, rule refl)

text \<open>\<open>operator=\<close> and \<open>clear\<close> leave the size alone.\<close>

definition Game_BaseMessage_assign ::
  "'a BaseMessage_scheme \<Rightarrow> 'b BaseMessage_scheme \<Rightarrow> 'a BaseMessage_scheme" where
  "Game_BaseMessage_assign this tmp =
     this\<lparr>m_iMainProtocol := m_iMainProtocol tmp, m_iSubProtocol := m_iSubProtocol tmp\<rparr>"

definition Game_BaseMessage_clear :: "'a BaseMessage_scheme \<Rightarrow> 'a BaseMessage_scheme" where
  "Game_BaseMessage_clear this = this\<lparr>m_iSubProtocol := 0, m_iMainProtocol := 0\<rparr>"

section \<open>The message classes\<close>

subsection \<open>\<open>C2ZS_R_Login\<close>\<close>

definition Game_C2ZS_R_Login_new :: "C2ZS_R_Login \<Rightarrow> C2ZS_R_Login" where
  "Game_C2ZS_R_Login_new junk =
     junk\<lparr>m_iMainProtocol := word_of_int (main_code FM_ZDQ_LOGIN),
          m_iSubProtocol := word_of_int (sub_code C2ZS_R_LOGIN),
          C2ZS_R_Login.m_strAccount := '''',
          C2ZS_R_Login.m_strPassword := ''''\<rparr>"

lemma Game_C2ZS_R_Login_new [game_same]: "Game_C2ZS_R_Login_new = C2ZS_R_Login_new"
  by (intro ext) (unfold Game_C2ZS_R_Login_new_def C2ZS_R_Login_new_def game_same, rule refl)

definition Game_C2ZS_R_Login_put :: "C2ZS_R_Login \<Rightarrow> HMessage \<Rightarrow> HMessage res" where
  "Game_C2ZS_R_Login_put this hmg =
     rbind (Game_BaseMessage_put this hmg) (\<lambda>hmg.
     rbind (Game_putString hmg (C2ZS_R_Login.m_strAccount this)) (\<lambda>(_, hmg).
     rbind (Game_putString hmg (C2ZS_R_Login.m_strPassword this)) (\<lambda>(_, hmg). Inr hmg)))"

lemma Game_C2ZS_R_Login_put [game_same]: "Game_C2ZS_R_Login_put = C2ZS_R_Login_put"
  by (intro ext) (unfold Game_C2ZS_R_Login_put_def C2ZS_R_Login_put_def game_same, rule refl)

definition Game_C2ZS_R_Login_get :: "C2ZS_R_Login \<Rightarrow> HMessage \<Rightarrow> (C2ZS_R_Login \<times> HMessage) res" where
  "Game_C2ZS_R_Login_get this hmg =
     rbind (Game_getString hmg) (\<lambda>(v0, hmg).
     rbind (Game_getString hmg) (\<lambda>(v1, hmg).
       Inr (this\<lparr>C2ZS_R_Login.m_strAccount := v0, C2ZS_R_Login.m_strPassword := v1\<rparr>, hmg)))"

lemma Game_C2ZS_R_Login_get [game_same]: "Game_C2ZS_R_Login_get = C2ZS_R_Login_get"
  by (intro ext) (unfold Game_C2ZS_R_Login_get_def C2ZS_R_Login_get_def game_same, rule refl)

subsection \<open>\<open>ZS2C_A_Login\<close>\<close>

definition Game_ZS2C_A_Login_new :: "ZS2C_A_Login \<Rightarrow> ZS2C_A_Login" where
  "Game_ZS2C_A_Login_new junk =
     junk\<lparr>m_iMainProtocol := word_of_int (main_code FM_ZDQ_LOGIN),
          m_iSubProtocol := word_of_int (sub_code ZS2C_A_LOGIN),
          ZS2C_A_Login.m_DynmicCode := 0,
          ZS2C_A_Login.m_iCount := 0,
          ZS2C_A_Login.m_iID := 0,
          ZS2C_A_Login.m_strName := '''',
          ZS2C_A_Login.m_strIP := '''',
          ZS2C_A_Login.m_wPort := 0,
          ZS2C_A_Login.m_State := -1\<rparr>"

lemma Game_ZS2C_A_Login_new [game_same]: "Game_ZS2C_A_Login_new = ZS2C_A_Login_new"
  by (intro ext) (unfold Game_ZS2C_A_Login_new_def ZS2C_A_Login_new_def game_same, rule refl)

definition Game_ZS2C_A_Login_put :: "ZS2C_A_Login \<Rightarrow> HMessage \<Rightarrow> HMessage res" where
  "Game_ZS2C_A_Login_put this hmg =
     rbind (Game_BaseMessage_put this hmg) (\<lambda>hmg.
     rbind (Game_putUInt hmg (ZS2C_A_Login.m_iErrorCode this)) (\<lambda>(_, hmg).
     rbind (Game_putUInt hmg (ZS2C_A_Login.m_DynmicCode this)) (\<lambda>(_, hmg).
     rbind (Game_putUInt hmg (ZS2C_A_Login.m_iCount this)) (\<lambda>(_, hmg). Inr hmg))))"

lemma Game_ZS2C_A_Login_put [game_same]: "Game_ZS2C_A_Login_put = ZS2C_A_Login_put"
  by (intro ext) (unfold Game_ZS2C_A_Login_put_def ZS2C_A_Login_put_def game_same, rule refl)

definition Game_ZS2C_A_Login_putServerData :: "ZS2C_A_Login \<Rightarrow> HMessage \<Rightarrow> HMessage res" where
  "Game_ZS2C_A_Login_putServerData this hmg =
     rbind (Game_putUInt hmg (ZS2C_A_Login.m_iID this)) (\<lambda>(_, hmg).
     rbind (Game_putString hmg (ZS2C_A_Login.m_strName this)) (\<lambda>(_, hmg).
     rbind (Game_putString hmg (ZS2C_A_Login.m_strIP this)) (\<lambda>(_, hmg).
     rbind (Game_putUShort hmg (ZS2C_A_Login.m_wPort this)) (\<lambda>(_, hmg).
     rbind (Game_putChar hmg (ZS2C_A_Login.m_State this)) (\<lambda>(_, hmg). Inr hmg)))))"

lemma Game_ZS2C_A_Login_putServerData [game_same]: "Game_ZS2C_A_Login_putServerData = ZS2C_A_Login_putServerData"
  by (intro ext) (unfold Game_ZS2C_A_Login_putServerData_def ZS2C_A_Login_putServerData_def game_same, rule refl)

definition Game_ZS2C_A_Login_get :: "ZS2C_A_Login \<Rightarrow> HMessage \<Rightarrow> (ZS2C_A_Login \<times> HMessage) res" where
  "Game_ZS2C_A_Login_get this hmg =
     rbind (Game_getUInt hmg) (\<lambda>(v0, hmg).
     rbind (Game_getUInt hmg) (\<lambda>(v1, hmg).
     rbind (Game_getUInt hmg) (\<lambda>(v2, hmg).
       Inr (this\<lparr>ZS2C_A_Login.m_iErrorCode := v0, ZS2C_A_Login.m_DynmicCode := v1, ZS2C_A_Login.m_iCount := v2\<rparr>, hmg))))"

lemma Game_ZS2C_A_Login_get [game_same]: "Game_ZS2C_A_Login_get = ZS2C_A_Login_get"
  by (intro ext) (unfold Game_ZS2C_A_Login_get_def ZS2C_A_Login_get_def game_same, rule refl)

definition Game_ZS2C_A_Login_getServerData :: "ZS2C_A_Login \<Rightarrow> HMessage \<Rightarrow> (ZS2C_A_Login \<times> HMessage) res" where
  "Game_ZS2C_A_Login_getServerData this hmg =
     rbind (Game_getUInt hmg) (\<lambda>(v0, hmg).
     rbind (Game_getString hmg) (\<lambda>(v1, hmg).
     rbind (Game_getString hmg) (\<lambda>(v2, hmg).
     rbind (Game_getUShort hmg) (\<lambda>(v3, hmg).
     rbind (Game_getByte hmg) (\<lambda>(v4, hmg).
       Inr (this\<lparr>ZS2C_A_Login.m_iID := v0, ZS2C_A_Login.m_strName := v1, ZS2C_A_Login.m_strIP := v2, ZS2C_A_Login.m_wPort := v3, ZS2C_A_Login.m_State := v4\<rparr>, hmg))))))"

lemma Game_ZS2C_A_Login_getServerData [game_same]: "Game_ZS2C_A_Login_getServerData = ZS2C_A_Login_getServerData"
  by (intro ext) (unfold Game_ZS2C_A_Login_getServerData_def ZS2C_A_Login_getServerData_def game_same, rule refl)

subsection \<open>\<open>C2ZS_R_RegisterAccount\<close>\<close>

definition Game_C2ZS_R_RegisterAccount_new :: "C2ZS_R_RegisterAccount \<Rightarrow> C2ZS_R_RegisterAccount" where
  "Game_C2ZS_R_RegisterAccount_new junk =
     junk\<lparr>m_iMainProtocol := word_of_int (main_code FM_ZDQ_LOGIN),
          m_iSubProtocol := word_of_int (sub_code C2ZS_R_REGISTER),
          C2ZS_R_RegisterAccount.m_strAccount := '''',
          C2ZS_R_RegisterAccount.m_strPassword := ''''\<rparr>"

lemma Game_C2ZS_R_RegisterAccount_new [game_same]: "Game_C2ZS_R_RegisterAccount_new = C2ZS_R_RegisterAccount_new"
  by (intro ext) (unfold Game_C2ZS_R_RegisterAccount_new_def C2ZS_R_RegisterAccount_new_def game_same, rule refl)

definition Game_C2ZS_R_RegisterAccount_put :: "C2ZS_R_RegisterAccount \<Rightarrow> HMessage \<Rightarrow> HMessage res" where
  "Game_C2ZS_R_RegisterAccount_put this hmg =
     rbind (Game_BaseMessage_put this hmg) (\<lambda>hmg.
     rbind (Game_putString hmg (C2ZS_R_RegisterAccount.m_strAccount this)) (\<lambda>(_, hmg).
     rbind (Game_putString hmg (C2ZS_R_RegisterAccount.m_strPassword this)) (\<lambda>(_, hmg). Inr hmg)))"

lemma Game_C2ZS_R_RegisterAccount_put [game_same]: "Game_C2ZS_R_RegisterAccount_put = C2ZS_R_RegisterAccount_put"
  by (intro ext) (unfold Game_C2ZS_R_RegisterAccount_put_def C2ZS_R_RegisterAccount_put_def game_same, rule refl)

definition Game_C2ZS_R_RegisterAccount_get :: "C2ZS_R_RegisterAccount \<Rightarrow> HMessage \<Rightarrow> (C2ZS_R_RegisterAccount \<times> HMessage) res" where
  "Game_C2ZS_R_RegisterAccount_get this hmg =
     rbind (Game_getString hmg) (\<lambda>(v0, hmg).
     rbind (Game_getString hmg) (\<lambda>(v1, hmg).
       Inr (this\<lparr>C2ZS_R_RegisterAccount.m_strAccount := v0, C2ZS_R_RegisterAccount.m_strPassword := v1\<rparr>, hmg)))"

lemma Game_C2ZS_R_RegisterAccount_get [game_same]: "Game_C2ZS_R_RegisterAccount_get = C2ZS_R_RegisterAccount_get"
  by (intro ext) (unfold Game_C2ZS_R_RegisterAccount_get_def C2ZS_R_RegisterAccount_get_def game_same, rule refl)

subsection \<open>\<open>ZS2C_A_RegisterAccount\<close>\<close>

definition Game_ZS2C_A_RegisterAccount_new :: "ZS2C_A_RegisterAccount \<Rightarrow> ZS2C_A_RegisterAccount" where
  "Game_ZS2C_A_RegisterAccount_new junk =
     junk\<lparr>m_iMainProtocol := word_of_int (main_code FM_ZDQ_LOGIN),
          m_iSubProtocol := word_of_int (sub_code ZS2C_A_REGISTER)\<rparr>"

lemma Game_ZS2C_A_RegisterAccount_new [game_same]: "Game_ZS2C_A_RegisterAccount_new = ZS2C_A_RegisterAccount_new"
  by (intro ext) (unfold Game_ZS2C_A_RegisterAccount_new_def ZS2C_A_RegisterAccount_new_def game_same, rule refl)

definition Game_ZS2C_A_RegisterAccount_put :: "ZS2C_A_RegisterAccount \<Rightarrow> HMessage \<Rightarrow> HMessage res" where
  "Game_ZS2C_A_RegisterAccount_put this hmg =
     rbind (Game_BaseMessage_put this hmg) (\<lambda>hmg.
     rbind (Game_putUInt hmg (ZS2C_A_RegisterAccount.m_iErrorCode this)) (\<lambda>(_, hmg).
     rbind (Game_putUInt hmg (ZS2C_A_RegisterAccount.m_iErrorCodeIndex this)) (\<lambda>(_, hmg). Inr hmg)))"

lemma Game_ZS2C_A_RegisterAccount_put [game_same]: "Game_ZS2C_A_RegisterAccount_put = ZS2C_A_RegisterAccount_put"
  by (intro ext) (unfold Game_ZS2C_A_RegisterAccount_put_def ZS2C_A_RegisterAccount_put_def game_same, rule refl)

text \<open>This get reads the second number too, which the server's header does not.\<close>

definition Game_ZS2C_A_RegisterAccount_get ::
  "ZS2C_A_RegisterAccount \<Rightarrow> HMessage \<Rightarrow> (ZS2C_A_RegisterAccount \<times> HMessage) res" where
  "Game_ZS2C_A_RegisterAccount_get this hmg =
     rbind (Game_getUInt hmg) (\<lambda>(v0, hmg).
     rbind (Game_getUInt hmg) (\<lambda>(v1, hmg).
       Inr (this\<lparr>ZS2C_A_RegisterAccount.m_iErrorCode := v0,
                 ZS2C_A_RegisterAccount.m_iErrorCodeIndex := v1\<rparr>, hmg)))"

subsection \<open>\<open>C2DS_R_GetAllRole\<close>\<close>

definition Game_C2DS_R_GetAllRole_new :: "C2DS_R_GetAllRole \<Rightarrow> C2DS_R_GetAllRole" where
  "Game_C2DS_R_GetAllRole_new junk =
     junk\<lparr>m_iMainProtocol := word_of_int (main_code FM_ZDQ_LOGIN),
          m_iSubProtocol := word_of_int (sub_code C2DS_R_ALLROLE)\<rparr>"

lemma Game_C2DS_R_GetAllRole_new [game_same]: "Game_C2DS_R_GetAllRole_new = C2DS_R_GetAllRole_new"
  by (intro ext) (unfold Game_C2DS_R_GetAllRole_new_def C2DS_R_GetAllRole_new_def game_same, rule refl)

definition Game_C2DS_R_GetAllRole_put :: "C2DS_R_GetAllRole \<Rightarrow> HMessage \<Rightarrow> HMessage res" where
  "Game_C2DS_R_GetAllRole_put this hmg =
     rbind (Game_BaseMessage_put this hmg) (\<lambda>hmg.
     rbind (Game_putUInt hmg (C2DS_R_GetAllRole.m_DynmicCode this)) (\<lambda>(_, hmg).
     rbind (Game_putUInt hmg (C2DS_R_GetAllRole.m_SessionID this)) (\<lambda>(_, hmg). Inr hmg)))"

lemma Game_C2DS_R_GetAllRole_put [game_same]: "Game_C2DS_R_GetAllRole_put = C2DS_R_GetAllRole_put"
  by (intro ext) (unfold Game_C2DS_R_GetAllRole_put_def C2DS_R_GetAllRole_put_def game_same, rule refl)

definition Game_C2DS_R_GetAllRole_get :: "C2DS_R_GetAllRole \<Rightarrow> HMessage \<Rightarrow> (C2DS_R_GetAllRole \<times> HMessage) res" where
  "Game_C2DS_R_GetAllRole_get this hmg =
     rbind (Game_getUInt hmg) (\<lambda>(v0, hmg).
     rbind (Game_getUInt hmg) (\<lambda>(v1, hmg).
       Inr (this\<lparr>C2DS_R_GetAllRole.m_DynmicCode := v0, C2DS_R_GetAllRole.m_SessionID := v1\<rparr>, hmg)))"

lemma Game_C2DS_R_GetAllRole_get [game_same]: "Game_C2DS_R_GetAllRole_get = C2DS_R_GetAllRole_get"
  by (intro ext) (unfold Game_C2DS_R_GetAllRole_get_def C2DS_R_GetAllRole_get_def game_same, rule refl)

subsection \<open>\<open>DS2C_A_GetAllRole\<close>\<close>

definition Game_DS2C_A_GetAllRole_new :: "DS2C_A_GetAllRole \<Rightarrow> DS2C_A_GetAllRole" where
  "Game_DS2C_A_GetAllRole_new junk =
     junk\<lparr>m_iMainProtocol := word_of_int (main_code FM_ZDQ_LOGIN),
          m_iSubProtocol := word_of_int (sub_code DS2C_A_ALLROLE), m_rolename := ''''\<rparr>"

lemma Game_DS2C_A_GetAllRole_new [game_same]: "Game_DS2C_A_GetAllRole_new = DS2C_A_GetAllRole_new"
  by (intro ext) (unfold Game_DS2C_A_GetAllRole_new_def DS2C_A_GetAllRole_new_def game_same, rule refl)

definition Game_DS2C_A_GetAllRole_put :: "DS2C_A_GetAllRole \<Rightarrow> HMessage \<Rightarrow> HMessage res" where
  "Game_DS2C_A_GetAllRole_put this hmg =
     rbind (Game_BaseMessage_put this hmg) (\<lambda>hmg.
     rbind (Game_putUInt hmg (DS2C_A_GetAllRole.m_iCount this)) (\<lambda>(_, hmg). Inr hmg))"

lemma Game_DS2C_A_GetAllRole_put [game_same]: "Game_DS2C_A_GetAllRole_put = DS2C_A_GetAllRole_put"
  by (intro ext) (unfold Game_DS2C_A_GetAllRole_put_def DS2C_A_GetAllRole_put_def game_same, rule refl)

definition Game_DS2C_A_GetAllRole_putRole :: "DS2C_A_GetAllRole \<Rightarrow> HMessage \<Rightarrow> HMessage res" where
  "Game_DS2C_A_GetAllRole_putRole this hmg =
     rbind (Game_putString hmg (m_rolename this)) (\<lambda>(_, hmg). Inr hmg)"

lemma Game_DS2C_A_GetAllRole_putRole [game_same]: "Game_DS2C_A_GetAllRole_putRole = DS2C_A_GetAllRole_putRole"
  by (intro ext) (unfold Game_DS2C_A_GetAllRole_putRole_def DS2C_A_GetAllRole_putRole_def game_same, rule refl)

definition Game_DS2C_A_GetAllRole_get ::
  "DS2C_A_GetAllRole \<Rightarrow> HMessage \<Rightarrow> (DS2C_A_GetAllRole \<times> HMessage) res" where
  "Game_DS2C_A_GetAllRole_get this hmg =
     rbind (Game_getString hmg) (\<lambda>(v, hmg). Inr (this\<lparr>m_rolename := v\<rparr>, hmg))"

lemma Game_DS2C_A_GetAllRole_get [game_same]: "Game_DS2C_A_GetAllRole_get = DS2C_A_GetAllRole_get"
  by (intro ext) (unfold Game_DS2C_A_GetAllRole_get_def DS2C_A_GetAllRole_get_def game_same, rule refl)

definition Game_DS2C_A_GetAllRole_getRole ::
  "DS2C_A_GetAllRole \<Rightarrow> HMessage \<Rightarrow> (DS2C_A_GetAllRole \<times> HMessage) res" where
  "Game_DS2C_A_GetAllRole_getRole this hmg =
     rbind (Game_getString hmg) (\<lambda>(v, hmg). Inr (this\<lparr>m_rolename := v\<rparr>, hmg))"

lemma Game_DS2C_A_GetAllRole_getRole [game_same]: "Game_DS2C_A_GetAllRole_getRole = DS2C_A_GetAllRole_getRole"
  by (intro ext) (unfold Game_DS2C_A_GetAllRole_getRole_def DS2C_A_GetAllRole_getRole_def game_same, rule refl)

subsection \<open>\<open>DS2ZS_R_CheckDynmicCode\<close>\<close>

definition Game_DS2ZS_R_CheckDynmicCode_new :: "DS2ZS_R_CheckDynmicCode \<Rightarrow> DS2ZS_R_CheckDynmicCode" where
  "Game_DS2ZS_R_CheckDynmicCode_new junk =
     junk\<lparr>m_iMainProtocol := word_of_int (main_code FM_Q_ROUND_MESSAGE),
          m_iSubProtocol := word_of_int (sub_code DS2ZS_R_CHECKDYNMICCODE)\<rparr>"

lemma Game_DS2ZS_R_CheckDynmicCode_new [game_same]: "Game_DS2ZS_R_CheckDynmicCode_new = DS2ZS_R_CheckDynmicCode_new"
  by (intro ext) (unfold Game_DS2ZS_R_CheckDynmicCode_new_def DS2ZS_R_CheckDynmicCode_new_def game_same, rule refl)

definition Game_DS2ZS_R_CheckDynmicCode_put :: "DS2ZS_R_CheckDynmicCode \<Rightarrow> HMessage \<Rightarrow> HMessage res" where
  "Game_DS2ZS_R_CheckDynmicCode_put this hmg =
     rbind (Game_BaseMessage_put this hmg) (\<lambda>hmg.
     rbind (Game_putUInt hmg (DS2ZS_R_CheckDynmicCode.m_DynmicCode this)) (\<lambda>(_, hmg).
     rbind (Game_putUInt hmg (DS2ZS_R_CheckDynmicCode.m_SessionID this)) (\<lambda>(_, hmg).
     rbind (Game_putUInt hmg (DS2ZS_R_CheckDynmicCode.m_SessionIDFromDS this)) (\<lambda>(_, hmg). Inr hmg))))"

lemma Game_DS2ZS_R_CheckDynmicCode_put [game_same]: "Game_DS2ZS_R_CheckDynmicCode_put = DS2ZS_R_CheckDynmicCode_put"
  by (intro ext) (unfold Game_DS2ZS_R_CheckDynmicCode_put_def DS2ZS_R_CheckDynmicCode_put_def game_same, rule refl)

definition Game_DS2ZS_R_CheckDynmicCode_get :: "DS2ZS_R_CheckDynmicCode \<Rightarrow> HMessage \<Rightarrow> (DS2ZS_R_CheckDynmicCode \<times> HMessage) res" where
  "Game_DS2ZS_R_CheckDynmicCode_get this hmg =
     rbind (Game_getUInt hmg) (\<lambda>(v0, hmg).
     rbind (Game_getUInt hmg) (\<lambda>(v1, hmg).
     rbind (Game_getUInt hmg) (\<lambda>(v2, hmg).
       Inr (this\<lparr>DS2ZS_R_CheckDynmicCode.m_DynmicCode := v0, DS2ZS_R_CheckDynmicCode.m_SessionID := v1, DS2ZS_R_CheckDynmicCode.m_SessionIDFromDS := v2\<rparr>, hmg))))"

lemma Game_DS2ZS_R_CheckDynmicCode_get [game_same]: "Game_DS2ZS_R_CheckDynmicCode_get = DS2ZS_R_CheckDynmicCode_get"
  by (intro ext) (unfold Game_DS2ZS_R_CheckDynmicCode_get_def DS2ZS_R_CheckDynmicCode_get_def game_same, rule refl)

subsection \<open>\<open>ZS2DS_A_CheckDynmicCode\<close>\<close>

definition Game_ZS2DS_A_CheckDynmicCode_new :: "ZS2DS_A_CheckDynmicCode \<Rightarrow> ZS2DS_A_CheckDynmicCode" where
  "Game_ZS2DS_A_CheckDynmicCode_new junk =
     junk\<lparr>m_iMainProtocol := word_of_int (main_code FM_Q_ROUND_MESSAGE),
          m_iSubProtocol := word_of_int (sub_code ZS2DS_A_CHECKDYNMICCODE)\<rparr>"

lemma Game_ZS2DS_A_CheckDynmicCode_new [game_same]: "Game_ZS2DS_A_CheckDynmicCode_new = ZS2DS_A_CheckDynmicCode_new"
  by (intro ext) (unfold Game_ZS2DS_A_CheckDynmicCode_new_def ZS2DS_A_CheckDynmicCode_new_def game_same, rule refl)

definition Game_ZS2DS_A_CheckDynmicCode_put :: "ZS2DS_A_CheckDynmicCode \<Rightarrow> HMessage \<Rightarrow> HMessage res" where
  "Game_ZS2DS_A_CheckDynmicCode_put this hmg =
     rbind (Game_BaseMessage_put this hmg) (\<lambda>hmg.
     rbind (Game_putUInt hmg (ZS2DS_A_CheckDynmicCode.m_isOK this)) (\<lambda>(_, hmg).
     rbind (Game_putUInt hmg (ZS2DS_A_CheckDynmicCode.m_SessionIDFromDS this)) (\<lambda>(_, hmg). Inr hmg)))"

lemma Game_ZS2DS_A_CheckDynmicCode_put [game_same]: "Game_ZS2DS_A_CheckDynmicCode_put = ZS2DS_A_CheckDynmicCode_put"
  by (intro ext) (unfold Game_ZS2DS_A_CheckDynmicCode_put_def ZS2DS_A_CheckDynmicCode_put_def game_same, rule refl)

definition Game_ZS2DS_A_CheckDynmicCode_get :: "ZS2DS_A_CheckDynmicCode \<Rightarrow> HMessage \<Rightarrow> (ZS2DS_A_CheckDynmicCode \<times> HMessage) res" where
  "Game_ZS2DS_A_CheckDynmicCode_get this hmg =
     rbind (Game_getUInt hmg) (\<lambda>(v0, hmg).
     rbind (Game_getUInt hmg) (\<lambda>(v1, hmg).
       Inr (this\<lparr>ZS2DS_A_CheckDynmicCode.m_isOK := v0, ZS2DS_A_CheckDynmicCode.m_SessionIDFromDS := v1\<rparr>, hmg)))"

lemma Game_ZS2DS_A_CheckDynmicCode_get [game_same]: "Game_ZS2DS_A_CheckDynmicCode_get = ZS2DS_A_CheckDynmicCode_get"
  by (intro ext) (unfold Game_ZS2DS_A_CheckDynmicCode_get_def ZS2DS_A_CheckDynmicCode_get_def game_same, rule refl)

subsection \<open>\<open>GS2C_A_Login\<close>\<close>

definition Game_GS2C_A_Login_new :: "GS2C_A_Login \<Rightarrow> GS2C_A_Login" where
  "Game_GS2C_A_Login_new junk =
     junk\<lparr>m_iMainProtocol := word_of_int (main_code FM_ZDQ_LOGIN),
          m_iSubProtocol := word_of_int (sub_code GS2C_A_CHECKDYNMICCODE)\<rparr>"

lemma Game_GS2C_A_Login_new [game_same]: "Game_GS2C_A_Login_new = GS2C_A_Login_new"
  by (intro ext) (unfold Game_GS2C_A_Login_new_def GS2C_A_Login_new_def game_same, rule refl)

definition Game_GS2C_A_Login_put :: "GS2C_A_Login \<Rightarrow> HMessage \<Rightarrow> HMessage res" where
  "Game_GS2C_A_Login_put this hmg =
     rbind (Game_BaseMessage_put this hmg) (\<lambda>hmg.
     rbind (Game_putUInt hmg (GS2C_A_Login.m_iErrorCode this)) (\<lambda>(_, hmg). Inr hmg))"

lemma Game_GS2C_A_Login_put [game_same]: "Game_GS2C_A_Login_put = GS2C_A_Login_put"
  by (intro ext) (unfold Game_GS2C_A_Login_put_def GS2C_A_Login_put_def game_same, rule refl)

definition Game_GS2C_A_Login_get :: "GS2C_A_Login \<Rightarrow> HMessage \<Rightarrow> (GS2C_A_Login \<times> HMessage) res" where
  "Game_GS2C_A_Login_get this hmg =
     rbind (Game_getUInt hmg) (\<lambda>(v0, hmg).
       Inr (this\<lparr>GS2C_A_Login.m_iErrorCode := v0\<rparr>, hmg))"

lemma Game_GS2C_A_Login_get [game_same]: "Game_GS2C_A_Login_get = GS2C_A_Login_get"
  by (intro ext) (unfold Game_GS2C_A_Login_get_def GS2C_A_Login_get_def game_same, rule refl)

subsection \<open>\<open>GS2DS_R_CheckDynmicCode\<close>\<close>

definition Game_GS2DS_R_CheckDynmicCode_new :: "GS2DS_R_CheckDynmicCode \<Rightarrow> GS2DS_R_CheckDynmicCode" where
  "Game_GS2DS_R_CheckDynmicCode_new junk =
     junk\<lparr>m_iMainProtocol := word_of_int (main_code FM_Q_ROUND_MESSAGE),
          m_iSubProtocol := word_of_int (sub_code GS2DS_R_CHECKDYNMICCODE)\<rparr>"

lemma Game_GS2DS_R_CheckDynmicCode_new [game_same]: "Game_GS2DS_R_CheckDynmicCode_new = GS2DS_R_CheckDynmicCode_new"
  by (intro ext) (unfold Game_GS2DS_R_CheckDynmicCode_new_def GS2DS_R_CheckDynmicCode_new_def game_same, rule refl)

definition Game_GS2DS_R_CheckDynmicCode_put :: "GS2DS_R_CheckDynmicCode \<Rightarrow> HMessage \<Rightarrow> HMessage res" where
  "Game_GS2DS_R_CheckDynmicCode_put this hmg =
     rbind (Game_BaseMessage_put this hmg) (\<lambda>hmg.
     rbind (Game_putUInt hmg (GS2DS_R_CheckDynmicCode.m_DynmicCode this)) (\<lambda>(_, hmg).
     rbind (Game_putUInt hmg (GS2DS_R_CheckDynmicCode.m_SessionID this)) (\<lambda>(_, hmg). Inr hmg)))"

lemma Game_GS2DS_R_CheckDynmicCode_put [game_same]: "Game_GS2DS_R_CheckDynmicCode_put = GS2DS_R_CheckDynmicCode_put"
  by (intro ext) (unfold Game_GS2DS_R_CheckDynmicCode_put_def GS2DS_R_CheckDynmicCode_put_def game_same, rule refl)

definition Game_GS2DS_R_CheckDynmicCode_get :: "GS2DS_R_CheckDynmicCode \<Rightarrow> HMessage \<Rightarrow> (GS2DS_R_CheckDynmicCode \<times> HMessage) res" where
  "Game_GS2DS_R_CheckDynmicCode_get this hmg =
     rbind (Game_getUInt hmg) (\<lambda>(v0, hmg).
     rbind (Game_getUInt hmg) (\<lambda>(v1, hmg).
       Inr (this\<lparr>GS2DS_R_CheckDynmicCode.m_DynmicCode := v0, GS2DS_R_CheckDynmicCode.m_SessionID := v1\<rparr>, hmg)))"

lemma Game_GS2DS_R_CheckDynmicCode_get [game_same]: "Game_GS2DS_R_CheckDynmicCode_get = GS2DS_R_CheckDynmicCode_get"
  by (intro ext) (unfold Game_GS2DS_R_CheckDynmicCode_get_def GS2DS_R_CheckDynmicCode_get_def game_same, rule refl)

subsection \<open>\<open>DS2GS_A_CheckDynmicCode\<close>\<close>

definition Game_DS2GS_A_CheckDynmicCode_new :: "DS2GS_A_CheckDynmicCode \<Rightarrow> DS2GS_A_CheckDynmicCode" where
  "Game_DS2GS_A_CheckDynmicCode_new junk =
     junk\<lparr>m_iMainProtocol := word_of_int (main_code FM_Q_ROUND_MESSAGE),
          m_iSubProtocol := word_of_int (sub_code DS2GS_A_CHECKDYNMICCODE)\<rparr>"

lemma Game_DS2GS_A_CheckDynmicCode_new [game_same]: "Game_DS2GS_A_CheckDynmicCode_new = DS2GS_A_CheckDynmicCode_new"
  by (intro ext) (unfold Game_DS2GS_A_CheckDynmicCode_new_def DS2GS_A_CheckDynmicCode_new_def game_same, rule refl)

definition Game_DS2GS_A_CheckDynmicCode_put :: "DS2GS_A_CheckDynmicCode \<Rightarrow> HMessage \<Rightarrow> HMessage res" where
  "Game_DS2GS_A_CheckDynmicCode_put this hmg =
     rbind (Game_BaseMessage_put this hmg) (\<lambda>hmg.
     rbind (Game_putUInt hmg (DS2GS_A_CheckDynmicCode.m_isOK this)) (\<lambda>(_, hmg).
     rbind (Game_putUInt hmg (DS2GS_A_CheckDynmicCode.m_SessionID this)) (\<lambda>(_, hmg). Inr hmg)))"

lemma Game_DS2GS_A_CheckDynmicCode_put [game_same]: "Game_DS2GS_A_CheckDynmicCode_put = DS2GS_A_CheckDynmicCode_put"
  by (intro ext) (unfold Game_DS2GS_A_CheckDynmicCode_put_def DS2GS_A_CheckDynmicCode_put_def game_same, rule refl)

definition Game_DS2GS_A_CheckDynmicCode_get :: "DS2GS_A_CheckDynmicCode \<Rightarrow> HMessage \<Rightarrow> (DS2GS_A_CheckDynmicCode \<times> HMessage) res" where
  "Game_DS2GS_A_CheckDynmicCode_get this hmg =
     rbind (Game_getUInt hmg) (\<lambda>(v0, hmg).
     rbind (Game_getUInt hmg) (\<lambda>(v1, hmg).
       Inr (this\<lparr>DS2GS_A_CheckDynmicCode.m_isOK := v0, DS2GS_A_CheckDynmicCode.m_SessionID := v1\<rparr>, hmg)))"

lemma Game_DS2GS_A_CheckDynmicCode_get [game_same]: "Game_DS2GS_A_CheckDynmicCode_get = DS2GS_A_CheckDynmicCode_get"
  by (intro ext) (unfold Game_DS2GS_A_CheckDynmicCode_get_def DS2GS_A_CheckDynmicCode_get_def game_same, rule refl)

subsection \<open>\<open>C2GS_R_Login\<close>\<close>

definition Game_C2GS_R_Login_new :: "C2GS_R_Login \<Rightarrow> C2GS_R_Login" where
  "Game_C2GS_R_Login_new junk =
     junk\<lparr>m_iMainProtocol := word_of_int (main_code FM_ZDQ_LOGIN),
          m_iSubProtocol := word_of_int (sub_code C2GS_R_CHECKDYNMICCODE)\<rparr>"

lemma Game_C2GS_R_Login_new [game_same]: "Game_C2GS_R_Login_new = C2GS_R_Login_new"
  by (intro ext) (unfold Game_C2GS_R_Login_new_def C2GS_R_Login_new_def game_same, rule refl)

definition Game_C2GS_R_Login_put :: "C2GS_R_Login \<Rightarrow> HMessage \<Rightarrow> HMessage res" where
  "Game_C2GS_R_Login_put this hmg = Game_BaseMessage_put this hmg"

lemma Game_C2GS_R_Login_put [game_same]: "Game_C2GS_R_Login_put = C2GS_R_Login_put"
  by (intro ext) (unfold Game_C2GS_R_Login_put_def C2GS_R_Login_put_def game_same, rule refl)

definition Game_C2GS_R_Login_get :: "C2GS_R_Login \<Rightarrow> HMessage \<Rightarrow> (C2GS_R_Login \<times> HMessage) res" where
  "Game_C2GS_R_Login_get this hmg = Inr (this, hmg)"

lemma Game_C2GS_R_Login_get [game_same]: "Game_C2GS_R_Login_get = C2GS_R_Login_get"
  by (intro ext) (unfold Game_C2GS_R_Login_get_def C2GS_R_Login_get_def game_same, rule refl)

subsection \<open>\<open>ZS2C_A_ErrorMessage\<close>\<close>

definition Game_ZS2C_A_ErrorMessage_new :: "ZS2C_A_ErrorMessage \<Rightarrow> ZS2C_A_ErrorMessage" where
  "Game_ZS2C_A_ErrorMessage_new junk =
     junk\<lparr>m_iMainProtocol := word_of_int (main_code ZB_ERROR_MESSAGE),
          m_iSubProtocol := 2\<rparr>"

lemma Game_ZS2C_A_ErrorMessage_new [game_same]: "Game_ZS2C_A_ErrorMessage_new = ZS2C_A_ErrorMessage_new"
  by (intro ext) (unfold Game_ZS2C_A_ErrorMessage_new_def ZS2C_A_ErrorMessage_new_def game_same, rule refl)

definition Game_ZS2C_A_ErrorMessage_put :: "ZS2C_A_ErrorMessage \<Rightarrow> HMessage \<Rightarrow> HMessage res" where
  "Game_ZS2C_A_ErrorMessage_put this hmg =
     rbind (Game_BaseMessage_put this hmg) (\<lambda>hmg.
     rbind (Game_putUInt hmg (ZS2C_A_ErrorMessage.m_iErrorCode this)) (\<lambda>(_, hmg). Inr hmg))"

lemma Game_ZS2C_A_ErrorMessage_put [game_same]: "Game_ZS2C_A_ErrorMessage_put = ZS2C_A_ErrorMessage_put"
  by (intro ext) (unfold Game_ZS2C_A_ErrorMessage_put_def ZS2C_A_ErrorMessage_put_def game_same, rule refl)

definition Game_ZS2C_A_ErrorMessage_get :: "ZS2C_A_ErrorMessage \<Rightarrow> HMessage \<Rightarrow> (ZS2C_A_ErrorMessage \<times> HMessage) res" where
  "Game_ZS2C_A_ErrorMessage_get this hmg =
     rbind (Game_getUInt hmg) (\<lambda>(v0, hmg).
       Inr (this\<lparr>ZS2C_A_ErrorMessage.m_iErrorCode := v0\<rparr>, hmg))"

lemma Game_ZS2C_A_ErrorMessage_get [game_same]: "Game_ZS2C_A_ErrorMessage_get = ZS2C_A_ErrorMessage_get"
  by (intro ext) (unfold Game_ZS2C_A_ErrorMessage_get_def ZS2C_A_ErrorMessage_get_def game_same, rule refl)

section \<open>Past the end of the client's buffer\<close>

text \<open>
  A put whose bytes pass \<open>CheckPut\<close> but not the end of the buffer writes outside it.
\<close>

definition overruns :: "(HMessage \<Rightarrow> 'a res) \<Rightarrow> u8 list \<Rightarrow> bool" where
  "overruns f bs \<longleftrightarrow> (\<forall>h. 0 \<le> m_iPos h \<longrightarrow> m_iPos h \<le> buf_size (m_byBuffer h) \<longrightarrow>
     m_iPos h + int (length bs) < 10000 \<longrightarrow> buf_size (m_byBuffer h) < m_iPos h + int (length bs) \<longrightarrow>
     f h = Inl WriteOutOfBounds)"

named_theorems overrun_rules \<comment> \<open>the methods that overrun\<close>

lemma overruns_return [overrun_rules]: "overruns Inr []"
  by (simp add: overruns_def)

lemma overruns_seq:
  assumes "overruns f a" and "overruns g b" and "writes f a"
  shows "overruns (\<lambda>h. rbind (f h) g) (a @ b)"
  unfolding overruns_def
proof (intro allI impI)
  fix h :: HMessage
  assume p: "0 \<le> m_iPos h" "m_iPos h \<le> buf_size (m_byBuffer h)"
    and lim: "m_iPos h + int (length (a @ b)) < 10000"
    and big: "buf_size (m_byBuffer h) < m_iPos h + int (length (a @ b))"
  show "rbind (f h) g = Inl WriteOutOfBounds"
  proof (cases "m_iPos h + int (length a) \<le> buf_size (m_byBuffer h)")
    case True
    then have "room h (length a)" using p lim by (simp add: room_def)
    with assms(3) obtain h' where h': "f h = Inr h'" "emitted h a h'" by (rule writesE)
    then have "m_iPos h' = m_iPos h + int (length a)" "buf_size (m_byBuffer h') = buf_size (m_byBuffer h)"
      by (simp_all add: emitted_def)
    with h'(1) show ?thesis
      using assms(2) p lim big True by (simp add: overruns_def)
  next
    case False
    then have "f h = Inl WriteOutOfBounds"
      using assms(1) p lim by (simp add: overruns_def)
    then show ?thesis by simp
  qed
qed

lemma overruns_puts:
  assumes "overruns f a" and "overruns g b" and "puts f a"
  shows "overruns (\<lambda>h. rbind (f h) (\<lambda>(_, h'). g h')) (a @ b)"
proof -
  have "overruns (\<lambda>h. rbind (f h) (\<lambda>(_, h'). Inr h')) a"
    using assms(1) by (auto simp: overruns_def)
  moreover have "writes (\<lambda>h. rbind (f h) (\<lambda>(_, h'). Inr h')) a"
    using assms(3) by (fastforce simp: writes_def puts_def)
  ultimately have "overruns (\<lambda>h. rbind (rbind (f h) (\<lambda>(_, h'). Inr h')) g) (a @ b)"
    using assms(2) by (intro overruns_seq)
  moreover have "(\<lambda>h. rbind (rbind (f h) (\<lambda>(_, h'). Inr h')) g) =
      (\<lambda>h. rbind (f h) (\<lambda>(_, h'). g h'))"
    by (rule ext) (simp add: rbind_assoc split_def)
  ultimately show ?thesis by simp
qed

lemma overruns_cong: "overruns f a \<Longrightarrow> a = b \<Longrightarrow> overruns f b"
  by simp

lemma CheckPut_below:
  "0 \<le> m_iPos h \<Longrightarrow> 0 \<le> n \<Longrightarrow> m_iPos h + n < 10000 \<Longrightarrow> CheckPut h n = Inr True"
  by (simp add: CheckPut_def int_add_def int32_range_def)

lemma overruns_putUShort [overrun_rules]: "overruns (\<lambda>h. putUShort h d) (u16_le d)"
  unfolding overruns_def
proof (intro allI impI)
  fix h :: HMessage
  assume p: "0 \<le> m_iPos h" "m_iPos h \<le> buf_size (m_byBuffer h)"
    and lim: "m_iPos h + int (length (u16_le d)) < 10000"
    and big: "buf_size (m_byBuffer h) < m_iPos h + int (length (u16_le d))"
  have "store_bytes (m_byBuffer h) (m_iPos h) (u16_le d) = Inl WriteOutOfBounds"
    using big by (intro store_bytes_fault) (simp_all add: in_bounds_def u16_le_def)
  then show "putUShort h d = Inl WriteOutOfBounds"
    using p lim by (simp add: putUShort_def CheckPut_below)
qed

lemma overruns_putString [overrun_rules]: "overruns (\<lambda>h. putString h s) (str_enc s)"
  unfolding overruns_def
proof (intro allI impI)
  fix h :: HMessage
  assume p: "0 \<le> m_iPos h" "m_iPos h \<le> buf_size (m_byBuffer h)"
    and lim: "m_iPos h + int (length (str_enc s)) < 10000"
    and big: "buf_size (m_byBuffer h) < m_iPos h + int (length (str_enc s))"
  let ?n = "word_of_nat (length s) :: u16"
  have n32: "to_int32 (int (length s)) = int (length s)"
    using p lim by (simp add: to_int32_id int32_range_def)
  show "putString h s = Inl WriteOutOfBounds"
  proof (cases "m_iPos h + 2 \<le> buf_size (m_byBuffer h)")
    case True
    then have "room h (length (u16_le ?n))" using p lim by (simp add: room_def)
    then obtain h' where h': "putUShort h ?n = Inr (True, h')" "emitted h (u16_le ?n) h'"
      by (rule putsE [OF puts_putUShort])
    then have pos: "m_iPos h' = m_iPos h + 2" "buf_size (m_byBuffer h') = buf_size (m_byBuffer h)"
      by (simp_all add: emitted_def)
    have "store_bytes (m_byBuffer h') (m_iPos h') (map chr_byte s) = Inl WriteOutOfBounds"
      using big pos True by (intro store_bytes_fault) (auto simp: in_bounds_def)
    moreover have "CheckPut h' (int (length s)) = Inr True"
      using p lim pos by (intro CheckPut_below) simp_all
    ultimately show ?thesis
      using h'(1) by (simp add: putString_def n32 putCharArray_def)
  next
    case False
    then have "putUShort h ?n = Inl WriteOutOfBounds"
      using overruns_putUShort [of ?n] p lim by (simp add: overruns_def)
    then show ?thesis by (simp add: putString_def n32)
  qed
qed

lemma overruns_BaseMessage [overrun_rules]: "overruns (BaseMessage_put m) (base_bytes m)"
  unfolding BaseMessage_put_def [abs_def]
  by (rule overruns_cong, (rule overruns_puts stream_rules overrun_rules)+) (simp add: base_bytes_def)

text \<open>The two requests the client sends.\<close>

lemma overruns_login: "overruns (C2ZS_R_Login_put m) (base_bytes m @ C2ZS_R_Login_body m)"
  unfolding C2ZS_R_Login_put_def [abs_def] C2ZS_R_Login_body_def
  by (rule overruns_cong, (rule overruns_seq overruns_puts stream_rules overrun_rules)+) simp

lemma overruns_register:
  "overruns (C2ZS_R_RegisterAccount_put m) (base_bytes m @ C2ZS_R_RegisterAccount_body m)"
  unfolding C2ZS_R_RegisterAccount_put_def [abs_def] C2ZS_R_RegisterAccount_body_def
  by (rule overruns_cong, (rule overruns_seq overruns_puts stream_rules overrun_rules)+) simp

text \<open>
  A put into a new client message: it fits 4096 bytes and writes them, or it passes the
  check for 10000 and writes outside the array.
\<close>

lemma client_put:
  assumes "writes f bs" and "overruns f bs"
  shows "length bs \<le> 4096 \<Longrightarrow> \<exists>h. f (Game_HMessage_new junk) = Inr h \<and> emitted (Game_HMessage_new junk) bs h"
    and "4096 < length bs \<Longrightarrow> length bs < 10000 \<Longrightarrow> f (Game_HMessage_new junk) = Inl WriteOutOfBounds"
proof -
  have h: "m_iPos (Game_HMessage_new junk) = 0" "buf_size (m_byBuffer (Game_HMessage_new junk)) = 4096"
    by (simp_all add: Game_HMessage_new_def)
  show "length bs \<le> 4096 \<Longrightarrow> \<exists>h. f (Game_HMessage_new junk) = Inr h \<and> emitted (Game_HMessage_new junk) bs h"
    using assms(1) h by (simp add: writes_def room_def)
  show "4096 < length bs \<Longrightarrow> length bs < 10000 \<Longrightarrow> f (Game_HMessage_new junk) = Inl WriteOutOfBounds"
    using assms(2) h by (simp add: overruns_def)
qed

text \<open>
  The answer to a registration, as the client reads it: with the account number or the
  error number that the server's own header would have left unread.
\<close>

lemma reads_register_answer:
  "reads (Game_ZS2C_A_RegisterAccount_get x) (ZS2C_A_RegisterAccount_body m)
     (x\<lparr>ZS2C_A_RegisterAccount.m_iErrorCode := ZS2C_A_RegisterAccount.m_iErrorCode m,
        m_iErrorCodeIndex := m_iErrorCodeIndex m\<rparr>)"
  unfolding Game_ZS2C_A_RegisterAccount_get_def [abs_def] ZS2C_A_RegisterAccount_body_def game_same
  by (rule reads_cong, (rule reads_seq stream_rules)+) simp_all

lemma reads_login_answer:
  "reads (Game_ZS2C_A_Login_get x) (ZS2C_A_Login_body m) (ZS2C_A_Login_fill x m)"
  unfolding game_same ZS2C_A_Login_get_def [abs_def] ZS2C_A_Login_body_def ZS2C_A_Login_fill_def
  by (rule reads_cong, (rule reads_seq stream_rules)+) simp_all

section \<open>Properties\<close>

text \<open>
  C30: The two copies of the header agree on what the program exchanges: the client builds its
  requests with the same bytes the server's header would, and reads the answers field by
  field as the server writes them, including the number the server's own get leaves out, and
  every error code and protocol number means the same on both sides.
\<close>

theorem headers_agree:
  "Game_error_code = error_code \<and> Game_main_code = main_code \<and> Game_sub_code = sub_code \<and>
   Game_C2ZS_R_Login_new = C2ZS_R_Login_new \<and> Game_C2ZS_R_Login_put = C2ZS_R_Login_put \<and>
   Game_C2ZS_R_RegisterAccount_new = C2ZS_R_RegisterAccount_new \<and>
   Game_C2ZS_R_RegisterAccount_put = C2ZS_R_RegisterAccount_put \<and>
   Game_BaseMessage_get = BaseMessage_get \<and>
   reads (Game_ZS2C_A_Login_get x) (ZS2C_A_Login_body m) (ZS2C_A_Login_fill x m) \<and>
   reads (Game_ZS2C_A_RegisterAccount_get y) (ZS2C_A_RegisterAccount_body n)
     (y\<lparr>ZS2C_A_RegisterAccount.m_iErrorCode := ZS2C_A_RegisterAccount.m_iErrorCode n,
        m_iErrorCodeIndex := m_iErrorCodeIndex n\<rparr>)"
  by (simp add: game_same reads_register_answer reads_login_answer [unfolded game_same])

text \<open>
  C19: The check of a put still allows the 10000 bytes of the server's array. On the client, a
  message that passes that check but has more than the 4096 bytes of the array writes past
  it, and one with no more than that stays inside.
\<close>

theorem client_buffer_overflow:
  assumes "length (base_bytes m @ C2ZS_R_Login_body m) < 10000"
  shows "ok (Game_C2ZS_R_Login_put m (Game_HMessage_new junk)) \<longleftrightarrow>
     length (base_bytes m @ C2ZS_R_Login_body m) \<le> 4096"
  unfolding game_same
  using client_put [OF login_req.writes_law overruns_login, of m junk] assms
  by (cases "length (base_bytes m @ C2ZS_R_Login_body m) \<le> 4096") (auto simp: ok_iff)

definition demo_request :: C2ZS_R_Login where
  "demo_request = \<lparr>m_wSize = 0, m_iMainProtocol = 0, m_iSubProtocol = 0,
     C2ZS_R_Login.m_strAccount = replicate 4000 (CHR ''a''),
     C2ZS_R_Login.m_strPassword = replicate 1000 (CHR ''b'')\<rparr>"

theorem client_buffer_overflow_witness:
  "length (base_bytes demo_request @ C2ZS_R_Login_body demo_request) < 10000 \<and>
   (ok (Game_C2ZS_R_Login_put demo_request (Game_HMessage_new blank)) \<longleftrightarrow>
     length (base_bytes demo_request @ C2ZS_R_Login_body demo_request) \<le> 4096)"
  using client_buffer_overflow [of demo_request blank]
  by (simp add: demo_request_def C2ZS_R_Login_body_def)

end
