(* ===== verification/Net_Logic.thy ===== *)
theory Net_Logic
  imports Game_Protocol DB_Connect
begin

text \<open>
  The client's side of the login: the class \<open>UProNetLogic\<close> (ProNetLogic.h,
  pronetlogic.cpp). The engine and the network library \<open>ProNetWork\<close>, whose sources are
  not in the repository, are a parameter: a record of functions over a world \<open>'w\<close>.
\<close>

section \<open>The engine and the network library\<close>

text \<open>
  An \<open>FString\<close> is a list of 16-bit characters. A configuration lookup gives \<open>None\<close> when
  the key is missing, and then leaves the variable it was given alone. \<open>FString_path\<close> is the
  operator \<open>/\<close> of an \<open>FString\<close> and a literal, which joins a path. A message that
  \<open>RecvMsgFromServer\<close> returns is the view through its \<open>m_pData\<close>, and so is a copy of it:
  the copy shares the pointer, and \<open>DealMsg\<close> only reads. What the functions bound to the
  delegates do is part of the world.
\<close>

type_synonym fstring = "u16 list"

record 'w engine =
  TCHAR_TO_UTF8 :: "fstring \<Rightarrow> string"
  FPaths_GameDir :: fstring
  FString_path :: "fstring \<Rightarrow> string \<Rightarrow> fstring"
  GConfig_GetString :: "string \<Rightarrow> string \<Rightarrow> fstring \<Rightarrow> 'w \<Rightarrow> fstring option"
  GConfig_GetInt :: "string \<Rightarrow> string \<Rightarrow> fstring \<Rightarrow> 'w \<Rightarrow> int option"
  ProNetWork_Connect :: "string \<Rightarrow> int \<Rightarrow> 'w \<Rightarrow> bool \<times> 'w"
  ProNetWork_DisConnect :: "'w \<Rightarrow> 'w"
  SendMsgToServer :: "HMessage \<Rightarrow> 'w \<Rightarrow> 'w"
  RecvMsgFromServer :: "'w \<Rightarrow> HMessage list \<times> 'w"
  Execute_login :: "nat \<Rightarrow> bool \<Rightarrow> 'w \<Rightarrow> 'w"
  Execute_regist :: "nat \<Rightarrow> bool \<Rightarrow> 'w \<Rightarrow> 'w"
  ue_log :: "string \<Rightarrow> 'w \<Rightarrow> 'w"

section \<open>The class\<close>

text \<open>A delegate is the function it is bound to, \<open>None\<close> when it is unbound.\<close>

record UProNetLogic =
  m_isConneted :: bool
  m_OnLoginDelegate :: "nat option"
  m_OnRegistDelegate :: "nat option"

text \<open>\<open>GetInstance\<close>, from the value of \<open>m_pNetLogic\<close> to its next value and the result.\<close>

definition NetLogic_GetInstance :: "UProNetLogic option \<Rightarrow> UProNetLogic" where
  "NetLogic_GetInstance m_pNetLogic =
     (case m_pNetLogic of
        None \<Rightarrow> \<lparr>m_isConneted = False, m_OnLoginDelegate = None, m_OnRegistDelegate = None\<rparr>
      | Some l \<Rightarrow> l)"

text \<open>
  The arguments of \<open>Connect\<close> are not used. \<open>junk\<close> is the uninitialised \<open>Port_ini\<close>;
  \<open>IP_ini\<close> is empty until it is set.
\<close>

definition NetLogic_Connect ::
  "'w engine \<Rightarrow> int \<Rightarrow> fstring \<Rightarrow> int \<Rightarrow> UProNetLogic \<times> 'w \<Rightarrow> UProNetLogic \<times> 'w" where
  "NetLogic_Connect ue junk IP Port = (\<lambda>(l, w).
     let w1 = (if m_isConneted l then ProNetWork_DisConnect ue w else w);
         ini = FString_path ue (FPaths_GameDir ue) ''IpConfig.ini'';
         IP_ini = (case GConfig_GetString ue ''IP/Port'' ''IPAddress'' ini w1 of
                     None \<Rightarrow> [] | Some s \<Rightarrow> s);
         Port_ini = (case GConfig_GetInt ue ''IP/Port'' ''Port'' ini w1 of
                       None \<Rightarrow> junk | Some p \<Rightarrow> p);
         (okay, w2) = ProNetWork_Connect ue (c_str (TCHAR_TO_UTF8 ue IP_ini)) Port_ini w1
     in (l\<lparr>m_isConneted := okay\<rparr>, w2))"

definition GameLogicRegister ::
  "'w engine \<Rightarrow> HMessage \<Rightarrow> C2ZS_R_RegisterAccount \<Rightarrow> fstring \<Rightarrow> fstring \<Rightarrow> 'w \<Rightarrow> 'w res" where
  "GameLogicRegister ue junkH junkM account password w =
     (let SendMsg = (Game_C2ZS_R_RegisterAccount_new junkM)
            \<lparr>C2ZS_R_RegisterAccount.m_strAccount := c_str (TCHAR_TO_UTF8 ue account),
             C2ZS_R_RegisterAccount.m_strPassword := c_str (TCHAR_TO_UTF8 ue password)\<rparr>
      in rbind (Game_C2ZS_R_RegisterAccount_put SendMsg (Game_HMessage_new junkH)) (\<lambda>HMsg.
         Inr (SendMsgToServer ue HMsg w)))"

definition GameLogicLogin ::
  "'w engine \<Rightarrow> HMessage \<Rightarrow> C2ZS_R_Login \<Rightarrow> fstring \<Rightarrow> fstring \<Rightarrow> 'w \<Rightarrow> 'w res" where
  "GameLogicLogin ue junkH junkM account password w =
     (let SendMsg = (Game_C2ZS_R_Login_new junkM)
            \<lparr>C2ZS_R_Login.m_strAccount := c_str (TCHAR_TO_UTF8 ue account),
             C2ZS_R_Login.m_strPassword := c_str (TCHAR_TO_UTF8 ue password)\<rparr>
      in rbind (Game_C2ZS_R_Login_put SendMsg (Game_HMessage_new junkH)) (\<lambda>HMsg.
         Inr (SendMsgToServer ue HMsg w)))"

definition OnLogin :: "UProNetLogic \<Rightarrow> nat option \<Rightarrow> UProNetLogic" where
  "OnLogin l onlogin = l\<lparr>m_OnLoginDelegate := onlogin\<rparr>"

definition OnRegister :: "UProNetLogic \<Rightarrow> nat option \<Rightarrow> UProNetLogic" where
  "OnRegister l onregist = l\<lparr>m_OnRegistDelegate := onregist\<rparr>"

text \<open>Executing an unbound delegate is not allowed.\<close>

definition run_delegate :: "(nat \<Rightarrow> bool \<Rightarrow> 'w \<Rightarrow> 'w) \<Rightarrow> nat option \<Rightarrow> bool \<Rightarrow> 'w \<Rightarrow> 'w res" where
  "run_delegate exec d okay w =
     (case d of None \<Rightarrow> Inl UnboundDelegate | Some f \<Rightarrow> Inr (exec f okay w))"

record client_junk =
  junk_base :: BaseMessage
  junk_regist_ans :: ZS2C_A_RegisterAccount
  junk_login_ans :: ZS2C_A_Login

text \<open>
  One round of \<open>DealMsg\<close>. The case of \<open>FM_ZDQ_LOGIN\<close> has no \<open>break\<close>, so the default case
  runs after it.
\<close>

definition client_deal_sub ::
  "'w engine \<Rightarrow> UProNetLogic \<Rightarrow> client_junk \<Rightarrow> BaseMessage \<Rightarrow> HMessage \<Rightarrow> 'w \<Rightarrow> 'w res" where
  "client_deal_sub ue l j baseMsg hmg w =
     (if is_sub baseMsg ZS2C_A_REGISTER then
        rbind (Game_ZS2C_A_RegisterAccount_get
                 (Game_ZS2C_A_RegisterAccount_new (junk_regist_ans j)) hmg) (\<lambda>(recvMsg, _).
          run_delegate (Execute_regist ue) (m_OnRegistDelegate l)
            (uint (ZS2C_A_RegisterAccount.m_iErrorCode recvMsg) = error_code ERROR_CODE_REGSTER_OK) w)
      else if is_sub baseMsg ZS2C_A_LOGIN then
        rbind (Game_ZS2C_A_Login_get (Game_ZS2C_A_Login_new (junk_login_ans j)) hmg) (\<lambda>(recvMsg, _).
          run_delegate (Execute_login ue) (m_OnLoginDelegate l)
            (uint (ZS2C_A_Login.m_iErrorCode recvMsg) = error_code ERROR_CODE_LOGIN_OK) w)
      else Inr (ue_log ue ''Unknow MSG(Sub)'' w))"

definition client_deal_one ::
  "'w engine \<Rightarrow> UProNetLogic \<Rightarrow> client_junk \<Rightarrow> HMessage \<Rightarrow> 'w \<Rightarrow> 'w res" where
  "client_deal_one ue l j hmg w =
     rbind (Game_BaseMessage_get (junk_base j) hmg) (\<lambda>(baseMsg, hmg').
     rbind (if is_main baseMsg FM_ZDQ_LOGIN then client_deal_sub ue l j baseMsg hmg' w else Inr w)
       (\<lambda>w'. Inr (ue_log ue ''Unknow MSG(Main)'' w')))"

fun client_deal_loop ::
  "'w engine \<Rightarrow> UProNetLogic \<Rightarrow> (nat \<Rightarrow> client_junk) \<Rightarrow> nat \<Rightarrow> HMessage list \<Rightarrow> 'w \<Rightarrow> 'w res" where
  "client_deal_loop ue l jk i [] w = Inr w"
| "client_deal_loop ue l jk i (h # hs) w =
     rbind (client_deal_one ue l (jk i) h w) (client_deal_loop ue l jk (Suc i) hs)"

definition NetLogic_DealMsg ::
  "'w engine \<Rightarrow> (nat \<Rightarrow> client_junk) \<Rightarrow> UProNetLogic \<times> 'w \<Rightarrow> 'w res" where
  "NetLogic_DealMsg ue jk = (\<lambda>(l, w).
     let (m_vecRecvMsg, w1) = RecvMsgFromServer ue w in client_deal_loop ue l jk 0 m_vecRecvMsg w1)"

section \<open>Sending a request\<close>

text \<open>
  What the library is given to send: a message whose first bytes are the header and the
  two strings, with the cursor at their end.
\<close>

definition ready :: "u16 \<Rightarrow> u16 \<Rightarrow> u8 list \<Rightarrow> HMessage \<Rightarrow> bool" where
  "ready mainp subp body h \<longleftrightarrow> m_iPos h = int (length body) + 6 \<and> buf_size (m_byBuffer h) = 4096 \<and>
     bytes_at (m_byBuffer h) 2 (4 + length body) = u16_le mainp @ u16_le subp @ body"

lemma emitted_ready:
  assumes e: "emitted (Game_HMessage_new junk) (base_bytes m @ body) h" and len: "length body + 6 \<le> 4096"
  shows "ready (m_iMainProtocol m) (m_iSubProtocol m) body h"
proof -
  let ?b0 = "m_byBuffer (Game_HMessage_new junk)"
  have buf: "m_byBuffer h = splice ?b0 0 (base_bytes m @ body)" and pos: "m_iPos h = int (length body) + 6"
    using e by (simp_all add: emitted_def Game_HMessage_new_def)
  have "bytes_at (m_byBuffer h) 2 (4 + length body) = drop 2 (base_bytes m @ body)"
    unfolding buf
    by (rule nth_equalityI)
       (simp_all add: bytes_at_def splice_def nat_add_distrib del: drop_append drop_2_base_bytes)
  moreover have "buf_size (m_byBuffer h) = 4096"
    unfolding buf by (simp add: splice_def Game_HMessage_new_def)
  ultimately show ?thesis using pos by (simp add: ready_def)
qed

text \<open>The bytes of two strings.\<close>

definition strings_bytes :: "string \<Rightarrow> string \<Rightarrow> u8 list" where
  "strings_bytes a p = str_enc a @ str_enc p"

lemma length_strings_bytes [simp]: "length (strings_bytes a p) = 4 + length a + length p"
  by (simp add: strings_bytes_def)

lemma GameLogicLogin_outcome:
  assumes "a = c_str (TCHAR_TO_UTF8 ue account)" and "p = c_str (TCHAR_TO_UTF8 ue password)"
  shows "length a + length p + 10 \<le> 4096 \<Longrightarrow>
      \<exists>h. ready 0x2001 3 (strings_bytes a p) h \<and>
        GameLogicLogin ue junkH junkM account password w = Inr (SendMsgToServer ue h w)"
    and "4096 < length a + length p + 10 \<Longrightarrow> length a + length p + 10 < 10000 \<Longrightarrow>
      GameLogicLogin ue junkH junkM account password w = Inl WriteOutOfBounds"
proof -
  let ?m = "(Game_C2ZS_R_Login_new junkM)\<lparr>C2ZS_R_Login.m_strAccount := a, C2ZS_R_Login.m_strPassword := p\<rparr>"
  have body: "C2ZS_R_Login_body ?m = strings_bytes a p"
    by (simp add: C2ZS_R_Login_body_def strings_bytes_def)
  have hd: "m_iMainProtocol ?m = 0x2001" "m_iSubProtocol ?m = 3"
    by (simp_all add: Game_C2ZS_R_Login_new_def)
  have d: "GameLogicLogin ue junkH junkM account password w =
      rbind (C2ZS_R_Login_put ?m (Game_HMessage_new junkH)) (\<lambda>h. Inr (SendMsgToServer ue h w))"
    by (simp add: GameLogicLogin_def assms Let_def Game_C2ZS_R_Login_put)
  note put = client_put [OF login_req.writes_law overruns_login, of ?m, unfolded body]
  show "length a + length p + 10 \<le> 4096 \<Longrightarrow>
      \<exists>h. ready 0x2001 3 (strings_bytes a p) h \<and>
        GameLogicLogin ue junkH junkM account password w = Inr (SendMsgToServer ue h w)"
  proof -
    assume len: "length a + length p + 10 \<le> 4096"
    then obtain h where h: "C2ZS_R_Login_put ?m (Game_HMessage_new junkH) = Inr h"
      "emitted (Game_HMessage_new junkH) (base_bytes ?m @ strings_bytes a p) h"
      using put(1) [of junkH] by auto
    from emitted_ready [OF h(2), unfolded hd] len have "ready 0x2001 3 (strings_bytes a p) h" by simp
    with h(1) show ?thesis unfolding d by auto
  qed
  show "4096 < length a + length p + 10 \<Longrightarrow> length a + length p + 10 < 10000 \<Longrightarrow>
      GameLogicLogin ue junkH junkM account password w = Inl WriteOutOfBounds"
    unfolding d using put(2) [of junkH] by simp
qed

lemma GameLogicRegister_outcome:
  assumes "a = c_str (TCHAR_TO_UTF8 ue account)" and "p = c_str (TCHAR_TO_UTF8 ue password)"
  shows "length a + length p + 10 \<le> 4096 \<Longrightarrow>
      \<exists>h. ready 0x2001 1 (strings_bytes a p) h \<and>
        GameLogicRegister ue junkH junkM account password w = Inr (SendMsgToServer ue h w)"
    and "4096 < length a + length p + 10 \<Longrightarrow> length a + length p + 10 < 10000 \<Longrightarrow>
      GameLogicRegister ue junkH junkM account password w = Inl WriteOutOfBounds"
proof -
  let ?m = "(Game_C2ZS_R_RegisterAccount_new junkM)
    \<lparr>C2ZS_R_RegisterAccount.m_strAccount := a, C2ZS_R_RegisterAccount.m_strPassword := p\<rparr>"
  have body: "C2ZS_R_RegisterAccount_body ?m = strings_bytes a p"
    by (simp add: C2ZS_R_RegisterAccount_body_def strings_bytes_def)
  have hd: "m_iMainProtocol ?m = 0x2001" "m_iSubProtocol ?m = 1"
    by (simp_all add: Game_C2ZS_R_RegisterAccount_new_def)
  have d: "GameLogicRegister ue junkH junkM account password w =
      rbind (C2ZS_R_RegisterAccount_put ?m (Game_HMessage_new junkH)) (\<lambda>h. Inr (SendMsgToServer ue h w))"
    by (simp add: GameLogicRegister_def assms Let_def Game_C2ZS_R_RegisterAccount_put)
  note put = client_put [OF register_req.writes_law overruns_register, of ?m, unfolded body]
  show "length a + length p + 10 \<le> 4096 \<Longrightarrow>
      \<exists>h. ready 0x2001 1 (strings_bytes a p) h \<and>
        GameLogicRegister ue junkH junkM account password w = Inr (SendMsgToServer ue h w)"
  proof -
    assume len: "length a + length p + 10 \<le> 4096"
    then obtain h where h: "C2ZS_R_RegisterAccount_put ?m (Game_HMessage_new junkH) = Inr h"
      "emitted (Game_HMessage_new junkH) (base_bytes ?m @ strings_bytes a p) h"
      using put(1) [of junkH] by auto
    from emitted_ready [OF h(2), unfolded hd] len have "ready 0x2001 1 (strings_bytes a p) h" by simp
    with h(1) show ?thesis unfolding d by auto
  qed
  show "4096 < length a + length p + 10 \<Longrightarrow> length a + length p + 10 < 10000 \<Longrightarrow>
      GameLogicRegister ue junkH junkM account password w = Inl WriteOutOfBounds"
    unfolding d using put(2) [of junkH] by simp
qed

section \<open>Receiving an answer\<close>

definition received :: "HMessage \<Rightarrow> u8 list \<Rightarrow> bool" where
  "received h bs \<longleftrightarrow> m_iPos h = 0 \<and> available h bs"

lemma client_header:
  assumes "received h (base_bytes bm @ bs)"
  shows "\<exists>h'. BaseMessage_get x h = Inr (BaseMessage_assign x bm, h') \<and> available h' bs"
proof -
  have av: "available h (base_bytes bm @ bs)" using assms by (simp add: received_def)
  obtain h' where "BaseMessage_get x h = Inr (BaseMessage_assign x bm, h')"
    "consumed h (length (base_bytes bm)) h'"
    using available_append(1) [OF av] by (rule readsE [OF reads_BaseMessage])
  with available_append(2) [OF av] show ?thesis by blast
qed

lemma is_main_assign [simp]: "is_main (BaseMessage_assign x bm) p = is_main bm p"
  and is_sub_assign [simp]: "is_sub (BaseMessage_assign x bm) q = is_sub bm q"
  by (simp_all add: is_main_def is_sub_def BaseMessage_assign_def)

lemma client_login_answer:
  assumes r: "received h (base_bytes bm @ ZS2C_A_Login_body m @ rest)"
    and bm: "is_main bm FM_ZDQ_LOGIN" "is_sub bm ZS2C_A_LOGIN" and d: "m_OnLoginDelegate l = Some f"
  shows "client_deal_one ue l j h w = Inr (ue_log ue ''Unknow MSG(Main)''
     (Execute_login ue f (uint (ZS2C_A_Login.m_iErrorCode m) = error_code ERROR_CODE_LOGIN_OK) w))"
proof -
  obtain h1 where 1: "BaseMessage_get (junk_base j) h = Inr (BaseMessage_assign (junk_base j) bm, h1)"
    "available h1 (ZS2C_A_Login_body m @ rest)"
    using client_header [OF r] by blast
  let ?x = "Game_ZS2C_A_Login_new (junk_login_ans j)"
  obtain h2 where "Game_ZS2C_A_Login_get ?x h1 = Inr (ZS2C_A_Login_fill ?x m, h2)"
    using available_append(1) [OF 1(2)] by (rule readsE [OF reads_login_answer])
  with 1(1) bm d show ?thesis
    by (simp add: client_deal_one_def client_deal_sub_def Game_BaseMessage_get run_delegate_def
        ZS2C_A_Login_fill_def) (simp add: is_sub_def)
qed

lemma client_login_answer_unbound:
  assumes r: "received h (base_bytes bm @ ZS2C_A_Login_body m @ rest)"
    and bm: "is_main bm FM_ZDQ_LOGIN" "is_sub bm ZS2C_A_LOGIN" and d: "m_OnLoginDelegate l = None"
  shows "client_deal_one ue l j h w = Inl UnboundDelegate"
proof -
  obtain h1 where 1: "BaseMessage_get (junk_base j) h = Inr (BaseMessage_assign (junk_base j) bm, h1)"
    "available h1 (ZS2C_A_Login_body m @ rest)"
    using client_header [OF r] by blast
  let ?x = "Game_ZS2C_A_Login_new (junk_login_ans j)"
  obtain h2 where "Game_ZS2C_A_Login_get ?x h1 = Inr (ZS2C_A_Login_fill ?x m, h2)"
    using available_append(1) [OF 1(2)] by (rule readsE [OF reads_login_answer])
  with 1(1) bm d show ?thesis
    by (simp add: client_deal_one_def client_deal_sub_def Game_BaseMessage_get run_delegate_def)
       (simp add: is_sub_def)
qed

lemma client_register_answer:
  assumes r: "received h (base_bytes bm @ ZS2C_A_RegisterAccount_body m @ rest)"
    and bm: "is_main bm FM_ZDQ_LOGIN" "is_sub bm ZS2C_A_REGISTER" and d: "m_OnRegistDelegate l = Some f"
  shows "client_deal_one ue l j h w = Inr (ue_log ue ''Unknow MSG(Main)''
     (Execute_regist ue f
        (uint (ZS2C_A_RegisterAccount.m_iErrorCode m) = error_code ERROR_CODE_REGSTER_OK) w))"
proof -
  obtain h1 where 1: "BaseMessage_get (junk_base j) h = Inr (BaseMessage_assign (junk_base j) bm, h1)"
    "available h1 (ZS2C_A_RegisterAccount_body m @ rest)"
    using client_header [OF r] by blast
  let ?x = "Game_ZS2C_A_RegisterAccount_new (junk_regist_ans j)"
  obtain h2 where "Game_ZS2C_A_RegisterAccount_get ?x h1 =
      Inr (?x\<lparr>ZS2C_A_RegisterAccount.m_iErrorCode := ZS2C_A_RegisterAccount.m_iErrorCode m,
        m_iErrorCodeIndex := m_iErrorCodeIndex m\<rparr>, h2)"
    using available_append(1) [OF 1(2)] by (rule readsE [OF reads_register_answer])
  with 1(1) bm d show ?thesis
    by (simp add: client_deal_one_def client_deal_sub_def Game_BaseMessage_get run_delegate_def)
qed

section \<open>Properties\<close>

text \<open>An engine that keeps what the client does in a list.\<close>

definition demo_engine :: "string list engine" where
  "demo_engine = \<lparr>TCHAR_TO_UTF8 = map (\<lambda>c. char_of (unat c)), FPaths_GameDir = [],
     FString_path = (\<lambda>d f. d @ map (\<lambda>c. of_char c) f), GConfig_GetString = (\<lambda>_ _ _ _. None),
     GConfig_GetInt = (\<lambda>_ _ _ _. None), ProNetWork_Connect = (\<lambda>_ _ w. (True, w)),
     ProNetWork_DisConnect = (\<lambda>w. w), SendMsgToServer = (\<lambda>_ w. w @ [''send'']),
     RecvMsgFromServer = (\<lambda>w. ([], w)),
     Execute_login = (\<lambda>_ b w. w @ [if b then ''login ok'' else ''login failed'']),
     Execute_regist = (\<lambda>_ b w. w @ [if b then ''register ok'' else ''register failed'']),
     ue_log = (\<lambda>m w. w @ [m])\<rparr>"

text \<open>
  A login request goes out when account and password have together no more than 4086
  bytes: the library is handed a message with the protocol numbers and the two strings.
  With more, up to what the check allows, the client writes past its buffer.
\<close>

theorem client_sends_login:
  assumes "length (c_str (TCHAR_TO_UTF8 ue account)) + length (c_str (TCHAR_TO_UTF8 ue password)) < 9990"
  shows "if length (c_str (TCHAR_TO_UTF8 ue account)) + length (c_str (TCHAR_TO_UTF8 ue password)) \<le> 4086
     then \<exists>h. ready 0x2001 3 (strings_bytes (c_str (TCHAR_TO_UTF8 ue account)) (c_str (TCHAR_TO_UTF8 ue password))) h \<and>
        GameLogicLogin ue junkH junkM account password w = Inr (SendMsgToServer ue h w)
     else GameLogicLogin ue junkH junkM account password w = Inl WriteOutOfBounds"
  using GameLogicLogin_outcome [OF refl refl, of ue account password junkH junkM w] assms by auto

theorem client_sends_login_witness:
  "if length (c_str (TCHAR_TO_UTF8 demo_engine [97])) + length (c_str (TCHAR_TO_UTF8 demo_engine [98])) \<le> 4086
     then \<exists>h. ready 0x2001 3 (strings_bytes (c_str (TCHAR_TO_UTF8 demo_engine [97]))
          (c_str (TCHAR_TO_UTF8 demo_engine [98]))) h \<and>
        GameLogicLogin demo_engine blank demo_request [97] [98] [] = Inr (SendMsgToServer demo_engine h [])
     else GameLogicLogin demo_engine blank demo_request [97] [98] [] = Inl WriteOutOfBounds"
  by (rule client_sends_login) (simp add: demo_engine_def c_str_def)

text \<open>
  The client passes the verdict of a login or registration answer on to the delegate bound
  for it, and then, for want of a \<open>break\<close>, also reports an unknown message. With no delegate
  bound, an answer is a fault.
\<close>

theorem client_takes_answers:
  assumes "received h (base_bytes b @ ZS2C_A_Login_body m @ rest)"
    and "is_main b FM_ZDQ_LOGIN" and "is_sub b ZS2C_A_LOGIN"
  shows "client_deal_one ue l j h w =
     (case m_OnLoginDelegate l of
        None \<Rightarrow> Inl UnboundDelegate
      | Some f \<Rightarrow> Inr (ue_log ue ''Unknow MSG(Main)''
          (Execute_login ue f (uint (ZS2C_A_Login.m_iErrorCode m) = error_code ERROR_CODE_LOGIN_OK) w)))"
proof (cases "m_OnLoginDelegate l")
  case None
  then show ?thesis using client_login_answer_unbound [OF assms None] by simp
next
  case (Some f)
  then show ?thesis using client_login_answer [OF assms Some] by simp
qed

text \<open>An answer as it comes off the wire.\<close>

definition demo_wire :: "u8 list" where
  "demo_wire = [19, 0, 1, 0x20, 4, 0,  0, 0, 0, 3,  0, 0, 0, 0,  0, 0, 0, 0, 10]"

definition demo_answer :: HMessage where
  "demo_answer = blank\<lparr>m_byBuffer := splice (m_byBuffer blank) 0 demo_wire\<rparr>"

definition demo_header :: BaseMessage where
  "demo_header = \<lparr>m_wSize = 19, m_iMainProtocol = 0x2001, m_iSubProtocol = 4\<rparr>"

lemma demo_received:
  "received demo_answer (base_bytes demo_header @ ZS2C_A_Login_body (demo_login\<lparr>ZS2C_A_Login.m_iErrorCode := 3\<rparr>) @ [10])"
proof -
  have "base_bytes demo_header @ ZS2C_A_Login_body (demo_login\<lparr>ZS2C_A_Login.m_iErrorCode := 3\<rparr>) @ [10] = demo_wire"
    by (simp add: base_bytes_def demo_header_def u16_le_def ZS2C_A_Login_body_def demo_login_def
        ZS2C_A_Login_new_def u32_be_def demo_wire_def)
  moreover have "received demo_answer demo_wire"
    using bytes_at_splice_same [of "m_byBuffer blank" 0 demo_wire]
    by (simp add: received_def available_def demo_answer_def in_bounds_def blank_def HMessage_new_def
        splice_def demo_wire_def)
  ultimately show ?thesis by simp
qed

theorem client_takes_answers_witness:
  "\<forall>j. client_deal_one demo_engine \<lparr>m_isConneted = True, m_OnLoginDelegate = Some 0, m_OnRegistDelegate = None\<rparr>
     j demo_answer [] = Inr [''login ok'', ''Unknow MSG(Main)'']"
proof -
  have h: "is_main demo_header FM_ZDQ_LOGIN" "is_sub demo_header ZS2C_A_LOGIN"
    by (simp_all add: demo_header_def is_main_def is_sub_def)
  show ?thesis
    unfolding client_takes_answers [OF demo_received h]
    by (intro allI) (simp add: demo_engine_def demo_login_def ZS2C_A_Login_new_def)
qed

text \<open>
  Connecting uses the address and the port of the configuration file, whatever the caller
  passes; a missing port is an indeterminate number.
\<close>

lemma connect_ignores_arguments:
  "NetLogic_Connect ue junk IP Port = NetLogic_Connect ue junk IP' Port'"
  by (simp add: NetLogic_Connect_def)

end
