(* ===== verification/Net_Lifecycle.thy ===== *)
theory Net_Lifecycle
  imports Net_Logic
begin

text \<open>
  The life of the client's one \<open>UProNetLogic\<close> (pronetlogic.cpp). The class keeps its only object
  in the static pointer \<open>m_pNetLogic\<close>, which is no property the engine knows, so the engine's
  garbage collector finds no reference of the class to the object and may destroy it between two
  calls, unless the game keeps one elsewhere; the destructor then clears the pointer, and the next
  \<open>GetInstance\<close> makes another object. Here the blueprint's calls, each through
  \<open>GetInstance\<close>, and collections follow one another in any order. What a run has bound to the
  delegates is said by a specification that knows nothing of objects, and the run is shown to
  implement it.
\<close>

section \<open>Objects, the pointer, and the calls\<close>

text \<open>
  The objects alive, by the number of the \<open>NewObject\<close> that made them, the static pointer and
  the world of the engine.
\<close>

record 'w client =
  live_objects :: "nat \<Rightarrow> UProNetLogic option"
  created :: nat
  m_pNetLogic :: "nat option"
  client_world :: 'w

definition client_start :: "'w \<Rightarrow> 'w client" where
  "client_start w = \<lparr>live_objects = (\<lambda>_. None), created = 0, m_pNetLogic = None, client_world = w\<rparr>"

definition GetInstance_ptr :: "'w client \<Rightarrow> nat \<times> 'w client" where
  "GetInstance_ptr g =
     (case m_pNetLogic g of
        Some p \<Rightarrow> (p, g)
      | None \<Rightarrow> (created g, g\<lparr>live_objects := (live_objects g)(created g \<mapsto> NetLogic_GetInstance None),
                  created := Suc (created g), m_pNetLogic := Some (created g)\<rparr>))"

text \<open>The destructor runs for the object at \<open>p\<close>, whichever object the pointer names.\<close>

definition NetLogic_delete :: "nat \<Rightarrow> 'w client \<Rightarrow> 'w client" where
  "NetLogic_delete p g =
     (let g1 = (if m_pNetLogic g \<noteq> None then g\<lparr>m_pNetLogic := None\<rparr> else g)
      in g1\<lparr>live_objects := (live_objects g1)(p := None)\<rparr>)"

text \<open>
  The calls a blueprint makes, with the indeterminate memory of their local variables, and the
  method each of them runs.
\<close>

datatype client_call =
    CallConnect fstring int
  | CallRegister fstring fstring
  | CallLogin fstring fstring
  | CallOnLogin "nat option"
  | CallOnRegister "nat option"
  | CallDealMsg

record call_memory =
  memory_port :: int
  memory_message :: HMessage
  memory_register :: C2ZS_R_RegisterAccount
  memory_login :: C2ZS_R_Login
  memory_round :: "nat \<Rightarrow> client_junk"

fun run_call ::
  "'w engine \<Rightarrow> call_memory \<Rightarrow> client_call \<Rightarrow> UProNetLogic \<times> 'w \<Rightarrow> (UProNetLogic \<times> 'w) res" where
  "run_call ue jm (CallConnect IP Port) (l, w) = Inr (NetLogic_Connect ue (memory_port jm) IP Port (l, w))"
| "run_call ue jm (CallRegister account password) (l, w) =
     rbind (GameLogicRegister ue (memory_message jm) (memory_register jm) account password w) (\<lambda>w'. Inr (l, w'))"
| "run_call ue jm (CallLogin account password) (l, w) =
     rbind (GameLogicLogin ue (memory_message jm) (memory_login jm) account password w) (\<lambda>w'. Inr (l, w'))"
| "run_call ue jm (CallOnLogin d) (l, w) = Inr (OnLogin l d, w)"
| "run_call ue jm (CallOnRegister d) (l, w) = Inr (OnRegister l d, w)"
| "run_call ue jm CallDealMsg (l, w) = rbind (NetLogic_DealMsg ue (memory_round jm) (l, w)) (\<lambda>w'. Inr (l, w'))"

definition call_through ::
  "'w engine \<Rightarrow> call_memory \<Rightarrow> client_call \<Rightarrow> nat \<Rightarrow> 'w client \<Rightarrow> 'w client res" where
  "call_through ue jm c p g =
     (case live_objects g p of
        None \<Rightarrow> Inl UseAfterFree
      | Some l \<Rightarrow> rbind (run_call ue jm c (l, client_world g)) (\<lambda>(l', w').
          Inr (g\<lparr>live_objects := (live_objects g)(p \<mapsto> l'), client_world := w'\<rparr>)))"

text \<open>
  A collection destroys every object: it is the case in which the game refers to none.
\<close>

fun delete_all :: "nat list \<Rightarrow> 'w client \<Rightarrow> 'w client" where
  "delete_all [] g = g"
| "delete_all (p # ps) g = delete_all ps (NetLogic_delete p g)"

definition collect_garbage :: "'w client \<Rightarrow> 'w client" where
  "collect_garbage g = delete_all (filter (\<lambda>p. live_objects g p \<noteq> None) [0..<created g]) g"

datatype client_event = Use call_memory client_call | Collect

definition client_step :: "'w engine \<Rightarrow> client_event \<Rightarrow> 'w client \<Rightarrow> 'w client res" where
  "client_step ue e g =
     (case e of
        Use jm c \<Rightarrow> (let (p, g1) = GetInstance_ptr g in call_through ue jm c p g1)
      | Collect \<Rightarrow> Inr (collect_garbage g))"

fun client_run :: "'w engine \<Rightarrow> client_event list \<Rightarrow> 'w client \<Rightarrow> 'w client res" where
  "client_run ue [] g = Inr g"
| "client_run ue (e # es) g = rbind (client_step ue e g) (client_run ue es)"

section \<open>The specification\<close>

text \<open>
  What the user of the class may count on: the two functions bound and whether a connection is
  thought to be open, with no object in sight. A collection forgets all of it.
\<close>

type_synonym client_view = UProNetLogic

definition forgotten :: client_view where
  "forgotten = \<lparr>m_isConneted = False, m_OnLoginDelegate = None, m_OnRegistDelegate = None\<rparr>"

definition view_step :: "'w engine \<Rightarrow> client_event \<Rightarrow> client_view \<times> 'w \<Rightarrow> (client_view \<times> 'w) res" where
  "view_step ue e = (\<lambda>(v, w).
     (case e of Use jm c \<Rightarrow> run_call ue jm c (v, w) | Collect \<Rightarrow> Inr (forgotten, w)))"

fun view_run :: "'w engine \<Rightarrow> client_event list \<Rightarrow> client_view \<times> 'w \<Rightarrow> (client_view \<times> 'w) res" where
  "view_run ue [] v = Inr v"
| "view_run ue (e # es) v = rbind (view_step ue e v) (view_run ue es)"

definition view_of :: "'w client \<Rightarrow> client_view \<times> 'w" where
  "view_of g =
     (case m_pNetLogic g of
        None \<Rightarrow> (forgotten, client_world g)
      | Some p \<Rightarrow> (case live_objects g p of None \<Rightarrow> (forgotten, client_world g) | Some l \<Rightarrow> (l, client_world g)))"

text \<open>The invariant: at most one object is alive, and the pointer names it.\<close>

definition sole_object :: "'w client \<Rightarrow> bool" where
  "sole_object g \<longleftrightarrow> (\<forall>p. live_objects g p = None \<longleftrightarrow> m_pNetLogic g \<noteq> Some p) \<and>
     (\<forall>p. m_pNetLogic g = Some p \<longrightarrow> p < created g)"

section \<open>Lemmas\<close>

lemma sole_object_start: "sole_object (client_start w)"
  by (simp add: sole_object_def client_start_def)

lemma view_start: "view_of (client_start w) = (forgotten, w)"
  by (simp add: view_of_def client_start_def)

lemma view_world [simp]: "snd (view_of g) = client_world g"
  by (simp add: view_of_def split: option.splits)

lemma client_step_world:
  assumes "sole_object g" and "view_step ue e (view_of g) = m"
    and step: "case client_step ue e g of
        Inl x \<Rightarrow> view_step ue e (view_of g) = Inl x
      | Inr g' \<Rightarrow> sole_object g' \<and> view_step ue e (view_of g) = Inr (view_of g')"
  shows "rbind (client_step ue e g) (\<lambda>g'. Inr (client_world g')) = rbind m (\<lambda>(_, w'). Inr w')"
  using assms by (auto simp: split_beta split: sum.splits)

lemma GetInstance_live:
  assumes "sole_object g" and "GetInstance_ptr g = (p, g1)"
  shows "sole_object g1" and "m_pNetLogic g1 = Some p" and "view_of g1 = view_of g"
    and "live_objects g1 p = Some (fst (view_of g))" and "client_world g1 = client_world g"
  using assms
  by (auto simp: GetInstance_ptr_def sole_object_def view_of_def NetLogic_GetInstance_def forgotten_def
      split: option.splits if_splits)

lemma call_through_view:
  assumes "sole_object g" and "m_pNetLogic g = Some p"
  shows "call_through ue jm c p g = rbind (run_call ue jm c (view_of g)) (\<lambda>(l', w').
      Inr (g\<lparr>live_objects := (live_objects g)(p \<mapsto> l'), client_world := w'\<rparr>))"
proof -
  obtain l where "live_objects g p = Some l"
    using assms by (fastforce simp: sole_object_def)
  then show ?thesis
    using assms by (simp add: call_through_def view_of_def)
qed

lemma delete_all_objects:
  "live_objects (delete_all ps g) = (\<lambda>p. if p \<in> set ps then None else live_objects g p) \<and>
   created (delete_all ps g) = created g \<and> client_world (delete_all ps g) = client_world g \<and>
   m_pNetLogic (delete_all ps g) = (if ps = [] then m_pNetLogic g else None)"
  by (induction ps arbitrary: g) (auto simp: NetLogic_delete_def Let_def fun_eq_iff)

lemma collect_nothing_left:
  assumes "sole_object g"
  shows "live_objects (collect_garbage g) = (\<lambda>_. None)" and "m_pNetLogic (collect_garbage g) = None"
    and "client_world (collect_garbage g) = client_world g"
proof -
  let ?ps = "filter (\<lambda>p. live_objects g p \<noteq> None) [0..<created g]"
  have ps: "set ?ps = {p. live_objects g p \<noteq> None}"
    using assms by (auto simp: sole_object_def)
  show "live_objects (collect_garbage g) = (\<lambda>_. None)"
    using delete_all_objects [of ?ps g] ps by (auto simp: collect_garbage_def fun_eq_iff)
  show "client_world (collect_garbage g) = client_world g"
    using delete_all_objects [of ?ps g] by (simp add: collect_garbage_def)
  show "m_pNetLogic (collect_garbage g) = None"
  proof (cases "?ps = []")
    case True
    then have "\<And>p. live_objects g p = None" using ps by auto
    then show ?thesis
      using assms True delete_all_objects [of ?ps g]
      by (cases "m_pNetLogic g") (auto simp: collect_garbage_def sole_object_def)
  next
    case False
    then show ?thesis using delete_all_objects [of ?ps g] by (simp add: collect_garbage_def)
  qed
qed

lemma client_step_view:
  assumes "sole_object g"
  shows "(case client_step ue e g of
            Inl x \<Rightarrow> view_step ue e (view_of g) = Inl x
          | Inr g' \<Rightarrow> sole_object g' \<and> view_step ue e (view_of g) = Inr (view_of g'))"
proof (cases e)
  case (Use jm c)
  obtain p g1 where p: "GetInstance_ptr g = (p, g1)" by (cases "GetInstance_ptr g")
  note gi = GetInstance_live [OF assms p]
  show ?thesis
  proof (cases "run_call ue jm c (view_of g)")
    case (Inl x)
    then show ?thesis
      using call_through_view [OF gi(1,2), of ue jm c]
      by (simp add: Use client_step_def view_step_def p gi(3) split_beta)
  next
    case (Inr r)
    obtain l' w' where r: "r = (l', w')" by (cases r)
    let ?g = "g1\<lparr>live_objects := (live_objects g1)(p \<mapsto> l'), client_world := w'\<rparr>"
    have "client_step ue e g = Inr ?g"
      using call_through_view [OF gi(1,2), of ue jm c] Inr
      by (simp add: Use client_step_def p gi(3) r)
    moreover have "sole_object ?g" "view_of ?g = (l', w')"
      using gi(1,2) by (auto simp: sole_object_def view_of_def)
    ultimately show ?thesis
      using Inr by (simp add: Use view_step_def split_beta r)
  qed
next
  case Collect
  then show ?thesis
    using collect_nothing_left [OF assms]
    by (cases "view_of g")
      (auto simp: client_step_def view_step_def sole_object_def view_of_def split: option.splits)
qed

lemma client_run_view:
  assumes "sole_object g"
  shows "(case client_run ue es g of
            Inl x \<Rightarrow> view_run ue es (view_of g) = Inl x
          | Inr g' \<Rightarrow> sole_object g' \<and> view_run ue es (view_of g) = Inr (view_of g'))"
  using assms
proof (induction es arbitrary: g)
  case (Cons e es)
  show ?case
  proof (cases "client_step ue e g")
    case (Inl x)
    then show ?thesis using client_step_view [OF Cons.prems, of ue e] by simp
  next
    case (Inr g')
    then show ?thesis
      using client_step_view [OF Cons.prems, of ue e] Cons.IH [of g'] by (simp split: sum.splits)
  qed
qed simp

text \<open>What the last binding since the last collection was.\<close>

fun last_binding :: "client_event list \<Rightarrow> nat option \<Rightarrow> nat option" where
  "last_binding [] d = d"
| "last_binding (Use jm (CallOnLogin d') # es) d = last_binding es d'"
| "last_binding (Collect # es) d = last_binding es None"
| "last_binding (_ # es) d = last_binding es d"

lemma run_call_binding:
  "run_call ue jm c (v, w) = Inr (v', w') \<Longrightarrow>
   last_binding (Use jm c # es) (m_OnLoginDelegate v) = last_binding es (m_OnLoginDelegate v')"
  by (cases c) (auto simp: OnLogin_def OnRegister_def NetLogic_Connect_def Let_def rbind_Inr_iff
      split: prod.splits)

lemma view_run_binding:
  "view_run ue es (v, w) = Inr (v', w') \<Longrightarrow> m_OnLoginDelegate v' = last_binding es (m_OnLoginDelegate v)"
proof (induction es arbitrary: v w)
  case (Cons e es)
  obtain v1 w1 where 1: "view_step ue e (v, w) = Inr (v1, w1)" "view_run ue es (v1, w1) = Inr (v', w')"
    using Cons.prems by (auto simp: rbind_Inr_iff)
  then show ?case
    using Cons.IH [OF 1(2)]
    by (cases e) (auto simp: view_step_def forgotten_def dest: run_call_binding [symmetric])
qed simp

section \<open>Properties\<close>

text \<open>
  C16: Whatever calls and collections a game makes, in whatever order, no call reaches an object
  that is gone, at most one object is alive and the static pointer names it, and the game cannot
  tell the objects from the specification, in which a collection forgets everything: results,
  faults and effects are the same.
\<close>

theorem object_never_dangles:
  "case client_run ue es (client_start w) of
     Inl x \<Rightarrow> view_run ue es (forgotten, w) = Inl x
   | Inr g \<Rightarrow> sole_object g \<and> view_run ue es (forgotten, w) = Inr (view_of g)"
  using client_run_view [OF sole_object_start, of ue es w] unfolding view_start .

text \<open>
  C17: The answer to a login reaches the function the game bound last, but only if no collection has
  come in between. After a collection nothing is bound, and the answer is a fault, in the middle
  of a login the game has asked for.
\<close>

theorem binding_until_collected:
  assumes "client_run ue es (client_start w) = Inr g"
    and "RecvMsgFromServer ue (client_world g) = ([h], w1)"
    and "received h (base_bytes b @ ZS2C_A_Login_body m @ rest)"
    and "is_main b FM_ZDQ_LOGIN" and "is_sub b ZS2C_A_LOGIN"
  shows "rbind (client_step ue (Use jm CallDealMsg) g) (\<lambda>g'. Inr (client_world g')) =
    (case last_binding es None of
       None \<Rightarrow> Inl UnboundDelegate
     | Some f \<Rightarrow> Inr (ue_log ue ''Unknow MSG(Main)''
         (Execute_login ue f (uint (ZS2C_A_Login.m_iErrorCode m) = error_code ERROR_CODE_LOGIN_OK) w1)))"
proof -
  have g: "sole_object g" "view_run ue es (forgotten, w) = Inr (view_of g)"
    using client_run_view [OF sole_object_start, of ue es w] assms(1) by (simp_all add: view_start)
  obtain v where v: "view_of g = (v, client_world g)"
    by (metis prod.collapse view_world)
  have bound: "m_OnLoginDelegate v = last_binding es None"
    using view_run_binding [of ue es forgotten w v "client_world g"] g(2) v by (simp add: forgotten_def)
  have "view_step ue (Use jm CallDealMsg) (view_of g) =
      rbind (client_deal_one ue v (memory_round jm 0) h w1) (\<lambda>w'. Inr (v, w'))"
    using assms(2) by (simp add: view_step_def v NetLogic_DealMsg_def rbind_assoc)
  from client_step_world [OF g(1) this client_step_view [OF g(1)]] show ?thesis
    using client_login_answer [OF assms(3-5), where ue = ue] client_login_answer_unbound [OF assms(3-5), where ue = ue]
    by (cases "last_binding es None") (simp_all add: bound)
qed

text \<open>A game that binds a function and gets its answer after a collection, or without one.\<close>

definition answering_engine :: "string list engine" where
  "answering_engine = demo_engine\<lparr>RecvMsgFromServer := (\<lambda>w. ([demo_answer], w))\<rparr>"

definition demo_memory :: call_memory where
  "demo_memory = \<lparr>memory_port = 0, memory_message = blank,
     memory_register = C2ZS_R_RegisterAccount_new
       \<lparr>m_wSize = 0, m_iMainProtocol = 0, m_iSubProtocol = 0,
        C2ZS_R_RegisterAccount.m_strAccount = [], C2ZS_R_RegisterAccount.m_strPassword = []\<rparr>,
     memory_login = demo_request,
     memory_round = (\<lambda>_. \<lparr>junk_base = demo_header,
       junk_regist_ans = \<lparr>m_wSize = 0, m_iMainProtocol = 0, m_iSubProtocol = 0,
         ZS2C_A_RegisterAccount.m_iErrorCode = 0, m_iErrorCodeIndex = 0\<rparr>,
       junk_login_ans = demo_login\<rparr>)\<rparr>"

theorem binding_until_collected_witness:
  "\<exists>g g'. client_run answering_engine [Use demo_memory (CallOnLogin (Some 0))] (client_start []) = Inr g \<and>
     rbind (client_step answering_engine (Use demo_memory CallDealMsg) g) (\<lambda>g. Inr (client_world g)) =
       Inr [''login ok'', ''Unknow MSG(Main)''] \<and>
     client_run answering_engine [Use demo_memory (CallOnLogin (Some 0)), Collect] (client_start []) = Inr g' \<and>
     rbind (client_step answering_engine (Use demo_memory CallDealMsg) g') (\<lambda>g. Inr (client_world g)) =
       Inl UnboundDelegate"
proof -
  have h: "is_main demo_header FM_ZDQ_LOGIN" "is_sub demo_header ZS2C_A_LOGIN"
    by (simp_all add: demo_header_def is_main_def is_sub_def)
  have r: "RecvMsgFromServer answering_engine w = ([demo_answer], w)" for w
    by (simp add: answering_engine_def)
  let ?u = "Use demo_memory (CallOnLogin (Some 0))"
  obtain g where g: "client_run answering_engine [?u] (client_start []) = Inr g" "client_world g = []"
    by (simp add: client_step_def GetInstance_ptr_def client_start_def call_through_def)
  obtain g' where g': "client_run answering_engine [?u, Collect] (client_start []) = Inr g'"
    by (simp add: client_step_def GetInstance_ptr_def client_start_def call_through_def)
  show ?thesis
    using g g' binding_until_collected [OF g(1) r demo_received h, of demo_memory]
      binding_until_collected [OF g' r demo_received h, of demo_memory]
    by (simp add: answering_engine_def demo_engine_def demo_login_def ZS2C_A_Login_new_def)
qed

end
