(* ===== verification/Client_Copy.thy ===== *)
theory Client_Copy
  imports Net_Logic
begin

text \<open>
  The copies of \<open>HMessage\<close> on the client. The class keeps a pointer \<open>m_pData\<close>, set by the
  constructor to the array of the same object, and has no copy operations of its own, so a
  copy points at the array of the object it was copied from. \<open>UProNetLogic::DealMsg\<close>
  (pronetlogic.cpp) copies every message it received. Here objects live at addresses, and what
  \<open>DealMsg\<close> does with its copy is shown to be what Net_Logic says it does with the message.
\<close>

section \<open>Objects at addresses\<close>

text \<open>The object \<open>m_pData\<close> points into is given by its address.\<close>

record Object =
  own_byBuffer :: buffer
  m_pData :: nat
  own_iPos :: int
  own_iDataUseSize :: int
  own_iSessionID :: int
  own_DynmicCode :: int

type_synonym objects = "nat \<Rightarrow> Object option"

text \<open>
  The default constructor at an address, over the memory \<open>junk\<close>; the constructor from bytes,
  which fills the array through the pointer it has just set; the implicit assignment, which
  copies every member; and the end of an object's life.
\<close>

definition construct :: "nat \<Rightarrow> Object \<Rightarrow> objects \<Rightarrow> objects" where
  "construct a junk h = h(a \<mapsto> junk\<lparr>own_byBuffer := (own_byBuffer junk)\<lparr>buf_size := 4096\<rparr>,
     m_pData := a, own_iPos := 0, own_iDataUseSize := 0\<rparr>)"

definition construct_from :: "nat \<Rightarrow> Object \<Rightarrow> u8 list \<Rightarrow> objects \<Rightarrow> objects res" where
  "construct_from a junk dat h =
     rbind (store_bytes ((own_byBuffer junk)\<lparr>buf_size := 4096\<rparr>) 0 dat) (\<lambda>b.
       Inr (h(a \<mapsto> junk\<lparr>own_byBuffer := b, m_pData := a, own_iPos := 0,
              own_iDataUseSize := int (length dat)\<rparr>)))"

definition assign :: "nat \<Rightarrow> nat \<Rightarrow> objects \<Rightarrow> objects res" where
  "assign dst src h =
     (case h src of None \<Rightarrow> Inl UseAfterFree | Some ob \<Rightarrow> Inr (h(dst \<mapsto> ob)))"

definition destroy :: "nat \<Rightarrow> objects \<Rightarrow> objects" where
  "destroy a h = h(a := None)"

text \<open>
  What the methods of the object at an address work on: the array its pointer points at and
  its own members.
\<close>

definition message_of :: "buffer \<Rightarrow> Object \<Rightarrow> HMessage" where
  "message_of arr ob = \<lparr>m_byBuffer = arr, m_iPos = own_iPos ob, m_iDataUseSize = own_iDataUseSize ob,
     HMessage.m_iSessionID = own_iSessionID ob, HMessage.m_DynmicCode = own_DynmicCode ob\<rparr>"

definition view_at :: "objects \<Rightarrow> nat \<Rightarrow> HMessage res" where
  "view_at h a =
     (case h a of
        None \<Rightarrow> Inl UseAfterFree
      | Some ob \<Rightarrow>
          (case h (m_pData ob) of
             None \<Rightarrow> Inl UseAfterFree
           | Some arr \<Rightarrow> Inr (message_of (own_byBuffer arr) ob)))"

definition store_view :: "nat \<Rightarrow> HMessage \<Rightarrow> objects \<Rightarrow> objects" where
  "store_view a hm h =
     (case h a of
        None \<Rightarrow> h
      | Some ob \<Rightarrow>
          let h1 = (case h (m_pData ob) of
                      None \<Rightarrow> h
                    | Some arr \<Rightarrow> h(m_pData ob \<mapsto> arr\<lparr>own_byBuffer := m_byBuffer hm\<rparr>))
          in (case h1 a of
                None \<Rightarrow> h1
              | Some ob1 \<Rightarrow> h1(a \<mapsto> ob1\<lparr>own_iPos := m_iPos hm, own_iDataUseSize := m_iDataUseSize hm,
                  own_iSessionID := HMessage.m_iSessionID hm, own_DynmicCode := HMessage.m_DynmicCode hm\<rparr>)))"

text \<open>
  A method called on the object at an address. When the object its pointer points at is gone,
  the object's own members are still there, and there is no byte left to read or write through
  the pointer: the first access to one is a use of freed memory. \<open>GetData\<close> takes the object's
  own array and does not follow the pointer.
\<close>

definition freed_array :: buffer where
  "freed_array = \<lparr>buf_size = 0, buf_at = (\<lambda>_. 0)\<rparr>"

definition freed_fault :: "fault \<Rightarrow> fault" where
  "freed_fault e = (if e = ReadOutOfBounds \<or> e = WriteOutOfBounds then UseAfterFree else e)"

definition method_at :: "(HMessage \<Rightarrow> ('r \<times> HMessage) res) \<Rightarrow> nat \<Rightarrow> objects \<Rightarrow> ('r \<times> objects) res" where
  "method_at f a h =
     (case h a of
        None \<Rightarrow> Inl UseAfterFree
      | Some ob \<Rightarrow>
          (case h (m_pData ob) of
             Some arr \<Rightarrow> rbind (f (message_of (own_byBuffer arr) ob)) (\<lambda>(r, hm'). Inr (r, store_view a hm' h))
           | None \<Rightarrow>
               (case f (message_of freed_array ob) of
                  Inl e \<Rightarrow> Inl (freed_fault e)
                | Inr (r, hm') \<Rightarrow> Inr (r, store_view a hm' h))))"

definition GetData_at :: "nat \<Rightarrow> objects \<Rightarrow> buffer res" where
  "GetData_at a h = (case h a of None \<Rightarrow> Inl UseAfterFree | Some ob \<Rightarrow> Inr (own_byBuffer ob))"

section \<open>\<open>DealMsg\<close> with its copy\<close>

text \<open>\<open>hmg\<close> is the address of the local variable.\<close>

definition heap_deal_sub ::
  "'w engine \<Rightarrow> UProNetLogic \<Rightarrow> client_junk \<Rightarrow> BaseMessage \<Rightarrow> nat \<Rightarrow> objects \<Rightarrow> 'w \<Rightarrow> ('w \<times> objects) res" where
  "heap_deal_sub ue l j baseMsg hmg h w =
     (if is_sub baseMsg ZS2C_A_REGISTER then
        rbind (method_at (Game_ZS2C_A_RegisterAccount_get
                 (Game_ZS2C_A_RegisterAccount_new (junk_regist_ans j))) hmg h) (\<lambda>(recvMsg, h').
        rbind (run_delegate (Execute_regist ue) (m_OnRegistDelegate l)
            (uint (ZS2C_A_RegisterAccount.m_iErrorCode recvMsg) = error_code ERROR_CODE_REGSTER_OK) w)
          (\<lambda>w'. Inr (w', h')))
      else if is_sub baseMsg ZS2C_A_LOGIN then
        rbind (method_at (Game_ZS2C_A_Login_get (Game_ZS2C_A_Login_new (junk_login_ans j))) hmg h)
          (\<lambda>(recvMsg, h').
        rbind (run_delegate (Execute_login ue) (m_OnLoginDelegate l)
            (uint (ZS2C_A_Login.m_iErrorCode recvMsg) = error_code ERROR_CODE_LOGIN_OK) w)
          (\<lambda>w'. Inr (w', h')))
      else Inr (ue_log ue ''Unknow MSG(Sub)'' w, h))"

definition heap_deal_one ::
  "'w engine \<Rightarrow> UProNetLogic \<Rightarrow> client_junk \<Rightarrow> Object \<Rightarrow> nat \<Rightarrow> nat \<Rightarrow> objects \<Rightarrow> 'w \<Rightarrow> ('w \<times> objects) res" where
  "heap_deal_one ue l j junk hmg msg h w =
     rbind (assign hmg msg (construct hmg junk h)) (\<lambda>h1.
     rbind (method_at (Game_BaseMessage_get (junk_base j)) hmg h1) (\<lambda>(baseMsg, h2).
     rbind (if is_main baseMsg FM_ZDQ_LOGIN then heap_deal_sub ue l j baseMsg hmg h2 w else Inr (w, h2))
       (\<lambda>(w', h3). Inr (ue_log ue ''Unknow MSG(Main)'' w', destroy hmg h3))))"

fun heap_deal_loop ::
  "'w engine \<Rightarrow> UProNetLogic \<Rightarrow> (nat \<Rightarrow> client_junk) \<Rightarrow> (nat \<Rightarrow> Object) \<Rightarrow> nat \<Rightarrow> nat \<Rightarrow> nat list \<Rightarrow>
   objects \<times> 'w \<Rightarrow> ('w \<times> objects) res" where
  "heap_deal_loop ue l jk junk hmg i [] (h, w) = Inr (w, h)"
| "heap_deal_loop ue l jk junk hmg i (msg # msgs) (h, w) =
     rbind (heap_deal_one ue l (jk i) (junk i) hmg msg h w) (\<lambda>(w', h').
       heap_deal_loop ue l jk junk hmg (Suc i) msgs (h', w'))"

section \<open>A vector of messages that grows\<close>

text \<open>
  When a vector has no room left it copies its elements to new addresses and destroys the old
  ones.
\<close>

fun relocate :: "(nat \<times> nat) list \<Rightarrow> objects \<Rightarrow> objects res" where
  "relocate [] h = Inr h"
| "relocate ((old, new) # ms) h = rbind (assign new old h) (\<lambda>h1. relocate ms h1)"

fun destroy_all :: "nat list \<Rightarrow> objects \<Rightarrow> objects" where
  "destroy_all [] h = h"
| "destroy_all (a # as) h = destroy_all as (destroy a h)"

definition grow :: "(nat \<times> nat) list \<Rightarrow> objects \<Rightarrow> objects res" where
  "grow ms h = rbind (relocate ms h) (\<lambda>h1. Inr (destroy_all (map fst ms) h1))"

section \<open>Lemmas\<close>

lemma view_store:
  "view_at h a = Inr hm \<Longrightarrow> view_at (store_view a hm' h) a = Inr hm'"
  by (auto simp: view_at_def store_view_def message_of_def Let_def split: option.splits)

text \<open>A method that only reads leaves every other object alone.\<close>

definition keeps_buffer :: "(HMessage \<Rightarrow> ('r \<times> HMessage) res) \<Rightarrow> bool" where
  "keeps_buffer f \<longleftrightarrow> (\<forall>hm r hm'. f hm = Inr (r, hm') \<longrightarrow> m_byBuffer hm' = m_byBuffer hm)"

lemma keeps_AddPosition: "AddPosition h n = Inr h' \<Longrightarrow> m_byBuffer h' = m_byBuffer h"
  by (auto simp: AddPosition_def rbind_Inr_iff split: if_splits)

lemma keeps_gets:
  "getUInt h = Inr (r, h') \<Longrightarrow> m_byBuffer h' = m_byBuffer h"
  "getUShort h = Inr (s, h') \<Longrightarrow> m_byBuffer h' = m_byBuffer h"
  "getByte h = Inr (c, h') \<Longrightarrow> m_byBuffer h' = m_byBuffer h"
  "getString h = Inr (t, h') \<Longrightarrow> m_byBuffer h' = m_byBuffer h"
  by (auto simp: getUInt_def getUShort_def getByte_def getString_def rbind_Inr_iff dest!: keeps_AddPosition split: if_splits)

lemma keeps_message_gets:
  "keeps_buffer (Game_BaseMessage_get b)" "keeps_buffer (Game_ZS2C_A_Login_get m)"
  "keeps_buffer (Game_ZS2C_A_RegisterAccount_get q)"
  unfolding keeps_buffer_def Game_ZS2C_A_RegisterAccount_get_def game_same
    BaseMessage_get_def ZS2C_A_Login_get_def
  by (auto simp: rbind_Inr_iff dest!: keeps_gets)

lemma method_at_live:
  "view_at h a = Inr hm \<Longrightarrow> method_at f a h = rbind (f hm) (\<lambda>(r, hm'). Inr (r, store_view a hm' h))"
  by (auto simp: method_at_def view_at_def split: option.splits)

lemma store_view_keeps:
  assumes "view_at h a = Inr hm" and "m_byBuffer hm' = m_byBuffer hm"
  shows "destroy a (store_view a hm' h) = destroy a h"
proof -
  obtain ob arr where o: "h a = Some ob" "h (m_pData ob) = Some arr" "m_byBuffer hm = own_byBuffer arr"
    using assms(1) by (auto simp: view_at_def message_of_def split: option.splits)
  have "h(m_pData ob \<mapsto> arr\<lparr>own_byBuffer := m_byBuffer hm'\<rparr>) = h"
    using o assms(2) by (auto simp: fun_eq_iff)
  then show ?thesis
    using o by (simp add: store_view_def destroy_def)
qed

lemma copied:
  assumes "h hmg = None" and "view_at h msg = Inr hm"
  shows "\<exists>h1. assign hmg msg (construct hmg junk h) = Inr h1 \<and> view_at h1 hmg = Inr hm \<and> destroy hmg h1 = h"
proof -
  obtain ob arr where o: "h msg = Some ob" "h (m_pData ob) = Some arr"
    using assms(2) by (auto simp: view_at_def split: option.splits)
  then have "msg \<noteq> hmg" "m_pData ob \<noteq> hmg" using assms(1) by auto
  moreover from this have "view_at (h(hmg \<mapsto> ob)) hmg = view_at h msg"
    using o by (simp add: view_at_def)
  moreover have "destroy hmg (h(hmg \<mapsto> ob)) = h"
    using assms(1) by (auto simp: destroy_def)
  ultimately show ?thesis
    using o assms(2) by (simp add: assign_def construct_def)
qed

lemma heap_deal_sub_view:
  assumes "view_at h hmg = Inr hm"
  shows "rbind (heap_deal_sub ue l j b hmg h w) (\<lambda>(w', h'). Inr (w', destroy hmg h')) =
    rbind (client_deal_sub ue l j b hm w) (\<lambda>w'. Inr (w', destroy hmg h))"
proof -
  have k: "destroy hmg (store_view hmg hm' h) = destroy hmg h" if "keeps_buffer f" "f hm = Inr (r, hm')"
    for f :: "HMessage \<Rightarrow> ('r \<times> HMessage) res" and r hm'
    using store_view_keeps [OF assms] that by (auto simp: keeps_buffer_def)
  have kl: "destroy hmg (store_view hmg hm' h) = destroy hmg h" if "Game_ZS2C_A_Login_get m hm = Inr (r, hm')" for m r hm'
    using k [OF keeps_message_gets(2) that] .
  have kr: "destroy hmg (store_view hmg hm' h) = destroy hmg h"
    if "Game_ZS2C_A_RegisterAccount_get m hm = Inr (r, hm')" for m r hm'
    using k [OF keeps_message_gets(3) that] .
  show ?thesis
    unfolding heap_deal_sub_def client_deal_sub_def method_at_live [OF assms]
    by (auto simp: rbind_assoc split_beta intro!: rbind_cong dest: kl kr)
qed

lemma heap_deal_one_view:
  assumes "h hmg = None" and "view_at h msg = Inr hm"
  shows "heap_deal_one ue l j junk hmg msg h w = rbind (client_deal_one ue l j hm w) (\<lambda>w'. Inr (w', h))"
proof -
  obtain h1 where h1: "assign hmg msg (construct hmg junk h) = Inr h1" "view_at h1 hmg = Inr hm"
    "destroy hmg h1 = h"
    using copied [OF assms] by blast
  show ?thesis
  proof (cases "Game_BaseMessage_get (junk_base j) hm")
    case (Inl e)
    then show ?thesis
      by (simp add: heap_deal_one_def client_deal_one_def h1 method_at_live [OF h1(2)])
  next
    case (Inr p)
    obtain b hm' where p: "Game_BaseMessage_get (junk_base j) hm = Inr (b, hm')"
      using Inr by (cases p) simp
    let ?h2 = "store_view hmg hm' h1"
    have v: "view_at ?h2 hmg = Inr hm'" by (rule view_store [OF h1(2)])
    have d: "destroy hmg ?h2 = h"
      using store_view_keeps [OF h1(2)] h1(3)
        keeps_message_gets(1) [unfolded keeps_buffer_def, rule_format, OF p] by simp
    have "rbind (heap_deal_sub ue l j b hmg ?h2 w) (\<lambda>(w', h3). Inr (ue_log ue ''Unknow MSG(Main)'' w', destroy hmg h3)) =
      rbind (client_deal_sub ue l j b hm' w) (\<lambda>w'. Inr (ue_log ue ''Unknow MSG(Main)'' w', h))"
      using arg_cong [OF heap_deal_sub_view [OF v, of ue l j b w],
          of "\<lambda>m. rbind m (\<lambda>(w', h'). Inr (ue_log ue ''Unknow MSG(Main)'' w', h'))"]
      by (simp add: rbind_assoc case_prod_unfold d)
    then show ?thesis
      by (simp add: heap_deal_one_def client_deal_one_def h1(1) method_at_live [OF h1(2)] p rbind_assoc d)
  qed
qed

lemma heap_deal_loop_view:
  assumes "h hmg = None" and "\<forall>msg \<in> set msgs. view_at h msg = Inr (msg_of msg)"
  shows "heap_deal_loop ue l jk junk hmg i msgs (h, w) =
    rbind (client_deal_loop ue l jk i (map msg_of msgs) w) (\<lambda>w'. Inr (w', h))"
  using assms(2)
proof (induction msgs arbitrary: i w)
  case (Cons msg msgs)
  then have "view_at h msg = Inr (msg_of msg)" by simp
  with Cons show ?case
    by (simp add: heap_deal_one_view [of h hmg, OF assms(1)] rbind_assoc)
qed simp

text \<open>The copies of a relocation, and what is left when the old elements are gone.\<close>

lemma relocate_copies:
  assumes "\<forall>(old, new) \<in> set ms. h old \<noteq> None" and "distinct (map snd ms)"
    and "set (map fst ms) \<inter> set (map snd ms) = {}"
  shows "\<exists>h'. relocate ms h = Inr h' \<and> (\<forall>(old, new) \<in> set ms. h' new = h old) \<and>
    (\<forall>a. a \<notin> set (map snd ms) \<longrightarrow> h' a = h a)"
  using assms
proof (induction ms arbitrary: h)
  case (Cons m ms)
  obtain old new where m: "m = (old, new)" by (cases m)
  obtain ob where ob: "h old = Some ob" using Cons.prems(1) m by auto
  let ?h1 = "h(new \<mapsto> ob)"
  have "\<forall>(o', n') \<in> set ms. ?h1 o' \<noteq> None"
    using Cons.prems(1) m by auto
  moreover have "distinct (map snd ms)" "set (map fst ms) \<inter> set (map snd ms) = {}"
    using Cons.prems(2,3) by auto
  ultimately obtain h' where h': "relocate ms ?h1 = Inr h'" "\<forall>(o', n') \<in> set ms. h' n' = ?h1 o'"
    "\<forall>a. a \<notin> set (map snd ms) \<longrightarrow> h' a = ?h1 a"
    using Cons.IH [of ?h1] by blast
  have "?h1 o' = h o'" if "(o', n') \<in> set ms" for o' n'
    using Cons.prems(3) m that by force
  moreover have "h' new = h old"
    using h'(3) Cons.prems(2) m ob by simp
  ultimately show ?case
    using h' m ob by (intro exI [of _ h']) (auto simp: assign_def)
qed simp

lemma destroy_all_at: "destroy_all as h a = (if a \<in> set as then None else h a)"
  by (induction as arbitrary: h) (auto simp: destroy_def)

text \<open>
  The methods of an object whose array is gone: those that read or write a byte of it, and those
  that do not.
\<close>

lemma freed_array_access [simp]:
  "load_byte freed_array i = Inl ReadOutOfBounds" "store_byte freed_array i x = Inl WriteOutOfBounds"
  by (simp_all add: load_byte_def store_byte_def freed_array_def)

lemma freed_array_bytes [simp]:
  "load_bytes freed_array i (Suc n) = Inl ReadOutOfBounds" "store_bytes freed_array i (x # xs) = Inl WriteOutOfBounds"
  by simp_all

lemma freed_fault_simps [simp]:
  "freed_fault ReadOutOfBounds = UseAfterFree" "freed_fault WriteOutOfBounds = UseAfterFree"
  "freed_fault SignedOverflow = SignedOverflow"
  by (simp_all add: freed_fault_def)

lemma method_at_freed:
  "h a = Some ob \<Longrightarrow> h (m_pData ob) = None \<Longrightarrow> method_at f a h =
     (case f (message_of freed_array ob) of
        Inl e \<Rightarrow> Inl (freed_fault e) | Inr (r, hm') \<Rightarrow> Inr (r, store_view a hm' h))"
  by (simp add: method_at_def)

lemma store_view_same: "h a = Some ob \<Longrightarrow> h (m_pData ob) = None \<Longrightarrow> store_view a (message_of arr ob) h = h"
  by (auto simp: store_view_def message_of_def)

lemma message_of_simps [simp]: "m_byBuffer (message_of arr ob) = arr" "m_iPos (message_of arr ob) = own_iPos ob"
  by (simp_all add: message_of_def)

lemma CheckPut_own: "CheckPut (message_of arr ob) n = CheckPut (message_of arr' ob) n"
  by (simp add: CheckPut_def)

lemma CheckPut_cases: "CheckPut m n = Inl SignedOverflow \<or> CheckPut m n = Inr True \<or> CheckPut m n = Inr False"
  by (auto simp: CheckPut_def int_add_def)

lemma freed_gets:
  assumes "h a = Some ob" and "h (m_pData ob) = None"
  shows "method_at Game_getUShort a h = Inl UseAfterFree" "method_at Game_getUInt a h = Inl UseAfterFree"
    "method_at Game_getByte a h = Inl UseAfterFree" "method_at Game_getString a h = Inl UseAfterFree"
    "method_at Game_GetPosition a h = Inl UseAfterFree"
  by (simp_all add: method_at_freed [OF assms] game_same getUShort_def getUInt_def getByte_def getString_def
      GetPosition_def u16_le_def numeral_2_eq_2)

text \<open>A put fails as before where \<open>CheckPut\<close> refuses it, and uses freed memory where it does not.\<close>

definition freed_put :: "nat \<Rightarrow> Object \<Rightarrow> objects \<Rightarrow> (bool \<times> objects) res" where
  "freed_put n ob h = rbind (Game_CheckPut (message_of (own_byBuffer ob) ob) (int n)) (\<lambda>fits.
     if fits then Inl UseAfterFree else Inr (False, h))"

lemma freed_puts:
  assumes "h a = Some ob" and "h (m_pData ob) = None"
  shows "method_at (\<lambda>m. Game_putChar m c) a h = freed_put 1 ob h"
    "method_at (\<lambda>m. Game_putUShort m u) a h = freed_put 2 ob h"
    "method_at (\<lambda>m. Game_putUInt m v) a h = freed_put 4 ob h"
    "method_at (\<lambda>m. Game_putString m s) a h = freed_put 2 ob h"
  using CheckPut_cases [of "message_of freed_array ob" 1] CheckPut_cases [of "message_of freed_array ob" 2]
    CheckPut_cases [of "message_of freed_array ob" 4]
  by (auto simp: method_at_freed [OF assms] game_same freed_put_def putChar_def putUShort_def putUInt_def
      putString_def u16_le_def CheckPut_own [of "own_byBuffer ob" ob _ freed_array] store_view_same [OF assms])

lemma freed_own:
  assumes "h a = Some ob" and "h (m_pData ob) = None"
  shows "GetData_at a h = Inr (own_byBuffer ob)"
    and "method_at (\<lambda>m. Inr ((), Game_SetPos m p)) a h = Inr ((), h(a \<mapsto> ob\<lparr>own_iPos := p\<rparr>))"
  using assms
  by (simp_all add: method_at_freed [OF assms] game_same GetData_at_def SetPos_def store_view_def message_of_def)

lemma freed_CheckPut:
  assumes "h a = Some ob" and "h (m_pData ob) = None"
  shows "method_at (\<lambda>m. rbind (Game_CheckPut m n) (\<lambda>b. Inr (b, m))) a h =
     rbind (Game_CheckPut (message_of (own_byBuffer ob) ob) n) (\<lambda>b. Inr (b, h))"
  using CheckPut_cases [of "message_of freed_array ob" n]
  by (auto simp: method_at_freed [OF assms] game_same CheckPut_own [of "own_byBuffer ob" ob n freed_array]
      store_view_same [OF assms])

section \<open>Properties\<close>

text \<open>
  The copies that \<open>DealMsg\<close> makes do no harm as long as the received
  objects are alive. Each copy reads through the pointer of the message it was copied from, and
  as reading writes nothing, handling the messages one copy after the other does what handling
  the messages themselves does, faults included, and leaves all objects as they were.
\<close>

theorem received_copies_read:
  assumes "h hmg = None" and "\<forall>msg \<in> set msgs. view_at h msg = Inr (msg_of msg)"
    and "RecvMsgFromServer ue w = (map msg_of msgs, w1)"
  shows "heap_deal_loop ue l jk junk hmg 0 msgs (h, w1) =
    rbind (NetLogic_DealMsg ue jk (l, w)) (\<lambda>w'. Inr (w', h))"
  using heap_deal_loop_view [of h hmg, OF assms(1,2)] assms(3) by (simp add: NetLogic_DealMsg_def)

text \<open>One received message, in an object that points at itself.\<close>

definition received_object :: Object where
  "received_object = \<lparr>own_byBuffer = splice \<lparr>buf_size = 4096, buf_at = (\<lambda>_. 0)\<rparr> 0 [19, 0, 1, 0x20, 4, 0, 0, 0, 0, 3],
     m_pData = 1, own_iPos = 0, own_iDataUseSize = 10, own_iSessionID = 0, own_DynmicCode = 0\<rparr>"

definition received_message :: HMessage where
  "received_message = \<lparr>m_byBuffer = own_byBuffer received_object, m_iPos = 0, m_iDataUseSize = 10,
     HMessage.m_iSessionID = 0, HMessage.m_DynmicCode = 0\<rparr>"

definition receiving_engine :: "string list engine" where
  "receiving_engine = demo_engine\<lparr>RecvMsgFromServer := (\<lambda>w. ([received_message], w))\<rparr>"

theorem received_copies_read_witness:
  "\<forall>l jk junk. heap_deal_loop receiving_engine l jk junk 9 0 [1] ([1 \<mapsto> received_object], []) =
     rbind (NetLogic_DealMsg receiving_engine jk (l, [])) (\<lambda>w'. Inr (w', [1 \<mapsto> received_object]))"
proof (intro allI)
  fix l jk junk
  show "heap_deal_loop receiving_engine l jk junk 9 0 [1] ([1 \<mapsto> received_object], []) =
     rbind (NetLogic_DealMsg receiving_engine jk (l, [])) (\<lambda>w'. Inr (w', [1 \<mapsto> received_object]))"
    by (rule received_copies_read [where msg_of = "\<lambda>_. received_message"])
       (simp_all add: receiving_engine_def view_at_def message_of_def received_message_def received_object_def)
qed

text \<open>
  C20: A vector in which messages were constructed is not safe to grow. When it moves
  its elements, every copy still points at the array of the element it replaces, which is gone.
  On each of the moved messages every method that reads, and \<open>GetPosition\<close>, uses memory that was
  freed, and so does every put of a number or a string that \<open>CheckPut\<close> lets through; a put that
  \<open>CheckPut\<close> refuses still returns false, and \<open>GetData\<close>, \<open>SetPos\<close> and \<open>CheckPut\<close>, which do not
  follow the pointer, do what they did before.
\<close>

theorem grown_vector_dangles:
  assumes "\<forall>(old, new) \<in> set ms. \<exists>ob. h old = Some ob \<and> m_pData ob = old"
    and "distinct (map snd ms)" and "set (map fst ms) \<inter> set (map snd ms) = {}"
  shows "\<exists>h'. grow ms h = Inr h' \<and> (\<forall>(old, new) \<in> set ms. \<exists>ob. h' new = Some ob \<and> h old = Some ob \<and>
     method_at Game_getUShort new h' = Inl UseAfterFree \<and> method_at Game_getUInt new h' = Inl UseAfterFree \<and>
     method_at Game_getByte new h' = Inl UseAfterFree \<and> method_at Game_getString new h' = Inl UseAfterFree \<and>
     method_at Game_GetPosition new h' = Inl UseAfterFree \<and>
     method_at (\<lambda>m. Game_putChar m c) new h' = freed_put 1 ob h' \<and>
     method_at (\<lambda>m. Game_putUShort m u) new h' = freed_put 2 ob h' \<and>
     method_at (\<lambda>m. Game_putUInt m v) new h' = freed_put 4 ob h' \<and>
     method_at (\<lambda>m. Game_putString m s) new h' = freed_put 2 ob h' \<and>
     GetData_at new h' = Inr (own_byBuffer ob) \<and>
     method_at (\<lambda>m. Inr ((), Game_SetPos m p)) new h' = Inr ((), h'(new \<mapsto> ob\<lparr>own_iPos := p\<rparr>)) \<and>
     method_at (\<lambda>m. rbind (Game_CheckPut m n) (\<lambda>b. Inr (b, m))) new h' =
       rbind (Game_CheckPut (message_of (own_byBuffer ob) ob) n) (\<lambda>b. Inr (b, h')))"
proof -
  have "\<forall>(old, new) \<in> set ms. h old \<noteq> None" using assms(1) by fastforce
  then obtain h1 where h1: "relocate ms h = Inr h1" "\<forall>(old, new) \<in> set ms. h1 new = h old"
    using relocate_copies [OF _ assms(2,3)] by blast
  let ?h' = "destroy_all (map fst ms) h1"
  have moved: "\<exists>ob. ?h' new = Some ob \<and> h old = Some ob \<and> ?h' (m_pData ob) = None"
    if m: "(old, new) \<in> set ms" for old new
  proof -
    obtain ob where ob: "h old = Some ob" "m_pData ob = old" using assms(1) m by auto
    have "old \<in> set (map fst ms)" "new \<in> set (map snd ms)" using m by force+
    then have "new \<notin> set (map fst ms)" using assms(3) by blast
    then show ?thesis
      using h1(2) m ob \<open>old \<in> set (map fst ms)\<close> by (auto simp: destroy_all_at)
  qed
  then show ?thesis
    using h1(1) freed_gets freed_puts freed_own freed_CheckPut unfolding grow_def
    by (intro exI [of _ ?h']) (fastforce simp del: fun_upd_apply)
qed

theorem grown_vector_dangles_witness:
  "\<exists>h'. grow [(5, 6)] [5 \<mapsto> received_object\<lparr>m_pData := 5\<rparr>] = Inr h' \<and>
     method_at Game_getUInt 6 h' = Inl UseAfterFree \<and>
     method_at (\<lambda>m. Game_putUInt m 7) 6 h' = Inl UseAfterFree"
proof -
  have "\<forall>(old, new) \<in> set [(5, 6)]. \<exists>ob. [5 \<mapsto> received_object\<lparr>m_pData := 5\<rparr>] old = Some ob \<and> m_pData ob = old"
    by simp
  from grown_vector_dangles [OF this, where v = 7] obtain h' ob where
    g: "grow [(5, 6)] [5 \<mapsto> received_object\<lparr>m_pData := 5\<rparr>] = Inr h'"
      "method_at Game_getUInt 6 h' = Inl UseAfterFree" and
    p: "method_at (\<lambda>m. Game_putUInt m 7) 6 h' = freed_put 4 ob h'" and
    ob: "[5 \<mapsto> received_object\<lparr>m_pData := 5\<rparr>] (5 :: nat) = Some ob"
    by (simp del: fun_upd_apply) blast
  from ob have "own_iPos ob = 0" by (auto simp: received_object_def)
  then have "freed_put 4 ob h' = Inl UseAfterFree"
    by (simp add: freed_put_def game_same CheckPut_def int_add_def int32_range_def)
  with g p show ?thesis by auto
qed

end
