(* ===== verification/Player_Character.thy ===== *)
theory Player_Character
  imports SG_Prelude Complex_Main
begin

text \<open>
  The player's character and the game mode of the client (MyprojectCharacter.h and .cpp,
  MyprojectGameMode.cpp), with the key assignments of Config/DefaultInput.ini. The engine is
  a parameter: a record of functions over a world \<open>'w\<close>. A \<open>float\<close> is a value of a type
  \<open>'f\<close> of which the engine's machine gives the multiplication, the comparison and the
  value of a literal.
\<close>

section \<open>The engine\<close>

record 'f FRotator =
  Pitch :: 'f
  Yaw :: 'f
  Roll :: 'f

record 'f FVector =
  X :: 'f
  Y :: 'f
  Z :: 'f

datatype EAxis = AxisX | AxisY | AxisZ

text \<open>
  \<open>Controller\<close> is null for a pawn nobody has taken over, \<open>GetWorld\<close> outside a world.
  \<open>FRotationMatrix_GetUnitAxis\<close> is an axis of the rotation matrix of a rotator.
\<close>

record ('f, 'c, 'w) pawn_engine =
  f_mul :: "'f \<Rightarrow> 'f \<Rightarrow> 'f"
  f_eq :: "'f \<Rightarrow> 'f \<Rightarrow> bool"
  f_lit :: "rat \<Rightarrow> 'f"
  SpringArm_SocketName :: string
  GetDeltaSeconds :: "'w \<Rightarrow> 'f option"
  Controller :: "'w \<Rightarrow> 'c option"
  GetControlRotation :: "'c \<Rightarrow> 'w \<Rightarrow> 'f FRotator"
  FRotationMatrix_GetUnitAxis :: "'f FRotator \<Rightarrow> EAxis \<Rightarrow> 'f FVector"
  AddMovementInput :: "'f FVector \<Rightarrow> 'f \<Rightarrow> 'w \<Rightarrow> 'w"
  AddControllerYawInput :: "'f \<Rightarrow> 'w \<Rightarrow> 'w"
  AddControllerPitchInput :: "'f \<Rightarrow> 'w \<Rightarrow> 'w"
  Jump :: "'w \<Rightarrow> 'w"
  StopJumping :: "'w \<Rightarrow> 'w"
  ResetOrientationAndPosition :: "'w \<Rightarrow> 'w"

section \<open>The class\<close>

text \<open>What a component is attached to: nothing yet, or another component and its socket.\<close>

datatype component = RootComponent | CameraBoomComponent

type_synonym attachment = "(component \<times> string) option"

record 'f USpringArmComponent =
  arm_AttachParent :: attachment
  TargetArmLength :: 'f
  arm_bUsePawnControlRotation :: bool

record 'f UCameraComponent =
  cam_AttachParent :: attachment
  cam_bUsePawnControlRotation :: bool

text \<open>
  The fields of the class, and the inherited ones that its constructor sets. The others keep
  the values of the base class's constructor.
\<close>

record 'f AMyprojectCharacter =
  CapsuleRadius :: 'f
  CapsuleHalfHeight :: 'f
  BaseTurnRate :: 'f
  BaseLookUpRate :: 'f
  bUseControllerRotationPitch :: bool
  bUseControllerRotationYaw :: bool
  bUseControllerRotationRoll :: bool
  bOrientRotationToMovement :: bool
  RotationRate :: "'f FRotator"
  JumpZVelocity :: 'f
  AirControl :: 'f
  CameraBoom :: "'f USpringArmComponent"
  FollowCamera :: "'f UCameraComponent"

text \<open>
  The constructor, over the object \<open>base\<close> the base class's constructor left, and the fresh
  components \<open>arm\<close> and \<open>cam\<close> the engine creates.
\<close>

definition AMyprojectCharacter_new ::
  "('f, 'c, 'w) pawn_engine \<Rightarrow> 'f USpringArmComponent \<Rightarrow> 'f UCameraComponent \<Rightarrow>
   'f AMyprojectCharacter \<Rightarrow> 'f AMyprojectCharacter" where
  "AMyprojectCharacter_new ue arm cam base =
     base\<lparr>CapsuleRadius := f_lit ue 42, CapsuleHalfHeight := f_lit ue 96,
          BaseTurnRate := f_lit ue 45, BaseLookUpRate := f_lit ue 45,
          bUseControllerRotationPitch := False, bUseControllerRotationYaw := False,
          bUseControllerRotationRoll := False,
          bOrientRotationToMovement := True,
          RotationRate := \<lparr>Pitch = f_lit ue 0, Yaw = f_lit ue 540, Roll = f_lit ue 0\<rparr>,
          JumpZVelocity := f_lit ue 600, AirControl := f_lit ue (2 / 10),
          CameraBoom := arm\<lparr>arm_AttachParent := Some (RootComponent, []),
                            TargetArmLength := f_lit ue 300, arm_bUsePawnControlRotation := True\<rparr>,
          FollowCamera := cam\<lparr>cam_AttachParent := Some (CameraBoomComponent, SpringArm_SocketName ue),
                              cam_bUsePawnControlRotation := False\<rparr>\<rparr>"

definition GetCameraBoom :: "'f AMyprojectCharacter \<Rightarrow> 'f USpringArmComponent" where
  "GetCameraBoom ch = CameraBoom ch"

definition GetFollowCamera :: "'f AMyprojectCharacter \<Rightarrow> 'f UCameraComponent" where
  "GetFollowCamera ch = FollowCamera ch"

section \<open>The input handlers\<close>

definition OnResetVR :: "('f, 'c, 'w) pawn_engine \<Rightarrow> 'w \<Rightarrow> 'w" where
  "OnResetVR ue w = ResetOrientationAndPosition ue w"

definition TouchStarted :: "('f, 'c, 'w) pawn_engine \<Rightarrow> nat \<Rightarrow> 'f FVector \<Rightarrow> 'w \<Rightarrow> 'w" where
  "TouchStarted ue FingerIndex Location w = Jump ue w"

definition TouchStopped :: "('f, 'c, 'w) pawn_engine \<Rightarrow> nat \<Rightarrow> 'f FVector \<Rightarrow> 'w \<Rightarrow> 'w" where
  "TouchStopped ue FingerIndex Location w = StopJumping ue w"

definition TurnAtRate :: "('f, 'c, 'w) pawn_engine \<Rightarrow> 'f AMyprojectCharacter \<Rightarrow> 'f \<Rightarrow> 'w \<Rightarrow> 'w res" where
  "TurnAtRate ue ch Rate w =
     (case GetDeltaSeconds ue w of
        None \<Rightarrow> Inl NullPointer
      | Some dt \<Rightarrow> Inr (AddControllerYawInput ue (f_mul ue (f_mul ue Rate (BaseTurnRate ch)) dt) w))"

definition LookUpAtRate :: "('f, 'c, 'w) pawn_engine \<Rightarrow> 'f AMyprojectCharacter \<Rightarrow> 'f \<Rightarrow> 'w \<Rightarrow> 'w res" where
  "LookUpAtRate ue ch Rate w =
     (case GetDeltaSeconds ue w of
        None \<Rightarrow> Inl NullPointer
      | Some dt \<Rightarrow> Inr (AddControllerPitchInput ue (f_mul ue (f_mul ue Rate (BaseLookUpRate ch)) dt) w))"

definition MoveForward :: "('f, 'c, 'w) pawn_engine \<Rightarrow> 'f \<Rightarrow> 'w \<Rightarrow> 'w" where
  "MoveForward ue Value w =
     (case Controller ue w of
        None \<Rightarrow> w
      | Some c \<Rightarrow>
          if f_eq ue Value (f_lit ue 0) then w
          else let Rotation = GetControlRotation ue c w;
                   YawRotation = \<lparr>Pitch = f_lit ue 0, Yaw = Yaw Rotation, Roll = f_lit ue 0\<rparr>;
                   Direction = FRotationMatrix_GetUnitAxis ue YawRotation AxisX
               in AddMovementInput ue Direction Value w)"

definition MoveRight :: "('f, 'c, 'w) pawn_engine \<Rightarrow> 'f \<Rightarrow> 'w \<Rightarrow> 'w" where
  "MoveRight ue Value w =
     (case Controller ue w of
        None \<Rightarrow> w
      | Some c \<Rightarrow>
          if f_eq ue Value (f_lit ue 0) then w
          else let Rotation = GetControlRotation ue c w;
                   YawRotation = \<lparr>Pitch = f_lit ue 0, Yaw = Yaw Rotation, Roll = f_lit ue 0\<rparr>;
                   Direction = FRotationMatrix_GetUnitAxis ue YawRotation AxisY
               in AddMovementInput ue Direction Value w)"

section \<open>The bindings\<close>

text \<open>The member functions that are bound, by name.\<close>

datatype EInputEvent = IE_Pressed | IE_Released

datatype action_handler = Bound_Jump | Bound_StopJumping | Bound_OnResetVR

datatype axis_handler =
    Bound_MoveForward
  | Bound_MoveRight
  | Bound_AddControllerYawInput
  | Bound_TurnAtRate
  | Bound_AddControllerPitchInput
  | Bound_LookUpAtRate

datatype touch_handler = Bound_TouchStarted | Bound_TouchStopped

record UInputComponent =
  ActionBindings :: "(string \<times> EInputEvent \<times> action_handler) list"
  AxisBindings :: "(string \<times> axis_handler) list"
  TouchBindings :: "(EInputEvent \<times> touch_handler) list"

definition BindAction :: "string \<Rightarrow> EInputEvent \<Rightarrow> action_handler \<Rightarrow> UInputComponent \<Rightarrow> UInputComponent" where
  "BindAction n e f ic = ic\<lparr>ActionBindings := ActionBindings ic @ [(n, e, f)]\<rparr>"

definition BindAxis :: "string \<Rightarrow> axis_handler \<Rightarrow> UInputComponent \<Rightarrow> UInputComponent" where
  "BindAxis n f ic = ic\<lparr>AxisBindings := AxisBindings ic @ [(n, f)]\<rparr>"

definition BindTouch :: "EInputEvent \<Rightarrow> touch_handler \<Rightarrow> UInputComponent \<Rightarrow> UInputComponent" where
  "BindTouch e f ic = ic\<lparr>TouchBindings := TouchBindings ic @ [(e, f)]\<rparr>"

text \<open>\<open>check\<close> stops the program on a null component.\<close>

definition SetupPlayerInputComponent :: "UInputComponent option \<Rightarrow> UInputComponent res" where
  "SetupPlayerInputComponent PlayerInputComponent =
     (case PlayerInputComponent of
        None \<Rightarrow> Inl NullPointer
      | Some ic0 \<Rightarrow>
          let ic1 = BindAction ''Jump'' IE_Pressed Bound_Jump ic0;
              ic2 = BindAction ''Jump'' IE_Released Bound_StopJumping ic1;
              ic3 = BindAxis ''MoveForward'' Bound_MoveForward ic2;
              ic4 = BindAxis ''MoveRight'' Bound_MoveRight ic3;
              ic5 = BindAxis ''Turn'' Bound_AddControllerYawInput ic4;
              ic6 = BindAxis ''TurnRate'' Bound_TurnAtRate ic5;
              ic7 = BindAxis ''LookUp'' Bound_AddControllerPitchInput ic6;
              ic8 = BindAxis ''LookUpRate'' Bound_LookUpAtRate ic7;
              ic9 = BindTouch IE_Pressed Bound_TouchStarted ic8;
              ic10 = BindTouch IE_Released Bound_TouchStopped ic9
          in Inr (BindAction ''ResetVR'' IE_Pressed Bound_OnResetVR ic10))"

text \<open>The assignments of DefaultInput.ini: the name, the key, and the scale of an axis.\<close>

definition ActionMappings :: "(string \<times> string) list" where
  "ActionMappings = [(''Jump'', ''SpaceBar''), (''GunFire'', ''LeftMouseButton''), (''AimSight'', ''Tab'')]"

definition AxisMappings :: "(string \<times> string \<times> int) list" where
  "AxisMappings =
     [(''MoveForward'', ''W'', 1), (''MoveForward'', ''S'', - 1), (''MoveForward'', ''Up'', 1),
      (''MoveForward'', ''Down'', - 1), (''MoveRight'', ''A'', - 1), (''MoveRight'', ''D'', 1),
      (''Turn'', ''MouseX'', 1), (''LookUp'', ''MouseY'', - 1)]"

text \<open>The call of a bound member function.\<close>

fun call_action :: "('f, 'c, 'w) pawn_engine \<Rightarrow> action_handler \<Rightarrow> 'w \<Rightarrow> 'w" where
  "call_action ue Bound_Jump w = Jump ue w"
| "call_action ue Bound_StopJumping w = StopJumping ue w"
| "call_action ue Bound_OnResetVR w = OnResetVR ue w"

fun call_axis ::
  "('f, 'c, 'w) pawn_engine \<Rightarrow> 'f AMyprojectCharacter \<Rightarrow> axis_handler \<Rightarrow> 'f \<Rightarrow> 'w \<Rightarrow> 'w res" where
  "call_axis ue ch Bound_MoveForward v w = Inr (MoveForward ue v w)"
| "call_axis ue ch Bound_MoveRight v w = Inr (MoveRight ue v w)"
| "call_axis ue ch Bound_AddControllerYawInput v w = Inr (AddControllerYawInput ue v w)"
| "call_axis ue ch Bound_TurnAtRate v w = TurnAtRate ue ch v w"
| "call_axis ue ch Bound_AddControllerPitchInput v w = Inr (AddControllerPitchInput ue v w)"
| "call_axis ue ch Bound_LookUpAtRate v w = LookUpAtRate ue ch v w"

fun call_touch ::
  "('f, 'c, 'w) pawn_engine \<Rightarrow> touch_handler \<Rightarrow> nat \<Rightarrow> 'f FVector \<Rightarrow> 'w \<Rightarrow> 'w" where
  "call_touch ue Bound_TouchStarted i v w = TouchStarted ue i v w"
| "call_touch ue Bound_TouchStopped i v w = TouchStopped ue i v w"

definition axis_handlers :: "UInputComponent \<Rightarrow> string \<Rightarrow> axis_handler list" where
  "axis_handlers ic n = map snd (filter (\<lambda>b. fst b = n) (AxisBindings ic))"

definition action_handlers :: "UInputComponent \<Rightarrow> string \<Rightarrow> EInputEvent \<Rightarrow> action_handler list" where
  "action_handlers ic n e = map (snd \<circ> snd) (filter (\<lambda>b. fst b = n \<and> fst (snd b) = e) (ActionBindings ic))"

definition touch_handlers :: "UInputComponent \<Rightarrow> EInputEvent \<Rightarrow> touch_handler list" where
  "touch_handlers ic e = map snd (filter (\<lambda>b. fst b = e) (TouchBindings ic))"

section \<open>The game mode\<close>

text \<open>
  The constructor looks the class of the player's pawn up by its path; when it is not found
  the base class's choice stays.
\<close>

record 'cls AMyprojectGameMode =
  DefaultPawnClass :: 'cls

definition AMyprojectGameMode_new ::
  "(string \<Rightarrow> 'cls option) \<Rightarrow> 'cls AMyprojectGameMode \<Rightarrow> 'cls AMyprojectGameMode" where
  "AMyprojectGameMode_new FClassFinder base =
     (case FClassFinder ''/Game/ThirdPersonCPP/Blueprints/ThirdPersonCharacter'' of
        None \<Rightarrow> base
      | Some cls \<Rightarrow> base\<lparr>DefaultPawnClass := cls\<rparr>)"

section \<open>Lemmas\<close>

lemmas setup_defs = SetupPlayerInputComponent_def Let_def BindAction_def BindAxis_def BindTouch_def

lemma setup_bindings:
  "SetupPlayerInputComponent (Some ic0) = Inr
     \<lparr>ActionBindings = ActionBindings ic0 @ [(''Jump'', IE_Pressed, Bound_Jump),
        (''Jump'', IE_Released, Bound_StopJumping), (''ResetVR'', IE_Pressed, Bound_OnResetVR)],
      AxisBindings = AxisBindings ic0 @ [(''MoveForward'', Bound_MoveForward),
        (''MoveRight'', Bound_MoveRight), (''Turn'', Bound_AddControllerYawInput),
        (''TurnRate'', Bound_TurnAtRate), (''LookUp'', Bound_AddControllerPitchInput),
        (''LookUpRate'', Bound_LookUpAtRate)],
      TouchBindings = TouchBindings ic0 @ [(IE_Pressed, Bound_TouchStarted), (IE_Released, Bound_TouchStopped)],
      \<dots> = UInputComponent.more ic0\<rparr>"
  by (simp add: setup_defs)

text \<open>
  The horizontal direction at an angle, in degrees, from the x axis towards the y axis; and the
  rotation matrix of the engine for a rotation about the vertical axis, in real numbers: its x
  axis is the direction at the yaw, its y axis the one at 90 degrees more.
\<close>

definition heading :: "real \<Rightarrow> real FVector" where
  "heading angle = \<lparr>X = cos (angle * pi / 180), Y = sin (angle * pi / 180), Z = 0\<rparr>"

definition yaw_rotation :: "(real, 'c, 'w) pawn_engine \<Rightarrow> bool" where
  "yaw_rotation ue \<longleftrightarrow> (\<forall>yaw.
     FRotationMatrix_GetUnitAxis ue \<lparr>Pitch = f_lit ue 0, Yaw = yaw, Roll = f_lit ue 0\<rparr> AxisX =
       \<lparr>X = cos (yaw * pi / 180), Y = sin (yaw * pi / 180), Z = 0\<rparr> \<and>
     FRotationMatrix_GetUnitAxis ue \<lparr>Pitch = f_lit ue 0, Yaw = yaw, Roll = f_lit ue 0\<rparr> AxisY =
       \<lparr>X = - sin (yaw * pi / 180), Y = cos (yaw * pi / 180), Z = 0\<rparr>)"

lemma yaw_rotation_heading:
  assumes "yaw_rotation ue"
  shows "FRotationMatrix_GetUnitAxis ue \<lparr>Pitch = f_lit ue 0, Yaw = yaw, Roll = f_lit ue 0\<rparr> AxisX = heading yaw"
    and "FRotationMatrix_GetUnitAxis ue \<lparr>Pitch = f_lit ue 0, Yaw = yaw, Roll = f_lit ue 0\<rparr> AxisY = heading (yaw + 90)"
proof -
  have r: "(yaw + 90) * pi / 180 = yaw * pi / 180 + pi / 2" by (simp add: field_simps)
  show "FRotationMatrix_GetUnitAxis ue \<lparr>Pitch = f_lit ue 0, Yaw = yaw, Roll = f_lit ue 0\<rparr> AxisY = heading (yaw + 90)"
    unfolding heading_def r using assms by (simp add: yaw_rotation_def cos_add sin_add)
qed (use assms in \<open>simp add: heading_def yaw_rotation_def\<close>)

text \<open>Only the yaw of the view counts.\<close>

lemma moves_tilted:
  assumes "\<And>c. Yaw (rot c w) = Yaw (GetControlRotation ue c w)"
  shows "MoveForward (ue\<lparr>GetControlRotation := rot\<rparr>) v w = MoveForward ue v w"
    and "MoveRight (ue\<lparr>GetControlRotation := rot\<rparr>) v w = MoveRight ue v w"
  using assms by (simp_all add: MoveForward_def MoveRight_def Let_def split: option.splits)

section \<open>Properties\<close>

text \<open>
  C31: Where the character goes, in real arithmetic and with the rotation matrix of the engine
  for a rotation about the vertical axis. With a controller and an input that is not zero,
  \<open>MoveForward\<close> adds one movement of the size of the input in the horizontal direction of the
  view's yaw and \<open>MoveRight\<close> one at 90 degrees to it, to the right; without a controller or with
  a zero input neither does anything. Looking up or down, or rolling the view, changes neither.
\<close>

theorem movement_follows_yaw:
  assumes "yaw_rotation ue"
  shows "(\<forall>c. Controller ue w = Some c \<and> \<not> f_eq ue v (f_lit ue 0) \<longrightarrow>
       MoveForward ue v w = AddMovementInput ue (heading (Yaw (GetControlRotation ue c w))) v w \<and>
       MoveRight ue v w = AddMovementInput ue (heading (Yaw (GetControlRotation ue c w) + 90)) v w) \<and>
     (Controller ue w = None \<or> f_eq ue v (f_lit ue 0) \<longrightarrow> MoveForward ue v w = w \<and> MoveRight ue v w = w) \<and>
     ((\<forall>c. Yaw (rot c w) = Yaw (GetControlRotation ue c w)) \<longrightarrow>
       MoveForward (ue\<lparr>GetControlRotation := rot\<rparr>) v w = MoveForward ue v w \<and>
       MoveRight (ue\<lparr>GetControlRotation := rot\<rparr>) v w = MoveRight ue v w)"
  using moves_tilted [of rot w ue v]
  by (auto simp: MoveForward_def MoveRight_def yaw_rotation_heading [OF assms] split: option.split)

text \<open>
  An engine whose world is the list of the movements, with the matrix of a rotator in real
  numbers and a view that looks 30 degrees up and 90 degrees to the right.
\<close>

definition rotation_axis :: "real FRotator \<Rightarrow> EAxis \<Rightarrow> real FVector" where
  "rotation_axis r ax =
     (let sp = sin (Pitch r * pi / 180); cp = cos (Pitch r * pi / 180);
          sy = sin (Yaw r * pi / 180); cy = cos (Yaw r * pi / 180);
          sr = sin (Roll r * pi / 180); cr = cos (Roll r * pi / 180)
      in case ax of
           AxisX \<Rightarrow> \<lparr>X = cp * cy, Y = cp * sy, Z = sp\<rparr>
         | AxisY \<Rightarrow> \<lparr>X = sr * sp * cy - cr * sy, Y = sr * sp * sy + cr * cy, Z = - (sr * cp)\<rparr>
         | AxisZ \<Rightarrow> \<lparr>X = - (cr * sp * cy + sr * sy), Y = cy * sr - cr * sp * sy, Z = cr * cp\<rparr>)"

definition demo_pawn :: "(real, unit, (real FVector \<times> real) list) pawn_engine" where
  "demo_pawn = \<lparr>f_mul = (*), f_eq = (=), f_lit = of_rat, SpringArm_SocketName = [],
     GetDeltaSeconds = (\<lambda>w. Some 1), Controller = (\<lambda>w. Some ()),
     GetControlRotation = (\<lambda>c w. \<lparr>Pitch = 30, Yaw = 90, Roll = 0\<rparr>),
     FRotationMatrix_GetUnitAxis = rotation_axis,
     AddMovementInput = (\<lambda>d v w. w @ [(d, v)]),
     AddControllerYawInput = (\<lambda>v w. w), AddControllerPitchInput = (\<lambda>v w. w),
     Jump = id, StopJumping = id, ResetOrientationAndPosition = id\<rparr>"

lemma demo_pawn_rotation: "yaw_rotation demo_pawn"
  by (simp add: yaw_rotation_def demo_pawn_def rotation_axis_def)

theorem movement_follows_yaw_witness:
  "MoveForward demo_pawn 2 [] = [(\<lparr>X = 0, Y = 1, Z = 0\<rparr>, 2)] \<and>
   MoveRight demo_pawn 2 [] = [(\<lparr>X = - 1, Y = 0, Z = 0\<rparr>, 2)]"
proof -
  have "MoveForward demo_pawn 2 [] = [(heading 90, 2)]" "MoveRight demo_pawn 2 [] = [(heading (90 + 90), 2)]"
    using movement_follows_yaw [OF demo_pawn_rotation, of "[]" 2] by (simp_all add: demo_pawn_def)
  then show ?thesis by (simp add: heading_def)
qed

text \<open>
  How the bindings of the character and the key assignments of the project fit
  together. Every axis that has a key runs exactly one function of the character, and pressing
  and releasing the jump key, or a finger, runs one function each. The names GunFire and
  AimSight have a key and no function here; TurnRate, LookUpRate and ResetVR have a function and
  no key.
\<close>

theorem input_wiring:
  assumes "SetupPlayerInputComponent (Some ic0) = Inr ic"
    and "ActionBindings ic0 = []" and "AxisBindings ic0 = []" and "TouchBindings ic0 = []"
  shows "(\<forall>(n, key, scale) \<in> set AxisMappings. length (axis_handlers ic n) = 1) \<and>
    action_handlers ic ''Jump'' IE_Pressed = [Bound_Jump] \<and>
    action_handlers ic ''Jump'' IE_Released = [Bound_StopJumping] \<and>
    (\<forall>e. length (touch_handlers ic e) = 1) \<and>
    {n \<in> fst ` set ActionMappings. \<forall>e. action_handlers ic n e = []} = {''GunFire'', ''AimSight''} \<and>
    {n \<in> fst ` set (AxisBindings ic). n \<notin> fst ` set AxisMappings} = {''TurnRate'', ''LookUpRate''} \<and>
    {n \<in> fst ` set (ActionBindings ic). n \<notin> fst ` set ActionMappings} = {''ResetVR''}"
proof -
  have b: "ActionBindings ic = [(''Jump'', IE_Pressed, Bound_Jump),
        (''Jump'', IE_Released, Bound_StopJumping), (''ResetVR'', IE_Pressed, Bound_OnResetVR)]"
    "AxisBindings ic = [(''MoveForward'', Bound_MoveForward),
        (''MoveRight'', Bound_MoveRight), (''Turn'', Bound_AddControllerYawInput),
        (''TurnRate'', Bound_TurnAtRate), (''LookUp'', Bound_AddControllerPitchInput),
        (''LookUpRate'', Bound_LookUpAtRate)]"
    "TouchBindings ic = [(IE_Pressed, Bound_TouchStarted), (IE_Released, Bound_TouchStopped)]"
    using assms by (auto simp: setup_bindings)
  have "length (touch_handlers ic e) = 1" for e
    by (cases e) (simp_all add: touch_handlers_def b)
  then show ?thesis
    by (auto simp: b axis_handlers_def action_handlers_def AxisMappings_def ActionMappings_def)
qed

definition no_bindings :: UInputComponent where
  "no_bindings = \<lparr>ActionBindings = [], AxisBindings = [], TouchBindings = []\<rparr>"

theorem input_wiring_witness:
  "\<exists>ic. SetupPlayerInputComponent (Some no_bindings) = Inr ic \<and>
     {n \<in> fst ` set (AxisBindings ic). n \<notin> fst ` set AxisMappings} = {''TurnRate'', ''LookUpRate''}"
proof -
  obtain ic where ic: "SetupPlayerInputComponent (Some no_bindings) = Inr ic"
    by (simp add: setup_bindings)
  from input_wiring [OF this] show ?thesis
    using ic by (intro exI [of _ ic]) (simp add: no_bindings_def)
qed

end
