(* ===== verification/Sql_Pipeline.thy ===== *)
theory Sql_Pipeline
  imports Msg_Logic
begin

text \<open>
  The way of a request through the database: the main thread queues it (\<open>AddWaitNode\<close>), the
  database thread works it off (\<open>DBSqlThread::run\<close>), the main thread collects it and sends the
  answer (\<open>MsgLogic::DealSqlMsg\<close>). The three threads of the server are a step relation whose
  steps are cut where a lock is taken or released and between two requests, so that every
  interleaving the two mutexes allow is a run.
\<close>

section \<open>The threads\<close>

text \<open>
  The database thread is between two rounds, holds the nodes it has taken without a lock, or
  works them off with \<open>m_vecWriteFinishLock\<close> held.
\<close>

datatype db_phase = DbIdle | DbTaken "wait_node list" | DbServing "wait_node list"

text \<open>
  \<open>pl_at\<close> is where the main thread is: outside \<open>DealSqlMsg\<close>, or in its loop about to handle
  node \<open>i\<close>. \<open>pl_posted\<close> and \<open>pl_answered\<close> are histories.
\<close>

record 'w pipeline =
  pl_db :: DBSqlThread
  pl_phase :: db_phase
  pl_servers :: "ServerData list"
  pl_world :: 'w
  pl_logic :: MsgLogic
  pl_at :: "nat option"
  pl_cache :: DBMS
  pl_net :: MyZServerNetwork
  pl_posted :: "wait_node list"
  pl_answered :: "wait_node list"

definition serving :: "db_phase \<Rightarrow> bool" where
  "serving ph \<longleftrightarrow> (case ph of DbServing _ \<Rightarrow> True | _ \<Rightarrow> False)"

inductive pipeline_step ::
  "'w mysql \<Rightarrow> string \<Rightarrow> (nat \<Rightarrow> u8 list \<Rightarrow> bool) \<Rightarrow> 'w pipeline \<Rightarrow> 'w pipeline \<Rightarrow> bool"
  for api charset wr where
  post: "pl_at s = None \<Longrightarrow>
     pipeline_step api charset wr s (s\<lparr>pl_db := AddWaitNode (pl_db s) n, pl_posted := pl_posted s @ [n]\<rparr>)"
| take_nodes: "pl_phase s = DbIdle \<Longrightarrow> TakeWaiting (pl_db s) = (tmp, t') \<Longrightarrow>
     pipeline_step api charset wr s (s\<lparr>pl_db := t', pl_phase := DbTaken tmp\<rparr>)"
| lock: "pl_phase s = DbTaken tmp \<Longrightarrow>
     pipeline_step api charset wr s (s\<lparr>pl_phase := DbServing tmp\<rparr>)"
| serve: "pl_phase s = DbServing (n # ns) \<Longrightarrow>
     DoDBSql api charset junk n (pl_servers s, m_dbSqlThreadConnect (pl_db s), pl_world s) =
       Inr (n', svs', db', w') \<Longrightarrow>
     pipeline_step api charset wr s (s\<lparr>pl_db := FinishNode ((pl_db s)\<lparr>m_dbSqlThreadConnect := db'\<rparr>) n',
       pl_phase := DbServing ns, pl_servers := svs', pl_world := w'\<rparr>)"
| unlock: "pl_phase s = DbServing [] \<Longrightarrow>
     pipeline_step api charset wr s (s\<lparr>pl_phase := DbIdle\<rparr>)"
| collect: "pl_at s = None \<Longrightarrow> \<not> serving (pl_phase s) \<Longrightarrow> GetFinishDBWait (pl_db s) = (ns, t') \<Longrightarrow>
     pipeline_step api charset wr s (s\<lparr>pl_db := t',
       pl_logic := (pl_logic s)\<lparr>m_vecAllFinishWaitNode := ns\<rparr>, pl_at := Some 0\<rparr>)"
| answer: "pl_at s = Some i \<Longrightarrow> i < length (m_vecAllFinishWaitNode (pl_logic s)) \<Longrightarrow>
     DoLogic wr j now (pl_servers s) (m_vecAllFinishWaitNode (pl_logic s) ! i) (pl_cache s, pl_net s) =
       Inr (cache', net') \<Longrightarrow>
     pipeline_step api charset wr s (s\<lparr>pl_cache := cache', pl_net := net', pl_at := Some (Suc i),
       pl_answered := pl_answered s @ [m_vecAllFinishWaitNode (pl_logic s) ! i]\<rparr>)"
| finish: "pl_at s = Some i \<Longrightarrow> length (m_vecAllFinishWaitNode (pl_logic s)) \<le> i \<Longrightarrow>
     pipeline_step api charset wr s (s\<lparr>pl_logic := (pl_logic s)\<lparr>m_vecAllFinishWaitNode := []\<rparr>, pl_at := None\<rparr>)"
| network: "net_step (pl_net s) net' \<Longrightarrow>
     pipeline_step api charset wr s (s\<lparr>pl_net := net'\<rparr>)"

definition pipeline_start ::
  "DBConnect \<Rightarrow> ServerData list \<Rightarrow> 'w \<Rightarrow> MsgLogic \<Rightarrow> DBMS \<Rightarrow> MyZServerNetwork \<Rightarrow> 'w pipeline" where
  "pipeline_start db svs w logic cache net =
     \<lparr>pl_db = \<lparr>m_vecWrite = [], m_vecWriteFinish = [], m_dbSqlThreadConnect = db\<rparr>, pl_phase = DbIdle,
      pl_servers = svs, pl_world = w, pl_logic = logic, pl_at = None, pl_cache = cache, pl_net = net,
      pl_posted = [], pl_answered = []\<rparr>"

section \<open>No request is lost\<close>

text \<open>The nodes the database has yet to work off, and those it has, oldest first.\<close>

fun held :: "db_phase \<Rightarrow> wait_node list" where
  "held DbIdle = []"
| "held (DbTaken ns) = ns"
| "held (DbServing ns) = ns"

definition undone :: "'w pipeline \<Rightarrow> wait_node list" where
  "undone s = held (pl_phase s) @ m_vecWrite (pl_db s)"

definition collected :: "'w pipeline \<Rightarrow> wait_node list" where
  "collected s = (case pl_at s of None \<Rightarrow> [] | Some i \<Rightarrow> drop i (m_vecAllFinishWaitNode (pl_logic s)))"

definition worked_off :: "'w pipeline \<Rightarrow> wait_node list" where
  "worked_off s = pl_answered s @ collected s @ m_vecWriteFinish (pl_db s)"

definition conserved :: "'w pipeline \<Rightarrow> bool" where
  "conserved s \<longleftrightarrow> (\<exists>ds. pl_posted s = ds @ undone s \<and> list_all2 same_request ds (worked_off s))"

lemmas pipeline_views = undone_def collected_def worked_off_def

lemma conserved_same:
  assumes "conserved s" and "pl_posted s' = pl_posted s" and "undone s' = undone s"
    and "worked_off s' = worked_off s"
  shows "conserved s'"
  using assms by (simp add: conserved_def)

lemma conserved_step: "pipeline_step api charset wr s s' \<Longrightarrow> conserved s \<Longrightarrow> conserved s'"
proof (induction rule: pipeline_step.induct)
  case (post s n)
  then show ?case by (auto simp: conserved_def pipeline_views AddWaitNode_def)
next
  case (take_nodes s tmp t')
  then show ?case
    by (auto intro!: conserved_same [OF take_nodes.prems] simp: pipeline_views TakeWaiting_def split: option.split)
next
  case (lock s tmp)
  then show ?case by (auto intro!: conserved_same [OF lock.prems] simp: pipeline_views split: option.split)
next
  case (serve s n ns junk n' svs' db' w')
  from serve.prems obtain ds where ds: "pl_posted s = ds @ undone s"
    "list_all2 same_request ds (worked_off s)" by (auto simp: conserved_def)
  have "same_request n n'" using serve.hyps(2) by (rule DoDBSql_same)
  moreover have "worked_off (s\<lparr>pl_db := FinishNode ((pl_db s)\<lparr>m_dbSqlThreadConnect := db'\<rparr>) n',
      pl_phase := DbServing ns, pl_servers := svs', pl_world := w'\<rparr>) = worked_off s @ [n']"
    by (simp add: worked_off_def collected_def FinishNode_def split: option.split)
  ultimately show ?case
    using ds serve.hyps(1)
    by (intro conserved_def [THEN iffD2] exI [of _ "ds @ [n]"])
       (simp add: undone_def FinishNode_def list_all2_appendI)
next
  case (unlock s)
  then show ?case by (auto intro!: conserved_same [OF unlock.prems] simp: pipeline_views split: option.split)
next
  case (collect s ns t')
  then show ?case
    by (auto intro!: conserved_same [OF collect.prems] simp: pipeline_views GetFinishDBWait_def split: option.split)
next
  case (answer s i j now cache' net')
  then show ?case
    by (auto intro!: conserved_same [OF answer.prems] simp: pipeline_views Cons_nth_drop_Suc)
next
  case (finish s i)
  then show ?case by (auto intro!: conserved_same [OF finish.prems] simp: pipeline_views split: option.split)
next
  case (network s net')
  then show ?case by (auto intro!: conserved_same [OF network.prems] simp: pipeline_views split: option.split)
qed

lemma conserved_run:
  "(pipeline_step api charset wr)\<^sup>*\<^sup>* s s' \<Longrightarrow> conserved s \<Longrightarrow> conserved s'"
  by (induction rule: rtranclp_induct) (blast intro: conserved_step)+

lemma conserved_start: "conserved (pipeline_start db svs w logic cache net)"
  by (simp add: conserved_def pipeline_views pipeline_start_def)

section \<open>The answers\<close>

definition node_session :: "wait_node \<Rightarrow> int" where
  "node_session n = sint (case n of RegisterNode r \<Rightarrow> m_dwSessionID r | LoginNode l \<Rightarrow> m_dwSessionID l)"

text \<open>What a node that is not a verified login is answered with.\<close>

definition node_wire :: "wait_node \<Rightarrow> u8 list" where
  "node_wire n = (case n of
     RegisterNode r \<Rightarrow> u16_le 15 @ u16_le 0x2001 @ u16_le 2 @
       u32_be (if m_outdata r > 0 then 1 else 2) @ u32_be (word_of_int (m_outdata r)) @ [10]
   | LoginNode _ \<Rightarrow> login_refused_wire)"

lemma DoLogic_form:
  assumes "no_login n"
  shows "\<exists>h h'. send_buffer h = Inr (node_wire n, h') \<and> DoLogic wr j now svs n (c, net) =
     rbind (SendMsgBySessionID wr net (node_session n) h) (\<lambda>(net', _). Inr (c, net'))"
proof (cases n)
  case (RegisterNode r)
  from Register_DoLogic_form [of r wr "junk_register j" "junk_hmsg j" net] obtain h h' where
    "send_buffer h = Inr (node_wire n, h')"
    and "CRegisterWaitNode_DoLogic wr (junk_register j) (junk_hmsg j) r net =
      rbind (SendMsgBySessionID wr net (node_session n) h) (\<lambda>(net', _). Inr net')"
    unfolding node_wire_def node_session_def RegisterNode wait_node.case by blast
  with RegisterNode show ?thesis
    by (auto simp: rbind_assoc case_prod_unfold)
next
  case (LoginNode l)
  with assms Login_DoLogic_form [of l wr "junk_login j" "junk_hmsg j" now svs c net] show ?thesis
    by (simp add: no_login_def node_session_def node_wire_def)
qed

text \<open>
  If such a node is answered at all, its session is live, its answer is the one message written
  to that session's socket, and the cache stays as it was.
\<close>

lemma DoLogic_effect:
  assumes "no_login n" and "DoLogic wr j now svs n (c, net) = Inr (c', net')"
  obtains s where "live net (node_session n) s" and "c' = c"
    and "net' = net\<lparr>written := written net @ [(m_pSocketClient s, node_wire n)]\<rparr>"
proof -
  obtain h h' where h: "send_buffer h = Inr (node_wire n, h')"
    and d: "DoLogic wr j now svs n (c, net) =
      rbind (SendMsgBySessionID wr net (node_session n) h) (\<lambda>(net', _). Inr (c, net'))"
    using DoLogic_form [OF assms(1)] by blast
  from assms(2) d obtain h1 where "SendMsgBySessionID wr net (node_session n) h = Inr (net', h1)" "c' = c"
    by (auto simp: rbind_Inr_iff)
  with SendMsgBySessionID_frame [OF this(1)] h show ?thesis by (auto intro: that)
qed

lemma DoLogic_sends:
  assumes "no_login n" and "live net (node_session n) s" and "wr (m_pSocketClient s) (node_wire n)"
  shows "DoLogic wr j now svs n (c, net) =
     Inr (c, net\<lparr>written := written net @ [(m_pSocketClient s, node_wire n)]\<rparr>)"
proof -
  obtain h h' where h: "send_buffer h = Inr (node_wire n, h')"
    and d: "DoLogic wr j now svs n (c, net) =
      rbind (SendMsgBySessionID wr net (node_session n) h) (\<lambda>(net', _). Inr (c, net'))"
    using DoLogic_form [OF assms(1)] by blast
  show ?thesis
    unfolding d using SendMsgBySessionID_live [OF assms(2) h, of wr] assms(3) by simp
qed

lemma net_step_written: "net_step net net' \<Longrightarrow> written net' = written net"
proof (induction rule: net_step.induct)
  case (accepted s net junk err)
  then show ?case by (simp add: Handle_accept_def AcceptConnect_def Let_def)
next
  case (read_done s net dat junk err net')
  then show ?case
    using Handle_Read_ok [of dat junk s err "net\<lparr>pending_read := remove1 s (pending_read net)\<rparr>"]
    by (auto simp: push_msg_def)
qed

section \<open>No login is accepted\<close>

text \<open>
  What was answered is what was written, one message for one node, and no verified login is on
  its way; the cache and the list of servers are as they were.
\<close>

definition refuses ::
  "DBMS \<Rightarrow> ServerData list \<Rightarrow> (nat \<times> u8 list) list \<Rightarrow> 'w pipeline \<Rightarrow> bool" where
  "refuses cache svs out s \<longleftrightarrow> pl_cache s = cache \<and> pl_servers s = svs \<and>
     list_all no_login (collected s @ m_vecWriteFinish (pl_db s)) \<and>
     (\<exists>ws. written (pl_net s) = out @ ws \<and> list_all2 (\<lambda>n w. snd w = node_wire n) (pl_answered s) ws)"

lemma refuses_start: "refuses cache svs (written net) (pipeline_start db svs w logic cache net)"
  by (simp add: refuses_def pipeline_views pipeline_start_def)

lemma refuses_step:
  assumes "rejects_selsect api"
  shows "pipeline_step api charset wr s s' \<Longrightarrow> refuses cache svs out s \<Longrightarrow> refuses cache svs out s'"
proof (induction rule: pipeline_step.induct)
  case (serve s n ns junk n' svs' db' w')
  from DoDBSql_refused [OF assms serve.hyps(2)] have "no_login n'" "svs' = pl_servers s" by simp_all
  with serve.prems show ?case
    by (auto simp: refuses_def collected_def FinishNode_def split: option.splits)
next
  case (answer s i j now cache' net')
  let ?n = "m_vecAllFinishWaitNode (pl_logic s) ! i"
  have c: "collected s = ?n # drop (Suc i) (m_vecAllFinishWaitNode (pl_logic s))"
    using answer.hyps(1,2) by (simp add: collected_def Cons_nth_drop_Suc)
  with answer.prems have "no_login ?n" by (simp add: refuses_def)
  from this answer.hyps(3) obtain x where "live (pl_net s) (node_session ?n) x" and
    e: "cache' = pl_cache s" "net' = (pl_net s)\<lparr>written := written (pl_net s) @ [(m_pSocketClient x, node_wire ?n)]\<rparr>"
    by (rule DoLogic_effect)
  from answer.prems obtain ws where "written (pl_net s) = out @ ws"
    and "list_all2 (\<lambda>n w. snd w = node_wire n) (pl_answered s) ws" by (auto simp: refuses_def)
  then have "\<exists>ws. written net' = out @ ws \<and>
      list_all2 (\<lambda>n w. snd w = node_wire n) (pl_answered s @ [?n]) ws"
    unfolding e by (intro exI [of _ "ws @ [(m_pSocketClient x, node_wire ?n)]"]) (simp add: list_all2_appendI)
  with answer.prems c e(1) show ?case
    by (simp add: refuses_def) (simp add: collected_def)
next
  case (network s net')
  then show ?case by (auto simp: refuses_def collected_def net_step_written split: option.splits)
qed (auto simp: refuses_def collected_def AddWaitNode_def TakeWaiting_def GetFinishDBWait_def split: option.splits)

lemma refuses_run:
  assumes "rejects_selsect api"
  shows "(pipeline_step api charset wr)\<^sup>*\<^sup>* s s' \<Longrightarrow> refuses cache svs out s \<Longrightarrow> refuses cache svs out s'"
  by (induction rule: rtranclp_induct) (blast intro: refuses_step [OF assms])+

section \<open>A round of each thread\<close>

text \<open>The functions of the sources are runs of the steps, the other threads standing still.\<close>

lemma run_nodes_steps:
  "run_nodes api charset junk ns (pl_db s, pl_servers s, pl_world s) = Inr (t', svs', w') \<Longrightarrow>
   pl_phase s = DbServing ns \<Longrightarrow>
   (pipeline_step api charset wr)\<^sup>*\<^sup>* s
     (s\<lparr>pl_db := t', pl_phase := DbServing [], pl_servers := svs', pl_world := w'\<rparr>)"
proof (induction ns arbitrary: s)
  case Nil
  then have "s\<lparr>pl_db := t', pl_phase := DbServing [], pl_servers := svs', pl_world := w'\<rparr> = s"
    by (cases s) simp
  then show ?case by simp
next
  case (Cons n ns)
  from Cons.prems(1) obtain n' svs1 db w1 where
    d: "DoDBSql api charset junk n (pl_servers s, m_dbSqlThreadConnect (pl_db s), pl_world s) =
      Inr (n', svs1, db, w1)"
    and r: "run_nodes api charset junk ns (FinishNode ((pl_db s)\<lparr>m_dbSqlThreadConnect := db\<rparr>) n', svs1, w1) =
      Inr (t', svs', w')"
    by (auto simp: rbind_Inr_iff)
  let ?s = "s\<lparr>pl_db := FinishNode ((pl_db s)\<lparr>m_dbSqlThreadConnect := db\<rparr>) n', pl_phase := DbServing ns,
     pl_servers := svs1, pl_world := w1\<rparr>"
  have "pipeline_step api charset wr s ?s"
    using Cons.prems(2) d by (rule pipeline_step.serve)
  moreover have "(pipeline_step api charset wr)\<^sup>*\<^sup>* ?s
      (s\<lparr>pl_db := t', pl_phase := DbServing [], pl_servers := svs', pl_world := w'\<rparr>)"
    using Cons.IH [of ?s] r by simp
  ultimately show ?case by (rule converse_rtranclp_into_rtranclp)
qed

lemma db_round_steps:
  assumes "DBSqlThread_run api charset junk (pl_db s, pl_servers s, pl_world s) = Inr (t', svs', w')"
    and "pl_phase s = DbIdle"
  shows "(pipeline_step api charset wr)\<^sup>*\<^sup>* s (s\<lparr>pl_db := t', pl_servers := svs', pl_world := w'\<rparr>)"
proof -
  let ?step = "pipeline_step api charset wr"
  obtain tmp t1 where t1: "TakeWaiting (pl_db s) = (tmp, t1)" by (cases "TakeWaiting (pl_db s)")
  let ?a = "s\<lparr>pl_db := t1, pl_phase := DbTaken tmp\<rparr>"
  let ?b = "?a\<lparr>pl_phase := DbServing tmp\<rparr>"
  let ?c = "?b\<lparr>pl_db := t', pl_phase := DbServing [], pl_servers := svs', pl_world := w'\<rparr>"
  have 1: "?step s ?a" using assms(2) t1 by (rule pipeline_step.take_nodes)
  have 2: "?step ?a ?b" by (rule pipeline_step.lock) simp
  have 3: "?step\<^sup>*\<^sup>* ?b ?c"
    by (rule run_nodes_steps) (use assms(1) t1 in \<open>simp_all add: DBSqlThread_run_def\<close>)
  have 4: "?step ?c (?c\<lparr>pl_phase := DbIdle\<rparr>)" by (rule pipeline_step.unlock) simp
  have "?c\<lparr>pl_phase := DbIdle\<rparr> = s\<lparr>pl_db := t', pl_servers := svs', pl_world := w'\<rparr>"
    using assms(2) by (cases s) simp
  moreover have "?step\<^sup>*\<^sup>* s ?b"
    using r_into_rtranclp [of ?step, OF 1] 2 by (rule rtranclp.rtrancl_into_rtrancl)
  then have "?step\<^sup>*\<^sup>* s ?c" using 3 by (rule rtranclp_trans)
  then have "?step\<^sup>*\<^sup>* s (?c\<lparr>pl_phase := DbIdle\<rparr>)" using 4 by (rule rtranclp.rtrancl_into_rtrancl)
  ultimately show ?thesis by (simp only:)
qed

lemma sql_loop_steps:
  assumes "sql_loop wr lj now (pl_servers s) i (drop i (m_vecAllFinishWaitNode (pl_logic s)))
      (pl_cache s, pl_net s) = Inr (c', net')"
    and "i \<le> length (m_vecAllFinishWaitNode (pl_logic s))" and "pl_at s = Some i"
  shows "(pipeline_step api charset wr)\<^sup>*\<^sup>* s
     (s\<lparr>pl_cache := c', pl_net := net', pl_at := Some (length (m_vecAllFinishWaitNode (pl_logic s))),
        pl_answered := pl_answered s @ drop i (m_vecAllFinishWaitNode (pl_logic s))\<rparr>)"
  using assms
proof (induction "length (m_vecAllFinishWaitNode (pl_logic s)) - i" arbitrary: i s)
  case 0
  then have "i = length (m_vecAllFinishWaitNode (pl_logic s))" by simp
  with 0 have "s\<lparr>pl_cache := c', pl_net := net', pl_at := Some (length (m_vecAllFinishWaitNode (pl_logic s))),
        pl_answered := pl_answered s @ drop i (m_vecAllFinishWaitNode (pl_logic s))\<rparr> = s"
    by (cases s) simp
  then show ?case by simp
next
  case (Suc k)
  let ?v = "m_vecAllFinishWaitNode (pl_logic s)"
  from Suc.hyps(2) have i: "i < length ?v" by simp
  then have dr: "drop i ?v = ?v ! i # drop (Suc i) ?v" by (simp add: Cons_nth_drop_Suc)
  with Suc.prems(1) obtain c1 net1 where
    d: "DoLogic wr (lj i) (now i) (pl_servers s) (?v ! i) (pl_cache s, pl_net s) = Inr (c1, net1)"
    and r: "sql_loop wr lj now (pl_servers s) (Suc i) (drop (Suc i) ?v) (c1, net1) = Inr (c', net')"
    by (auto simp: rbind_Inr_iff)
  let ?s = "s\<lparr>pl_cache := c1, pl_net := net1, pl_at := Some (Suc i), pl_answered := pl_answered s @ [?v ! i]\<rparr>"
  have "pipeline_step api charset wr s ?s"
    using Suc.prems(3) i d by (rule pipeline_step.answer)
  moreover have "(pipeline_step api charset wr)\<^sup>*\<^sup>* ?s
      (s\<lparr>pl_cache := c', pl_net := net', pl_at := Some (length ?v), pl_answered := pl_answered s @ drop i ?v\<rparr>)"
    using Suc.hyps(1) [of ?s "Suc i"] Suc.hyps(2) r i dr by simp
  ultimately show ?case by (rule converse_rtranclp_into_rtranclp)
qed

lemma deal_sql_steps:
  assumes "DealSqlMsg wr lj now (pl_servers s) (pl_logic s, pl_db s, pl_cache s, pl_net s) =
      Inr (logic', t', c', net')"
    and "pl_at s = None" and "\<not> serving (pl_phase s)"
  shows "(pipeline_step api charset wr)\<^sup>*\<^sup>* s
     (s\<lparr>pl_logic := logic', pl_db := t', pl_cache := c', pl_net := net',
        pl_answered := pl_answered s @ m_vecWriteFinish (pl_db s)\<rparr>)"
proof -
  let ?step = "pipeline_step api charset wr"
  let ?ns = "m_vecWriteFinish (pl_db s)"
  let ?t = "(pl_db s)\<lparr>m_vecWriteFinish := []\<rparr>"
  let ?a = "s\<lparr>pl_db := ?t, pl_logic := (pl_logic s)\<lparr>m_vecAllFinishWaitNode := ?ns\<rparr>, pl_at := Some 0\<rparr>"
  let ?b = "?a\<lparr>pl_cache := c', pl_net := net', pl_at := Some (length ?ns), pl_answered := pl_answered s @ ?ns\<rparr>"
  let ?c = "?b\<lparr>pl_logic := (pl_logic ?b)\<lparr>m_vecAllFinishWaitNode := []\<rparr>, pl_at := None\<rparr>"
  have loop: "sql_loop wr lj now (pl_servers s) 0 ?ns (pl_cache s, pl_net s) = Inr (c', net')"
    and l': "logic' = (pl_logic s)\<lparr>m_vecAllFinishWaitNode := []\<rparr>" and t': "t' = ?t"
    using assms(1) by (auto simp: DealSqlMsg_def GetFinishDBWait_def Let_def rbind_Inr_iff split: if_splits)
  have 1: "?step s ?a"
    using assms(2,3) by (rule pipeline_step.collect) (simp add: GetFinishDBWait_def)
  have 2: "?step\<^sup>*\<^sup>* ?a ?b"
    using sql_loop_steps [of wr lj now ?a 0 c' net' api charset] loop by simp
  have 3: "?step ?b ?c" by (rule pipeline_step.finish [where i = "length ?ns"]) simp_all
  have "?c = s\<lparr>pl_logic := logic', pl_db := t', pl_cache := c', pl_net := net',
      pl_answered := pl_answered s @ ?ns\<rparr>"
    using assms(2) l' t' by (cases s) simp
  moreover have "?step\<^sup>*\<^sup>* s ?b"
    using r_into_rtranclp [of ?step, OF 1] 2 by (rule rtranclp_trans)
  then have "?step\<^sup>*\<^sup>* s ?c" using 3 by (rule rtranclp.rtrancl_into_rtrancl)
  ultimately show ?thesis by (simp only:)
qed

text \<open>
  When every collected node's session is live with a socket that takes the answer, the main
  thread answers them all.
\<close>

definition answerable :: "(nat \<Rightarrow> u8 list \<Rightarrow> bool) \<Rightarrow> MyZServerNetwork \<Rightarrow> wait_node \<Rightarrow> bool" where
  "answerable wr net n \<longleftrightarrow> (\<exists>s. live net (node_session n) s \<and> (\<forall>bs. wr (m_pSocketClient s) bs))"

definition node_answer :: "MyZServerNetwork \<Rightarrow> wait_node \<Rightarrow> nat \<times> u8 list" where
  "node_answer net n = (case map_of (m_mapAllClientSock net) (node_session n) of
     Some (Some s) \<Rightarrow> (m_pSocketClient s, node_wire n) | _ \<Rightarrow> (0, []))"

lemma sql_loop_answers:
  assumes "list_all no_login ns" and "list_all (answerable wr net) ns"
  shows "sql_loop wr lj now svs i ns (c, net) =
     Inr (c, net\<lparr>written := written net @ map (node_answer net) ns\<rparr>)"
  using assms
proof (induction ns arbitrary: i net)
  case Nil
  then show ?case by simp
next
  case (Cons n ns)
  then obtain s where s: "live net (node_session n) s" "\<forall>bs. wr (m_pSocketClient s) bs"
    by (auto simp: answerable_def)
  let ?net = "net\<lparr>written := written net @ [(m_pSocketClient s, node_wire n)]\<rparr>"
  have same: "answerable wr ?net = answerable wr net" "node_answer ?net = node_answer net"
    by (simp_all add: fun_eq_iff answerable_def node_answer_def live_def)
  have "DoLogic wr (lj i) (now i) svs n (c, net) = Inr (c, ?net)"
    using Cons.prems(1) s by (intro DoLogic_sends) simp_all
  moreover have "node_answer net n = (m_pSocketClient s, node_wire n)"
    using s(1) by (simp add: node_answer_def live_def)
  ultimately show ?case
    using Cons.IH [of ?net "Suc i"] Cons.prems same by simp
qed

section \<open>Properties\<close>

lemma same_request_session: "same_request n n' \<Longrightarrow> node_session n' = node_session n"
  by (cases n; cases n') (auto simp: node_session_def dest!: arg_cong [where f = m_dwSessionID])

text \<open>
  C13: No request is lost, answered twice or overtaken on its way through the database. In
  every interleaving of the main, the database and the network thread, the requests queued so
  far are those answered, those the main thread has collected, those that are finished, those
  the database thread holds and those that wait, in this order; the ones worked off are still
  the requests that were queued, with their account, password and session.
\<close>

theorem requests_conserved:
  assumes "(pipeline_step api charset wr)\<^sup>*\<^sup>* (pipeline_start db svs w logic cache net) s"
  shows "\<exists>ds. pl_posted s = ds @ held (pl_phase s) @ m_vecWrite (pl_db s) \<and>
     list_all2 same_request ds (pl_answered s @ collected s @ m_vecWriteFinish (pl_db s))"
  using conserved_run [OF assms conserved_start]
  by (simp add: conserved_def undone_def worked_off_def)

definition demo_logic_junk :: logic_junk where
  "demo_logic_junk = \<lparr>junk_register = \<lparr>m_wSize = 0, m_iMainProtocol = 0, m_iSubProtocol = 0,
     ZS2C_A_RegisterAccount.m_iErrorCode = 0, m_iErrorCodeIndex = 0\<rparr>, junk_login = demo_login, junk_hmsg = blank\<rparr>"

text \<open>A login that was queued and worked off.\<close>

definition demo_pipeline :: "string list pipeline" where
  "demo_pipeline = pipeline_start demo_db [] [] MsgLogic_new DBMS_new one_client"

lemma demo_round: "\<exists>t' w'. DBSqlThread_run demo_mysql ''utf8'' 7 (demo_thread, [], []) = Inr (t', [], w')"
  using run_nodes_logins [OF demo_mysql_allocates demo_mysql_rejects, of "m_vecWrite demo_thread" "''utf8''" 7
      "demo_thread\<lparr>m_vecWrite := []\<rparr>" "[]" "[]"]
  by (simp add: DBSqlThread_run_def TakeWaiting_def) (simp add: demo_thread_def)

lemma demo_pipeline_run:
  "\<exists>t' w' f. (pipeline_step demo_mysql ''utf8'' (\<lambda>_ _. True))\<^sup>*\<^sup>* demo_pipeline
     (demo_pipeline\<lparr>pl_db := t', pl_world := w', pl_posted := [LoginNode demo_login_node]\<rparr>) \<and>
     m_vecWrite t' = [] \<and> m_vecWriteFinish t' = [f] \<and> same_request (LoginNode demo_login_node) f"
proof -
  let ?s = demo_pipeline
  let ?a = "?s\<lparr>pl_db := AddWaitNode (pl_db ?s) (LoginNode demo_login_node), pl_posted := [LoginNode demo_login_node]\<rparr>"
  have t: "pl_db ?a = demo_thread" "pl_servers ?a = []" "pl_world ?a = []"
    by (simp_all add: demo_pipeline_def pipeline_start_def AddWaitNode_def demo_thread_def)
  have "pipeline_step demo_mysql ''utf8'' (\<lambda>_ _. True) ?s ?a"
    using pipeline_step.post [of ?s demo_mysql "''utf8''" "\<lambda>_ _. True" "LoginNode demo_login_node"]
    by (simp add: demo_pipeline_def pipeline_start_def)
  moreover obtain t' w' where r: "DBSqlThread_run demo_mysql ''utf8'' 7 (demo_thread, [], []) = Inr (t', [], w')"
    using demo_round by blast
  then have "(pipeline_step demo_mysql ''utf8'' (\<lambda>_ _. True))\<^sup>*\<^sup>* ?a (?a\<lparr>pl_db := t', pl_servers := [], pl_world := w'\<rparr>)"
    using db_round_steps [of demo_mysql "''utf8''" 7 ?a t' "[]" w'] t by (simp add: demo_pipeline_def pipeline_start_def)
  moreover have "?a\<lparr>pl_db := t', pl_servers := [], pl_world := w'\<rparr> =
      ?s\<lparr>pl_db := t', pl_world := w', pl_posted := [LoginNode demo_login_node]\<rparr>"
    by (simp add: demo_pipeline_def pipeline_start_def)
  moreover obtain fs where "m_vecWrite t' = []" "m_vecWriteFinish t' = fs"
    "list_all2 same_request [LoginNode demo_login_node] fs"
    using run_result [OF r] by (auto simp: demo_thread_def)
  ultimately show ?thesis
    by (auto simp: list_all2_Cons1 intro: converse_rtranclp_into_rtranclp)
qed

theorem requests_conserved_witness:
  "\<exists>(s :: string list pipeline) ds. pl_posted s = [LoginNode demo_login_node] \<and>
     pl_posted s = ds @ held (pl_phase s) @ m_vecWrite (pl_db s) \<and>
     list_all2 same_request ds (pl_answered s @ collected s @ m_vecWriteFinish (pl_db s)) \<and> ds \<noteq> []"
proof -
  obtain t' w' f where run: "(pipeline_step demo_mysql ''utf8'' (\<lambda>_ _. True))\<^sup>*\<^sup>* demo_pipeline
      (demo_pipeline\<lparr>pl_db := t', pl_world := w', pl_posted := [LoginNode demo_login_node]\<rparr>)"
    and t: "m_vecWrite t' = []" "m_vecWriteFinish t' = [f]"
    using demo_pipeline_run by blast
  let ?s = "demo_pipeline\<lparr>pl_db := t', pl_world := w', pl_posted := [LoginNode demo_login_node]\<rparr>"
  obtain ds where "pl_posted ?s = ds @ held (pl_phase ?s) @ m_vecWrite (pl_db ?s)"
    and "list_all2 same_request ds (pl_answered ?s @ collected ?s @ m_vecWriteFinish (pl_db ?s))"
    using requests_conserved [OF run [unfolded demo_pipeline_def], folded demo_pipeline_def] by blast
  moreover from this(1) t have "ds \<noteq> []" by (auto simp: demo_pipeline_def pipeline_start_def)
  ultimately show ?thesis by (intro exI [of _ ?s] exI [of _ ds]) simp
qed

text \<open>
  C14: A server that ran its database thread would turn every login away, as long as its
  MySQL server reports an error for a statement beginning with \<open>selsect\<close>. In every interleaving of
  the threads, the messages the main thread has written are exactly the answers of the requests
  answered so far, one each and in order: the result of a registration, or the refusal of a
  login. The cache and the list of servers stay as they were. (A step that faults is no step: the
  run ends there.)
\<close>

theorem pipeline_never_accepts:
  assumes "rejects_selsect api"
    and "(pipeline_step api charset wr)\<^sup>*\<^sup>* (pipeline_start db svs w logic cache net) s"
  shows "pl_cache s = cache \<and> pl_servers s = svs \<and>
     (\<exists>ws. written (pl_net s) = written net @ ws \<and>
        list_all2 (\<lambda>n (sock, bs). bs = (case n of
            RegisterNode r \<Rightarrow> u16_le 15 @ u16_le 0x2001 @ u16_le 2 @
              u32_be (if m_outdata r > 0 then 1 else 2) @ u32_be (word_of_int (m_outdata r)) @ [10]
          | LoginNode _ \<Rightarrow> u16_le 19 @ u16_le 0x2001 @ u16_le 4 @ u32_be 4 @ u32_be 0 @ u32_be 0 @ [10]))
          (pl_answered s) ws)"
  using refuses_run [OF assms refuses_start]
  by (simp add: refuses_def node_wire_def login_refused_wire_def case_prod_unfold cong: wait_node.case_cong)

theorem pipeline_never_accepts_witness:
  "\<exists>s :: string list pipeline. pl_posted s = [LoginNode demo_login_node] \<and> m_vecWriteFinish (pl_db s) \<noteq> [] \<and>
     pl_cache s = DBMS_new \<and> pl_servers s = []"
proof -
  obtain t' w' f where run: "(pipeline_step demo_mysql ''utf8'' (\<lambda>_ _. True))\<^sup>*\<^sup>* demo_pipeline
      (demo_pipeline\<lparr>pl_db := t', pl_world := w', pl_posted := [LoginNode demo_login_node]\<rparr>)"
    and t: "m_vecWriteFinish t' = [f]"
    using demo_pipeline_run by blast
  let ?s = "demo_pipeline\<lparr>pl_db := t', pl_world := w', pl_posted := [LoginNode demo_login_node]\<rparr>"
  have "pl_cache ?s = DBMS_new \<and> pl_servers ?s = []"
    using pipeline_never_accepts [OF demo_mysql_rejects
        run [unfolded demo_pipeline_def], folded demo_pipeline_def] by blast
  with t show ?thesis by (intro exI [of _ ?s]) simp
qed

text \<open>
  C15: One round of the database thread that ends, and one call of \<open>DealSqlMsg\<close>, answer every waiting
  request. With a MySQL server that reports an error for a statement beginning with \<open>selsect\<close>,
  nothing finished before, and all sessions of the requests live on sockets that take what is
  written, the call does not fault, both queues end empty, and each request gets one answer on
  its session's socket, in order; the list of servers and the cache stay as they were.
\<close>

theorem sql_round_answers:
  assumes "rejects_selsect api" and "DBSqlThread_run api charset junk (t, svs, w) = Inr (t', svs', w')"
    and "m_vecWriteFinish t = []" and "list_all (answerable wr net) (m_vecWrite t)"
  shows "svs' = svs \<and> m_vecWrite t' = [] \<and> (\<exists>fs. list_all2 same_request (m_vecWrite t) fs \<and>
     DealSqlMsg wr lj now svs (logic, t', cache, net) =
       Inr (logic\<lparr>m_vecAllFinishWaitNode := []\<rparr>, t'\<lparr>m_vecWriteFinish := []\<rparr>, cache,
            net\<lparr>written := written net @ map (node_answer net) fs\<rparr>))"
proof -
  obtain fs where f: "m_vecWriteFinish t' = fs" "list_all no_login fs" and svs: "svs' = svs"
    using run_nodes_refused [OF assms(1), of charset junk "m_vecWrite t" "t\<lparr>m_vecWrite := []\<rparr>" svs w] assms(2,3)
    by (auto simp: DBSqlThread_run_def TakeWaiting_def)
  have same: "list_all2 same_request (m_vecWrite t) fs" and "m_vecWrite t' = []"
    using run_result [OF assms(2)] assms(3) f(1) by simp_all
  have "list_all (answerable wr net) fs"
    using same assms(4) by (induction rule: list_all2_induct) (auto simp: answerable_def same_request_session)
  from sql_loop_answers [OF f(2) this, of lj now svs 0 cache]
  have "DealSqlMsg wr lj now svs (logic, t', cache, net) =
      Inr (logic\<lparr>m_vecAllFinishWaitNode := []\<rparr>, t'\<lparr>m_vecWriteFinish := []\<rparr>, cache,
        net\<lparr>written := written net @ map (node_answer net) fs\<rparr>)"
    using f(1) by (simp add: DealSqlMsg_def GetFinishDBWait_def Let_def)
  with same svs \<open>m_vecWrite t' = []\<close> show ?thesis by blast
qed

theorem sql_round_answers_witness:
  "\<exists>t' w' fs. DBSqlThread_run demo_mysql ''utf8'' 7 (demo_thread, [], []) = Inr (t', [], w') \<and>
     m_vecWrite t' = [] \<and> list_all2 same_request [LoginNode demo_login_node] fs \<and>
     DealSqlMsg (\<lambda>_ _. True) (\<lambda>_. demo_logic_junk) (\<lambda>_. 0) [] (MsgLogic_new, t', DBMS_new, one_client) =
       Inr (MsgLogic_new\<lparr>m_vecAllFinishWaitNode := []\<rparr>, t'\<lparr>m_vecWriteFinish := []\<rparr>, DBMS_new,
            one_client\<lparr>written := written one_client @ map (node_answer one_client) fs\<rparr>)"
proof -
  have d: "m_vecWriteFinish demo_thread = []" "m_vecWrite demo_thread = [LoginNode demo_login_node]"
    by (simp_all add: demo_thread_def)
  have a: "list_all (answerable (\<lambda>_ _. True) one_client) (m_vecWrite demo_thread)"
    by (simp add: demo_thread_def answerable_def live_def one_client_def node_session_def demo_login_node_def)
  obtain t' w' where r: "DBSqlThread_run demo_mysql ''utf8'' 7 (demo_thread, [], []) = Inr (t', [], w')"
    using demo_round by blast
  from sql_round_answers [OF demo_mysql_rejects this d(1) a, of "\<lambda>_. demo_logic_junk" "\<lambda>_. 0"
      MsgLogic_new DBMS_new] r show ?thesis
    unfolding d(2) by blast
qed

text \<open>
  The functions of the sources are runs of the threads: a round of \<open>DBSqlThread::run\<close> that
  completes is a run of the database thread's steps, and a call of \<open>DealSqlMsg\<close> that returns is
  a run of the main thread's steps that answers what was finished.
\<close>

lemma functions_are_runs:
  assumes "DBSqlThread_run api charset junk (pl_db s, pl_servers s, pl_world s) = Inr (t', svs', w')"
    and "DealSqlMsg wr lj now (pl_servers s) (pl_logic s, pl_db s, pl_cache s, pl_net s) =
      Inr (logic', t'', c', net')"
    and "pl_phase s = DbIdle" and "pl_at s = None"
  shows "(pipeline_step api charset wr)\<^sup>*\<^sup>* s (s\<lparr>pl_db := t', pl_servers := svs', pl_world := w'\<rparr>)"
    and "(pipeline_step api charset wr)\<^sup>*\<^sup>* s
       (s\<lparr>pl_logic := logic', pl_db := t'', pl_cache := c', pl_net := net',
          pl_answered := pl_answered s @ m_vecWriteFinish (pl_db s)\<rparr>)"
proof -
  have "\<not> serving (pl_phase s)" using assms(3) by (simp add: serving_def)
  from deal_sql_steps [OF assms(2,4) this]
  show "(pipeline_step api charset wr)\<^sup>*\<^sup>* s
       (s\<lparr>pl_logic := logic', pl_db := t'', pl_cache := c', pl_net := net',
          pl_answered := pl_answered s @ m_vecWriteFinish (pl_db s)\<rparr>)" .
qed (rule db_round_steps [OF assms(1,3)])

end
