(* ===== verification/MySQL_ByteOrder.thy ===== *)
theory MySQL_ByteOrder
  imports SG_Prelude
begin

text \<open>
  The byte-order functions of the MySQL headers the server is built against
  (mysql-connector-c-6.1.11-win32-Realease/include): the portable ones of
  byte_order_generic.h, the ones for x86 of byte_order_generic_x86.h, the ones of odd widths
  of my_byteorder.h, and the machine-format ones of little_endian.h and big_endian.h. The
  Windows build takes the x86 ones and little_endian.h; the others are what the same
  headers give on other machines. The overloads of my_byteorder.h for \<open>char\<close> pointers only
  convert the pointer.

  A pointer is a buffer and an index. A \<open>float\<close> or \<open>double\<close> is only moved about, so it is
  its object representation, a list of bytes.
\<close>

section \<open>Numbers as bytes, lowest first\<close>

fun le_bytes :: "nat \<Rightarrow> int \<Rightarrow> u8 list" where
  "le_bytes 0 x = []"
| "le_bytes (Suc n) x = word_of_int x # le_bytes n (x div 256)"

fun le_val :: "u8 list \<Rightarrow> int" where
  "le_val [] = 0"
| "le_val (b # bs) = uint b + 256 * le_val bs"

lemma length_le_bytes [simp]: "length (le_bytes n x) = n"
  by (induction n arbitrary: x) simp_all

lemma le_val_bytes: "le_val (le_bytes n x) = x mod 256 ^ n"
proof (induction n arbitrary: x)
  case (Suc n)
  have "x mod (256 * 256 ^ n) = 256 * (x div 256 mod 256 ^ n) + x mod 256"
    by (rule zmod_zmult2_eq) simp
  then show ?case by (simp add: Suc uint_word_of_int)
qed simp

lemma le_val_range: "0 \<le> le_val bs \<and> le_val bs < 256 ^ length bs"
proof (induction bs)
  case (Cons b bs)
  have "0 \<le> uint b" and "uint b < 256"
    using uint_lt2p [of b] by simp_all
  with Cons show ?case by simp
qed simp

lemma le_bytes_val: "le_bytes (length bs) (le_val bs) = bs"
proof (induction bs)
  case (Cons b bs)
  have "0 \<le> uint b" and "uint b < 256"
    using uint_lt2p [of b] by simp_all
  then have "(uint b + 256 * le_val bs) div 256 = le_val bs" by simp
  moreover have "word_of_int (uint b + 256 * le_val bs) = b"
    by (rule word_uint_eqI) (simp only: uint_word_of_int, use \<open>0 \<le> uint b\<close> \<open>uint b < 256\<close> in simp)
  ultimately show ?case using Cons by simp
qed simp

section \<open>The portable functions (byte_order_generic.h)\<close>

text \<open>
  Operands narrower than \<open>int\<close> are promoted to it, so the sums of the 16-bit functions are
  32 bits wide before the conversion of the result. The shift of the last byte of
  \<open>sint4korr\<close> into the sign is taken in two's complement, as every compiler of the headers
  does.
\<close>

definition generic_sint2korr :: "buffer \<Rightarrow> int \<Rightarrow> int res" where
  "generic_sint2korr b A =
     rbind (load_byte b A) (\<lambda>a0. rbind (load_byte b (A + 1)) (\<lambda>a1.
       Inr (sint (ucast ((ucast a0 :: u32) + push_bit 8 (ucast a1)) :: u16))))"

definition generic_sint4korr :: "buffer \<Rightarrow> int \<Rightarrow> int res" where
  "generic_sint4korr b A =
     rbind (load_byte b A) (\<lambda>a0. rbind (load_byte b (A + 1)) (\<lambda>a1.
     rbind (load_byte b (A + 2)) (\<lambda>a2. rbind (load_byte b (A + 3)) (\<lambda>a3.
       Inr (sint ((ucast a0 :: u32) + push_bit 8 (ucast a1) + push_bit 16 (ucast a2)
                  + push_bit 24 (ucast a3)))))))"

definition generic_uint2korr :: "buffer \<Rightarrow> int \<Rightarrow> u16 res" where
  "generic_uint2korr b A =
     rbind (load_byte b A) (\<lambda>a0. rbind (load_byte b (A + 1)) (\<lambda>a1.
       Inr (ucast ((ucast a0 :: u32) + push_bit 8 (ucast a1)))))"

definition generic_uint4korr :: "buffer \<Rightarrow> int \<Rightarrow> u32 res" where
  "generic_uint4korr b A =
     rbind (load_byte b A) (\<lambda>a0. rbind (load_byte b (A + 1)) (\<lambda>a1.
     rbind (load_byte b (A + 2)) (\<lambda>a2. rbind (load_byte b (A + 3)) (\<lambda>a3.
       Inr (ucast a0 + push_bit 8 (ucast a1) + push_bit 16 (ucast a2) + push_bit 24 (ucast a3))))))"

definition generic_uint8korr :: "buffer \<Rightarrow> int \<Rightarrow> u64 res" where
  "generic_uint8korr b A =
     rbind (load_byte b A) (\<lambda>a0. rbind (load_byte b (A + 1)) (\<lambda>a1.
     rbind (load_byte b (A + 2)) (\<lambda>a2. rbind (load_byte b (A + 3)) (\<lambda>a3.
     rbind (load_byte b (A + 4)) (\<lambda>a4. rbind (load_byte b (A + 5)) (\<lambda>a5.
     rbind (load_byte b (A + 6)) (\<lambda>a6. rbind (load_byte b (A + 7)) (\<lambda>a7.
       Inr (ucast ((ucast a0 :: u32) + push_bit 8 (ucast a1) + push_bit 16 (ucast a2)
                   + push_bit 24 (ucast a3))
            + push_bit 32 (ucast ((ucast a4 :: u32) + push_bit 8 (ucast a5)
                   + push_bit 16 (ucast a6) + push_bit 24 (ucast a7))))))))))))"

definition generic_sint8korr :: "buffer \<Rightarrow> int \<Rightarrow> int res" where
  "generic_sint8korr b A = rbind (generic_uint8korr b A) (\<lambda>v. Inr (sint v))"

definition generic_int2store :: "buffer \<Rightarrow> int \<Rightarrow> u16 \<Rightarrow> buffer res" where
  "generic_int2store b T A =
     (let def_temp = (ucast A :: u32) in
      rbind (store_byte b T (ucast def_temp)) (\<lambda>b0.
        store_byte b0 (T + 1) (ucast (drop_bit 8 def_temp))))"

definition generic_int4store :: "buffer \<Rightarrow> int \<Rightarrow> u32 \<Rightarrow> buffer res" where
  "generic_int4store b T A =
     rbind (store_byte b T (ucast A)) (\<lambda>b0.
     rbind (store_byte b0 (T + 1) (ucast (drop_bit 8 A))) (\<lambda>b1.
     rbind (store_byte b1 (T + 2) (ucast (drop_bit 16 A))) (\<lambda>b2.
       store_byte b2 (T + 3) (ucast (drop_bit 24 A)))))"

definition generic_int8store :: "buffer \<Rightarrow> int \<Rightarrow> u64 \<Rightarrow> buffer res" where
  "generic_int8store b T A =
     (let def_temp = (ucast A :: u32); def_temp2 = (ucast (drop_bit 32 A) :: u32) in
      rbind (generic_int4store b T def_temp) (\<lambda>b'. generic_int4store b' (T + 4) def_temp2))"

section \<open>The functions for x86 (byte_order_generic_x86.h)\<close>

text \<open>
  A load or store of a whole word through a cast pointer; x86 puts the lowest byte first.
\<close>

definition x86_load :: "buffer \<Rightarrow> int \<Rightarrow> nat \<Rightarrow> 'a::len word res" where
  "x86_load b A n = rbind (load_bytes b A n) (\<lambda>bs. Inr (word_of_int (le_val bs)))"

definition x86_sint2korr :: "buffer \<Rightarrow> int \<Rightarrow> int res" where
  "x86_sint2korr b A = rbind (x86_load b A 2) (\<lambda>v. Inr (sint (v :: u16)))"

definition x86_sint4korr :: "buffer \<Rightarrow> int \<Rightarrow> int res" where
  "x86_sint4korr b A = rbind (x86_load b A 4) (\<lambda>v. Inr (sint (v :: u32)))"

definition x86_uint2korr :: "buffer \<Rightarrow> int \<Rightarrow> u16 res" where
  "x86_uint2korr b A = x86_load b A 2"

definition x86_uint4korr :: "buffer \<Rightarrow> int \<Rightarrow> u32 res" where
  "x86_uint4korr b A = x86_load b A 4"

definition x86_uint8korr :: "buffer \<Rightarrow> int \<Rightarrow> u64 res" where
  "x86_uint8korr b A = x86_load b A 8"

definition x86_sint8korr :: "buffer \<Rightarrow> int \<Rightarrow> int res" where
  "x86_sint8korr b A = rbind (x86_load b A 8) (\<lambda>v. Inr (sint (v :: u64)))"

definition x86_int2store :: "buffer \<Rightarrow> int \<Rightarrow> u16 \<Rightarrow> buffer res" where
  "x86_int2store b T A = store_bytes b T (le_bytes 2 (uint A))"

definition x86_int4store :: "buffer \<Rightarrow> int \<Rightarrow> u32 \<Rightarrow> buffer res" where
  "x86_int4store b T A = store_bytes b T (le_bytes 4 (uint A))"

definition x86_int8store :: "buffer \<Rightarrow> int \<Rightarrow> u64 \<Rightarrow> buffer res" where
  "x86_int8store b T A = store_bytes b T (le_bytes 8 (uint A))"

section \<open>The odd widths (my_byteorder.h)\<close>

text \<open>
  In \<open>sint3korr\<close> the conditional operator binds less than \<open>|\<close>, so its last operand is the
  whole disjunction.
\<close>

definition sint3korr :: "buffer \<Rightarrow> int \<Rightarrow> int res" where
  "sint3korr b A =
     rbind (load_byte b A) (\<lambda>a0. rbind (load_byte b (A + 1)) (\<lambda>a1.
     rbind (load_byte b (A + 2)) (\<lambda>a2.
       Inr (sint (if a2 AND 128 \<noteq> 0
                  then push_bit 24 255 OR push_bit 16 (ucast a2) OR push_bit 8 (ucast a1) OR ucast a0
                  else push_bit 16 (ucast a2) OR push_bit 8 (ucast a1) OR (ucast a0 :: u32))))))"

definition uint3korr :: "buffer \<Rightarrow> int \<Rightarrow> u32 res" where
  "uint3korr b A =
     rbind (load_byte b A) (\<lambda>a0. rbind (load_byte b (A + 1)) (\<lambda>a1.
     rbind (load_byte b (A + 2)) (\<lambda>a2.
       Inr (ucast a0 + push_bit 8 (ucast a1) + push_bit 16 (ucast a2)))))"

definition uint5korr :: "buffer \<Rightarrow> int \<Rightarrow> u64 res" where
  "uint5korr b A =
     rbind (load_byte b A) (\<lambda>a0. rbind (load_byte b (A + 1)) (\<lambda>a1.
     rbind (load_byte b (A + 2)) (\<lambda>a2. rbind (load_byte b (A + 3)) (\<lambda>a3.
     rbind (load_byte b (A + 4)) (\<lambda>a4.
       Inr (ucast ((ucast a0 :: u32) + push_bit 8 (ucast a1) + push_bit 16 (ucast a2)
                   + push_bit 24 (ucast a3))
            + push_bit 32 (ucast a4)))))))"

definition uint6korr :: "buffer \<Rightarrow> int \<Rightarrow> u64 res" where
  "uint6korr b A =
     rbind (load_byte b A) (\<lambda>a0. rbind (load_byte b (A + 1)) (\<lambda>a1.
     rbind (load_byte b (A + 2)) (\<lambda>a2. rbind (load_byte b (A + 3)) (\<lambda>a3.
     rbind (load_byte b (A + 4)) (\<lambda>a4. rbind (load_byte b (A + 5)) (\<lambda>a5.
       Inr (ucast ((ucast a0 :: u32) + push_bit 8 (ucast a1) + push_bit 16 (ucast a2)
                   + push_bit 24 (ucast a3))
            + push_bit 32 (ucast a4) + push_bit 40 (ucast a5))))))))"

definition int3store :: "buffer \<Rightarrow> int \<Rightarrow> u32 \<Rightarrow> buffer res" where
  "int3store b T A =
     rbind (store_byte b T (ucast A)) (\<lambda>b0.
     rbind (store_byte b0 (T + 1) (ucast (drop_bit 8 A))) (\<lambda>b1.
       store_byte b1 (T + 2) (ucast (drop_bit 16 A))))"

definition int5store :: "buffer \<Rightarrow> int \<Rightarrow> u64 \<Rightarrow> buffer res" where
  "int5store b T A =
     rbind (store_byte b T (ucast A)) (\<lambda>b0.
     rbind (store_byte b0 (T + 1) (ucast (drop_bit 8 A))) (\<lambda>b1.
     rbind (store_byte b1 (T + 2) (ucast (drop_bit 16 A))) (\<lambda>b2.
     rbind (store_byte b2 (T + 3) (ucast (drop_bit 24 A))) (\<lambda>b3.
       store_byte b3 (T + 4) (ucast (drop_bit 32 A))))))"

definition int6store :: "buffer \<Rightarrow> int \<Rightarrow> u64 \<Rightarrow> buffer res" where
  "int6store b T A =
     rbind (store_byte b T (ucast A)) (\<lambda>b0.
     rbind (store_byte b0 (T + 1) (ucast (drop_bit 8 A))) (\<lambda>b1.
     rbind (store_byte b1 (T + 2) (ucast (drop_bit 16 A))) (\<lambda>b2.
     rbind (store_byte b2 (T + 3) (ucast (drop_bit 24 A))) (\<lambda>b3.
     rbind (store_byte b3 (T + 4) (ucast (drop_bit 32 A))) (\<lambda>b4.
       store_byte b4 (T + 5) (ucast (drop_bit 40 A)))))))"

section \<open>Machine format on a little-endian machine (little_endian.h)\<close>

text \<open>
  The functions fill the variable their first argument points at; here they return its new
  value. \<open>doubleget\<close> and \<open>doublestore\<close> come in two versions, the first one for hardware that
  keeps the halves of a \<open>double\<close> the other way round.
\<close>

type_synonym fbytes = "u8 list"

definition le_float4get :: "buffer \<Rightarrow> int \<Rightarrow> fbytes res" where
  "le_float4get b M = load_bytes b M 4"

definition le_float4store :: "buffer \<Rightarrow> int \<Rightarrow> fbytes \<Rightarrow> buffer res" where
  "le_float4store b V M = store_bytes b V (take 4 M)"

definition le_float8get :: "buffer \<Rightarrow> int \<Rightarrow> fbytes res" where
  "le_float8get b M = load_bytes b M 8"

definition le_float8store :: "buffer \<Rightarrow> int \<Rightarrow> fbytes \<Rightarrow> buffer res" where
  "le_float8store b V M = store_bytes b V (take 8 M)"

definition le_floatget :: "buffer \<Rightarrow> int \<Rightarrow> fbytes res" where
  "le_floatget b M = le_float4get b M"

definition le_floatstore :: "buffer \<Rightarrow> int \<Rightarrow> fbytes \<Rightarrow> buffer res" where
  "le_floatstore b V M = le_float4store b V M"

definition swapped_doublestore :: "buffer \<Rightarrow> int \<Rightarrow> fbytes \<Rightarrow> buffer res" where
  "swapped_doublestore b T V =
     rbind (store_byte b (T + 0) (V ! 4)) (\<lambda>b0. rbind (store_byte b0 (T + 1) (V ! 5)) (\<lambda>b1.
     rbind (store_byte b1 (T + 2) (V ! 6)) (\<lambda>b2. rbind (store_byte b2 (T + 3) (V ! 7)) (\<lambda>b3.
     rbind (store_byte b3 (T + 4) (V ! 0)) (\<lambda>b4. rbind (store_byte b4 (T + 5) (V ! 1)) (\<lambda>b5.
     rbind (store_byte b5 (T + 6) (V ! 2)) (\<lambda>b6. store_byte b6 (T + 7) (V ! 3))))))))"

definition swapped_doubleget :: "buffer \<Rightarrow> int \<Rightarrow> fbytes res" where
  "swapped_doubleget b M =
     rbind (load_byte b (M + 4)) (\<lambda>d0. rbind (load_byte b (M + 5)) (\<lambda>d1.
     rbind (load_byte b (M + 6)) (\<lambda>d2. rbind (load_byte b (M + 7)) (\<lambda>d3.
     rbind (load_byte b (M + 0)) (\<lambda>d4. rbind (load_byte b (M + 1)) (\<lambda>d5.
     rbind (load_byte b (M + 2)) (\<lambda>d6. rbind (load_byte b (M + 3)) (\<lambda>d7.
       Inr [d0, d1, d2, d3, d4, d5, d6, d7]))))))))"

definition le_doublestore :: "buffer \<Rightarrow> int \<Rightarrow> fbytes \<Rightarrow> buffer res" where
  "le_doublestore b T V = store_bytes b T (take 8 V)"

definition le_doubleget :: "buffer \<Rightarrow> int \<Rightarrow> fbytes res" where
  "le_doubleget b M = load_bytes b M 8"

definition le_ushortget :: "buffer \<Rightarrow> int \<Rightarrow> u16 res" where
  "le_ushortget b pM = x86_uint2korr b pM"

definition le_shortget :: "buffer \<Rightarrow> int \<Rightarrow> int res" where
  "le_shortget b pM = x86_sint2korr b pM"

definition le_longget :: "buffer \<Rightarrow> int \<Rightarrow> int res" where
  "le_longget b pM = x86_sint4korr b pM"

definition le_ulongget :: "buffer \<Rightarrow> int \<Rightarrow> u32 res" where
  "le_ulongget b pM = x86_uint4korr b pM"

definition le_shortstore :: "buffer \<Rightarrow> int \<Rightarrow> int \<Rightarrow> buffer res" where
  "le_shortstore b T V = x86_int2store b T (word_of_int V)"

definition le_longstore :: "buffer \<Rightarrow> int \<Rightarrow> int \<Rightarrow> buffer res" where
  "le_longstore b T V = x86_int4store b T (word_of_int V)"

definition le_longlongget :: "buffer \<Rightarrow> int \<Rightarrow> int res" where
  "le_longlongget b M = rbind (load_bytes b M 8) (\<lambda>bs. Inr (sint (word_of_int (le_val bs) :: u64)))"

definition le_longlongstore :: "buffer \<Rightarrow> int \<Rightarrow> int \<Rightarrow> buffer res" where
  "le_longlongstore b T V = store_bytes b T (le_bytes 8 V)"

section \<open>Machine format on a big-endian machine (big_endian.h)\<close>

text \<open>
  On such a machine the object representation of a number has its highest byte first. The
  sums of the 16-bit reads are sums of \<open>int\<close>, converted at the end.
\<close>

definition be_float4store :: "buffer \<Rightarrow> int \<Rightarrow> fbytes \<Rightarrow> buffer res" where
  "be_float4store b T A =
     rbind (store_byte b T (A ! 3)) (\<lambda>b0. rbind (store_byte b0 (T + 1) (A ! 2)) (\<lambda>b1.
     rbind (store_byte b1 (T + 2) (A ! 1)) (\<lambda>b2. store_byte b2 (T + 3) (A ! 0))))"

definition be_float4get :: "buffer \<Rightarrow> int \<Rightarrow> fbytes res" where
  "be_float4get b M =
     rbind (load_byte b (M + 3)) (\<lambda>d0. rbind (load_byte b (M + 2)) (\<lambda>d1.
     rbind (load_byte b (M + 1)) (\<lambda>d2. rbind (load_byte b (M + 0)) (\<lambda>d3.
       Inr [d0, d1, d2, d3]))))"

definition be_float8store :: "buffer \<Rightarrow> int \<Rightarrow> fbytes \<Rightarrow> buffer res" where
  "be_float8store b T V =
     rbind (store_byte b T (V ! 7)) (\<lambda>b0. rbind (store_byte b0 (T + 1) (V ! 6)) (\<lambda>b1.
     rbind (store_byte b1 (T + 2) (V ! 5)) (\<lambda>b2. rbind (store_byte b2 (T + 3) (V ! 4)) (\<lambda>b3.
     rbind (store_byte b3 (T + 4) (V ! 3)) (\<lambda>b4. rbind (store_byte b4 (T + 5) (V ! 2)) (\<lambda>b5.
     rbind (store_byte b5 (T + 6) (V ! 1)) (\<lambda>b6. store_byte b6 (T + 7) (V ! 0))))))))"

definition be_float8get :: "buffer \<Rightarrow> int \<Rightarrow> fbytes res" where
  "be_float8get b M =
     rbind (load_byte b (M + 7)) (\<lambda>d0. rbind (load_byte b (M + 6)) (\<lambda>d1.
     rbind (load_byte b (M + 5)) (\<lambda>d2. rbind (load_byte b (M + 4)) (\<lambda>d3.
     rbind (load_byte b (M + 3)) (\<lambda>d4. rbind (load_byte b (M + 2)) (\<lambda>d5.
     rbind (load_byte b (M + 1)) (\<lambda>d6. rbind (load_byte b (M + 0)) (\<lambda>d7.
       Inr [d0, d1, d2, d3, d4, d5, d6, d7]))))))))"

definition be_ushortget :: "buffer \<Rightarrow> int \<Rightarrow> u16 res" where
  "be_ushortget b pM =
     rbind (load_byte b (pM + 1)) (\<lambda>m1. rbind (load_byte b pM) (\<lambda>m0.
       Inr (ucast ((ucast m1 :: u32) + push_bit 8 (ucast m0)))))"

definition be_shortget :: "buffer \<Rightarrow> int \<Rightarrow> int res" where
  "be_shortget b pM =
     rbind (load_byte b (pM + 1)) (\<lambda>m1. rbind (load_byte b pM) (\<lambda>m0.
       Inr (sint (ucast ((ucast m1 :: u32) + push_bit 8 (ucast m0)) :: u16))))"

definition be_longget :: "buffer \<Rightarrow> int \<Rightarrow> int res" where
  "be_longget b pM = rbind (load_bytes b pM 4) (\<lambda>bs. Inr (sint (word_of_int (le_val (rev bs)) :: u32)))"

definition be_ulongget :: "buffer \<Rightarrow> int \<Rightarrow> u32 res" where
  "be_ulongget b pM = rbind (load_bytes b pM 4) (\<lambda>bs. Inr (word_of_int (le_val (rev bs))))"

definition be_shortstore :: "buffer \<Rightarrow> int \<Rightarrow> int \<Rightarrow> buffer res" where
  "be_shortstore b T A =
     (let def_temp = (word_of_int A :: u32) in
      rbind (store_byte b (T + 1) (ucast def_temp)) (\<lambda>b1.
        store_byte b1 (T + 0) (ucast (drop_bit 8 def_temp))))"

definition be_longstore :: "buffer \<Rightarrow> int \<Rightarrow> int \<Rightarrow> buffer res" where
  "be_longstore b T A =
     rbind (store_byte b (T + 3) (word_of_int A)) (\<lambda>b3.
     rbind (store_byte b3 (T + 2) (word_of_int (A div 2 ^ 8))) (\<lambda>b2.
     rbind (store_byte b2 (T + 1) (word_of_int (A div 2 ^ 16))) (\<lambda>b1.
       store_byte b1 (T + 0) (word_of_int (A div 2 ^ 24)))))"

definition be_floatget :: "buffer \<Rightarrow> int \<Rightarrow> fbytes res" where
  "be_floatget b M = load_bytes b M 4"

definition be_floatstore :: "buffer \<Rightarrow> int \<Rightarrow> fbytes \<Rightarrow> buffer res" where
  "be_floatstore b T V = store_bytes b T (take 4 V)"

definition be_doubleget :: "buffer \<Rightarrow> int \<Rightarrow> fbytes res" where
  "be_doubleget b M = load_bytes b M 8"

definition be_doublestore :: "buffer \<Rightarrow> int \<Rightarrow> fbytes \<Rightarrow> buffer res" where
  "be_doublestore b T V = store_bytes b T (take 8 V)"

definition be_longlongget :: "buffer \<Rightarrow> int \<Rightarrow> int res" where
  "be_longlongget b M = rbind (load_bytes b M 8) (\<lambda>bs. Inr (sint (word_of_int (le_val (rev bs)) :: u64)))"

definition be_longlongstore :: "buffer \<Rightarrow> int \<Rightarrow> int \<Rightarrow> buffer res" where
  "be_longlongstore b T V = store_bytes b T (rev (le_bytes 8 V))"

section \<open>The two versions agree\<close>

lemma ucast_sum32:
  fixes a0 a1 a2 a3 :: u8
  shows "(ucast a0 :: u32) + push_bit 8 (ucast a1) + push_bit 16 (ucast a2) + push_bit 24 (ucast a3) =
    word_of_int (le_val [a0, a1, a2, a3])"
  by (simp add: push_bit_eq_mult algebra_simps)

lemma ucast_sum16:
  fixes a0 a1 :: u8
  shows "(ucast a0 :: u32) + push_bit 8 (ucast a1) = word_of_int (le_val [a0, a1])"
  by (simp add: push_bit_eq_mult algebra_simps)

lemma ucast_of_int_small:
  assumes "0 \<le> x" and "x < 2 ^ LENGTH('a)"
  shows "(ucast (word_of_int x :: 'a::len word) :: 'b::len word) = word_of_int x"
  using assms by (simp only: ucast_eq uint_word_of_int) (simp add: take_bit_int_eq_self)

lemma le_val_small: "le_val bs < 256 ^ length bs" "0 \<le> le_val bs"
  using le_val_range [of bs] by simp_all

lemma ucast_low16:
  fixes a0 a1 :: u8
  shows "(ucast ((ucast a0 :: u32) + push_bit 8 (ucast a1)) :: u16) = word_of_int (le_val [a0, a1])"
  unfolding ucast_sum16
  by (rule ucast_of_int_small) (use le_val_small [of "[a0, a1]"] in simp_all)

lemma ucast_low32:
  fixes a0 a1 a2 a3 :: u8
  shows "(ucast ((ucast a0 :: u32) + push_bit 8 (ucast a1) + push_bit 16 (ucast a2) + push_bit 24 (ucast a3)) :: u64) =
    word_of_int (le_val [a0, a1, a2, a3])"
  unfolding ucast_sum32
  by (rule ucast_of_int_small) (use le_val_small [of "[a0, a1, a2, a3]"] in simp_all)

lemma ucast_sum24:
  fixes a0 a1 a2 :: u8
  shows "(ucast a0 :: u32) + push_bit 8 (ucast a1) + push_bit 16 (ucast a2) = word_of_int (le_val [a0, a1, a2])"
  by (simp add: push_bit_eq_mult algebra_simps)

lemma high_sum:
  fixes lo :: "u8 list" and hi :: "u8 list"
  shows "(word_of_int (le_val lo) :: u64) + push_bit (8 * length lo) (word_of_int (le_val hi)) =
    word_of_int (le_val (lo @ hi))"
proof -
  have "le_val (lo @ hi) = le_val lo + 256 ^ length lo * le_val hi"
    by (induction lo) (simp_all add: algebra_simps)
  then show ?thesis
    by (simp add: push_bit_eq_mult power_mult)
qed

lemma ucast_le_val: "(ucast (a :: u8) :: u64) = word_of_int (le_val [a])"
  by simp

lemma sum40: "(word_of_int (le_val [a0, a1, a2, a3]) :: u64) + push_bit 32 (ucast (a4 :: u8)) =
    word_of_int (le_val [a0, a1, a2, a3, a4])"
  using high_sum [of "[a0, a1, a2, a3]" "[a4]"] by (simp del: le_val.simps add: ucast_le_val)

lemma sum48: "(word_of_int (le_val [a0, a1, a2, a3, a4]) :: u64) + push_bit 40 (ucast (a5 :: u8)) =
    word_of_int (le_val [a0, a1, a2, a3, a4, a5])"
  using high_sum [of "[a0, a1, a2, a3, a4]" "[a5]"] by (simp del: le_val.simps add: ucast_le_val)

lemma sum64: "(word_of_int (le_val [a0, a1, a2, a3]) :: u64) + push_bit 32 (word_of_int (le_val [a4, a5, a6, a7])) =
    word_of_int (le_val [a0, a1, a2, a3, a4, a5, a6, a7])"
  using high_sum [of "[a0, a1, a2, a3]" "[a4, a5, a6, a7]"] by (simp del: le_val.simps)

lemmas wide_sums = ucast_low16 ucast_low32
lemmas sums = ucast_sum32 sum40 sum48 sum64

lemma korr_agree:
  "generic_sint2korr b A = x86_sint2korr b A"
  "generic_sint4korr b A = x86_sint4korr b A"
  "generic_uint2korr b A = x86_uint2korr b A"
  "generic_uint4korr b A = x86_uint4korr b A"
  unfolding generic_sint2korr_def x86_sint2korr_def generic_sint4korr_def x86_sint4korr_def
    generic_uint2korr_def x86_uint2korr_def generic_uint4korr_def x86_uint4korr_def wide_sums
  unfolding sums x86_load_def rbind_assoc
  by (simp_all add: numeral_eq_Suc rbind_assoc add.assoc del: le_val.simps)

lemma korr8_agree:
  "generic_uint8korr b A = x86_uint8korr b A"
  "generic_sint8korr b A = x86_sint8korr b A"
  unfolding generic_sint8korr_def x86_sint8korr_def generic_uint8korr_def x86_uint8korr_def wide_sums
  unfolding sums x86_load_def rbind_assoc
  by (simp_all add: numeral_eq_Suc rbind_assoc add.assoc del: le_val.simps)

lemma odd_korr_load:
  "uint3korr b A = x86_load b A 3"
  "uint5korr b A = x86_load b A 5"
  "uint6korr b A = x86_load b A 6"
  unfolding uint3korr_def uint5korr_def uint6korr_def wide_sums
  unfolding sums unfolding ucast_sum24 x86_load_def
  by (simp_all add: numeral_eq_Suc rbind_assoc add.assoc del: le_val.simps)

lemma uint_drop: "uint (drop_bit n A) = uint A div 2 ^ n"
  unfolding drop_bit_eq_div [symmetric]
  by (rule bit_eqI) (simp add: bit_unsigned_iff bit_drop_bit_eq)

lemma ucast_drop_byte: "(ucast (drop_bit n A) :: u8) = word_of_int (uint A div 2 ^ n)"
  by (simp only: ucast_eq uint_drop)

lemma uint_ucast32: "uint (ucast A :: u32) = uint A mod 2 ^ 32"
  by (simp only: ucast_eq uint_word_of_int) simp

lemma le_bytes_mod: "le_bytes n (x mod 256 ^ n) = le_bytes n x"
  using le_bytes_val [of "le_bytes n x"] by (simp add: le_val_bytes)

lemma rbind_Inr_right [simp]: "rbind m Inr = m"
  by (cases m) simp_all

lemma le_bytes_explicit:
  "le_bytes 2 x = [word_of_int x, word_of_int (x div 2 ^ 8)]"
  "le_bytes 3 x = [word_of_int x, word_of_int (x div 2 ^ 8), word_of_int (x div 2 ^ 16)]"
  "le_bytes 4 x = [word_of_int x, word_of_int (x div 2 ^ 8), word_of_int (x div 2 ^ 16), word_of_int (x div 2 ^ 24)]"
  "le_bytes 5 x = le_bytes 4 x @ [word_of_int (x div 2 ^ 32)]"
  "le_bytes 6 x = le_bytes 4 x @ [word_of_int (x div 2 ^ 32), word_of_int (x div 2 ^ 40)]"
  "le_bytes 8 x = le_bytes 4 x @ le_bytes 4 (x div 2 ^ 32)"
  by (simp_all add: numeral_eq_Suc zdiv_zmult2_eq [symmetric])

lemma store_bytes_append:
  "store_bytes b i (xs @ ys) = rbind (store_bytes b i xs) (\<lambda>b'. store_bytes b' (i + int (length xs)) ys)"
  by (induction xs arbitrary: b i) (simp_all add: rbind_assoc add.assoc)

lemma store_byte_chain:
  "store_bytes b T [x0, x1] = rbind (store_byte b T x0) (\<lambda>b0. store_byte b0 (T + 1) x1)"
  "store_bytes b T [x0, x1, x2] = rbind (store_byte b T x0) (\<lambda>b0.
     rbind (store_byte b0 (T + 1) x1) (\<lambda>b1. store_byte b1 (T + 2) x2))"
  "store_bytes b T [x0, x1, x2, x3] = rbind (store_byte b T x0) (\<lambda>b0.
     rbind (store_byte b0 (T + 1) x1) (\<lambda>b1. rbind (store_byte b1 (T + 2) x2) (\<lambda>b2.
       store_byte b2 (T + 3) x3)))"
  by (simp_all add: add.assoc)

lemma store4_agree: "generic_int4store b T A = x86_int4store b T A"
  unfolding generic_int4store_def x86_int4store_def le_bytes_explicit store_byte_chain ucast_drop_byte
  by simp

lemma store2_agree: "generic_int2store b T A = x86_int2store b T A"
proof -
  have u: "uint (ucast A :: u32) = uint A"
    unfolding uint_ucast32 using uint_lt2p [of A] by simp
  then have "(ucast (ucast A :: u32) :: u8) = word_of_int (uint A)"
    by (simp only: ucast_eq)
  then show ?thesis
    unfolding generic_int2store_def x86_int2store_def le_bytes_explicit store_byte_chain
      ucast_drop_byte Let_def u
    by (simp only: power_0)
qed

lemma store8_agree: "generic_int8store b T A = x86_int8store b T A"
proof -
  have m: "le_bytes 4 (uint (ucast x :: u32)) = le_bytes 4 (uint x)" for x :: u64
    unfolding uint_ucast32 using le_bytes_mod [of 4 "uint x"] by simp
  show ?thesis
    unfolding generic_int8store_def x86_int8store_def store4_agree x86_int4store_def
      le_bytes_explicit(6) store_bytes_append Let_def m uint_drop
    by simp
qed

lemma odd_store:
  "int3store b T A = store_bytes b T (le_bytes 3 (uint A))"
  "int5store b T A8 = store_bytes b T (le_bytes 5 (uint A8))"
  "int6store b T A8 = store_bytes b T (le_bytes 6 (uint A8))"
  unfolding int3store_def int5store_def int6store_def
    le_bytes_explicit store_byte_chain store_bytes_append ucast_drop_byte
  by (simp_all add: rbind_assoc add.assoc)

section \<open>Stores and loads\<close>

lemma load_stored:
  assumes "in_bounds b T n" and "0 \<le> x" and "x < 256 ^ n"
  shows "\<exists>b'. store_bytes b T (le_bytes n x) = Inr b' \<and>
    (x86_load b' T n :: 'a::len word res) = Inr (word_of_int x)"
proof -
  have "in_bounds (splice b T (le_bytes n x)) T n"
    using assms(1) by (simp add: in_bounds_def)
  moreover have "bytes_at (splice b T (le_bytes n x)) T n = le_bytes n x"
    using bytes_at_splice_same [of b T "le_bytes n x"] by simp
  ultimately show ?thesis
    using assms by (simp add: store_bytes_splice x86_load_def load_bytes_at le_val_bytes)
qed

lemma byte_or_sum:
  fixes a0 a1 a2 :: u8
  shows "push_bit 16 (ucast a2) OR push_bit 8 (ucast a1) OR (ucast a0 :: u32) = word_of_int (le_val [a0, a1, a2])"
    (is ?low)
  and "push_bit 24 255 OR push_bit 16 (ucast a2) OR push_bit 8 (ucast a1) OR (ucast a0 :: u32) =
    word_of_int (le_val [a0, a1, a2] - 2 ^ 24)" (is ?high)
proof -
  have "push_bit 8 (ucast a1) + (ucast a0 :: u32) = push_bit 8 (ucast a1) OR ucast a0"
    by (rule disjunctive_add) (auto simp: bit_simps dest: bit_imp_le_length)
  moreover have "push_bit 16 (ucast a2) + (push_bit 8 (ucast a1) OR (ucast a0 :: u32)) =
      push_bit 16 (ucast a2) OR push_bit 8 (ucast a1) OR ucast a0"
    by (rule disjunctive_add) (auto simp: bit_simps dest: bit_imp_le_length)
  ultimately show l: ?low
    using ucast_sum24 [of a0 a1 a2] by (simp add: algebra_simps)
  have "push_bit 24 (ucast a3) + (push_bit 16 (ucast a2) OR push_bit 8 (ucast a1) OR (ucast a0 :: u32)) =
      push_bit 24 (ucast a3) OR push_bit 16 (ucast a2) OR push_bit 8 (ucast a1) OR ucast a0" for a3 :: u8
    by (rule disjunctive_add) (auto simp: bit_simps dest: bit_imp_le_length)
  moreover have "push_bit 24 (ucast (255 :: u8)) = (- (2 ^ 24) :: u32)"
    by (simp add: push_bit_eq_mult)
  moreover have "push_bit 24 (ucast (255 :: u8)) = (push_bit 24 255 :: u32)"
    by simp
  ultimately have "push_bit 24 255 OR word_of_int (le_val [a0, a1, a2]) =
      - (2 ^ 24) + (word_of_int (le_val [a0, a1, a2]) :: u32)"
    unfolding l by metis
  then show ?high unfolding l by (simp del: le_val.simps)
qed

lemma high_bit: "(a :: u8) AND 128 \<noteq> 0 \<longleftrightarrow> 128 \<le> uint a"
proof -
  have u: "0 \<le> uint a" "uint a < 256" using uint_lt2p [of a] by simp_all
  have "a AND 128 \<noteq> 0 \<longleftrightarrow> bit a 7"
    using and_exp_eq_0_iff_not_bit [of a 7] by simp
  also have "\<dots> \<longleftrightarrow> bit (uint a) 7"
    by (simp add: bit_uint_iff)
  also have "\<dots> \<longleftrightarrow> odd (uint a div 2 ^ 7)"
    by (rule bit_iff_odd)
  also have "\<dots> \<longleftrightarrow> odd (uint a div 128)" by simp
  also have "\<dots> \<longleftrightarrow> 128 \<le> uint a"
    using u by presburger
  finally show ?thesis .
qed

definition signed24 :: "int \<Rightarrow> int" where
  "signed24 v = (if 2 ^ 23 \<le> v then v - 2 ^ 24 else v)"

lemma sint3korr_load:
  "sint3korr b A = rbind (load_bytes b A 3) (\<lambda>bs. Inr (signed24 (le_val bs)))"
proof -
  have "sint (if a2 AND 128 \<noteq> 0
        then push_bit 24 255 OR push_bit 16 (ucast a2) OR push_bit 8 (ucast a1) OR ucast a0
        else push_bit 16 (ucast a2) OR push_bit 8 (ucast a1) OR (ucast a0 :: u32)) = signed24 (le_val [a0, a1, a2])"
    for a0 a1 a2 :: u8
  proof -
    let ?v = "le_val [a0, a1, a2]"
    have v: "0 \<le> ?v" "?v < 2 ^ 24"
      using le_val_small [of "[a0, a1, a2]"] by (simp_all del: le_val.simps)
    have l: "0 \<le> le_val [a0, a1]" "le_val [a0, a1] < 65536"
      using le_val_small [of "[a0, a1]"] by (simp_all del: le_val.simps)
    have e: "?v = le_val [a0, a1] + 65536 * uint a2" by simp
    have "8388608 \<le> ?v \<longleftrightarrow> 128 \<le> uint a2"
      unfolding e by (rule iffI) (use l in linarith)+
    then have h: "2 ^ 23 \<le> ?v \<longleftrightarrow> 128 \<le> uint a2"
      by (simp del: le_val.simps)
    have s: "sint (word_of_int x :: u32) = x" if "- (2 ^ 24) \<le> x" "x < 2 ^ 24" for x
      using that by (simp add: int_word_sint)
    have "sint (word_of_int (?v - 2 ^ 24) :: u32) = ?v - 2 ^ 24" and "sint (word_of_int ?v :: u32) = ?v"
      by (rule s; use v in linarith)+
    then show ?thesis
      unfolding byte_or_sum(2) unfolding byte_or_sum(1) high_bit signed24_def h by (cases "128 \<le> uint a2") (simp_all only: if_True if_False simp_thms)
  qed
  then show ?thesis
    unfolding sint3korr_def by (simp add: numeral_eq_Suc rbind_assoc add.assoc del: le_val.simps)
qed

section \<open>A store followed by a load\<close>

text \<open>
  What a store and a load of \<open>n\<close> bytes at the same place do one after the other: the store
  succeeds, the load gives \<open>y\<close>, and nothing outside the \<open>n\<close> bytes changed.
\<close>

definition put_then_get ::
  "(buffer \<Rightarrow> int \<Rightarrow> 'a \<Rightarrow> buffer res) \<Rightarrow> (buffer \<Rightarrow> int \<Rightarrow> 'b res) \<Rightarrow> nat \<Rightarrow> 'a \<Rightarrow> 'b \<Rightarrow> buffer \<Rightarrow> int \<Rightarrow> bool" where
  "put_then_get st ld n x y b T \<longleftrightarrow>
     (\<exists>b'. st b T x = Inr b' \<and> ld b' T = Inr y \<and> buf_size b' = buf_size b \<and>
        (\<forall>j. j < T \<or> T + int n \<le> j \<longrightarrow> buf_at b' j = buf_at b j))"

lemma put_then_get_run:
  assumes "in_bounds b T n" and "length bs = n" and "st b T x = store_bytes b T bs"
    and "\<And>b'. in_bounds b' T n \<Longrightarrow> bytes_at b' T n = bs \<Longrightarrow> ld b' T = Inr y"
  shows "put_then_get st ld n x y b T"
proof -
  have "store_bytes b T bs = Inr (splice b T bs)"
    using assms by (simp add: store_bytes_splice)
  moreover have "ld (splice b T bs) T = Inr y"
    using assms bytes_at_splice_same [of b T bs] by (simp add: in_bounds_def)
  ultimately show ?thesis
    unfolding put_then_get_def using assms
    by (intro exI [of _ "splice b T bs"]) (auto simp: buf_at_splice)
qed

lemma put_then_getI:
  assumes "in_bounds b T n" and "length bs = n" and "st b T x = store_bytes b T bs"
    and "\<And>b'. ld b' T = rbind (load_bytes b' T n) f" and "f bs = Inr y"
  shows "put_then_get st ld n x y b T"
  by (rule put_then_get_run [where bs = bs]) (simp_all add: assms load_bytes_at)

lemma word_le_bytes:
  fixes A :: "'a::len word"
  assumes "LENGTH('a) = 8 * n"
  shows "word_of_int (le_val (le_bytes n (uint A))) = A"
proof -
  have "uint A < 256 ^ n"
    using uint_lt2p [of A] assms by (simp add: power_mult)
  then show ?thesis by (simp add: le_val_bytes)
qed

lemma put_get_word:
  fixes st :: "buffer \<Rightarrow> int \<Rightarrow> 'a::len word \<Rightarrow> buffer res"
  assumes "in_bounds b T n" and "\<And>b T x. st b T x = store_bytes b T (le_bytes n (uint x))"
    and "\<And>b T. ld b T = x86_load b T n"
  shows "put_then_get st ld n x (word_of_int (uint x mod 256 ^ n) :: 'b::len word) b T"
  by (rule put_then_getI [OF assms(1), where bs = "le_bytes n (uint x)"
        and f = "\<lambda>bs. Inr (word_of_int (le_val bs))"])
    (simp_all add: assms(2,3) x86_load_def le_val_bytes)

lemma put_get_signed:
  assumes "in_bounds b T 3"
  shows "put_then_get int3store sint3korr 3 x (signed24 (uint x mod 2 ^ 24)) b T"
  by (rule put_then_getI [OF assms, where bs = "le_bytes 3 (uint x)"
        and f = "\<lambda>bs. Inr (signed24 (le_val bs))"])
    (simp_all add: odd_store sint3korr_load le_val_bytes)

lemma word_mod_id:
  fixes x :: "'a::len word"
  assumes "LENGTH('a) = 8 * n"
  shows "word_of_int (uint x mod 256 ^ n) = x"
  using word_le_bytes [OF assms, of x] by (simp add: le_val_bytes)

lemma word_mod_take_bit:
  fixes x :: "'a::len word"
  shows "word_of_int (uint x mod 256 ^ n) = take_bit (8 * n) x"
proof -
  have "uint (take_bit (8 * n) x) = take_bit (8 * n) (uint x)"
    by (rule unsigned_take_bit_eq)
  also have "\<dots> = uint x mod 256 ^ n"
    by (simp add: take_bit_eq_mod power_mult)
  finally have "uint (take_bit (8 * n) x) = uint x mod 256 ^ n" .
  then show ?thesis by (metis word_of_int_uint)
qed

lemma x86_store_load:
  fixes x :: "'a::len word"
  assumes "in_bounds b T n" and "LENGTH('a) = 8 * n"
    and "\<And>b T x. st b T x = store_bytes b T (le_bytes n (uint (x :: 'a word)))"
    and "\<And>b T. ld b T = x86_load b T n"
  shows "put_then_get st ld n x x b T"
  using put_get_word [OF assms(1,3,4), of x] word_mod_id [OF assms(2), of x] by simp

lemma odd_store_load:
  fixes x :: "'a::len word" and ld :: "buffer \<Rightarrow> int \<Rightarrow> 'a word res"
  assumes "in_bounds b T n" and "\<And>b T x. st b T x = store_bytes b T (le_bytes n (uint (x :: 'a word)))"
    and "\<And>b T. ld b T = x86_load b T n"
  shows "put_then_get st ld n x (take_bit (8 * n) x) b T"
  using put_get_word [OF assms, of x] by (simp add: word_mod_take_bit)

section \<open>Formats across machines\<close>

lemma list4: "length (A :: 'a list) = 4 \<Longrightarrow> \<exists>a b c d. A = [a, b, c, d]"
  by (auto simp: numeral_eq_Suc length_Suc_conv)

lemma list8: "length (A :: 'a list) = 8 \<Longrightarrow> \<exists>a b c d e f g h. A = [a, b, c, d, e, f, g, h]"
  by (auto simp: numeral_eq_Suc length_Suc_conv)

lemma be_float_stores:
  "length A = 4 \<Longrightarrow> be_float4store b T A = store_bytes b T (rev A)"
  "length A = 8 \<Longrightarrow> be_float8store b T A = store_bytes b T (rev A)"
  "length A = 8 \<Longrightarrow> swapped_doublestore b T A = store_bytes b T (drop 4 A @ take 4 A)"
  by (auto dest!: list4 list8 simp: be_float4store_def be_float8store_def swapped_doublestore_def add.assoc)

lemma load_byte_in: "in_bounds b T n \<Longrightarrow> 0 \<le> k \<Longrightarrow> k < int n \<Longrightarrow> load_byte b (T + k) = Inr (buf_at b (T + k))"
  by (simp add: in_bounds_def load_byte_def)

lemma be_float_loads:
  "in_bounds b T 4 \<Longrightarrow> be_float4get b T = Inr (rev (bytes_at b T 4))"
  "in_bounds b T 8 \<Longrightarrow> be_float8get b T = Inr (rev (bytes_at b T 8))"
  "in_bounds b T 8 \<Longrightarrow> swapped_doubleget b T = Inr (drop 4 (bytes_at b T 8) @ take 4 (bytes_at b T 8))"
  unfolding be_float4get_def be_float8get_def swapped_doubleget_def
  by (simp_all add: load_byte_in load_byte_in [of _ _ _ 0, simplified] numeral_eq_Suc bytes_at_Suc add.assoc)

text \<open>
  A \<open>float\<close> stored by a big-endian machine is read by a little-endian one as the same number,
  that is with its bytes the other way round, and back. The halves of a \<open>double\<close> that the
  bi-endian hardware swaps on the way out are swapped back on the way in.
\<close>

lemma float_formats:
  assumes "in_bounds b T 8" and "length F = 4" and "length D = 8"
  shows "put_then_get be_float4store le_float4get 4 F (rev F) b T"
    and "put_then_get le_float4store be_float4get 4 F (rev F) b T"
    and "put_then_get be_float8store le_float8get 8 D (rev D) b T"
    and "put_then_get le_float8store be_float8get 8 D (rev D) b T"
    and "put_then_get swapped_doublestore swapped_doubleget 8 D D b T"
proof -
  have b4: "in_bounds b T 4" using assms(1) by (simp add: in_bounds_def)
  note d = le_float4get_def le_float4store_def le_float8get_def le_float8store_def be_float_stores
    be_float_loads load_bytes_at assms(2,3)
  show "put_then_get be_float4store le_float4get 4 F (rev F) b T"
    and "put_then_get le_float4store be_float4get 4 F (rev F) b T"
    by (rule put_then_get_run [OF b4, where bs = "rev F"], simp_all add: d,
        rule put_then_get_run [OF b4, where bs = F], simp_all add: d)
  show "put_then_get be_float8store le_float8get 8 D (rev D) b T"
    and "put_then_get le_float8store be_float8get 8 D (rev D) b T"
    by (rule put_then_get_run [OF assms(1), where bs = "rev D"], simp_all add: d,
        rule put_then_get_run [OF assms(1), where bs = D], simp_all add: d)
  show "put_then_get swapped_doublestore swapped_doubleget 8 D D b T"
    by (rule put_then_get_run [OF assms(1), where bs = "drop 4 D @ take 4 D"]) (simp_all add: d)
qed

text \<open>
  The numbers in machine format: what a machine stores it loads, on either byte order.
\<close>

lemma be_longstore_bytes:
  assumes "in_bounds b T 4"
  shows "be_longstore b T V = store_bytes b T (rev (le_bytes 4 V))"
proof -
  have "0 \<le> T" "T + 3 < buf_size b" using assms by (simp_all add: in_bounds_def)
  then show ?thesis
    by (auto simp: be_longstore_def le_bytes_explicit store_byte_def fun_upd_twist add.assoc intro!: buffer.equality ext)
qed

lemma le_bytes_word: "le_bytes 4 (uint (word_of_int V :: u32)) = le_bytes 4 V"
  using le_bytes_mod [of 4 V] by (simp only: uint_word_of_int) simp

lemma sint_mod32:
  assumes "- (2 ^ 31) \<le> V" and "V < 2 ^ 31"
  shows "sint (word_of_int (V mod 2 ^ 32) :: u32) = V"
proof -
  have "sint (word_of_int V :: u32) = V" using assms by (simp add: int_word_sint)
  moreover have "(word_of_int (V mod 2 ^ 32) :: u32) = word_of_int V"
    by (simp add: word_uint_eq_iff uint_word_of_int)
  ultimately show ?thesis by simp
qed

lemma machine_numbers:
  assumes "in_bounds b T 4" and "- (2 ^ 31) \<le> V" and "V < 2 ^ 31"
  shows "put_then_get le_longstore le_longget 4 V V b T"
    and "put_then_get be_longstore be_longget 4 V V b T"
proof -
  show "put_then_get le_longstore le_longget 4 V V b T"
    by (rule put_then_getI [OF assms(1), where bs = "le_bytes 4 V" and f = "\<lambda>bs. Inr (sint (word_of_int (le_val bs) :: u32))"])
      (simp_all add: le_longstore_def x86_int4store_def le_bytes_word le_longget_def x86_sint4korr_def x86_load_def
        rbind_assoc le_val_bytes sint_mod32 [OF assms(2,3), simplified])
  show "put_then_get be_longstore be_longget 4 V V b T"
    by (rule put_then_getI [OF assms(1), where bs = "rev (le_bytes 4 V)"
          and f = "\<lambda>bs. Inr (sint (word_of_int (le_val (rev bs)) :: u32))"])
      (simp_all add: be_longstore_bytes [OF assms(1)] be_longget_def le_val_bytes sint_mod32 [OF assms(2,3), simplified])
qed

section \<open>Properties\<close>

text \<open>
  C39: The two versions of the byte-order functions are the same
  functions. For every memory and every pointer, the word access of the x86 header gives the
  number the shifts and sums of the portable header give, stores the bytes they store, and
  leaves the array exactly when they do.
\<close>

theorem byteorder_versions_agree:
  "x86_sint2korr b A = generic_sint2korr b A \<and> x86_sint4korr b A = generic_sint4korr b A \<and>
   x86_sint8korr b A = generic_sint8korr b A \<and> x86_uint2korr b A = generic_uint2korr b A \<and>
   x86_uint4korr b A = generic_uint4korr b A \<and> x86_uint8korr b A = generic_uint8korr b A \<and>
   x86_int2store b A x2 = generic_int2store b A x2 \<and> x86_int4store b A x4 = generic_int4store b A x4 \<and>
   x86_int8store b A x8 = generic_int8store b A x8"
  by (simp only: korr_agree korr8_agree store2_agree store4_agree store8_agree simp_thms)

text \<open>
  C40: A number stored is the number loaded. In any array with room for
  eight bytes at the pointer, each store succeeds and changes no other byte, and the load of
  the same width gives the number back, cut to its lowest 24, 40 or 48 bits by the functions of
  the odd widths. Three bytes read as a signed number are sign-extended from bit 23.
\<close>

theorem number_stored_and_loaded:
  assumes "in_bounds b T 8"
  shows "put_then_get x86_int2store x86_uint2korr 2 x2 x2 b T \<and>
    put_then_get x86_int4store x86_uint4korr 4 x4 x4 b T \<and>
    put_then_get x86_int8store x86_uint8korr 8 x8 x8 b T \<and>
    put_then_get int3store uint3korr 3 x4 (take_bit 24 x4) b T \<and>
    put_then_get int5store uint5korr 5 x8 (take_bit 40 x8) b T \<and>
    put_then_get int6store uint6korr 6 x8 (take_bit 48 x8) b T \<and>
    put_then_get int3store sint3korr 3 x4 (signed24 (uint x4 mod 2 ^ 24)) b T"
proof -
  have n: "in_bounds b T n" if "n \<le> 8" for n using assms that by (simp add: in_bounds_def)
  have "put_then_get x86_int2store x86_uint2korr 2 x2 x2 b T"
    and "put_then_get x86_int4store x86_uint4korr 4 x4 x4 b T"
    and "put_then_get x86_int8store x86_uint8korr 8 x8 x8 b T"
    by (rule x86_store_load [OF n];
        simp add: x86_int2store_def x86_int4store_def x86_int8store_def x86_uint2korr_def
          x86_uint4korr_def x86_uint8korr_def)+
  moreover have "put_then_get int3store uint3korr 3 x4 (take_bit (8 * 3) x4) b T"
    and "put_then_get int5store uint5korr 5 x8 (take_bit (8 * 5) x8) b T"
    and "put_then_get int6store uint6korr 6 x8 (take_bit (8 * 6) x8) b T"
    by (rule odd_store_load [OF n]; simp add: odd_store odd_korr_load)+
  moreover have "put_then_get int3store sint3korr 3 x4 (signed24 (uint x4 mod 2 ^ 24)) b T"
    by (rule put_get_signed [OF n]) simp
  ultimately show ?thesis by simp
qed

definition eight_bytes :: buffer where
  "eight_bytes = \<lparr>buf_size = 8, buf_at = (\<lambda>_. 0)\<rparr>"

theorem number_stored_and_loaded_witness:
  "put_then_get x86_int4store x86_uint4korr 4 0x12345678 0x12345678 eight_bytes 0 \<and>
   put_then_get int3store sint3korr 3 0xFFFFFE (- 2) eight_bytes 0"
  using number_stored_and_loaded [of eight_bytes 0 _ "0x12345678"]
    number_stored_and_loaded [of eight_bytes 0 _ "0xFFFFFE"]
  by (simp add: eight_bytes_def in_bounds_def signed24_def)

end
