(* ===== verification/MySQL_Socket.thy ===== *)
theory MySQL_Socket
  imports SG_Prelude
begin

text \<open>
  The instrumented sockets of the MySQL headers (mysql/psi/mysql_socket.h): each function
  makes one call of the operating system and, when the header is compiled with
  instrumentation and the socket carries an instrument, reports the wait to the performance
  schema before and after. The operating system and the performance schema, whose sources are
  not in the repository, are parameters: records of functions over the worlds \<open>'w\<close> and \<open>'p\<close>.
  \<open>HAVE_PSI_SOCKET_INTERFACE\<close> and \<open>_WIN32\<close> are two switches of a configuration, so that every
  theorem holds for each of the four builds.
\<close>

section \<open>Configuration, operating system and performance schema\<close>

record build =
  HAVE_PSI_SOCKET_INTERFACE :: bool
  WIN32 :: bool

text \<open>A pointer the functions only pass on is its address, with 0 for \<open>NULL\<close>.\<close>

type_synonym ptr = nat

record 'w os =
  os_socket :: "int \<Rightarrow> int \<Rightarrow> int \<Rightarrow> 'w \<Rightarrow> int \<times> 'w"
  os_bind :: "int \<Rightarrow> ptr \<Rightarrow> int \<Rightarrow> 'w \<Rightarrow> int \<times> 'w"
  os_getsockname :: "int \<Rightarrow> ptr \<Rightarrow> ptr \<Rightarrow> 'w \<Rightarrow> int \<times> 'w"
  os_connect :: "int \<Rightarrow> ptr \<Rightarrow> int \<Rightarrow> 'w \<Rightarrow> int \<times> 'w"
  os_getpeername :: "int \<Rightarrow> ptr \<Rightarrow> ptr \<Rightarrow> 'w \<Rightarrow> int \<times> 'w"
  os_send :: "int \<Rightarrow> ptr \<Rightarrow> int \<Rightarrow> int \<Rightarrow> 'w \<Rightarrow> int \<times> 'w"
  os_recv :: "int \<Rightarrow> ptr \<Rightarrow> int \<Rightarrow> int \<Rightarrow> 'w \<Rightarrow> int \<times> 'w"
  os_sendto :: "int \<Rightarrow> ptr \<Rightarrow> int \<Rightarrow> int \<Rightarrow> ptr \<Rightarrow> int \<Rightarrow> 'w \<Rightarrow> int \<times> 'w"
  os_recvfrom :: "int \<Rightarrow> ptr \<Rightarrow> int \<Rightarrow> int \<Rightarrow> ptr \<Rightarrow> ptr \<Rightarrow> 'w \<Rightarrow> int \<times> 'w"
  os_getsockopt :: "int \<Rightarrow> int \<Rightarrow> int \<Rightarrow> ptr \<Rightarrow> ptr \<Rightarrow> 'w \<Rightarrow> int \<times> 'w"
  os_setsockopt :: "int \<Rightarrow> int \<Rightarrow> int \<Rightarrow> ptr \<Rightarrow> int \<Rightarrow> 'w \<Rightarrow> int \<times> 'w"
  os_listen :: "int \<Rightarrow> int \<Rightarrow> 'w \<Rightarrow> int \<times> 'w"
  os_accept :: "int \<Rightarrow> ptr \<Rightarrow> int \<Rightarrow> 'w \<Rightarrow> int \<times> int \<times> 'w"
  os_closesocket :: "int \<Rightarrow> 'w \<Rightarrow> int \<times> 'w"
  os_shutdown :: "int \<Rightarrow> int \<Rightarrow> 'w \<Rightarrow> int \<times> 'w"
  os_ioctlsocket_FIONBIO :: "int \<Rightarrow> int \<Rightarrow> 'w \<Rightarrow> int \<times> 'w"
  os_fcntl_F_GETFL :: "int \<Rightarrow> int \<Rightarrow> 'w \<Rightarrow> int \<times> 'w"
  os_fcntl_F_SETFL :: "int \<Rightarrow> int \<Rightarrow> 'w \<Rightarrow> int \<times> 'w"
  os_errno :: "'w \<Rightarrow> int"
  os_O_NONBLOCK :: int
  os_WSAIoctl_DisconnectEx :: "int \<Rightarrow> 'w \<Rightarrow> bool \<times> 'w"
  os_DisconnectEx :: "int \<Rightarrow> 'w \<Rightarrow> bool \<times> 'w"

text \<open>
  \<open>os_accept\<close> gets the value of the length it is given a pointer to and returns its new value.
  \<open>os_WSAIoctl_DisconnectEx\<close> says whether the pointer it fills is set.
\<close>

datatype PSI_socket_operation =
    PSI_SOCKET_CREATE | PSI_SOCKET_CONNECT | PSI_SOCKET_BIND | PSI_SOCKET_CLOSE
  | PSI_SOCKET_SEND | PSI_SOCKET_RECV | PSI_SOCKET_SENDTO | PSI_SOCKET_RECVFROM
  | PSI_SOCKET_SENDMSG | PSI_SOCKET_RECVMSG | PSI_SOCKET_SEEK | PSI_SOCKET_OPT
  | PSI_SOCKET_STAT | PSI_SOCKET_SHUTDOWN | PSI_SOCKET_SELECT

datatype PSI_socket_state = PSI_SOCKET_STATE_IDLE | PSI_SOCKET_STATE_ACTIVE

type_synonym PSI_socket = nat
type_synonym PSI_socket_locker = nat

record 'p psi_service =
  register_socket :: "string \<Rightarrow> ptr \<Rightarrow> int \<Rightarrow> 'p \<Rightarrow> 'p"
  init_socket :: "nat \<Rightarrow> int \<Rightarrow> ptr \<Rightarrow> int \<Rightarrow> 'p \<Rightarrow> PSI_socket option \<times> 'p"
  destroy_socket :: "PSI_socket \<Rightarrow> 'p \<Rightarrow> 'p"
  start_socket_wait :: "PSI_socket \<Rightarrow> PSI_socket_operation \<Rightarrow> nat \<Rightarrow> string \<Rightarrow> nat \<Rightarrow> 'p \<Rightarrow>
    PSI_socket_locker option \<times> 'p"
  end_socket_wait :: "PSI_socket_locker \<Rightarrow> nat \<Rightarrow> 'p \<Rightarrow> 'p"
  set_socket_state :: "PSI_socket \<Rightarrow> PSI_socket_state \<Rightarrow> 'p \<Rightarrow> 'p"
  set_socket_info :: "PSI_socket \<Rightarrow> int option \<Rightarrow> ptr \<Rightarrow> int \<Rightarrow> 'p \<Rightarrow> 'p"
  set_socket_thread_owner :: "PSI_socket \<Rightarrow> 'p \<Rightarrow> 'p"

record ('w, 'p) env =
  cfg :: build
  sys :: "'w os"
  psi :: "'p psi_service"

text \<open>The worlds, and the static variable \<open>DisconnectEx\<close> of \<open>inline_mysql_socket_shutdown\<close>.\<close>

record ('w, 'p) world =
  os_world :: 'w
  psi_world :: 'p
  DisconnectEx :: bool

section \<open>The instrumented socket\<close>

record MYSQL_SOCKET =
  fd :: int
  m_psi :: "PSI_socket option"

definition INVALID_SOCKET :: "build \<Rightarrow> int" where
  "INVALID_SOCKET c = (if WIN32 c then 2 ^ 32 - 1 else - 1)"

definition mysql_socket_invalid :: "build \<Rightarrow> MYSQL_SOCKET" where
  "mysql_socket_invalid c = \<lparr>fd = INVALID_SOCKET c, m_psi = None\<rparr>"

definition mysql_socket_set_address ::
  "('w, 'p) env \<Rightarrow> MYSQL_SOCKET \<Rightarrow> ptr \<Rightarrow> int \<Rightarrow> ('w, 'p) world \<Rightarrow> ('w, 'p) world" where
  "mysql_socket_set_address e socket addr addr_len w =
     (if HAVE_PSI_SOCKET_INTERFACE (cfg e) then
        (case m_psi socket of
           None \<Rightarrow> w
         | Some s \<Rightarrow> w\<lparr>psi_world := set_socket_info (psi e) s None addr addr_len (psi_world w)\<rparr>)
      else w)"

definition mysql_socket_set_thread_owner ::
  "('w, 'p) env \<Rightarrow> MYSQL_SOCKET \<Rightarrow> ('w, 'p) world \<Rightarrow> ('w, 'p) world" where
  "mysql_socket_set_thread_owner e socket w =
     (if HAVE_PSI_SOCKET_INTERFACE (cfg e) then
        (case m_psi socket of
           None \<Rightarrow> w
         | Some s \<Rightarrow> w\<lparr>psi_world := set_socket_thread_owner (psi e) s (psi_world w)\<rparr>)
      else w)"

definition mysql_socket_getfd :: "MYSQL_SOCKET \<Rightarrow> int" where
  "mysql_socket_getfd mysql_socket = fd mysql_socket"

text \<open>From the socket the pointer points at, if it is not null, to its new value.\<close>

definition mysql_socket_setfd :: "MYSQL_SOCKET option \<Rightarrow> int \<Rightarrow> MYSQL_SOCKET option" where
  "mysql_socket_setfd mysql_socket f =
     (case mysql_socket of None \<Rightarrow> None | Some s \<Rightarrow> Some (s\<lparr>fd := f\<rparr>))"

definition inline_mysql_start_socket_wait ::
  "('w, 'p) env \<Rightarrow> MYSQL_SOCKET \<Rightarrow> PSI_socket_operation \<Rightarrow> nat \<Rightarrow> string \<Rightarrow> nat \<Rightarrow> ('w, 'p) world \<Rightarrow>
   PSI_socket_locker option \<times> ('w, 'p) world" where
  "inline_mysql_start_socket_wait e mysql_socket op byte_count src_file src_line w =
     (case m_psi mysql_socket of
        None \<Rightarrow> (None, w)
      | Some s \<Rightarrow>
          let (locker, p) = start_socket_wait (psi e) s op byte_count src_file src_line (psi_world w)
          in (locker, w\<lparr>psi_world := p\<rparr>))"

definition inline_mysql_end_socket_wait ::
  "('w, 'p) env \<Rightarrow> PSI_socket_locker option \<Rightarrow> nat \<Rightarrow> ('w, 'p) world \<Rightarrow> ('w, 'p) world" where
  "inline_mysql_end_socket_wait e locker byte_count w =
     (case locker of
        None \<Rightarrow> w
      | Some l \<Rightarrow> w\<lparr>psi_world := end_socket_wait (psi e) l byte_count (psi_world w)\<rparr>)"

definition inline_mysql_socket_set_state ::
  "('w, 'p) env \<Rightarrow> MYSQL_SOCKET \<Rightarrow> PSI_socket_state \<Rightarrow> ('w, 'p) world \<Rightarrow> ('w, 'p) world" where
  "inline_mysql_socket_set_state e mysql_socket state w =
     (case m_psi mysql_socket of
        None \<Rightarrow> w
      | Some s \<Rightarrow> w\<lparr>psi_world := set_socket_state (psi e) s state (psi_world w)\<rparr>)"

definition inline_mysql_socket_register ::
  "('w, 'p) env \<Rightarrow> string \<Rightarrow> ptr \<Rightarrow> int \<Rightarrow> ('w, 'p) world \<Rightarrow> ('w, 'p) world" where
  "inline_mysql_socket_register e category info count w =
     w\<lparr>psi_world := register_socket (psi e) category info count (psi_world w)\<rparr>"

section \<open>The socket calls\<close>

text \<open>
  A call of the operating system changes its world only; the instrument of a socket, when the
  build has instrumentation.
\<close>

definition os_call :: "('w \<Rightarrow> 'r \<times> 'w) \<Rightarrow> ('w, 'p) world \<Rightarrow> 'r \<times> ('w, 'p) world" where
  "os_call f w = (let (r, ow) = f (os_world w) in (r, w\<lparr>os_world := ow\<rparr>))"

definition instrument :: "('w, 'p) env \<Rightarrow> MYSQL_SOCKET \<Rightarrow> PSI_socket option" where
  "instrument e s = (if HAVE_PSI_SOCKET_INTERFACE (cfg e) then m_psi s else None)"

text \<open>The start of a wait on an instrument, and its end when there is a locker.\<close>

definition psi_start ::
  "('w, 'p) env \<Rightarrow> PSI_socket \<Rightarrow> PSI_socket_operation \<Rightarrow> nat \<Rightarrow> string \<Rightarrow> nat \<Rightarrow> ('w, 'p) world \<Rightarrow>
   PSI_socket_locker option \<times> ('w, 'p) world" where
  "psi_start e s op n src_file src_line w =
     (let (locker, p) = start_socket_wait (psi e) s op n src_file src_line (psi_world w)
      in (locker, w\<lparr>psi_world := p\<rparr>))"

definition psi_end :: "('w, 'p) env \<Rightarrow> PSI_socket_locker option \<Rightarrow> nat \<Rightarrow> ('w, 'p) world \<Rightarrow> ('w, 'p) world" where
  "psi_end e locker n w =
     (case locker of
        None \<Rightarrow> w
      | Some l \<Rightarrow> w\<lparr>psi_world := end_socket_wait (psi e) l n (psi_world w)\<rparr>)"

text \<open>\<open>IF_WIN((int),) n\<close>: the length of a buffer, converted to \<open>int\<close> on Windows.\<close>

definition IF_WIN_int :: "build \<Rightarrow> nat \<Rightarrow> int" where
  "IF_WIN_int c n = (if WIN32 c then to_int32 (int n) else int n)"

definition inline_mysql_socket_socket ::
  "('w, 'p) env \<Rightarrow> nat \<Rightarrow> int \<Rightarrow> int \<Rightarrow> int \<Rightarrow> ('w, 'p) world \<Rightarrow> MYSQL_SOCKET \<times> ('w, 'p) world" where
  "inline_mysql_socket_socket e key domain type protocol w =
     (let (f, w1) = os_call (os_socket (sys e) domain type protocol) w;
          mysql_socket = (mysql_socket_invalid (cfg e))\<lparr>fd := f\<rparr>
      in if HAVE_PSI_SOCKET_INTERFACE (cfg e) \<and> fd mysql_socket \<noteq> INVALID_SOCKET (cfg e) then
           let (s, p) = init_socket (psi e) key (fd mysql_socket) 0 0 (psi_world w1)
           in (mysql_socket\<lparr>m_psi := s\<rparr>, w1\<lparr>psi_world := p\<rparr>)
         else (mysql_socket, w1))"

definition inline_mysql_socket_bind ::
  "('w, 'p) env \<Rightarrow> string \<Rightarrow> nat \<Rightarrow> MYSQL_SOCKET \<Rightarrow> ptr \<Rightarrow> int \<Rightarrow> ('w, 'p) world \<Rightarrow> int \<times> ('w, 'p) world" where
  "inline_mysql_socket_bind e src_file src_line mysql_socket addr len w =
     (case instrument e mysql_socket of
        None \<Rightarrow> os_call (os_bind (sys e) (fd mysql_socket) addr len) w
      | Some s \<Rightarrow>
          let (locker, w1) = psi_start e s PSI_SOCKET_BIND 0 src_file src_line w;
              (result, w2) = os_call (os_bind (sys e) (fd mysql_socket) addr len) w1;
              w3 = (if result = 0 then w2\<lparr>psi_world := set_socket_info (psi e) s None addr len (psi_world w2)\<rparr> else w2)
          in (result, psi_end e locker 0 w3))"

definition inline_mysql_socket_getsockname ::
  "('w, 'p) env \<Rightarrow> string \<Rightarrow> nat \<Rightarrow> MYSQL_SOCKET \<Rightarrow> ptr \<Rightarrow> ptr \<Rightarrow> ('w, 'p) world \<Rightarrow> int \<times> ('w, 'p) world" where
  "inline_mysql_socket_getsockname e src_file src_line mysql_socket addr len w =
     (case instrument e mysql_socket of
        None \<Rightarrow> os_call (os_getsockname (sys e) (fd mysql_socket) addr len) w
      | Some s \<Rightarrow>
          let (locker, w1) = psi_start e s PSI_SOCKET_BIND 0 src_file src_line w;
              (result, w2) = os_call (os_getsockname (sys e) (fd mysql_socket) addr len) w1
          in (result, psi_end e locker 0 w2))"

definition inline_mysql_socket_connect ::
  "('w, 'p) env \<Rightarrow> string \<Rightarrow> nat \<Rightarrow> MYSQL_SOCKET \<Rightarrow> ptr \<Rightarrow> int \<Rightarrow> ('w, 'p) world \<Rightarrow> int \<times> ('w, 'p) world" where
  "inline_mysql_socket_connect e src_file src_line mysql_socket addr len w =
     (case instrument e mysql_socket of
        None \<Rightarrow> os_call (os_connect (sys e) (fd mysql_socket) addr len) w
      | Some s \<Rightarrow>
          let (locker, w1) = psi_start e s PSI_SOCKET_CONNECT 0 src_file src_line w;
              (result, w2) = os_call (os_connect (sys e) (fd mysql_socket) addr len) w1
          in (result, psi_end e locker 0 w2))"

definition inline_mysql_socket_getpeername ::
  "('w, 'p) env \<Rightarrow> string \<Rightarrow> nat \<Rightarrow> MYSQL_SOCKET \<Rightarrow> ptr \<Rightarrow> ptr \<Rightarrow> ('w, 'p) world \<Rightarrow> int \<times> ('w, 'p) world" where
  "inline_mysql_socket_getpeername e src_file src_line mysql_socket addr len w =
     (case instrument e mysql_socket of
        None \<Rightarrow> os_call (os_getpeername (sys e) (fd mysql_socket) addr len) w
      | Some s \<Rightarrow>
          let (locker, w1) = psi_start e s PSI_SOCKET_BIND 0 src_file src_line w;
              (result, w2) = os_call (os_getpeername (sys e) (fd mysql_socket) addr len) w1
          in (result, psi_end e locker 0 w2))"

definition inline_mysql_socket_send ::
  "('w, 'p) env \<Rightarrow> string \<Rightarrow> nat \<Rightarrow> MYSQL_SOCKET \<Rightarrow> ptr \<Rightarrow> nat \<Rightarrow> int \<Rightarrow> ('w, 'p) world \<Rightarrow> int \<times> ('w, 'p) world" where
  "inline_mysql_socket_send e src_file src_line mysql_socket buf n flags w =
     (case instrument e mysql_socket of
        None \<Rightarrow> os_call (os_send (sys e) (fd mysql_socket) buf (IF_WIN_int (cfg e) n) flags) w
      | Some s \<Rightarrow>
          let (locker, w1) = psi_start e s PSI_SOCKET_SEND n src_file src_line w;
              (result, w2) = os_call (os_send (sys e) (fd mysql_socket) buf (IF_WIN_int (cfg e) n) flags) w1;
              bytes_written = (if result > - 1 then nat result else 0)
          in (result, psi_end e locker bytes_written w2))"

definition inline_mysql_socket_recv ::
  "('w, 'p) env \<Rightarrow> string \<Rightarrow> nat \<Rightarrow> MYSQL_SOCKET \<Rightarrow> ptr \<Rightarrow> nat \<Rightarrow> int \<Rightarrow> ('w, 'p) world \<Rightarrow> int \<times> ('w, 'p) world" where
  "inline_mysql_socket_recv e src_file src_line mysql_socket buf n flags w =
     (case instrument e mysql_socket of
        None \<Rightarrow> os_call (os_recv (sys e) (fd mysql_socket) buf (IF_WIN_int (cfg e) n) flags) w
      | Some s \<Rightarrow>
          let (locker, w1) = psi_start e s PSI_SOCKET_RECV 0 src_file src_line w;
              (result, w2) = os_call (os_recv (sys e) (fd mysql_socket) buf (IF_WIN_int (cfg e) n) flags) w1;
              bytes_read = (if result > - 1 then nat result else 0)
          in (result, psi_end e locker bytes_read w2))"

definition inline_mysql_socket_sendto ::
  "('w, 'p) env \<Rightarrow> string \<Rightarrow> nat \<Rightarrow> MYSQL_SOCKET \<Rightarrow> ptr \<Rightarrow> nat \<Rightarrow> int \<Rightarrow> ptr \<Rightarrow> int \<Rightarrow> ('w, 'p) world \<Rightarrow> int \<times> ('w, 'p) world" where
  "inline_mysql_socket_sendto e src_file src_line mysql_socket buf n flags addr addr_len w =
     (case instrument e mysql_socket of
        None \<Rightarrow> os_call (os_sendto (sys e) (fd mysql_socket) buf (IF_WIN_int (cfg e) n) flags addr addr_len) w
      | Some s \<Rightarrow>
          let (locker, w1) = psi_start e s PSI_SOCKET_SEND n src_file src_line w;
              (result, w2) = os_call (os_sendto (sys e) (fd mysql_socket) buf (IF_WIN_int (cfg e) n) flags addr addr_len) w1;
              bytes_written = (if result > - 1 then nat result else 0)
          in (result, psi_end e locker bytes_written w2))"

definition inline_mysql_socket_recvfrom ::
  "('w, 'p) env \<Rightarrow> string \<Rightarrow> nat \<Rightarrow> MYSQL_SOCKET \<Rightarrow> ptr \<Rightarrow> nat \<Rightarrow> int \<Rightarrow> ptr \<Rightarrow> ptr \<Rightarrow> ('w, 'p) world \<Rightarrow> int \<times> ('w, 'p) world" where
  "inline_mysql_socket_recvfrom e src_file src_line mysql_socket buf n flags addr addr_len w =
     (case instrument e mysql_socket of
        None \<Rightarrow> os_call (os_recvfrom (sys e) (fd mysql_socket) buf (IF_WIN_int (cfg e) n) flags addr addr_len) w
      | Some s \<Rightarrow>
          let (locker, w1) = psi_start e s PSI_SOCKET_RECV 0 src_file src_line w;
              (result, w2) = os_call (os_recvfrom (sys e) (fd mysql_socket) buf (IF_WIN_int (cfg e) n) flags addr addr_len) w1;
              bytes_read = (if result > - 1 then nat result else 0)
          in (result, psi_end e locker bytes_read w2))"

definition inline_mysql_socket_getsockopt ::
  "('w, 'p) env \<Rightarrow> string \<Rightarrow> nat \<Rightarrow> MYSQL_SOCKET \<Rightarrow> int \<Rightarrow> int \<Rightarrow> ptr \<Rightarrow> ptr \<Rightarrow> ('w, 'p) world \<Rightarrow> int \<times> ('w, 'p) world" where
  "inline_mysql_socket_getsockopt e src_file src_line mysql_socket level optname optval optlen w =
     (case instrument e mysql_socket of
        None \<Rightarrow> os_call (os_getsockopt (sys e) (fd mysql_socket) level optname optval optlen) w
      | Some s \<Rightarrow>
          let (locker, w1) = psi_start e s PSI_SOCKET_OPT 0 src_file src_line w;
              (result, w2) = os_call (os_getsockopt (sys e) (fd mysql_socket) level optname optval optlen) w1
          in (result, psi_end e locker 0 w2))"

definition inline_mysql_socket_setsockopt ::
  "('w, 'p) env \<Rightarrow> string \<Rightarrow> nat \<Rightarrow> MYSQL_SOCKET \<Rightarrow> int \<Rightarrow> int \<Rightarrow> ptr \<Rightarrow> int \<Rightarrow> ('w, 'p) world \<Rightarrow> int \<times> ('w, 'p) world" where
  "inline_mysql_socket_setsockopt e src_file src_line mysql_socket level optname optval optlen w =
     (case instrument e mysql_socket of
        None \<Rightarrow> os_call (os_setsockopt (sys e) (fd mysql_socket) level optname optval optlen) w
      | Some s \<Rightarrow>
          let (locker, w1) = psi_start e s PSI_SOCKET_OPT 0 src_file src_line w;
              (result, w2) = os_call (os_setsockopt (sys e) (fd mysql_socket) level optname optval optlen) w1
          in (result, psi_end e locker 0 w2))"

definition set_socket_nonblock :: "('w, 'p) env \<Rightarrow> int \<Rightarrow> 'w \<Rightarrow> int \<times> 'w" where
  "set_socket_nonblock e f w =
     (if WIN32 (cfg e) then os_ioctlsocket_FIONBIO (sys e) f 1 w
      else
        let (fd_flags, w1) = os_fcntl_F_GETFL (sys e) f 0 w
        in if fd_flags < 0 then (os_errno (sys e) w1, w1)
           else
             let (rc, w2) = os_fcntl_F_SETFL (sys e) f (fd_flags OR os_O_NONBLOCK (sys e)) w1
             in if rc = - 1 then (os_errno (sys e) w2, w2) else (0, w2))"

definition inline_mysql_sock_set_nonblocking ::
  "('w, 'p) env \<Rightarrow> string \<Rightarrow> nat \<Rightarrow> MYSQL_SOCKET \<Rightarrow> ('w, 'p) world \<Rightarrow> int \<times> ('w, 'p) world" where
  "inline_mysql_sock_set_nonblocking e src_file src_line mysql_socket w =
     (case instrument e mysql_socket of
        None \<Rightarrow> os_call (set_socket_nonblock e (fd mysql_socket)) w
      | Some s \<Rightarrow>
          let (locker, w1) = psi_start e s PSI_SOCKET_OPT 0 src_file src_line w;
              (result, w2) = os_call (set_socket_nonblock e (fd mysql_socket)) w1
          in (result, psi_end e locker 0 w2))"

definition inline_mysql_socket_listen ::
  "('w, 'p) env \<Rightarrow> string \<Rightarrow> nat \<Rightarrow> MYSQL_SOCKET \<Rightarrow> int \<Rightarrow> ('w, 'p) world \<Rightarrow> int \<times> ('w, 'p) world" where
  "inline_mysql_socket_listen e src_file src_line mysql_socket backlog w =
     (case instrument e mysql_socket of
        None \<Rightarrow> os_call (os_listen (sys e) (fd mysql_socket) backlog) w
      | Some s \<Rightarrow>
          let (locker, w1) = psi_start e s PSI_SOCKET_CONNECT 0 src_file src_line w;
              (result, w2) = os_call (os_listen (sys e) (fd mysql_socket) backlog) w1
          in (result, psi_end e locker 0 w2))"

text \<open>
  \<open>addr_len\<close> is the value it points at, or \<open>None\<close> for a null pointer. The call gets a pointer
  to the copy \<open>addr_length\<close>, so the caller's variable is never written.
\<close>

definition inline_mysql_socket_accept ::
  "('w, 'p) env \<Rightarrow> string \<Rightarrow> nat \<Rightarrow> nat \<Rightarrow> MYSQL_SOCKET \<Rightarrow> ptr \<Rightarrow> int option \<Rightarrow> ('w, 'p) world \<Rightarrow>
   MYSQL_SOCKET \<times> ('w, 'p) world" where
  "inline_mysql_socket_accept e src_file src_line key socket_listen addr addr_len w =
     (let addr_length = (case addr_len of Some n \<Rightarrow> n | None \<Rightarrow> 0);
          accept_call = os_call (\<lambda>ow. let (f, n, ow') = os_accept (sys e) (fd socket_listen) addr addr_length ow
                                      in ((f, n), ow'));
          ((f, addr_length'), w1) =
            (case instrument e socket_listen of
               None \<Rightarrow> accept_call w
             | Some s \<Rightarrow>
                 let (locker, w1) = psi_start e s PSI_SOCKET_CONNECT 0 src_file src_line w;
                     (result, w2) = accept_call w1
                 in (result, psi_end e locker 0 w2));
          socket_accept = (mysql_socket_invalid (cfg e))\<lparr>fd := f\<rparr>
      in if HAVE_PSI_SOCKET_INTERFACE (cfg e) \<and> fd socket_accept \<noteq> INVALID_SOCKET (cfg e) then
           let (s, p) = init_socket (psi e) key (fd socket_accept) addr addr_length' (psi_world w1)
           in (socket_accept\<lparr>m_psi := s\<rparr>, w1\<lparr>psi_world := p\<rparr>)
         else (socket_accept, w1))"

definition inline_mysql_socket_close ::
  "('w, 'p) env \<Rightarrow> string \<Rightarrow> nat \<Rightarrow> MYSQL_SOCKET \<Rightarrow> ('w, 'p) world \<Rightarrow> int \<times> ('w, 'p) world" where
  "inline_mysql_socket_close e src_file src_line mysql_socket w =
     (case instrument e mysql_socket of
        None \<Rightarrow> os_call (os_closesocket (sys e) (fd mysql_socket)) w
      | Some s \<Rightarrow>
          let (locker, w1) = psi_start e s PSI_SOCKET_CLOSE 0 src_file src_line w;
              (result, w2) = os_call (os_closesocket (sys e) (fd mysql_socket)) w1;
              w3 = psi_end e locker 0 w2
          in (result, w3\<lparr>psi_world := destroy_socket (psi e) s (psi_world w3)\<rparr>))"

text \<open>
  The first call on Windows looks the function \<open>DisconnectEx\<close> up; when there is none,
  \<open>shutdown\<close> is called.
\<close>

definition find_DisconnectEx :: "('w, 'p) env \<Rightarrow> int \<Rightarrow> ('w, 'p) world \<Rightarrow> ('w, 'p) world" where
  "find_DisconnectEx e f w =
     (if WIN32 (cfg e) \<and> \<not> DisconnectEx w then
        let (found, w1) = os_call (os_WSAIoctl_DisconnectEx (sys e) f) w in w1\<lparr>DisconnectEx := found\<rparr>
      else w)"

definition shutdown_call :: "('w, 'p) env \<Rightarrow> int \<Rightarrow> int \<Rightarrow> ('w, 'p) world \<Rightarrow> int \<times> ('w, 'p) world" where
  "shutdown_call e f how w =
     (if WIN32 (cfg e) \<and> DisconnectEx w then
        let (okay, w1) = os_call (os_DisconnectEx (sys e) f) w in (if okay then 0 else - 1, w1)
      else os_call (os_shutdown (sys e) f how) w)"

definition inline_mysql_socket_shutdown ::
  "('w, 'p) env \<Rightarrow> string \<Rightarrow> nat \<Rightarrow> MYSQL_SOCKET \<Rightarrow> int \<Rightarrow> ('w, 'p) world \<Rightarrow> int \<times> ('w, 'p) world" where
  "inline_mysql_socket_shutdown e src_file src_line mysql_socket how w =
     (let w0 = find_DisconnectEx e (fd mysql_socket) w
      in case instrument e mysql_socket of
           None \<Rightarrow> shutdown_call e (fd mysql_socket) how w0
         | Some s \<Rightarrow>
             let (locker, w1) = psi_start e s PSI_SOCKET_SHUTDOWN 0 src_file src_line w0;
                 (result, w2) = shutdown_call e (fd mysql_socket) how w1
             in (result, psi_end e locker 0 w2))"

section \<open>What the program sees\<close>

text \<open>
  The result of a call, the operating system and the static variable: everything but the
  performance schema.
\<close>

definition os_view :: "'r \<times> ('w, 'p) world \<Rightarrow> 'r \<times> 'w \<times> bool" where
  "os_view rw = (fst rw, os_world (snd rw), DisconnectEx (snd rw))"

text \<open>A bare call of the operating system, as the same triple.\<close>

definition bare :: "('w \<Rightarrow> 'r \<times> 'w) \<Rightarrow> ('w, 'p) world \<Rightarrow> 'r \<times> 'w \<times> bool" where
  "bare f w = (fst (f (os_world w)), snd (f (os_world w)), DisconnectEx w)"

lemma os_call_fst [simp]: "fst (os_call f w) = fst (f (os_world w))"
  and os_call_os [simp]: "os_world (snd (os_call f w)) = snd (f (os_world w))"
  and os_call_psi [simp]: "psi_world (snd (os_call f w)) = psi_world w"
  and os_call_static [simp]: "DisconnectEx (snd (os_call f w)) = DisconnectEx w"
  by (simp_all add: os_call_def split_beta Let_def)

lemma psi_start_os [simp]: "os_world (snd (psi_start e s op n sf sl w)) = os_world w"
  and psi_start_static [simp]: "DisconnectEx (snd (psi_start e s op n sf sl w)) = DisconnectEx w"
  by (simp_all add: psi_start_def split_beta Let_def)

lemma psi_end_os [simp]: "os_world (psi_end e l n w) = os_world w"
  and psi_end_static [simp]: "DisconnectEx (psi_end e l n w) = DisconnectEx w"
  by (simp_all add: psi_end_def split: option.splits)

lemmas socket_call_defs =
  inline_mysql_socket_bind_def inline_mysql_socket_getsockname_def inline_mysql_socket_connect_def
  inline_mysql_socket_getpeername_def inline_mysql_socket_send_def inline_mysql_socket_recv_def
  inline_mysql_socket_sendto_def inline_mysql_socket_recvfrom_def inline_mysql_socket_getsockopt_def
  inline_mysql_socket_setsockopt_def inline_mysql_sock_set_nonblocking_def inline_mysql_socket_listen_def
  inline_mysql_socket_close_def

lemmas view_defs = os_view_def bare_def split_beta Let_def

lemma shutdown_call_view:
  "os_world w' = os_world w \<Longrightarrow> DisconnectEx w' = DisconnectEx w \<Longrightarrow>
    os_view (shutdown_call e f how w') = os_view (shutdown_call e f how w)"
  by (simp add: shutdown_call_def view_defs)

text \<open>The same environment compiled without instrumentation.\<close>

definition uninstrumented :: "('w, 'p) env \<Rightarrow> ('w, 'p) env" where
  "uninstrumented e = e\<lparr>cfg := (cfg e)\<lparr>HAVE_PSI_SOCKET_INTERFACE := False\<rparr>\<rparr>"

lemma uninstrumented_simps [simp]:
  "sys (uninstrumented e) = sys e" "psi (uninstrumented e) = psi e"
  "WIN32 (cfg (uninstrumented e)) = WIN32 (cfg e)" "instrument (uninstrumented e) s = None"
  "HAVE_PSI_SOCKET_INTERFACE (cfg (uninstrumented e)) = False"
  "INVALID_SOCKET (cfg (uninstrumented e)) = INVALID_SOCKET (cfg e)"
  "IF_WIN_int (cfg (uninstrumented e)) = IF_WIN_int (cfg e)"
  by (simp_all add: uninstrumented_def instrument_def INVALID_SOCKET_def IF_WIN_int_def fun_eq_iff)

lemma shutdown_view:
  "os_view (inline_mysql_socket_shutdown e sf sl s how w) =
   os_view (inline_mysql_socket_shutdown (uninstrumented e) sf sl s how w)"
  by (simp add: inline_mysql_socket_shutdown_def find_DisconnectEx_def shutdown_call_def view_defs
      split: option.splits)

text \<open>The descriptor a call that makes a socket returns, and the worlds.\<close>

definition fd_view :: "MYSQL_SOCKET \<times> ('w, 'p) world \<Rightarrow> int \<times> 'w \<times> bool" where
  "fd_view rw = (fd (fst rw), os_world (snd rw), DisconnectEx (snd rw))"

lemma socket_view:
  "fd_view (inline_mysql_socket_socket e key domain type protocol w) = bare (os_socket (sys e) domain type protocol) w"
  by (simp add: inline_mysql_socket_socket_def fd_view_def bare_def split_beta Let_def mysql_socket_invalid_def)

lemma accept_view:
  "fd_view (inline_mysql_socket_accept e sf sl key s addr len_opt w) =
   fd_view (inline_mysql_socket_accept (uninstrumented e) sf sl key s addr len_opt w)"
  by (simp add: inline_mysql_socket_accept_def fd_view_def split_beta Let_def mysql_socket_invalid_def
      split: option.splits)

section \<open>What the performance schema sees\<close>

text \<open>
  A performance schema that also writes down the waits: the start of one, with the locker it
  was given, and the end of one with the number of bytes.
\<close>

datatype wait_event =
    Started PSI_socket PSI_socket_operation nat "PSI_socket_locker option"
  | Ended PSI_socket_locker nat

definition logged :: "'p psi_service \<Rightarrow> ('p \<times> wait_event list) psi_service" where
  "logged ps = \<lparr>
     register_socket = (\<lambda>c i n (p, l). (register_socket ps c i n p, l)),
     init_socket = (\<lambda>k f a n (p, l). let (s, p') = init_socket ps k f a n p in (s, (p', l))),
     destroy_socket = (\<lambda>s (p, l). (destroy_socket ps s p, l)),
     start_socket_wait = (\<lambda>s op n sf sl (p, l).
       let (locker, p') = start_socket_wait ps s op n sf sl p in (locker, (p', l @ [Started s op n locker]))),
     end_socket_wait = (\<lambda>locker n (p, l). (end_socket_wait ps locker n p, l @ [Ended locker n])),
     set_socket_state = (\<lambda>s st (p, l). (set_socket_state ps s st p, l)),
     set_socket_info = (\<lambda>s f a n (p, l). (set_socket_info ps s f a n p, l)),
     set_socket_thread_owner = (\<lambda>s (p, l). (set_socket_thread_owner ps s p, l))\<rparr>"

definition waits :: "('w, 'p \<times> wait_event list) world \<Rightarrow> wait_event list" where
  "waits w = snd (psi_world w)"

text \<open>One wait, from its start to its end; none is ended when there was no locker.\<close>

fun one_wait :: "PSI_socket \<Rightarrow> PSI_socket_operation \<Rightarrow> nat \<Rightarrow> nat \<Rightarrow> wait_event list \<Rightarrow> bool" where
  "one_wait s op n m [Started s' op' n' None] \<longleftrightarrow> s' = s \<and> op' = op \<and> n' = n"
| "one_wait s op n m [Started s' op' n' (Some l), Ended l' m'] \<longleftrightarrow>
     s' = s \<and> op' = op \<and> n' = n \<and> l' = l \<and> m' = m"
| "one_wait s op n m es \<longleftrightarrow> False"

definition waited ::
  "('w, 'p \<times> wait_event list) world \<Rightarrow> PSI_socket \<Rightarrow> PSI_socket_operation \<Rightarrow> nat \<Rightarrow> nat \<Rightarrow>
   ('w, 'p \<times> wait_event list) world \<Rightarrow> bool" where
  "waited w s op n m w' \<longleftrightarrow> (\<exists>es. waits w' = waits w @ es \<and> one_wait s op n m es)"

lemma waits_os_call [simp]: "waits (snd (os_call f w)) = waits w"
  by (simp add: waits_def)

lemma waits_start:
  assumes "psi e = logged ps"
  shows "waits (snd (psi_start e s op n sf sl w)) =
    waits w @ [Started s op n (fst (psi_start e s op n sf sl w))]"
  using assms by (simp add: waits_def psi_start_def logged_def split_beta Let_def)

lemma waits_end:
  assumes "psi e = logged ps"
  shows "waits (psi_end e locker m w) = waits w @ (case locker of None \<Rightarrow> [] | Some l \<Rightarrow> [Ended l m])"
  using assms by (simp add: waits_def psi_end_def logged_def split_beta split: option.splits)

lemma waited_run:
  assumes "psi e = logged ps" and "waits w2 = waits (snd (psi_start e s op n sf sl w))"
    and "waits w' = waits (psi_end e (fst (psi_start e s op n sf sl w)) m w2)"
  shows "waited w s op n m w'"
  unfolding waited_def using assms
  by (intro exI [of _ "Started s op n (fst (psi_start e s op n sf sl w)) #
        (case fst (psi_start e s op n sf sl w) of None \<Rightarrow> [] | Some l \<Rightarrow> [Ended l m])"])
    (auto simp: waits_start waits_end split: option.splits)

lemma waits_destroy [simp]:
  "psi e = logged ps \<Longrightarrow> waits (w\<lparr>psi_world := destroy_socket (psi e) s (psi_world w)\<rparr>) = waits w"
  by (simp add: waits_def logged_def split_beta)

lemma waited_end:
  assumes "psi e = logged ps" and "waits w2 = waits (snd (psi_start e s op n sf sl w))"
  shows "waited w s op n m (psi_end e (fst (psi_start e s op n sf sl w)) m w2)"
  using assms(1,2) by (rule waited_run) simp

lemma waited_destroy:
  assumes "psi e = logged ps"
  shows "waited w s op n m (w'\<lparr>psi_world := destroy_socket (psi e) i (psi_world w')\<rparr>) = waited w s op n m w'"
  unfolding waited_def waits_destroy [OF assms] ..

lemma byte_count: "(if - 1 < r then nat r else 0) = nat r"
  by simp

lemma waits_info [simp]:
  "psi e = logged ps \<Longrightarrow> waits (w\<lparr>psi_world := set_socket_info (psi e) s f a n (psi_world w)\<rparr>) = waits w"
  by (simp add: waits_def logged_def split_beta)

lemma waits_init [simp]:
  "psi e = logged ps \<Longrightarrow>
    waits (w\<lparr>psi_world := snd (init_socket (psi e) k f a n (psi_world w))\<rparr>) = waits w"
  by (simp add: waits_def logged_def split_beta Let_def)

lemma waited_init:
  assumes "psi e = logged ps"
  shows "waited w s op n m (w'\<lparr>psi_world := snd (init_socket (psi e) k f a c (psi_world w'))\<rparr>) = waited w s op n m w'"
  unfolding waited_def waits_init [OF assms] ..

lemma bind_waits:
  assumes "psi e = logged ps" and "instrument e s = Some i"
  shows "waited w i PSI_SOCKET_BIND 0 0 (snd (inline_mysql_socket_bind e sf sl s addr len w))"
proof -
  have "waits (w2\<lparr>psi_world := set_socket_info (psi e) i None addr len (psi_world w2)\<rparr>) = waits w2"
    for w2 :: "('b, 'a \<times> wait_event list) world"
    by (rule waits_info [OF assms(1)])
  then show ?thesis
    unfolding inline_mysql_socket_bind_def assms(2) option.case split_beta Let_def fst_conv snd_conv
    by (intro waited_end [OF assms(1)]) (simp del: os_call_psi)
qed

lemma accept_waits:
  assumes "psi e = logged ps" and "instrument e s = Some i"
  shows "waited w i PSI_SOCKET_CONNECT 0 0 (snd (inline_mysql_socket_accept e sf sl key s addr len_opt w))"
  by (simp add: inline_mysql_socket_accept_def assms(2) split_beta Let_def waited_end [OF assms(1)]
      waited_init [OF assms(1)])

lemma waits_shutdown_call [simp]: "waits (snd (shutdown_call e f how w)) = waits w"
  by (simp add: shutdown_call_def split_beta Let_def)

lemma waits_find [simp]: "waits (find_DisconnectEx e f w) = waits w"
  by (simp add: find_DisconnectEx_def split_beta Let_def waits_def)

lemma shutdown_waits:
  assumes "psi e = logged ps" and "instrument e s = Some i"
  shows "waited w i PSI_SOCKET_SHUTDOWN 0 0 (snd (inline_mysql_socket_shutdown e sf sl s how w))"
proof -
  have "waited (find_DisconnectEx e (fd s) w) i PSI_SOCKET_SHUTDOWN 0 0
      (snd (inline_mysql_socket_shutdown e sf sl s how w))"
    by (simp add: inline_mysql_socket_shutdown_def assms(2) split_beta Let_def waited_end [OF assms(1)])
  then show ?thesis by (simp add: waited_def)
qed

section \<open>Properties\<close>

text \<open>
  Instrumentation is invisible to the program. In every build and
  for every performance schema, each of the socket functions makes exactly the call it stands
  for, on the descriptor of its socket: it gives the result of the bare call and leaves the
  operating system as the bare call does. A function that makes a socket gives the descriptor,
  and shutting down goes the way of the build without instrumentation.
\<close>

theorem instrumentation_transparent:
  "os_view (inline_mysql_socket_bind e sf sl s addr len w) = bare (os_bind (sys e) (fd s) addr len) w \<and>
   os_view (inline_mysql_socket_getsockname e sf sl s addr lenp w) = bare (os_getsockname (sys e) (fd s) addr lenp) w \<and>
   os_view (inline_mysql_socket_connect e sf sl s addr len w) = bare (os_connect (sys e) (fd s) addr len) w \<and>
   os_view (inline_mysql_socket_getpeername e sf sl s addr lenp w) = bare (os_getpeername (sys e) (fd s) addr lenp) w \<and>
   os_view (inline_mysql_socket_send e sf sl s buf n flags w) =
     bare (os_send (sys e) (fd s) buf (IF_WIN_int (cfg e) n) flags) w \<and>
   os_view (inline_mysql_socket_recv e sf sl s buf n flags w) =
     bare (os_recv (sys e) (fd s) buf (IF_WIN_int (cfg e) n) flags) w \<and>
   os_view (inline_mysql_socket_sendto e sf sl s buf n flags addr len w) =
     bare (os_sendto (sys e) (fd s) buf (IF_WIN_int (cfg e) n) flags addr len) w \<and>
   os_view (inline_mysql_socket_recvfrom e sf sl s buf n flags addr lenp w) =
     bare (os_recvfrom (sys e) (fd s) buf (IF_WIN_int (cfg e) n) flags addr lenp) w \<and>
   os_view (inline_mysql_socket_getsockopt e sf sl s level opt val lenp w) =
     bare (os_getsockopt (sys e) (fd s) level opt val lenp) w \<and>
   os_view (inline_mysql_socket_setsockopt e sf sl s level opt val len w) =
     bare (os_setsockopt (sys e) (fd s) level opt val len) w \<and>
   os_view (inline_mysql_sock_set_nonblocking e sf sl s w) = bare (set_socket_nonblock e (fd s)) w \<and>
   os_view (inline_mysql_socket_listen e sf sl s backlog w) = bare (os_listen (sys e) (fd s) backlog) w \<and>
   os_view (inline_mysql_socket_close e sf sl s w) = bare (os_closesocket (sys e) (fd s)) w \<and>
   os_view (inline_mysql_socket_shutdown e sf sl s how w) =
     os_view (inline_mysql_socket_shutdown (uninstrumented e) sf sl s how w) \<and>
   fd_view (inline_mysql_socket_socket e key domain type protocol w) =
     bare (os_socket (sys e) domain type protocol) w \<and>
   fd_view (inline_mysql_socket_accept e sf sl key s addr len_opt w) =
     fd_view (inline_mysql_socket_accept (uninstrumented e) sf sl key s addr len_opt w)"
proof (intro conjI)
  show "os_view (inline_mysql_socket_shutdown e sf sl s how w) =
     os_view (inline_mysql_socket_shutdown (uninstrumented e) sf sl s how w)"
    by (rule shutdown_view)
  show "fd_view (inline_mysql_socket_socket e key domain type protocol w) =
     bare (os_socket (sys e) domain type protocol) w"
    by (rule socket_view)
  show "fd_view (inline_mysql_socket_accept e sf sl key s addr len_opt w) =
     fd_view (inline_mysql_socket_accept (uninstrumented e) sf sl key s addr len_opt w)"
    by (rule accept_view)
qed (simp_all add: socket_call_defs view_defs split: option.splits)

text \<open>
  The performance schema sees every call on an instrumented socket as one
  complete wait. Whatever the schema answers, each function starts one wait on the socket's
  instrument with the operation of its kind and the length it sends, and ends the wait it was
  given a locker for exactly once, with the number of bytes that were transferred, 0 when the
  call failed.
\<close>

theorem waits_complete:
  assumes "psi e = logged ps" and "instrument e s = Some i"
  shows "waited w i PSI_SOCKET_BIND 0 0 (snd (inline_mysql_socket_bind e sf sl s addr len w)) \<and>
   waited w i PSI_SOCKET_CONNECT 0 0 (snd (inline_mysql_socket_connect e sf sl s addr len w)) \<and>
   waited w i PSI_SOCKET_BIND 0 0 (snd (inline_mysql_socket_getsockname e sf sl s addr lenp w)) \<and>
   waited w i PSI_SOCKET_BIND 0 0 (snd (inline_mysql_socket_getpeername e sf sl s addr lenp w)) \<and>
   waited w i PSI_SOCKET_SEND n (nat (fst (inline_mysql_socket_send e sf sl s buf n flags w)))
     (snd (inline_mysql_socket_send e sf sl s buf n flags w)) \<and>
   waited w i PSI_SOCKET_RECV 0 (nat (fst (inline_mysql_socket_recv e sf sl s buf n flags w)))
     (snd (inline_mysql_socket_recv e sf sl s buf n flags w)) \<and>
   waited w i PSI_SOCKET_SEND n (nat (fst (inline_mysql_socket_sendto e sf sl s buf n flags addr len w)))
     (snd (inline_mysql_socket_sendto e sf sl s buf n flags addr len w)) \<and>
   waited w i PSI_SOCKET_RECV 0 (nat (fst (inline_mysql_socket_recvfrom e sf sl s buf n flags addr lenp w)))
     (snd (inline_mysql_socket_recvfrom e sf sl s buf n flags addr lenp w)) \<and>
   waited w i PSI_SOCKET_OPT 0 0 (snd (inline_mysql_socket_getsockopt e sf sl s level opt val lenp w)) \<and>
   waited w i PSI_SOCKET_OPT 0 0 (snd (inline_mysql_socket_setsockopt e sf sl s level opt val len w)) \<and>
   waited w i PSI_SOCKET_OPT 0 0 (snd (inline_mysql_sock_set_nonblocking e sf sl s w)) \<and>
   waited w i PSI_SOCKET_CONNECT 0 0 (snd (inline_mysql_socket_listen e sf sl s backlog w)) \<and>
   waited w i PSI_SOCKET_CONNECT 0 0 (snd (inline_mysql_socket_accept e sf sl key s addr len_opt w)) \<and>
   waited w i PSI_SOCKET_CLOSE 0 0 (snd (inline_mysql_socket_close e sf sl s w)) \<and>
   waited w i PSI_SOCKET_SHUTDOWN 0 0 (snd (inline_mysql_socket_shutdown e sf sl s how w))"
proof (intro conjI)
  show "waited w i PSI_SOCKET_BIND 0 0 (snd (inline_mysql_socket_bind e sf sl s addr len w))"
    by (rule bind_waits [OF assms])
  show "waited w i PSI_SOCKET_CONNECT 0 0 (snd (inline_mysql_socket_accept e sf sl key s addr len_opt w))"
    by (rule accept_waits [OF assms])
  show "waited w i PSI_SOCKET_SHUTDOWN 0 0 (snd (inline_mysql_socket_shutdown e sf sl s how w))"
    by (rule shutdown_waits [OF assms])
qed (simp_all add: socket_call_defs assms(2) split_beta Let_def waited_end [OF assms(1)]
      waited_destroy [OF assms(1)] byte_count)

text \<open>A system whose send writes two bytes, under a schema that hands out the locker 7.\<close>

definition demo_os :: "unit os" where
  "demo_os = \<lparr>os_socket = (\<lambda>_ _ _ w. (3, w)), os_bind = (\<lambda>_ _ _ w. (0, w)),
     os_getsockname = (\<lambda>_ _ _ w. (0, w)), os_connect = (\<lambda>_ _ _ w. (0, w)),
     os_getpeername = (\<lambda>_ _ _ w. (0, w)), os_send = (\<lambda>_ _ _ _ w. (2, w)),
     os_recv = (\<lambda>_ _ _ _ w. (- 1, w)), os_sendto = (\<lambda>_ _ _ _ _ _ w. (2, w)),
     os_recvfrom = (\<lambda>_ _ _ _ _ _ w. (- 1, w)), os_getsockopt = (\<lambda>_ _ _ _ _ w. (0, w)),
     os_setsockopt = (\<lambda>_ _ _ _ _ w. (0, w)), os_listen = (\<lambda>_ _ w. (0, w)),
     os_accept = (\<lambda>_ _ n w. (4, n, w)), os_closesocket = (\<lambda>_ w. (0, w)), os_shutdown = (\<lambda>_ _ w. (0, w)),
     os_ioctlsocket_FIONBIO = (\<lambda>_ _ w. (0, w)), os_fcntl_F_GETFL = (\<lambda>_ _ w. (0, w)),
     os_fcntl_F_SETFL = (\<lambda>_ _ w. (0, w)), os_errno = (\<lambda>_. 0), os_O_NONBLOCK = 4,
     os_WSAIoctl_DisconnectEx = (\<lambda>_ w. (True, w)), os_DisconnectEx = (\<lambda>_ w. (True, w))\<rparr>"

definition demo_psi :: "unit psi_service" where
  "demo_psi = \<lparr>register_socket = (\<lambda>_ _ _ p. p), init_socket = (\<lambda>_ _ _ _ p. (Some 1, p)),
     destroy_socket = (\<lambda>_ p. p), start_socket_wait = (\<lambda>_ _ _ _ _ p. (Some 7, p)),
     end_socket_wait = (\<lambda>_ _ p. p), set_socket_state = (\<lambda>_ _ p. p),
     set_socket_info = (\<lambda>_ _ _ _ p. p), set_socket_thread_owner = (\<lambda>_ p. p)\<rparr>"

definition demo_env :: "(unit, unit \<times> wait_event list) env" where
  "demo_env = \<lparr>cfg = \<lparr>HAVE_PSI_SOCKET_INTERFACE = True, WIN32 = True\<rparr>, sys = demo_os, psi = logged demo_psi\<rparr>"

definition demo_socket_world :: "(unit, unit \<times> wait_event list) world" where
  "demo_socket_world = \<lparr>os_world = (), psi_world = ((), []), DisconnectEx = False\<rparr>"

theorem waits_complete_witness:
  "waited demo_socket_world 1 PSI_SOCKET_SEND 5 2
     (snd (inline_mysql_socket_send demo_env [] 0 \<lparr>fd = 3, m_psi = Some 1\<rparr> 9 5 0 demo_socket_world)) \<and>
   waits (snd (inline_mysql_socket_send demo_env [] 0 \<lparr>fd = 3, m_psi = Some 1\<rparr> 9 5 0 demo_socket_world)) =
     [Started 1 PSI_SOCKET_SEND 5 (Some 7), Ended 7 2]"
proof -
  have "instrument demo_env \<lparr>fd = 3, m_psi = Some 1\<rparr> = Some 1"
    by (simp add: instrument_def demo_env_def)
  moreover have "psi demo_env = logged demo_psi"
    by (simp add: demo_env_def)
  moreover have "fst (inline_mysql_socket_send demo_env [] 0 \<lparr>fd = 3, m_psi = Some 1\<rparr> 9 5 0 demo_socket_world) = 2"
    and "waits (snd (inline_mysql_socket_send demo_env [] 0 \<lparr>fd = 3, m_psi = Some 1\<rparr> 9 5 0 demo_socket_world)) =
     [Started 1 PSI_SOCKET_SEND 5 (Some 7), Ended 7 2]"
    by (simp_all add: inline_mysql_socket_send_def instrument_def demo_env_def psi_start_def psi_end_def
        os_call_def logged_def demo_psi_def demo_os_def demo_socket_world_def waits_def)
  ultimately show ?thesis
    using waits_complete [of demo_env demo_psi "\<lparr>fd = 3, m_psi = Some 1\<rparr>" 1 demo_socket_world "[]" 0 _ _ _ 5 9 0]
    by simp
qed

end
