(* ===== verification/MySQL_File.thy ===== *)
theory MySQL_File
  imports SG_Prelude
begin

text \<open>
  The instrumented files of the MySQL headers (mysql/psi/mysql_file.h): each function makes
  one call of the C library or of mysys and, when the header is compiled with instrumentation
  and the performance schema gives a locker for it, reports the wait before and after. The
  sources of mysys and of the performance schema are not in the repository; they are records
  of functions over the worlds \<open>'w\<close> and \<open>'p\<close>. Pointers that are only passed on are addresses,
  with 0 for \<open>NULL\<close>.
\<close>

section \<open>The libraries\<close>

type_synonym ptr = nat

record 'w io_lib =
  c_fgets :: "ptr \<Rightarrow> int \<Rightarrow> ptr \<Rightarrow> 'w \<Rightarrow> ptr \<times> 'w"
  c_fgetc :: "ptr \<Rightarrow> 'w \<Rightarrow> int \<times> 'w"
  c_fputs :: "ptr \<Rightarrow> ptr \<Rightarrow> 'w \<Rightarrow> int \<times> 'w"
  c_fputc :: "int \<Rightarrow> ptr \<Rightarrow> 'w \<Rightarrow> int \<times> 'w"
  c_vfprintf :: "ptr \<Rightarrow> ptr \<Rightarrow> ptr \<Rightarrow> 'w \<Rightarrow> int \<times> 'w"
  c_fflush :: "ptr \<Rightarrow> 'w \<Rightarrow> int \<times> 'w"
  my_fstat :: "int \<Rightarrow> ptr \<Rightarrow> int \<Rightarrow> 'w \<Rightarrow> int \<times> 'w"
  my_stat :: "ptr \<Rightarrow> ptr \<Rightarrow> int \<Rightarrow> 'w \<Rightarrow> ptr \<times> 'w"
  my_chsize :: "int \<Rightarrow> nat \<Rightarrow> int \<Rightarrow> int \<Rightarrow> 'w \<Rightarrow> int \<times> 'w"
  my_fopen :: "ptr \<Rightarrow> int \<Rightarrow> int \<Rightarrow> 'w \<Rightarrow> ptr \<times> 'w"
  my_fclose :: "ptr \<Rightarrow> int \<Rightarrow> 'w \<Rightarrow> int \<times> 'w"
  my_fread :: "ptr \<Rightarrow> ptr \<Rightarrow> nat \<Rightarrow> int \<Rightarrow> 'w \<Rightarrow> nat \<times> 'w"
  my_fwrite :: "ptr \<Rightarrow> ptr \<Rightarrow> nat \<Rightarrow> int \<Rightarrow> 'w \<Rightarrow> nat \<times> 'w"
  my_fseek :: "ptr \<Rightarrow> nat \<Rightarrow> int \<Rightarrow> int \<Rightarrow> 'w \<Rightarrow> nat \<times> 'w"
  my_ftell :: "ptr \<Rightarrow> int \<Rightarrow> 'w \<Rightarrow> nat \<times> 'w"
  my_create :: "ptr \<Rightarrow> int \<Rightarrow> int \<Rightarrow> int \<Rightarrow> 'w \<Rightarrow> int \<times> 'w"
  my_create_temp_file :: "ptr \<Rightarrow> ptr \<Rightarrow> ptr \<Rightarrow> int \<Rightarrow> int \<Rightarrow> 'w \<Rightarrow> int \<times> 'w"
  my_open :: "ptr \<Rightarrow> int \<Rightarrow> int \<Rightarrow> 'w \<Rightarrow> int \<times> 'w"
  my_close :: "int \<Rightarrow> int \<Rightarrow> 'w \<Rightarrow> int \<times> 'w"
  my_read :: "int \<Rightarrow> ptr \<Rightarrow> nat \<Rightarrow> int \<Rightarrow> 'w \<Rightarrow> nat \<times> 'w"
  my_write :: "int \<Rightarrow> ptr \<Rightarrow> nat \<Rightarrow> int \<Rightarrow> 'w \<Rightarrow> nat \<times> 'w"
  my_pread :: "int \<Rightarrow> ptr \<Rightarrow> nat \<Rightarrow> nat \<Rightarrow> int \<Rightarrow> 'w \<Rightarrow> nat \<times> 'w"
  my_pwrite :: "int \<Rightarrow> ptr \<Rightarrow> nat \<Rightarrow> nat \<Rightarrow> int \<Rightarrow> 'w \<Rightarrow> nat \<times> 'w"
  my_seek :: "int \<Rightarrow> nat \<Rightarrow> int \<Rightarrow> int \<Rightarrow> 'w \<Rightarrow> nat \<times> 'w"
  my_tell :: "int \<Rightarrow> int \<Rightarrow> 'w \<Rightarrow> nat \<times> 'w"
  my_delete :: "ptr \<Rightarrow> int \<Rightarrow> 'w \<Rightarrow> int \<times> 'w"
  my_rename :: "ptr \<Rightarrow> ptr \<Rightarrow> int \<Rightarrow> 'w \<Rightarrow> int \<times> 'w"
  my_create_with_symlink :: "ptr \<Rightarrow> ptr \<Rightarrow> int \<Rightarrow> int \<Rightarrow> int \<Rightarrow> 'w \<Rightarrow> int \<times> 'w"
  my_delete_with_symlink :: "ptr \<Rightarrow> int \<Rightarrow> 'w \<Rightarrow> int \<times> 'w"
  my_rename_with_symlink :: "ptr \<Rightarrow> ptr \<Rightarrow> int \<Rightarrow> 'w \<Rightarrow> int \<times> 'w"
  my_sync :: "int \<Rightarrow> int \<Rightarrow> 'w \<Rightarrow> int \<times> 'w"
  my_malloc :: "nat \<Rightarrow> 'w \<Rightarrow> ptr \<times> 'w"
  my_free :: "ptr \<Rightarrow> 'w \<Rightarrow> 'w"
  c_feof :: "ptr \<Rightarrow> 'w \<Rightarrow> int"
  c_strlen :: "ptr \<Rightarrow> 'w \<Rightarrow> nat"

datatype PSI_file_operation =
    PSI_FILE_CREATE | PSI_FILE_CREATE_TMP | PSI_FILE_OPEN | PSI_FILE_STREAM_OPEN | PSI_FILE_CLOSE
  | PSI_FILE_STREAM_CLOSE | PSI_FILE_READ | PSI_FILE_WRITE | PSI_FILE_SEEK | PSI_FILE_TELL
  | PSI_FILE_FLUSH | PSI_FILE_STAT | PSI_FILE_FSTAT | PSI_FILE_CHSIZE | PSI_FILE_DELETE
  | PSI_FILE_RENAME | PSI_FILE_SYNC

type_synonym PSI_file = nat
type_synonym PSI_file_locker = nat

record 'p file_psi =
  register_file :: "ptr \<Rightarrow> ptr \<Rightarrow> int \<Rightarrow> 'p \<Rightarrow> 'p"
  get_thread_file_name_locker :: "nat \<Rightarrow> PSI_file_operation \<Rightarrow> ptr \<Rightarrow> ptr \<Rightarrow> 'p \<Rightarrow> PSI_file_locker option \<times> 'p"
  get_thread_file_stream_locker :: "PSI_file option \<Rightarrow> PSI_file_operation \<Rightarrow> 'p \<Rightarrow> PSI_file_locker option \<times> 'p"
  get_thread_file_descriptor_locker :: "int \<Rightarrow> PSI_file_operation \<Rightarrow> 'p \<Rightarrow> PSI_file_locker option \<times> 'p"
  start_file_open_wait :: "PSI_file_locker \<Rightarrow> string \<Rightarrow> nat \<Rightarrow> 'p \<Rightarrow> 'p"
  end_file_open_wait :: "PSI_file_locker \<Rightarrow> ptr \<Rightarrow> 'p \<Rightarrow> PSI_file option \<times> 'p"
  end_file_open_wait_and_bind_to_descriptor :: "PSI_file_locker \<Rightarrow> int \<Rightarrow> 'p \<Rightarrow> 'p"
  end_temp_file_open_wait_and_bind_to_descriptor :: "PSI_file_locker \<Rightarrow> int \<Rightarrow> ptr \<Rightarrow> 'p \<Rightarrow> 'p"
  start_file_wait :: "PSI_file_locker \<Rightarrow> nat \<Rightarrow> string \<Rightarrow> nat \<Rightarrow> 'p \<Rightarrow> 'p"
  end_file_wait :: "PSI_file_locker \<Rightarrow> nat \<Rightarrow> 'p \<Rightarrow> 'p"
  start_file_close_wait :: "PSI_file_locker \<Rightarrow> string \<Rightarrow> nat \<Rightarrow> 'p \<Rightarrow> 'p"
  end_file_close_wait :: "PSI_file_locker \<Rightarrow> int \<Rightarrow> 'p \<Rightarrow> 'p"

text \<open>
  The width of \<open>size_t\<close> and the address of the local variable \<open>locker\<close>, which serves as an
  identity, belong to the environment.
\<close>

record ('w, 'p) file_env =
  HAVE_PSI_FILE_INTERFACE :: bool
  SIZE_T_BITS :: nat
  addr_of_locker :: ptr
  io :: "'w io_lib"
  file_service :: "'p file_psi"

record ('w, 'p) file_world =
  io_world :: 'w
  psi_files :: 'p

text \<open>An instrumented stream.\<close>

record MYSQL_FILE =
  m_file :: ptr
  m_psi :: "PSI_file option"

text \<open>The conversion to \<open>size_t\<close>, and the value of an error.\<close>

definition to_size_t :: "('w, 'p) file_env \<Rightarrow> int \<Rightarrow> nat" where
  "to_size_t e i = nat (i mod 2 ^ SIZE_T_BITS e)"

definition MY_FILE_ERROR :: "('w, 'p) file_env \<Rightarrow> nat" where
  "MY_FILE_ERROR e = to_size_t e (- 1)"

definition MY_FNABP :: int where "MY_FNABP = 2"
definition MY_NABP :: int where "MY_NABP = 4"

section \<open>Waits\<close>

text \<open>
  A call of a library changes its world only. The three kinds of lockers, and the starts and
  ends of a wait.
\<close>

definition io_call :: "('w \<Rightarrow> 'r \<times> 'w) \<Rightarrow> ('w, 'p) file_world \<Rightarrow> 'r \<times> ('w, 'p) file_world" where
  "io_call f w = (let (r, iw) = f (io_world w) in (r, w\<lparr>io_world := iw\<rparr>))"

definition get_locker ::
  "('w, 'p) file_env \<Rightarrow> ('p \<Rightarrow> PSI_file_locker option \<times> 'p) \<Rightarrow> ('w, 'p) file_world \<Rightarrow>
   PSI_file_locker option \<times> ('w, 'p) file_world" where
  "get_locker e f w =
     (if HAVE_PSI_FILE_INTERFACE e then let (l, p) = f (psi_files w) in (l, w\<lparr>psi_files := p\<rparr>)
      else (None, w))"

definition stream_locker ::
  "('w, 'p) file_env \<Rightarrow> PSI_file option \<Rightarrow> PSI_file_operation \<Rightarrow> ('w, 'p) file_world \<Rightarrow>
   PSI_file_locker option \<times> ('w, 'p) file_world" where
  "stream_locker e s op = get_locker e (get_thread_file_stream_locker (file_service e) s op)"

definition descriptor_locker ::
  "('w, 'p) file_env \<Rightarrow> int \<Rightarrow> PSI_file_operation \<Rightarrow> ('w, 'p) file_world \<Rightarrow>
   PSI_file_locker option \<times> ('w, 'p) file_world" where
  "descriptor_locker e f op = get_locker e (get_thread_file_descriptor_locker (file_service e) f op)"

definition name_locker ::
  "('w, 'p) file_env \<Rightarrow> nat \<Rightarrow> ptr \<Rightarrow> ptr \<Rightarrow> PSI_file_operation \<Rightarrow> ('w, 'p) file_world \<Rightarrow>
   PSI_file_locker option \<times> ('w, 'p) file_world" where
  "name_locker e key name identity op =
     get_locker e (get_thread_file_name_locker (file_service e) key op name identity)"

definition start_wait ::
  "('w, 'p) file_env \<Rightarrow> PSI_file_locker \<Rightarrow> nat \<Rightarrow> string \<Rightarrow> nat \<Rightarrow> ('w, 'p) file_world \<Rightarrow> ('w, 'p) file_world" where
  "start_wait e l n sf sl w = w\<lparr>psi_files := start_file_wait (file_service e) l n sf sl (psi_files w)\<rparr>"

definition end_wait ::
  "('w, 'p) file_env \<Rightarrow> PSI_file_locker \<Rightarrow> nat \<Rightarrow> ('w, 'p) file_world \<Rightarrow> ('w, 'p) file_world" where
  "end_wait e l n w = w\<lparr>psi_files := end_file_wait (file_service e) l n (psi_files w)\<rparr>"

definition start_open ::
  "('w, 'p) file_env \<Rightarrow> PSI_file_locker \<Rightarrow> string \<Rightarrow> nat \<Rightarrow> ('w, 'p) file_world \<Rightarrow> ('w, 'p) file_world" where
  "start_open e l sf sl w = w\<lparr>psi_files := start_file_open_wait (file_service e) l sf sl (psi_files w)\<rparr>"

definition end_open ::
  "('w, 'p) file_env \<Rightarrow> PSI_file_locker \<Rightarrow> ptr \<Rightarrow> ('w, 'p) file_world \<Rightarrow> PSI_file option \<times> ('w, 'p) file_world" where
  "end_open e l r w =
     (let (s, p) = end_file_open_wait (file_service e) l r (psi_files w) in (s, w\<lparr>psi_files := p\<rparr>))"

definition end_open_bind ::
  "('w, 'p) file_env \<Rightarrow> PSI_file_locker \<Rightarrow> int \<Rightarrow> ('w, 'p) file_world \<Rightarrow> ('w, 'p) file_world" where
  "end_open_bind e l r w =
     w\<lparr>psi_files := end_file_open_wait_and_bind_to_descriptor (file_service e) l r (psi_files w)\<rparr>"

definition end_temp_bind ::
  "('w, 'p) file_env \<Rightarrow> PSI_file_locker \<Rightarrow> int \<Rightarrow> ptr \<Rightarrow> ('w, 'p) file_world \<Rightarrow> ('w, 'p) file_world" where
  "end_temp_bind e l r name w =
     w\<lparr>psi_files := end_temp_file_open_wait_and_bind_to_descriptor (file_service e) l r name (psi_files w)\<rparr>"

definition start_close ::
  "('w, 'p) file_env \<Rightarrow> PSI_file_locker \<Rightarrow> string \<Rightarrow> nat \<Rightarrow> ('w, 'p) file_world \<Rightarrow> ('w, 'p) file_world" where
  "start_close e l sf sl w = w\<lparr>psi_files := start_file_close_wait (file_service e) l sf sl (psi_files w)\<rparr>"

definition end_close ::
  "('w, 'p) file_env \<Rightarrow> PSI_file_locker \<Rightarrow> int \<Rightarrow> ('w, 'p) file_world \<Rightarrow> ('w, 'p) file_world" where
  "end_close e l r w = w\<lparr>psi_files := end_file_close_wait (file_service e) l r (psi_files w)\<rparr>"

text \<open>
  The bytes a read or write reports: under the flags that ask for all or nothing a result of 0
  is success, otherwise the result is the number of bytes.
\<close>

definition rw_bytes :: "('w, 'p) file_env \<Rightarrow> int \<Rightarrow> nat \<Rightarrow> nat \<Rightarrow> nat" where
  "rw_bytes e flags result count =
     (if flags AND (MY_NABP OR MY_FNABP) \<noteq> 0 then (if result = 0 then count else 0)
      else if result \<noteq> MY_FILE_ERROR e then result else 0)"

section \<open>The file calls\<close>

definition inline_mysql_file_register ::
  "('w, 'p) file_env \<Rightarrow> ptr \<Rightarrow> ptr \<Rightarrow> int \<Rightarrow> ('w, 'p) file_world \<Rightarrow> ('w, 'p) file_world" where
  "inline_mysql_file_register e category info count w =
     (if HAVE_PSI_FILE_INTERFACE e
      then w\<lparr>psi_files := register_file (file_service e) category info count (psi_files w)\<rparr> else w)"

definition inline_mysql_file_fgets ::
  "('w, 'p) file_env \<Rightarrow> string \<Rightarrow> nat \<Rightarrow> ptr \<Rightarrow> int \<Rightarrow> MYSQL_FILE \<Rightarrow> ('w, 'p) file_world \<Rightarrow>
   ptr \<times> ('w, 'p) file_world" where
  "inline_mysql_file_fgets e src_file src_line str sz file w =
     (let (locker, w0) = stream_locker e (m_psi file) PSI_FILE_READ w;
          call = io_call (c_fgets (io e) str sz (m_file file))
      in case locker of
           None \<Rightarrow> call w0
         | Some l \<Rightarrow>
           let w1 = start_wait e l (to_size_t e sz) src_file src_line w0;
               (result, w2) = call w1
           in (result, end_wait e l (if result \<noteq> 0 then c_strlen (io e) result (io_world w2) else 0) w2))"

definition inline_mysql_file_fgetc ::
  "('w, 'p) file_env \<Rightarrow> string \<Rightarrow> nat \<Rightarrow> MYSQL_FILE \<Rightarrow> ('w, 'p) file_world \<Rightarrow>
   int \<times> ('w, 'p) file_world" where
  "inline_mysql_file_fgetc e src_file src_line file w =
     (let (locker, w0) = stream_locker e (m_psi file) PSI_FILE_READ w;
          call = io_call (c_fgetc (io e) (m_file file))
      in case locker of
           None \<Rightarrow> call w0
         | Some l \<Rightarrow>
           let w1 = start_wait e l 1 src_file src_line w0;
               (result, w2) = call w1
           in (result, end_wait e l 1 w2))"

definition inline_mysql_file_fputs ::
  "('w, 'p) file_env \<Rightarrow> string \<Rightarrow> nat \<Rightarrow> ptr \<Rightarrow> MYSQL_FILE \<Rightarrow> ('w, 'p) file_world \<Rightarrow>
   int \<times> ('w, 'p) file_world" where
  "inline_mysql_file_fputs e src_file src_line str file w =
     (let (locker, w0) = stream_locker e (m_psi file) PSI_FILE_WRITE w;
          call = io_call (c_fputs (io e) str (m_file file))
      in case locker of
           None \<Rightarrow> call w0
         | Some l \<Rightarrow>
           let bytes = (if str \<noteq> 0 then c_strlen (io e) str (io_world w0) else 0);
               w1 = start_wait e l bytes src_file src_line w0;
               (result, w2) = call w1
           in (result, end_wait e l bytes w2))"

definition inline_mysql_file_fputc ::
  "('w, 'p) file_env \<Rightarrow> string \<Rightarrow> nat \<Rightarrow> int \<Rightarrow> MYSQL_FILE \<Rightarrow> ('w, 'p) file_world \<Rightarrow>
   int \<times> ('w, 'p) file_world" where
  "inline_mysql_file_fputc e src_file src_line c file w =
     (let (locker, w0) = stream_locker e (m_psi file) PSI_FILE_WRITE w;
          call = io_call (c_fputc (io e) c (m_file file))
      in case locker of
           None \<Rightarrow> call w0
         | Some l \<Rightarrow>
           let w1 = start_wait e l 1 src_file src_line w0;
               (result, w2) = call w1
           in (result, end_wait e l 1 w2))"

definition inline_mysql_file_fprintf ::
  "('w, 'p) file_env \<Rightarrow> string \<Rightarrow> nat \<Rightarrow> MYSQL_FILE \<Rightarrow> ptr \<Rightarrow> ptr \<Rightarrow> ('w, 'p) file_world \<Rightarrow>
   int \<times> ('w, 'p) file_world" where
  "inline_mysql_file_fprintf e src_file src_line file format args w =
     (let (locker, w0) = stream_locker e (m_psi file) PSI_FILE_WRITE w;
          call = io_call (c_vfprintf (io e) (m_file file) format args)
      in case locker of
           None \<Rightarrow> call w0
         | Some l \<Rightarrow>
           let w1 = start_wait e l 0 src_file src_line w0;
               (result, w2) = call w1
           in (result, end_wait e l (to_size_t e result) w2))"

definition inline_mysql_file_vfprintf ::
  "('w, 'p) file_env \<Rightarrow> string \<Rightarrow> nat \<Rightarrow> MYSQL_FILE \<Rightarrow> ptr \<Rightarrow> ptr \<Rightarrow> ('w, 'p) file_world \<Rightarrow>
   int \<times> ('w, 'p) file_world" where
  "inline_mysql_file_vfprintf e src_file src_line file format args w =
     (let (locker, w0) = stream_locker e (m_psi file) PSI_FILE_WRITE w;
          call = io_call (c_vfprintf (io e) (m_file file) format args)
      in case locker of
           None \<Rightarrow> call w0
         | Some l \<Rightarrow>
           let w1 = start_wait e l 0 src_file src_line w0;
               (result, w2) = call w1
           in (result, end_wait e l (to_size_t e result) w2))"

definition inline_mysql_file_fflush ::
  "('w, 'p) file_env \<Rightarrow> string \<Rightarrow> nat \<Rightarrow> MYSQL_FILE \<Rightarrow> ('w, 'p) file_world \<Rightarrow>
   int \<times> ('w, 'p) file_world" where
  "inline_mysql_file_fflush e src_file src_line file w =
     (let (locker, w0) = stream_locker e (m_psi file) PSI_FILE_FLUSH w;
          call = io_call (c_fflush (io e) (m_file file))
      in case locker of
           None \<Rightarrow> call w0
         | Some l \<Rightarrow>
           let w1 = start_wait e l 0 src_file src_line w0;
               (result, w2) = call w1
           in (result, end_wait e l 0 w2))"

definition inline_mysql_file_feof :: "('w, 'p) file_env \<Rightarrow> MYSQL_FILE \<Rightarrow> ('w, 'p) file_world \<Rightarrow> int" where
  "inline_mysql_file_feof e file w = c_feof (io e) (m_file file) (io_world w)"

definition inline_mysql_file_fstat ::
  "('w, 'p) file_env \<Rightarrow> string \<Rightarrow> nat \<Rightarrow> int \<Rightarrow> ptr \<Rightarrow> int \<Rightarrow> ('w, 'p) file_world \<Rightarrow>
   int \<times> ('w, 'p) file_world" where
  "inline_mysql_file_fstat e src_file src_line filenr stat_area flags w =
     (let (locker, w0) = descriptor_locker e filenr PSI_FILE_FSTAT w;
          call = io_call (my_fstat (io e) filenr stat_area flags)
      in case locker of
           None \<Rightarrow> call w0
         | Some l \<Rightarrow>
           let w1 = start_wait e l 0 src_file src_line w0;
               (result, w2) = call w1
           in (result, end_wait e l 0 w2))"

definition inline_mysql_file_stat ::
  "('w, 'p) file_env \<Rightarrow> string \<Rightarrow> nat \<Rightarrow> nat \<Rightarrow> ptr \<Rightarrow> ptr \<Rightarrow> int \<Rightarrow> ('w, 'p) file_world \<Rightarrow>
   ptr \<times> ('w, 'p) file_world" where
  "inline_mysql_file_stat e src_file src_line key path stat_area flags w =
     (let (locker, w0) = name_locker e key path (addr_of_locker e) PSI_FILE_STAT w;
          call = io_call (my_stat (io e) path stat_area flags)
      in case locker of
           None \<Rightarrow> call w0
         | Some l \<Rightarrow>
           let w1 = start_open e l src_file src_line w0;
               (result, w2) = call w1
           in (result, snd (end_open e l result w2)))"

definition inline_mysql_file_chsize ::
  "('w, 'p) file_env \<Rightarrow> string \<Rightarrow> nat \<Rightarrow> int \<Rightarrow> nat \<Rightarrow> int \<Rightarrow> int \<Rightarrow> ('w, 'p) file_world \<Rightarrow>
   int \<times> ('w, 'p) file_world" where
  "inline_mysql_file_chsize e src_file src_line file newlength filler flags w =
     (let (locker, w0) = descriptor_locker e file PSI_FILE_CHSIZE w;
          call = io_call (my_chsize (io e) file newlength filler flags)
      in case locker of
           None \<Rightarrow> call w0
         | Some l \<Rightarrow>
           let w1 = start_wait e l (to_size_t e (int newlength)) src_file src_line w0;
               (result, w2) = call w1
           in (result, end_wait e l (to_size_t e (int newlength)) w2))"

text \<open>
  The result of \<open>fopen\<close> is the object allocated for the stream, with its address; a stream
  that did not open is freed again.
\<close>

definition inline_mysql_file_fopen ::
  "('w, 'p) file_env \<Rightarrow> string \<Rightarrow> nat \<Rightarrow> nat \<Rightarrow> nat \<Rightarrow> ptr \<Rightarrow> int \<Rightarrow> int \<Rightarrow> ('w, 'p) file_world \<Rightarrow>
   (ptr \<times> MYSQL_FILE) option \<times> ('w, 'p) file_world" where
  "inline_mysql_file_fopen e src_file src_line key sizeof_MYSQL_FILE filename flags myFlags w =
     (let (that, w1) = io_call (my_malloc (io e) sizeof_MYSQL_FILE) w
      in if that = 0 then (None, w1)
         else
           let (locker, w2) = name_locker e key filename that PSI_FILE_STREAM_OPEN w1;
               (file, w5) =
                 (case locker of
                    Some l \<Rightarrow>
                      let w3 = start_open e l src_file src_line w2;
                          (f, w4) = io_call (my_fopen (io e) filename flags myFlags) w3;
                          (s, w5) = end_open e l f w4
                      in (\<lparr>m_file = f, m_psi = s\<rparr>, w5)
                  | None \<Rightarrow>
                      let (f, w3) = io_call (my_fopen (io e) filename flags myFlags) w2
                      in (\<lparr>m_file = f, m_psi = None\<rparr>, w3))
           in if m_file file = 0 then (None, w5\<lparr>io_world := my_free (io e) that (io_world w5)\<rparr>)
              else (Some (that, file), w5))"

definition inline_mysql_file_fclose ::
  "('w, 'p) file_env \<Rightarrow> string \<Rightarrow> nat \<Rightarrow> (ptr \<times> MYSQL_FILE) option \<Rightarrow> int \<Rightarrow> ('w, 'p) file_world \<Rightarrow>
   int \<times> ('w, 'p) file_world" where
  "inline_mysql_file_fclose e src_file src_line file flags w =
     (case file of
        None \<Rightarrow> (0, w)
      | Some (that, f) \<Rightarrow>
          let (locker, w0) = stream_locker e (m_psi f) PSI_FILE_STREAM_CLOSE w;
              (result, w3) =
                (case locker of
                   Some l \<Rightarrow>
                     let w1 = start_close e l src_file src_line w0;
                         (result, w2) = io_call (my_fclose (io e) (m_file f) flags) w1
                     in (result, end_close e l result w2)
                 | None \<Rightarrow> io_call (my_fclose (io e) (m_file f) flags) w0)
          in (result, w3\<lparr>io_world := my_free (io e) that (io_world w3)\<rparr>))"

definition inline_mysql_file_fread ::
  "('w, 'p) file_env \<Rightarrow> string \<Rightarrow> nat \<Rightarrow> MYSQL_FILE \<Rightarrow> ptr \<Rightarrow> nat \<Rightarrow> int \<Rightarrow> ('w, 'p) file_world \<Rightarrow>
   nat \<times> ('w, 'p) file_world" where
  "inline_mysql_file_fread e src_file src_line file buffer count flags w =
     (let (locker, w0) = stream_locker e (m_psi file) PSI_FILE_READ w;
          call = io_call (my_fread (io e) (m_file file) buffer count flags)
      in case locker of
           None \<Rightarrow> call w0
         | Some l \<Rightarrow>
           let w1 = start_wait e l count src_file src_line w0;
               (result, w2) = call w1
           in (result, end_wait e l (rw_bytes e flags result count) w2))"

definition inline_mysql_file_fwrite ::
  "('w, 'p) file_env \<Rightarrow> string \<Rightarrow> nat \<Rightarrow> MYSQL_FILE \<Rightarrow> ptr \<Rightarrow> nat \<Rightarrow> int \<Rightarrow> ('w, 'p) file_world \<Rightarrow>
   nat \<times> ('w, 'p) file_world" where
  "inline_mysql_file_fwrite e src_file src_line file buffer count flags w =
     (let (locker, w0) = stream_locker e (m_psi file) PSI_FILE_WRITE w;
          call = io_call (my_fwrite (io e) (m_file file) buffer count flags)
      in case locker of
           None \<Rightarrow> call w0
         | Some l \<Rightarrow>
           let w1 = start_wait e l count src_file src_line w0;
               (result, w2) = call w1
           in (result, end_wait e l (rw_bytes e flags result count) w2))"

definition inline_mysql_file_fseek ::
  "('w, 'p) file_env \<Rightarrow> string \<Rightarrow> nat \<Rightarrow> MYSQL_FILE \<Rightarrow> nat \<Rightarrow> int \<Rightarrow> int \<Rightarrow> ('w, 'p) file_world \<Rightarrow>
   nat \<times> ('w, 'p) file_world" where
  "inline_mysql_file_fseek e src_file src_line file pos whence flags w =
     (let (locker, w0) = stream_locker e (m_psi file) PSI_FILE_SEEK w;
          call = io_call (my_fseek (io e) (m_file file) pos whence flags)
      in case locker of
           None \<Rightarrow> call w0
         | Some l \<Rightarrow>
           let w1 = start_wait e l 0 src_file src_line w0;
               (result, w2) = call w1
           in (result, end_wait e l 0 w2))"

definition inline_mysql_file_ftell ::
  "('w, 'p) file_env \<Rightarrow> string \<Rightarrow> nat \<Rightarrow> MYSQL_FILE \<Rightarrow> int \<Rightarrow> ('w, 'p) file_world \<Rightarrow>
   nat \<times> ('w, 'p) file_world" where
  "inline_mysql_file_ftell e src_file src_line file flags w =
     (let (locker, w0) = stream_locker e (m_psi file) PSI_FILE_TELL w;
          call = io_call (my_ftell (io e) (m_file file) flags)
      in case locker of
           None \<Rightarrow> call w0
         | Some l \<Rightarrow>
           let w1 = start_wait e l 0 src_file src_line w0;
               (result, w2) = call w1
           in (result, end_wait e l 0 w2))"

definition inline_mysql_file_create ::
  "('w, 'p) file_env \<Rightarrow> string \<Rightarrow> nat \<Rightarrow> nat \<Rightarrow> ptr \<Rightarrow> int \<Rightarrow> int \<Rightarrow> int \<Rightarrow> ('w, 'p) file_world \<Rightarrow>
   int \<times> ('w, 'p) file_world" where
  "inline_mysql_file_create e src_file src_line key filename create_flags access_flags myFlags w =
     (let (locker, w0) = name_locker e key filename (addr_of_locker e) PSI_FILE_CREATE w;
          call = io_call (my_create (io e) filename create_flags access_flags myFlags)
      in case locker of
           None \<Rightarrow> call w0
         | Some l \<Rightarrow>
           let w1 = start_open e l src_file src_line w0;
               (result, w2) = call w1
           in (result, end_open_bind e l result w2))"

definition inline_mysql_file_create_temp ::
  "('w, 'p) file_env \<Rightarrow> string \<Rightarrow> nat \<Rightarrow> nat \<Rightarrow> ptr \<Rightarrow> ptr \<Rightarrow> ptr \<Rightarrow> int \<Rightarrow> int \<Rightarrow> ('w, 'p) file_world \<Rightarrow>
   int \<times> ('w, 'p) file_world" where
  "inline_mysql_file_create_temp e src_file src_line key to dir pfx mode myFlags w =
     (let (locker, w0) = name_locker e key 0 (addr_of_locker e) PSI_FILE_CREATE w;
          call = io_call (my_create_temp_file (io e) to dir pfx mode myFlags)
      in case locker of
           None \<Rightarrow> call w0
         | Some l \<Rightarrow>
           let w1 = start_open e l src_file src_line w0;
               (result, w2) = call w1
           in (result, end_temp_bind e l result to w2))"

definition inline_mysql_file_open ::
  "('w, 'p) file_env \<Rightarrow> string \<Rightarrow> nat \<Rightarrow> nat \<Rightarrow> ptr \<Rightarrow> int \<Rightarrow> int \<Rightarrow> ('w, 'p) file_world \<Rightarrow>
   int \<times> ('w, 'p) file_world" where
  "inline_mysql_file_open e src_file src_line key filename flags myFlags w =
     (let (locker, w0) = name_locker e key filename (addr_of_locker e) PSI_FILE_OPEN w;
          call = io_call (my_open (io e) filename flags myFlags)
      in case locker of
           None \<Rightarrow> call w0
         | Some l \<Rightarrow>
           let w1 = start_open e l src_file src_line w0;
               (result, w2) = call w1
           in (result, end_open_bind e l result w2))"

definition inline_mysql_file_close ::
  "('w, 'p) file_env \<Rightarrow> string \<Rightarrow> nat \<Rightarrow> int \<Rightarrow> int \<Rightarrow> ('w, 'p) file_world \<Rightarrow>
   int \<times> ('w, 'p) file_world" where
  "inline_mysql_file_close e src_file src_line file flags w =
     (let (locker, w0) = descriptor_locker e file PSI_FILE_CLOSE w;
          call = io_call (my_close (io e) file flags)
      in case locker of
           None \<Rightarrow> call w0
         | Some l \<Rightarrow>
           let w1 = start_close e l src_file src_line w0;
               (result, w2) = call w1
           in (result, end_close e l result w2))"

definition inline_mysql_file_read ::
  "('w, 'p) file_env \<Rightarrow> string \<Rightarrow> nat \<Rightarrow> int \<Rightarrow> ptr \<Rightarrow> nat \<Rightarrow> int \<Rightarrow> ('w, 'p) file_world \<Rightarrow>
   nat \<times> ('w, 'p) file_world" where
  "inline_mysql_file_read e src_file src_line file buffer count flags w =
     (let (locker, w0) = descriptor_locker e file PSI_FILE_READ w;
          call = io_call (my_read (io e) file buffer count flags)
      in case locker of
           None \<Rightarrow> call w0
         | Some l \<Rightarrow>
           let w1 = start_wait e l count src_file src_line w0;
               (result, w2) = call w1
           in (result, end_wait e l (rw_bytes e flags result count) w2))"

definition inline_mysql_file_write ::
  "('w, 'p) file_env \<Rightarrow> string \<Rightarrow> nat \<Rightarrow> int \<Rightarrow> ptr \<Rightarrow> nat \<Rightarrow> int \<Rightarrow> ('w, 'p) file_world \<Rightarrow>
   nat \<times> ('w, 'p) file_world" where
  "inline_mysql_file_write e src_file src_line file buffer count flags w =
     (let (locker, w0) = descriptor_locker e file PSI_FILE_WRITE w;
          call = io_call (my_write (io e) file buffer count flags)
      in case locker of
           None \<Rightarrow> call w0
         | Some l \<Rightarrow>
           let w1 = start_wait e l count src_file src_line w0;
               (result, w2) = call w1
           in (result, end_wait e l (rw_bytes e flags result count) w2))"

definition inline_mysql_file_pread ::
  "('w, 'p) file_env \<Rightarrow> string \<Rightarrow> nat \<Rightarrow> int \<Rightarrow> ptr \<Rightarrow> nat \<Rightarrow> nat \<Rightarrow> int \<Rightarrow> ('w, 'p) file_world \<Rightarrow>
   nat \<times> ('w, 'p) file_world" where
  "inline_mysql_file_pread e src_file src_line file buffer count offset flags w =
     (let (locker, w0) = descriptor_locker e file PSI_FILE_READ w;
          call = io_call (my_pread (io e) file buffer count offset flags)
      in case locker of
           None \<Rightarrow> call w0
         | Some l \<Rightarrow>
           let w1 = start_wait e l count src_file src_line w0;
               (result, w2) = call w1
           in (result, end_wait e l (rw_bytes e flags result count) w2))"

definition inline_mysql_file_pwrite ::
  "('w, 'p) file_env \<Rightarrow> string \<Rightarrow> nat \<Rightarrow> int \<Rightarrow> ptr \<Rightarrow> nat \<Rightarrow> nat \<Rightarrow> int \<Rightarrow> ('w, 'p) file_world \<Rightarrow>
   nat \<times> ('w, 'p) file_world" where
  "inline_mysql_file_pwrite e src_file src_line file buffer count offset flags w =
     (let (locker, w0) = descriptor_locker e file PSI_FILE_WRITE w;
          call = io_call (my_pwrite (io e) file buffer count offset flags)
      in case locker of
           None \<Rightarrow> call w0
         | Some l \<Rightarrow>
           let w1 = start_wait e l count src_file src_line w0;
               (result, w2) = call w1
           in (result, end_wait e l (rw_bytes e flags result count) w2))"

definition inline_mysql_file_seek ::
  "('w, 'p) file_env \<Rightarrow> string \<Rightarrow> nat \<Rightarrow> int \<Rightarrow> nat \<Rightarrow> int \<Rightarrow> int \<Rightarrow> ('w, 'p) file_world \<Rightarrow>
   nat \<times> ('w, 'p) file_world" where
  "inline_mysql_file_seek e src_file src_line file pos whence flags w =
     (let (locker, w0) = descriptor_locker e file PSI_FILE_SEEK w;
          call = io_call (my_seek (io e) file pos whence flags)
      in case locker of
           None \<Rightarrow> call w0
         | Some l \<Rightarrow>
           let w1 = start_wait e l 0 src_file src_line w0;
               (result, w2) = call w1
           in (result, end_wait e l 0 w2))"

definition inline_mysql_file_tell ::
  "('w, 'p) file_env \<Rightarrow> string \<Rightarrow> nat \<Rightarrow> int \<Rightarrow> int \<Rightarrow> ('w, 'p) file_world \<Rightarrow>
   nat \<times> ('w, 'p) file_world" where
  "inline_mysql_file_tell e src_file src_line file flags w =
     (let (locker, w0) = descriptor_locker e file PSI_FILE_TELL w;
          call = io_call (my_tell (io e) file flags)
      in case locker of
           None \<Rightarrow> call w0
         | Some l \<Rightarrow>
           let w1 = start_wait e l 0 src_file src_line w0;
               (result, w2) = call w1
           in (result, end_wait e l 0 w2))"

definition inline_mysql_file_delete ::
  "('w, 'p) file_env \<Rightarrow> string \<Rightarrow> nat \<Rightarrow> nat \<Rightarrow> ptr \<Rightarrow> int \<Rightarrow> ('w, 'p) file_world \<Rightarrow>
   int \<times> ('w, 'p) file_world" where
  "inline_mysql_file_delete e src_file src_line key name flags w =
     (let (locker, w0) = name_locker e key name (addr_of_locker e) PSI_FILE_DELETE w;
          call = io_call (my_delete (io e) name flags)
      in case locker of
           None \<Rightarrow> call w0
         | Some l \<Rightarrow>
           let w1 = start_close e l src_file src_line w0;
               (result, w2) = call w1
           in (result, end_close e l result w2))"

definition inline_mysql_file_rename ::
  "('w, 'p) file_env \<Rightarrow> string \<Rightarrow> nat \<Rightarrow> nat \<Rightarrow> ptr \<Rightarrow> ptr \<Rightarrow> int \<Rightarrow> ('w, 'p) file_world \<Rightarrow>
   int \<times> ('w, 'p) file_world" where
  "inline_mysql_file_rename e src_file src_line key from to flags w =
     (let (locker, w0) = name_locker e key to (addr_of_locker e) PSI_FILE_RENAME w;
          call = io_call (my_rename (io e) from to flags)
      in case locker of
           None \<Rightarrow> call w0
         | Some l \<Rightarrow>
           let w1 = start_wait e l 0 src_file src_line w0;
               (result, w2) = call w1
           in (result, end_wait e l 0 w2))"

definition inline_mysql_file_create_with_symlink ::
  "('w, 'p) file_env \<Rightarrow> string \<Rightarrow> nat \<Rightarrow> nat \<Rightarrow> ptr \<Rightarrow> ptr \<Rightarrow> int \<Rightarrow> int \<Rightarrow> int \<Rightarrow> ('w, 'p) file_world \<Rightarrow>
   int \<times> ('w, 'p) file_world" where
  "inline_mysql_file_create_with_symlink e src_file src_line key linkname filename create_flags access_flags flags w =
     (let (locker, w0) = name_locker e key filename (addr_of_locker e) PSI_FILE_CREATE w;
          call = io_call (my_create_with_symlink (io e) linkname filename create_flags access_flags flags)
      in case locker of
           None \<Rightarrow> call w0
         | Some l \<Rightarrow>
           let w1 = start_open e l src_file src_line w0;
               (result, w2) = call w1
           in (result, end_open_bind e l result w2))"

definition inline_mysql_file_delete_with_symlink ::
  "('w, 'p) file_env \<Rightarrow> string \<Rightarrow> nat \<Rightarrow> nat \<Rightarrow> ptr \<Rightarrow> int \<Rightarrow> ('w, 'p) file_world \<Rightarrow>
   int \<times> ('w, 'p) file_world" where
  "inline_mysql_file_delete_with_symlink e src_file src_line key name flags w =
     (let (locker, w0) = name_locker e key name (addr_of_locker e) PSI_FILE_DELETE w;
          call = io_call (my_delete_with_symlink (io e) name flags)
      in case locker of
           None \<Rightarrow> call w0
         | Some l \<Rightarrow>
           let w1 = start_close e l src_file src_line w0;
               (result, w2) = call w1
           in (result, end_close e l result w2))"

definition inline_mysql_file_rename_with_symlink ::
  "('w, 'p) file_env \<Rightarrow> string \<Rightarrow> nat \<Rightarrow> nat \<Rightarrow> ptr \<Rightarrow> ptr \<Rightarrow> int \<Rightarrow> ('w, 'p) file_world \<Rightarrow>
   int \<times> ('w, 'p) file_world" where
  "inline_mysql_file_rename_with_symlink e src_file src_line key from to flags w =
     (let (locker, w0) = name_locker e key to (addr_of_locker e) PSI_FILE_RENAME w;
          call = io_call (my_rename_with_symlink (io e) from to flags)
      in case locker of
           None \<Rightarrow> call w0
         | Some l \<Rightarrow>
           let w1 = start_wait e l 0 src_file src_line w0;
               (result, w2) = call w1
           in (result, end_wait e l 0 w2))"

definition inline_mysql_file_sync ::
  "('w, 'p) file_env \<Rightarrow> string \<Rightarrow> nat \<Rightarrow> int \<Rightarrow> int \<Rightarrow> ('w, 'p) file_world \<Rightarrow>
   int \<times> ('w, 'p) file_world" where
  "inline_mysql_file_sync e src_file src_line file flags w =
     (let (locker, w0) = descriptor_locker e file PSI_FILE_SYNC w;
          call = io_call (my_sync (io e) file flags)
      in case locker of
           None \<Rightarrow> call w0
         | Some l \<Rightarrow>
           let w1 = start_wait e l 0 src_file src_line w0;
               (result, w2) = call w1
           in (result, end_wait e l 0 w2))"

section \<open>What the program sees\<close>

text \<open>The result of a call and the library's world: everything but the performance schema.\<close>

definition io_view :: "'r \<times> ('w, 'p) file_world \<Rightarrow> 'r \<times> 'w" where
  "io_view rw = (fst rw, io_world (snd rw))"

lemma io_call_simps [simp]:
  "fst (io_call f w) = fst (f (io_world w))" "io_world (snd (io_call f w)) = snd (f (io_world w))"
  "psi_files (snd (io_call f w)) = psi_files w"
  by (simp_all add: io_call_def split_beta Let_def)

lemma wait_io [simp]:
  "io_world (start_wait e l n sf sl w) = io_world w" "io_world (end_wait e l n w) = io_world w"
  "io_world (start_open e l sf sl w) = io_world w" "io_world (snd (end_open e l r w)) = io_world w"
  "io_world (end_open_bind e l i w) = io_world w" "io_world (end_temp_bind e l i nm w) = io_world w"
  "io_world (start_close e l sf sl w) = io_world w" "io_world (end_close e l i w) = io_world w"
  by (simp_all add: start_wait_def end_wait_def start_open_def end_open_def end_open_bind_def
      end_temp_bind_def start_close_def end_close_def split_beta Let_def)

lemma locker_io [simp]:
  "io_world (snd (stream_locker e s op w)) = io_world w"
  "io_world (snd (descriptor_locker e f op w)) = io_world w"
  "io_world (snd (name_locker e key nm i op w)) = io_world w"
  by (simp_all add: stream_locker_def descriptor_locker_def name_locker_def get_locker_def split_beta Let_def)

text \<open>The same environment compiled without instrumentation.\<close>

definition plain :: "('w, 'p) file_env \<Rightarrow> ('w, 'p) file_env" where
  "plain e = e\<lparr>HAVE_PSI_FILE_INTERFACE := False\<rparr>"

lemma plain_simps [simp]:
  "io (plain e) = io e"
  "stream_locker (plain e) s op w = (None, w)" "descriptor_locker (plain e) f op w = (None, w)"
  "name_locker (plain e) key nm i op w = (None, w)"
  by (simp_all add: plain_def stream_locker_def descriptor_locker_def name_locker_def get_locker_def)

lemmas file_call_defs =
  inline_mysql_file_fgets_def
  inline_mysql_file_fgetc_def
  inline_mysql_file_fputs_def
  inline_mysql_file_fputc_def
  inline_mysql_file_fprintf_def
  inline_mysql_file_vfprintf_def
  inline_mysql_file_fflush_def
  inline_mysql_file_fstat_def
  inline_mysql_file_stat_def
  inline_mysql_file_chsize_def
  inline_mysql_file_fread_def
  inline_mysql_file_fwrite_def
  inline_mysql_file_fseek_def
  inline_mysql_file_ftell_def
  inline_mysql_file_create_def
  inline_mysql_file_create_temp_def
  inline_mysql_file_open_def
  inline_mysql_file_close_def
  inline_mysql_file_read_def
  inline_mysql_file_write_def
  inline_mysql_file_pread_def
  inline_mysql_file_pwrite_def
  inline_mysql_file_seek_def
  inline_mysql_file_tell_def
  inline_mysql_file_delete_def
  inline_mysql_file_rename_def
  inline_mysql_file_create_with_symlink_def
  inline_mysql_file_delete_with_symlink_def
  inline_mysql_file_rename_with_symlink_def
  inline_mysql_file_sync_def

section \<open>What the performance schema sees\<close>

datatype file_event =
    Locker PSI_file_operation "PSI_file_locker option"
  | WaitBegan PSI_file_locker nat
  | WaitEnded PSI_file_locker nat
  | OpenBegan PSI_file_locker
  | OpenEnded PSI_file_locker
  | CloseBegan PSI_file_locker
  | CloseEnded PSI_file_locker

text \<open>A performance schema that also writes down what it is told.\<close>

definition logged_files :: "'p file_psi \<Rightarrow> ('p \<times> file_event list) file_psi" where
  "logged_files ps = \<lparr>
     register_file = (\<lambda>c i n (p, es). (register_file ps c i n p, es)),
     get_thread_file_name_locker = (\<lambda>key op nm i (p, es).
       let (l, p') = get_thread_file_name_locker ps key op nm i p in (l, (p', es @ [Locker op l]))),
     get_thread_file_stream_locker = (\<lambda>s op (p, es).
       let (l, p') = get_thread_file_stream_locker ps s op p in (l, (p', es @ [Locker op l]))),
     get_thread_file_descriptor_locker = (\<lambda>f op (p, es).
       let (l, p') = get_thread_file_descriptor_locker ps f op p in (l, (p', es @ [Locker op l]))),
     start_file_open_wait = (\<lambda>l sf sl (p, es). (start_file_open_wait ps l sf sl p, es @ [OpenBegan l])),
     end_file_open_wait = (\<lambda>l r (p, es).
       let (s, p') = end_file_open_wait ps l r p in (s, (p', es @ [OpenEnded l]))),
     end_file_open_wait_and_bind_to_descriptor = (\<lambda>l i (p, es).
       (end_file_open_wait_and_bind_to_descriptor ps l i p, es @ [OpenEnded l])),
     end_temp_file_open_wait_and_bind_to_descriptor = (\<lambda>l i nm (p, es).
       (end_temp_file_open_wait_and_bind_to_descriptor ps l i nm p, es @ [OpenEnded l])),
     start_file_wait = (\<lambda>l n sf sl (p, es). (start_file_wait ps l n sf sl p, es @ [WaitBegan l n])),
     end_file_wait = (\<lambda>l n (p, es). (end_file_wait ps l n p, es @ [WaitEnded l n])),
     start_file_close_wait = (\<lambda>l sf sl (p, es). (start_file_close_wait ps l sf sl p, es @ [CloseBegan l])),
     end_file_close_wait = (\<lambda>l i (p, es). (end_file_close_wait ps l i p, es @ [CloseEnded l]))\<rparr>"

definition file_events :: "('w, 'p \<times> file_event list) file_world \<Rightarrow> file_event list" where
  "file_events w = snd (psi_files w)"

definition records_waits :: "('w, 'p \<times> file_event list) file_env \<Rightarrow> bool" where
  "records_waits e \<longleftrightarrow> HAVE_PSI_FILE_INTERFACE e \<and> (\<exists>ps. file_service e = logged_files ps)"

text \<open>
  One complete wait: a locker is asked for, and when there is one the wait starts and ends under
  it, as a transfer of \<open>n\<close> bytes that moved \<open>m\<close>, as the opening or as the closing of a file.
\<close>

definition file_wait ::
  "('w, 'p \<times> file_event list) file_world \<Rightarrow> PSI_file_operation \<Rightarrow> nat \<Rightarrow> nat \<Rightarrow>
   ('w, 'p \<times> file_event list) file_world \<Rightarrow> bool" where
  "file_wait w op n m w' \<longleftrightarrow> (\<exists>locker. file_events w' = file_events w @ Locker op locker #
     (case locker of None \<Rightarrow> [] | Some l \<Rightarrow> [WaitBegan l n, WaitEnded l m]))"

definition file_open_wait ::
  "('w, 'p \<times> file_event list) file_world \<Rightarrow> PSI_file_operation \<Rightarrow> ('w, 'p \<times> file_event list) file_world \<Rightarrow> bool" where
  "file_open_wait w op w' \<longleftrightarrow> (\<exists>locker. file_events w' = file_events w @ Locker op locker #
     (case locker of None \<Rightarrow> [] | Some l \<Rightarrow> [OpenBegan l, OpenEnded l]))"

definition file_close_wait ::
  "('w, 'p \<times> file_event list) file_world \<Rightarrow> PSI_file_operation \<Rightarrow> ('w, 'p \<times> file_event list) file_world \<Rightarrow> bool" where
  "file_close_wait w op w' \<longleftrightarrow> (\<exists>locker. file_events w' = file_events w @ Locker op locker #
     (case locker of None \<Rightarrow> [] | Some l \<Rightarrow> [CloseBegan l, CloseEnded l]))"

lemma events_io [simp]: "file_events (snd (io_call f w)) = file_events w"
  by (simp add: file_events_def)

lemma events_world [simp]: "file_events (w\<lparr>io_world := x\<rparr>) = file_events w"
  by (simp add: file_events_def)

lemma events_wait [simp]:
  assumes "records_waits e"
  shows "file_events (start_wait e l n sf sl w) = file_events w @ [WaitBegan l n]"
    and "file_events (end_wait e l n w) = file_events w @ [WaitEnded l n]"
    and "file_events (start_open e l sf sl w) = file_events w @ [OpenBegan l]"
    and "file_events (snd (end_open e l r w)) = file_events w @ [OpenEnded l]"
    and "file_events (end_open_bind e l i w) = file_events w @ [OpenEnded l]"
    and "file_events (end_temp_bind e l i nm w) = file_events w @ [OpenEnded l]"
    and "file_events (start_close e l sf sl w) = file_events w @ [CloseBegan l]"
    and "file_events (end_close e l i w) = file_events w @ [CloseEnded l]"
  using assms by (auto simp: records_waits_def file_events_def start_wait_def end_wait_def start_open_def
      end_open_def end_open_bind_def end_temp_bind_def start_close_def end_close_def logged_files_def
      split_beta Let_def)

lemma events_locker [simp]:
  assumes "records_waits e"
  shows "file_events (snd (stream_locker e s op w)) = file_events w @ [Locker op (fst (stream_locker e s op w))]"
    and "file_events (snd (descriptor_locker e f op w)) =
      file_events w @ [Locker op (fst (descriptor_locker e f op w))]"
    and "file_events (snd (name_locker e key nm i op w)) =
      file_events w @ [Locker op (fst (name_locker e key nm i op w))]"
  using assms by (auto simp: records_waits_def file_events_def stream_locker_def descriptor_locker_def
      name_locker_def get_locker_def logged_files_def split_beta Let_def)

lemmas file_wait_defs = file_wait_def file_open_wait_def file_close_wait_def split_beta Let_def

lemma fopen_plain:
  "map_prod (map_option (map_prod id m_file)) io_world
      (inline_mysql_file_fopen e sf sl key n filename flags myFlags w) =
     map_prod (map_option (map_prod id m_file)) io_world
       (inline_mysql_file_fopen (plain e) sf sl key n filename flags myFlags w)"
  by (simp add: inline_mysql_file_fopen_def split_beta Let_def split: option.splits)

lemma fclose_plain:
  "io_view (inline_mysql_file_fclose e sf sl stream flags w) =
     io_view (inline_mysql_file_fclose (plain e) sf sl stream flags w)"
  by (simp add: inline_mysql_file_fclose_def io_view_def split_beta Let_def split: option.splits)

lemma fclose_waits:
  assumes "records_waits e"
  shows "file_close_wait w PSI_FILE_STREAM_CLOSE (snd (inline_mysql_file_fclose e sf sl (Some (that, f)) flags w))"
  using assms by (simp add: inline_mysql_file_fclose_def file_wait_defs split: option.splits)

lemma fopen_waits:
  assumes "records_waits e" and "fst (my_malloc (io e) n (io_world w)) \<noteq> 0"
  shows "file_open_wait w PSI_FILE_STREAM_OPEN (snd (inline_mysql_file_fopen e sf sl key n filename flags myFlags w))"
  using assms by (simp add: inline_mysql_file_fopen_def file_wait_defs split: option.splits)

text \<open>A read or write never reports more bytes than it was asked for, if the library does not.\<close>

lemma rw_bytes_bound: "result \<le> count \<or> result = MY_FILE_ERROR e \<Longrightarrow> rw_bytes e flags result count \<le> count"
  by (auto simp: rw_bytes_def)

text \<open>
  A formatted write that fails returns -1, which is reported as the largest \<open>size_t\<close>.
\<close>

lemma failed_print_bytes:
  assumes "records_waits e" and "fst (c_vfprintf (io e) (m_file file) format args (io_world w)) = - 1"
  shows "file_wait w PSI_FILE_WRITE 0 (MY_FILE_ERROR e) (snd (inline_mysql_file_vfprintf e sf sl file format args w))"
  using assms by (simp add: inline_mysql_file_vfprintf_def file_wait_defs MY_FILE_ERROR_def split: option.splits)

section \<open>Properties\<close>

text \<open>
  The instrumented file functions are the functions they
  stand for. In every build and under every performance schema each of them makes exactly one
  call of its library function, with its own arguments, and returns its result; opening and
  closing a stream allocate, open, close and free in the order of the build without
  instrumentation.
\<close>

theorem file_instrumentation_transparent:
  "io_view (inline_mysql_file_fgets e sf sl str sz file w) = c_fgets (io e) str sz (m_file file) (io_world w) \<and>
   io_view (inline_mysql_file_fgetc e sf sl file w) = c_fgetc (io e) (m_file file) (io_world w) \<and>
   io_view (inline_mysql_file_fputs e sf sl str file w) = c_fputs (io e) str (m_file file) (io_world w) \<and>
   io_view (inline_mysql_file_fputc e sf sl c file w) = c_fputc (io e) c (m_file file) (io_world w) \<and>
   io_view (inline_mysql_file_fprintf e sf sl file format args w) = c_vfprintf (io e) (m_file file) format args (io_world w) \<and>
   io_view (inline_mysql_file_vfprintf e sf sl file format args w) = c_vfprintf (io e) (m_file file) format args (io_world w) \<and>
   io_view (inline_mysql_file_fflush e sf sl file w) = c_fflush (io e) (m_file file) (io_world w) \<and>
   io_view (inline_mysql_file_fstat e sf sl filenr stat_area flags w) = my_fstat (io e) filenr stat_area flags (io_world w) \<and>
   io_view (inline_mysql_file_stat e sf sl key path stat_area flags w) = my_stat (io e) path stat_area flags (io_world w) \<and>
   io_view (inline_mysql_file_chsize e sf sl fno newlength filler flags w) = my_chsize (io e) fno newlength filler flags (io_world w) \<and>
   io_view (inline_mysql_file_fread e sf sl file buffer count flags w) = my_fread (io e) (m_file file) buffer count flags (io_world w) \<and>
   io_view (inline_mysql_file_fwrite e sf sl file buffer count flags w) = my_fwrite (io e) (m_file file) buffer count flags (io_world w) \<and>
   io_view (inline_mysql_file_fseek e sf sl file pos whence flags w) = my_fseek (io e) (m_file file) pos whence flags (io_world w) \<and>
   io_view (inline_mysql_file_ftell e sf sl file flags w) = my_ftell (io e) (m_file file) flags (io_world w) \<and>
   io_view (inline_mysql_file_create e sf sl key filename create_flags access_flags myFlags w) = my_create (io e) filename create_flags access_flags myFlags (io_world w) \<and>
   io_view (inline_mysql_file_create_temp e sf sl key to dir pfx mode myFlags w) = my_create_temp_file (io e) to dir pfx mode myFlags (io_world w) \<and>
   io_view (inline_mysql_file_open e sf sl key filename flags myFlags w) = my_open (io e) filename flags myFlags (io_world w) \<and>
   io_view (inline_mysql_file_close e sf sl fno flags w) = my_close (io e) fno flags (io_world w) \<and>
   io_view (inline_mysql_file_read e sf sl fno buffer count flags w) = my_read (io e) fno buffer count flags (io_world w) \<and>
   io_view (inline_mysql_file_write e sf sl fno buffer count flags w) = my_write (io e) fno buffer count flags (io_world w) \<and>
   io_view (inline_mysql_file_pread e sf sl fno buffer count offset flags w) = my_pread (io e) fno buffer count offset flags (io_world w) \<and>
   io_view (inline_mysql_file_pwrite e sf sl fno buffer count offset flags w) = my_pwrite (io e) fno buffer count offset flags (io_world w) \<and>
   io_view (inline_mysql_file_seek e sf sl fno pos whence flags w) = my_seek (io e) fno pos whence flags (io_world w) \<and>
   io_view (inline_mysql_file_tell e sf sl fno flags w) = my_tell (io e) fno flags (io_world w) \<and>
   io_view (inline_mysql_file_delete e sf sl key name flags w) = my_delete (io e) name flags (io_world w) \<and>
   io_view (inline_mysql_file_rename e sf sl key from to flags w) = my_rename (io e) from to flags (io_world w) \<and>
   io_view (inline_mysql_file_create_with_symlink e sf sl key linkname filename create_flags access_flags flags w) = my_create_with_symlink (io e) linkname filename create_flags access_flags flags (io_world w) \<and>
   io_view (inline_mysql_file_delete_with_symlink e sf sl key name flags w) = my_delete_with_symlink (io e) name flags (io_world w) \<and>
   io_view (inline_mysql_file_rename_with_symlink e sf sl key from to flags w) = my_rename_with_symlink (io e) from to flags (io_world w) \<and>
   io_view (inline_mysql_file_sync e sf sl fno flags w) = my_sync (io e) fno flags (io_world w) \<and>
   map_prod (map_option (map_prod id m_file)) io_world (inline_mysql_file_fopen e sf sl key n filename flags myFlags w) =
     map_prod (map_option (map_prod id m_file)) io_world
       (inline_mysql_file_fopen (plain e) sf sl key n filename flags myFlags w) \<and>
   io_view (inline_mysql_file_fclose e sf sl stream flags w) =
     io_view (inline_mysql_file_fclose (plain e) sf sl stream flags w)"
proof (intro conjI)
  show "map_prod (map_option (map_prod id m_file)) io_world
      (inline_mysql_file_fopen e sf sl key n filename flags myFlags w) =
     map_prod (map_option (map_prod id m_file)) io_world
       (inline_mysql_file_fopen (plain e) sf sl key n filename flags myFlags w)"
    by (rule fopen_plain)
  show "io_view (inline_mysql_file_fclose e sf sl stream flags w) =
     io_view (inline_mysql_file_fclose (plain e) sf sl stream flags w)"
    by (rule fclose_plain)
qed (simp_all add: file_call_defs io_view_def split_beta Let_def split: option.splits)

text \<open>
  The performance schema sees every file function as one complete wait of
  the right kind. Each function asks for one locker, for the operation it performs; under the
  locker it is given it starts one wait and ends it once, whether the call succeeds or fails. A
  read or write reports the number of bytes asked for and the number moved.
\<close>

theorem file_waits_complete:
  assumes "records_waits e"
  shows "file_wait w PSI_FILE_READ (to_size_t e sz) (if (fst (inline_mysql_file_fgets e sf sl str sz file w)) \<noteq> 0 then c_strlen (io e) (fst (inline_mysql_file_fgets e sf sl str sz file w)) (io_world (snd (inline_mysql_file_fgets e sf sl str sz file w))) else 0)
     (snd (inline_mysql_file_fgets e sf sl str sz file w)) \<and>
   file_wait w PSI_FILE_READ 1 1
     (snd (inline_mysql_file_fgetc e sf sl file w)) \<and>
   file_wait w PSI_FILE_WRITE (if str \<noteq> 0 then c_strlen (io e) str (io_world w) else 0) (if str \<noteq> 0 then c_strlen (io e) str (io_world w) else 0)
     (snd (inline_mysql_file_fputs e sf sl str file w)) \<and>
   file_wait w PSI_FILE_WRITE 1 1
     (snd (inline_mysql_file_fputc e sf sl c file w)) \<and>
   file_wait w PSI_FILE_WRITE 0 (to_size_t e (fst (inline_mysql_file_fprintf e sf sl file format args w)))
     (snd (inline_mysql_file_fprintf e sf sl file format args w)) \<and>
   file_wait w PSI_FILE_WRITE 0 (to_size_t e (fst (inline_mysql_file_vfprintf e sf sl file format args w)))
     (snd (inline_mysql_file_vfprintf e sf sl file format args w)) \<and>
   file_wait w PSI_FILE_FLUSH 0 0
     (snd (inline_mysql_file_fflush e sf sl file w)) \<and>
   file_wait w PSI_FILE_FSTAT 0 0
     (snd (inline_mysql_file_fstat e sf sl filenr stat_area flags w)) \<and>
   file_open_wait w PSI_FILE_STAT (snd (inline_mysql_file_stat e sf sl key path stat_area flags w)) \<and>
   file_wait w PSI_FILE_CHSIZE (to_size_t e (int newlength)) (to_size_t e (int newlength))
     (snd (inline_mysql_file_chsize e sf sl fno newlength filler flags w)) \<and>
   file_wait w PSI_FILE_READ count (rw_bytes e flags (fst (inline_mysql_file_fread e sf sl file buffer count flags w)) count)
     (snd (inline_mysql_file_fread e sf sl file buffer count flags w)) \<and>
   file_wait w PSI_FILE_WRITE count (rw_bytes e flags (fst (inline_mysql_file_fwrite e sf sl file buffer count flags w)) count)
     (snd (inline_mysql_file_fwrite e sf sl file buffer count flags w)) \<and>
   file_wait w PSI_FILE_SEEK 0 0
     (snd (inline_mysql_file_fseek e sf sl file pos whence flags w)) \<and>
   file_wait w PSI_FILE_TELL 0 0
     (snd (inline_mysql_file_ftell e sf sl file flags w)) \<and>
   file_open_wait w PSI_FILE_CREATE (snd (inline_mysql_file_create e sf sl key filename create_flags access_flags myFlags w)) \<and>
   file_open_wait w PSI_FILE_CREATE (snd (inline_mysql_file_create_temp e sf sl key to dir pfx mode myFlags w)) \<and>
   file_open_wait w PSI_FILE_OPEN (snd (inline_mysql_file_open e sf sl key filename flags myFlags w)) \<and>
   file_close_wait w PSI_FILE_CLOSE (snd (inline_mysql_file_close e sf sl fno flags w)) \<and>
   file_wait w PSI_FILE_READ count (rw_bytes e flags (fst (inline_mysql_file_read e sf sl fno buffer count flags w)) count)
     (snd (inline_mysql_file_read e sf sl fno buffer count flags w)) \<and>
   file_wait w PSI_FILE_WRITE count (rw_bytes e flags (fst (inline_mysql_file_write e sf sl fno buffer count flags w)) count)
     (snd (inline_mysql_file_write e sf sl fno buffer count flags w)) \<and>
   file_wait w PSI_FILE_READ count (rw_bytes e flags (fst (inline_mysql_file_pread e sf sl fno buffer count offset flags w)) count)
     (snd (inline_mysql_file_pread e sf sl fno buffer count offset flags w)) \<and>
   file_wait w PSI_FILE_WRITE count (rw_bytes e flags (fst (inline_mysql_file_pwrite e sf sl fno buffer count offset flags w)) count)
     (snd (inline_mysql_file_pwrite e sf sl fno buffer count offset flags w)) \<and>
   file_wait w PSI_FILE_SEEK 0 0
     (snd (inline_mysql_file_seek e sf sl fno pos whence flags w)) \<and>
   file_wait w PSI_FILE_TELL 0 0
     (snd (inline_mysql_file_tell e sf sl fno flags w)) \<and>
   file_close_wait w PSI_FILE_DELETE (snd (inline_mysql_file_delete e sf sl key name flags w)) \<and>
   file_wait w PSI_FILE_RENAME 0 0
     (snd (inline_mysql_file_rename e sf sl key from to flags w)) \<and>
   file_open_wait w PSI_FILE_CREATE (snd (inline_mysql_file_create_with_symlink e sf sl key linkname filename create_flags access_flags flags w)) \<and>
   file_close_wait w PSI_FILE_DELETE (snd (inline_mysql_file_delete_with_symlink e sf sl key name flags w)) \<and>
   file_wait w PSI_FILE_RENAME 0 0
     (snd (inline_mysql_file_rename_with_symlink e sf sl key from to flags w)) \<and>
   file_wait w PSI_FILE_SYNC 0 0
     (snd (inline_mysql_file_sync e sf sl fno flags w)) \<and>
   file_close_wait w PSI_FILE_STREAM_CLOSE (snd (inline_mysql_file_fclose e sf sl (Some (that, file')) flags w))"
proof (intro conjI)
  show "file_close_wait w PSI_FILE_STREAM_CLOSE (snd (inline_mysql_file_fclose e sf sl (Some (that, file')) flags w))"
    by (rule fclose_waits [OF assms])
qed (use assms in \<open>simp_all add: file_call_defs file_wait_defs split: option.splits\<close>)

text \<open>A library whose read moves three bytes, under a schema that gives the locker 1.\<close>

definition demo_io :: "unit io_lib" where
  "demo_io = \<lparr>c_fgets = (\<lambda>_ _ _ w. (0, w)),
     c_fgetc = (\<lambda>_ w. (0, w)),
     c_fputs = (\<lambda>_ _ w. (0, w)),
     c_fputc = (\<lambda>_ _ w. (0, w)),
     c_vfprintf = (\<lambda>_ _ _ w. (0, w)),
     c_fflush = (\<lambda>_ w. (0, w)),
     my_fstat = (\<lambda>_ _ _ w. (0, w)),
     my_stat = (\<lambda>_ _ _ w. (0, w)),
     my_chsize = (\<lambda>_ _ _ _ w. (0, w)),
     my_fopen = (\<lambda>_ _ _ w. (0, w)),
     my_fclose = (\<lambda>_ _ w. (0, w)),
     my_fread = (\<lambda>_ _ _ _ w. (0, w)),
     my_fwrite = (\<lambda>_ _ _ _ w. (0, w)),
     my_fseek = (\<lambda>_ _ _ _ w. (0, w)),
     my_ftell = (\<lambda>_ _ w. (0, w)),
     my_create = (\<lambda>_ _ _ _ w. (0, w)),
     my_create_temp_file = (\<lambda>_ _ _ _ _ w. (0, w)),
     my_open = (\<lambda>_ _ _ w. (0, w)),
     my_close = (\<lambda>_ _ w. (0, w)),
     my_read = (\<lambda>_ _ _ _ w. (3, w)),
     my_write = (\<lambda>_ _ _ _ w. (0, w)),
     my_pread = (\<lambda>_ _ _ _ _ w. (0, w)),
     my_pwrite = (\<lambda>_ _ _ _ _ w. (0, w)),
     my_seek = (\<lambda>_ _ _ _ w. (0, w)),
     my_tell = (\<lambda>_ _ w. (0, w)),
     my_delete = (\<lambda>_ _ w. (0, w)),
     my_rename = (\<lambda>_ _ _ w. (0, w)),
     my_create_with_symlink = (\<lambda>_ _ _ _ _ w. (0, w)),
     my_delete_with_symlink = (\<lambda>_ _ w. (0, w)),
     my_rename_with_symlink = (\<lambda>_ _ _ w. (0, w)),
     my_sync = (\<lambda>_ _ w. (0, w)),
     my_malloc = (\<lambda>_ w. (0, w)),
     my_free = (\<lambda>_ w. w), c_feof = (\<lambda>_ _. 0), c_strlen = (\<lambda>_ _. 0)\<rparr>"

definition demo_file_psi :: "unit file_psi" where
  "demo_file_psi = \<lparr>register_file = (\<lambda>_ _ _ p. p),
     get_thread_file_name_locker = (\<lambda>_ _ _ _ p. (Some 1, p)),
     get_thread_file_stream_locker = (\<lambda>_ _ p. (Some 1, p)),
     get_thread_file_descriptor_locker = (\<lambda>_ _ p. (Some 1, p)),
     start_file_open_wait = (\<lambda>_ _ _ p. p), end_file_open_wait = (\<lambda>_ _ p. (None, p)),
     end_file_open_wait_and_bind_to_descriptor = (\<lambda>_ _ p. p),
     end_temp_file_open_wait_and_bind_to_descriptor = (\<lambda>_ _ _ p. p),
     start_file_wait = (\<lambda>_ _ _ _ p. p), end_file_wait = (\<lambda>_ _ p. p),
     start_file_close_wait = (\<lambda>_ _ _ p. p), end_file_close_wait = (\<lambda>_ _ p. p)\<rparr>"

definition demo_file_env :: "(unit, unit \<times> file_event list) file_env" where
  "demo_file_env = \<lparr>HAVE_PSI_FILE_INTERFACE = True, SIZE_T_BITS = 32, addr_of_locker = 100,
     io = demo_io, file_service = logged_files demo_file_psi\<rparr>"

definition demo_file_world :: "(unit, unit \<times> file_event list) file_world" where
  "demo_file_world = \<lparr>io_world = (), psi_files = ((), [])\<rparr>"

lemma demo_file_records: "records_waits demo_file_env"
  by (auto simp: records_waits_def demo_file_env_def)

theorem file_waits_complete_witness:
  "file_wait demo_file_world PSI_FILE_READ 10 3 (snd (inline_mysql_file_read demo_file_env [] 0 5 9 10 0 demo_file_world)) \<and>
   file_events (snd (inline_mysql_file_read demo_file_env [] 0 5 9 10 0 demo_file_world)) =
     [Locker PSI_FILE_READ (Some 1), WaitBegan 1 10, WaitEnded 1 3]"
proof -
  have "rw_bytes demo_file_env 0 (fst (inline_mysql_file_read demo_file_env [] 0 5 9 10 0 demo_file_world)) 10 = 3"
    and "file_events (snd (inline_mysql_file_read demo_file_env [] 0 5 9 10 0 demo_file_world)) =
      [Locker PSI_FILE_READ (Some 1), WaitBegan 1 10, WaitEnded 1 3]"
    by (simp_all add: inline_mysql_file_read_def descriptor_locker_def get_locker_def demo_file_env_def
        logged_files_def demo_file_psi_def start_wait_def end_wait_def io_call_def demo_io_def
        demo_file_world_def file_events_def rw_bytes_def MY_FILE_ERROR_def to_size_t_def)
  moreover have "file_wait demo_file_world PSI_FILE_READ 10
      (rw_bytes demo_file_env 0 (fst (inline_mysql_file_read demo_file_env [] 0 5 9 10 0 demo_file_world)) 10)
      (snd (inline_mysql_file_read demo_file_env [] 0 5 9 10 0 demo_file_world))"
    by (rule file_waits_complete [OF demo_file_records,
        THEN conjunct2, THEN conjunct2, THEN conjunct2, THEN conjunct2, THEN conjunct2, THEN conjunct2, THEN conjunct2, THEN conjunct2, THEN conjunct2, THEN conjunct2, THEN conjunct2, THEN conjunct2, THEN conjunct2, THEN conjunct2, THEN conjunct2, THEN conjunct2, THEN conjunct2, THEN conjunct2, THEN conjunct1])
  ultimately show ?thesis by simp
qed

end
