(* ===== verification/MySQL_Strings.thy ===== *)
theory MySQL_Strings
  imports MySQL_ByteOrder
begin

text \<open>
  \<open>skip_trailing_space\<close> of m_string.h, which finds the end of a text without its trailing
  spaces. The header has it twice: one version compares eight bytes at a time through
  \<open>uint8korr\<close>, the other, for machines that cannot load a word from any address, skips to word
  boundaries and compares words. A pointer is an index into a buffer; the second version also
  depends on the address \<open>a0\<close> the buffer starts at.
\<close>

section \<open>The loops\<close>

text \<open>\<open>while (end > ptr && end[-1] == 0x20) end--\<close>, with any lower limit.\<close>

function skip_spaces :: "buffer \<Rightarrow> int \<Rightarrow> int \<Rightarrow> int res" where
  "skip_spaces b lim e =
     (if e > lim then
        rbind (load_byte b (e - 1)) (\<lambda>c. if c = 0x20 then skip_spaces b lim (e - 1) else Inr e)
      else Inr e)"
  by pat_completeness auto
termination by (relation "measure (\<lambda>(b, lim, e). nat (e - lim))") auto

text \<open>\<open>uint8korr\<close>, which my_byteorder.h takes from one of two headers.\<close>

definition uint8korr :: "bool \<Rightarrow> buffer \<Rightarrow> int \<Rightarrow> u64 res" where
  "uint8korr x86 b A = (if x86 then x86_uint8korr b A else generic_uint8korr b A)"

function skip_eights :: "bool \<Rightarrow> buffer \<Rightarrow> int \<Rightarrow> int \<Rightarrow> int res" where
  "skip_eights x86 b ptr e =
     (if e - ptr \<ge> 8 then
        rbind (uint8korr x86 b (e - 8)) (\<lambda>v.
          if v \<noteq> 0x2020202020202020 then Inr e else skip_eights x86 b ptr (e - 8))
      else Inr e)"
  by pat_completeness auto
termination by (relation "measure (\<lambda>(x86, b, ptr, e). nat (e - ptr))") auto

definition skip_trailing_space :: "bool \<Rightarrow> buffer \<Rightarrow> int \<Rightarrow> nat \<Rightarrow> int res" where
  "skip_trailing_space x86 b ptr len =
     rbind (skip_eights x86 b ptr (ptr + int len)) (\<lambda>e. skip_spaces b ptr e)"

text \<open>An \<open>unsigned\<close> read through a cast pointer, on a machine with the highest byte first.\<close>

definition read_unsigned :: "int \<Rightarrow> buffer \<Rightarrow> int \<Rightarrow> u32 res" where
  "read_unsigned a0 b i = (if (a0 + i) mod 4 = 0 then be_ulongget b i else Inl MisalignedAccess)"

definition SPACE_INT :: u32 where
  "SPACE_INT = 0x20202020"

function skip_words :: "int \<Rightarrow> buffer \<Rightarrow> int \<Rightarrow> int \<Rightarrow> int res" where
  "skip_words a0 b start_words e =
     (if e > start_words then
        rbind (read_unsigned a0 b (e - 4)) (\<lambda>v.
          if v = SPACE_INT then skip_words a0 b start_words (e - 4) else Inr e)
      else Inr e)"
  by pat_completeness auto
termination by (relation "measure (\<lambda>(a0, b, start_words, e). nat (e - start_words))") auto

definition sparc_skip_trailing_space :: "int \<Rightarrow> buffer \<Rightarrow> int \<Rightarrow> nat \<Rightarrow> int res" where
  "sparc_skip_trailing_space a0 b ptr len =
     (let e = ptr + int len in
      rbind
        (if len > 20 then
           let end_words = (a0 + e) mod 2 ^ 64 div 4 * 4 - a0;
               start_words = (a0 + ptr + 4 - 1) mod 2 ^ 64 div 4 * 4 - a0
           in if \<not> end_words > ptr then Inl AssertionFailed
              else rbind (skip_spaces b end_words e) (\<lambda>e1.
                   rbind (load_byte b (e1 - 1)) (\<lambda>c.
                     if c = 0x20 \<and> start_words < end_words then skip_words a0 b start_words e1
                     else Inr e1))
         else Inr e)
        (\<lambda>e'. skip_spaces b ptr e'))"

declare skip_spaces.simps [simp del] skip_eights.simps [simp del] skip_words.simps [simp del]

section \<open>What they compute\<close>

text \<open>The text without its trailing spaces, and a range of spaces.\<close>

definition rstrip :: "u8 list \<Rightarrow> u8 list" where
  "rstrip xs = rev (dropWhile (\<lambda>c. c = 0x20) (rev xs))"

definition spaces :: "buffer \<Rightarrow> int \<Rightarrow> int \<Rightarrow> bool" where
  "spaces b i j \<longleftrightarrow> (\<forall>k. i \<le> k \<longrightarrow> k < j \<longrightarrow> buf_at b k = 0x20)"

lemma spaces_refl [simp]: "spaces b i i"
  by (simp add: spaces_def)

lemma spaces_trans: "spaces b i j \<Longrightarrow> spaces b j k \<Longrightarrow> spaces b i k"
  by (metis spaces_def not_le)

lemma spaces_single: "buf_at b (e - 1) = 0x20 \<Longrightarrow> spaces b (e - 1) e"
  unfolding spaces_def
proof (intro allI impI)
  fix k assume "buf_at b (e - 1) = 0x20" "e - 1 \<le> k" "k < e"
  moreover from this have "k = e - 1" by simp
  ultimately show "buf_at b k = 0x20" by simp
qed

lemma rstrip_spaces: "set ys \<subseteq> {0x20} \<Longrightarrow> rstrip (xs @ ys) = rstrip xs"
  unfolding rstrip_def rev_append by (subst dropWhile_append2) auto

lemma rstrip_id: "xs = [] \<or> last xs \<noteq> 0x20 \<Longrightarrow> rstrip xs = xs"
  by (cases xs rule: rev_cases) (auto simp: rstrip_def)

lemma last_bytes_at: "0 < n \<Longrightarrow> last (bytes_at b i n) = buf_at b (i + int n - 1)"
  by (cases n) (simp_all add: bytes_at_def)

text \<open>
  An end that has only spaces behind it and no space before it is the one the functions look
  for.
\<close>

lemma rstrip_end:
  assumes "ptr \<le> r" and "r \<le> ptr + int len" and "spaces b r (ptr + int len)"
    and "r = ptr \<or> buf_at b (r - 1) \<noteq> 0x20"
  shows "r = ptr + int (length (rstrip (bytes_at b ptr len)))"
proof -
  let ?n = "nat (r - ptr)"
  have len: "len = ?n + (len - ?n)" and r: "ptr + int ?n = r" using assms(1,2) by simp_all
  have "set (bytes_at b r (len - ?n)) \<subseteq> {0x20}"
    using assms(1,2,3) by (auto simp: bytes_at_def spaces_def)
  then have "rstrip (bytes_at b ptr len) = rstrip (bytes_at b ptr ?n)"
    by (subst len, subst bytes_at_add) (simp only: r rstrip_spaces)
  also have "\<dots> = bytes_at b ptr ?n"
    using assms(1,4) by (cases "r = ptr") (simp_all add: rstrip_id last_bytes_at r)
  finally show ?thesis using assms(1) by simp
qed

lemma skip_spaces_ok:
  "0 \<le> lim \<Longrightarrow> lim \<le> e \<Longrightarrow> e \<le> buf_size b \<Longrightarrow>
   \<exists>r. skip_spaces b lim e = Inr r \<and> lim \<le> r \<and> r \<le> e \<and> spaces b r e \<and>
     (r = lim \<or> buf_at b (r - 1) \<noteq> 0x20)"
proof (induction b lim e rule: skip_spaces.induct)
  case (1 b lim e)
  show ?case
  proof (cases "e > lim \<and> buf_at b (e - 1) = 0x20")
    case True
    with "1.prems" have l: "load_byte b (e - 1) = Inr (buf_at b (e - 1))" by (simp add: load_byte_def)
    have "\<exists>r. skip_spaces b lim (e - 1) = Inr r \<and> lim \<le> r \<and> r \<le> e - 1 \<and> spaces b r (e - 1) \<and>
        (r = lim \<or> buf_at b (r - 1) \<noteq> 0x20)"
      by (rule "1.IH" [OF _ l]) (use True "1.prems" in auto)
    then obtain r where
      r: "skip_spaces b lim (e - 1) = Inr r" "lim \<le> r" "r \<le> e - 1" "spaces b r (e - 1)"
        "r = lim \<or> buf_at b (r - 1) \<noteq> 0x20"
      by blast
    have "spaces b (e - 1) e" using True by (simp add: spaces_single)
    with r(4) have "spaces b r e" by (rule spaces_trans)
    with r True l show ?thesis by (subst skip_spaces.simps) auto
  next
    case False
    with "1.prems" show ?thesis by (subst skip_spaces.simps) (auto simp: load_byte_def)
  qed
qed

text \<open>A word is all spaces exactly when its bytes are, in either byte order.\<close>

lemma word_of_bytes_eq:
  assumes "length bs = n" and "length cs = n" and "LENGTH('a::len) = 8 * n"
  shows "(word_of_int (le_val bs) :: 'a word) = word_of_int (le_val cs) \<longleftrightarrow> bs = cs"
proof -
  have small: "le_val xs < 2 ^ LENGTH('a)" "0 \<le> le_val xs" if "length xs = n" for xs
    using le_val_range [of xs] that assms(3) by (simp_all add: power_mult)
  have "(word_of_int (le_val bs) :: 'a word) = word_of_int (le_val cs) \<longleftrightarrow> le_val bs = le_val cs"
    using small [OF assms(1)] small [OF assms(2)] by (metis mod_pos_pos_trivial uint_word_of_int)
  also have "\<dots> \<longleftrightarrow> bs = cs"
    using le_bytes_val [of bs] le_bytes_val [of cs] assms(1,2) by metis
  finally show ?thesis .
qed

lemma replicate_8: "replicate 8 x = [x, x, x, x, x, x, x, x]"
  and replicate_4: "replicate 4 x = [x, x, x, x]"
  by (simp_all add: eval_nat_numeral)

lemma eight_spaces:
  assumes "length bs = 8"
  shows "(word_of_int (le_val bs) :: u64) = 0x2020202020202020 \<longleftrightarrow> bs = replicate 8 0x20"
proof -
  have "(word_of_int (le_val (replicate 8 0x20)) :: u64) = 0x2020202020202020"
    by (simp add: replicate_8)
  with word_of_bytes_eq [where 'a = 64 and n = 8 and cs = "replicate 8 0x20", OF assms] show ?thesis by simp
qed

lemma four_spaces:
  assumes "length bs = 4"
  shows "(word_of_int (le_val (rev bs)) :: u32) = SPACE_INT \<longleftrightarrow> bs = replicate 4 0x20"
proof -
  have "(word_of_int (le_val (replicate 4 0x20)) :: u32) = SPACE_INT"
    by (simp add: replicate_4 SPACE_INT_def)
  with word_of_bytes_eq [where 'a = 32 and n = 4 and cs = "replicate 4 0x20" and bs = "rev bs"] assms
  show ?thesis by (simp add: rev_swap)
qed

lemma spaces_bytes: "bytes_at b i n = replicate n 0x20 \<longleftrightarrow> spaces b i (i + int n)"
proof
  assume r: "bytes_at b i n = replicate n 0x20"
  show "spaces b i (i + int n)"
    unfolding spaces_def
  proof (intro allI impI)
    fix k assume "i \<le> k" "k < i + int n"
    then have n: "nat (k - i) < n" "i + int (nat (k - i)) = k" by simp_all
    then have "bytes_at b i n ! nat (k - i) = buf_at b k" by (simp add: bytes_at_def)
    with r n show "buf_at b k = 0x20" by simp
  qed
next
  assume "spaces b i (i + int n)"
  then show "bytes_at b i n = replicate n 0x20"
    by (intro nth_equalityI) (auto simp: bytes_at_def spaces_def)
qed

lemma uint8korr_spaces:
  assumes "0 \<le> i" and "i + 8 \<le> buf_size b"
  shows "\<exists>v. uint8korr x86 b i = Inr v \<and> (v = 0x2020202020202020 \<longleftrightarrow> spaces b i (i + 8))"
proof -
  have "in_bounds b i 8" using assms by (simp add: in_bounds_def)
  then have "uint8korr x86 b i = Inr (word_of_int (le_val (bytes_at b i 8)))"
    by (simp add: uint8korr_def korr8_agree x86_uint8korr_def x86_load_def load_bytes_at)
  with eight_spaces [of "bytes_at b i 8"] spaces_bytes [of b i 8] show ?thesis by simp
qed

lemma read_unsigned_spaces:
  assumes "0 \<le> i" and "i + 4 \<le> buf_size b" and "(a0 + i) mod 4 = 0"
  shows "\<exists>v. read_unsigned a0 b i = Inr v \<and> (v = SPACE_INT \<longleftrightarrow> spaces b i (i + 4))"
proof -
  have "in_bounds b i 4" using assms by (simp add: in_bounds_def)
  then have "read_unsigned a0 b i = Inr (word_of_int (le_val (rev (bytes_at b i 4))))"
    using assms(3) by (simp add: read_unsigned_def be_ulongget_def load_bytes_at)
  with four_spaces [of "bytes_at b i 4"] spaces_bytes [of b i 4] show ?thesis by simp
qed

lemma skip_eights_ok:
  "0 \<le> ptr \<Longrightarrow> ptr \<le> e \<Longrightarrow> e \<le> buf_size b \<Longrightarrow>
   \<exists>r. skip_eights x86 b ptr e = Inr r \<and> ptr \<le> r \<and> r \<le> e \<and> spaces b r e"
proof (induction x86 b ptr e rule: skip_eights.induct)
  case (1 x86 b ptr e)
  show ?case
  proof (cases "e - ptr \<ge> 8")
    case True
    with "1.prems" obtain v where
      v: "uint8korr x86 b (e - 8) = Inr v" "v = 0x2020202020202020 \<longleftrightarrow> spaces b (e - 8) e"
      using uint8korr_spaces [of "e - 8" b x86] by auto
    show ?thesis
    proof (cases "v = 0x2020202020202020")
      case yes: True
      then have "\<exists>r. skip_eights x86 b ptr (e - 8) = Inr r \<and> ptr \<le> r \<and> r \<le> e - 8 \<and> spaces b r (e - 8)"
        by (intro "1.IH" [OF True v(1)]) (use True "1.prems" in auto)
      then obtain r where
        r: "skip_eights x86 b ptr (e - 8) = Inr r" "ptr \<le> r" "r \<le> e - 8" "spaces b r (e - 8)" by blast
      from r(4) v(2) yes have "spaces b r e" by (blast intro: spaces_trans)
      with r v True yes show ?thesis by (subst skip_eights.simps) auto
    next
      case False
      with v True "1.prems" show ?thesis by (subst skip_eights.simps) auto
    qed
  next
    case False
    with "1.prems" show ?thesis by (subst skip_eights.simps) auto
  qed
qed

lemma skip_words_ok:
  "0 \<le> st \<Longrightarrow> st \<le> e \<Longrightarrow> e \<le> buf_size b \<Longrightarrow> (a0 + st) mod 4 = 0 \<Longrightarrow> (a0 + e) mod 4 = 0 \<Longrightarrow>
   \<exists>r. skip_words a0 b st e = Inr r \<and> st \<le> r \<and> r \<le> e \<and> spaces b r e"
proof (induction a0 b st e rule: skip_words.induct)
  case (1 a0 b st e)
  show ?case
  proof (cases "e > st")
    case True
    with "1.prems" have four: "st \<le> e - 4" "(a0 + (e - 4)) mod 4 = 0" by presburger+
    with "1.prems" obtain v where
      v: "read_unsigned a0 b (e - 4) = Inr v" "v = SPACE_INT \<longleftrightarrow> spaces b (e - 4) e"
      using read_unsigned_spaces [of "e - 4" b a0] by auto
    show ?thesis
    proof (cases "v = SPACE_INT")
      case yes: True
      then have "\<exists>r. skip_words a0 b st (e - 4) = Inr r \<and> st \<le> r \<and> r \<le> e - 4 \<and> spaces b r (e - 4)"
        by (intro "1.IH" [OF True v(1)]) (use four "1.prems" in auto)
      then obtain r where
        r: "skip_words a0 b st (e - 4) = Inr r" "st \<le> r" "r \<le> e - 4" "spaces b r (e - 4)" by blast
      from r(4) v(2) yes have "spaces b r e" by (blast intro: spaces_trans)
      with r v True yes show ?thesis by (subst skip_words.simps) auto
    next
      case False
      with v True "1.prems" show ?thesis by (subst skip_words.simps) auto
    qed
  next
    case False
    with "1.prems" show ?thesis by (subst skip_words.simps) auto
  qed
qed

section \<open>Both versions find the same end\<close>

lemma skip_trailing_space_end:
  assumes "in_bounds b ptr len"
  shows "skip_trailing_space x86 b ptr len = Inr (ptr + int (length (rstrip (bytes_at b ptr len))))"
proof -
  let ?e = "ptr + int len"
  have b: "0 \<le> ptr" "ptr \<le> ?e" "?e \<le> buf_size b" using assms by (simp_all add: in_bounds_def)
  obtain e where e: "skip_eights x86 b ptr ?e = Inr e" "ptr \<le> e" "e \<le> ?e" "spaces b e ?e"
    using skip_eights_ok [OF b] by blast
  obtain r where r: "skip_spaces b ptr e = Inr r" "ptr \<le> r" "r \<le> e" "spaces b r e"
    "r = ptr \<or> buf_at b (r - 1) \<noteq> 0x20"
    using skip_spaces_ok [of ptr e b] b e by auto
  have "r = ptr + int (length (rstrip (bytes_at b ptr len)))"
    using r e by (intro rstrip_end) (auto intro: spaces_trans)
  with e(1) r(1) show ?thesis by (simp add: skip_trailing_space_def)
qed

text \<open>
  In the version for aligned words the assertion holds, the byte before the end is still the
  text's, and the words that are compared are aligned and inside the text.
\<close>

lemma sparc_first_part:
  assumes "in_bounds b ptr len" and "0 \<le> a0" and "a0 + ptr + int len + 4 \<le> 2 ^ 64" and "20 < len"
    and ew: "ew = (a0 + (ptr + int len)) mod 2 ^ 64 div 4 * 4 - a0"
    and sw: "sw = (a0 + ptr + 4 - 1) mod 2 ^ 64 div 4 * 4 - a0"
  shows "ptr < ew \<and> (\<exists>e1 c. skip_spaces b ew (ptr + int len) = Inr e1 \<and> load_byte b (e1 - 1) = Inr c \<and>
     ptr \<le> e1 \<and> e1 \<le> ptr + int len \<and> spaces b e1 (ptr + int len) \<and>
     (c = 0x20 \<and> sw < ew \<longrightarrow>
        (\<exists>r. skip_words a0 b sw e1 = Inr r \<and> ptr \<le> r \<and> r \<le> e1 \<and> spaces b r e1)))"
proof -
  let ?e = "ptr + int len"
  have b: "0 \<le> ptr" "?e \<le> buf_size b" using assms(1) by (simp_all add: in_bounds_def)
  have ew': "ew = (a0 + ?e) div 4 * 4 - a0" and sw': "sw = (a0 + ptr + 3) div 4 * 4 - a0"
    using assms(2,3) b(1) unfolding ew sw by (simp_all add: algebra_simps)
  have lim: "ptr < ew" "ew \<le> ?e" "?e - 3 \<le> ew" "ptr \<le> sw" "(a0 + ew) mod 4 = 0" "(a0 + sw) mod 4 = 0"
    using assms(4) unfolding ew' sw' by presburger+
  obtain e1 where e1: "skip_spaces b ew ?e = Inr e1" "ew \<le> e1" "e1 \<le> ?e" "spaces b e1 ?e"
    "e1 = ew \<or> buf_at b (e1 - 1) \<noteq> 0x20"
    using skip_spaces_ok [of ew ?e b] lim b by auto
  have l: "load_byte b (e1 - 1) = Inr (buf_at b (e1 - 1))"
    using lim e1(2,3) b by (simp add: load_byte_def)
  have "\<exists>r. skip_words a0 b sw e1 = Inr r \<and> ptr \<le> r \<and> r \<le> e1 \<and> spaces b r e1"
    if "buf_at b (e1 - 1) = 0x20" "sw < ew"
  proof -
    have "e1 = ew" using e1(5) that(1) by simp
    with skip_words_ok [of sw e1 b a0] lim b e1(3) that(2) show ?thesis by auto
  qed
  with lim e1 l show ?thesis by auto
qed

lemma sparc_skip_trailing_space_end:
  assumes "in_bounds b ptr len" and "0 \<le> a0" and "a0 + ptr + int len + 4 \<le> 2 ^ 64"
  shows "sparc_skip_trailing_space a0 b ptr len = Inr (ptr + int (length (rstrip (bytes_at b ptr len))))"
proof -
  let ?e = "ptr + int len"
  have b: "0 \<le> ptr" "?e \<le> buf_size b" using assms(1) by (simp_all add: in_bounds_def)
  have "\<exists>e. sparc_skip_trailing_space a0 b ptr len = skip_spaces b ptr e \<and> ptr \<le> e \<and> e \<le> ?e \<and> spaces b e ?e"
  proof (cases "20 < len")
    case False
    then show ?thesis by (auto simp: sparc_skip_trailing_space_def Let_def)
  next
    case True
    let ?ew = "(a0 + (ptr + int len)) mod 2 ^ 64 div 4 * 4 - a0"
      and ?sw = "(a0 + ptr + 4 - 1) mod 2 ^ 64 div 4 * 4 - a0"
    from sparc_first_part [OF assms True refl refl] obtain e1 c where
      e1: "ptr < ?ew" "skip_spaces b ?ew ?e = Inr e1" "load_byte b (e1 - 1) = Inr c" "ptr \<le> e1" "e1 \<le> ?e"
        "spaces b e1 ?e"
      and words: "c = 0x20 \<and> ?sw < ?ew \<Longrightarrow>
        \<exists>r. skip_words a0 b ?sw e1 = Inr r \<and> ptr \<le> r \<and> r \<le> e1 \<and> spaces b r e1" by blast
    have d: "sparc_skip_trailing_space a0 b ptr len =
        rbind (if c = 0x20 \<and> ?sw < ?ew then skip_words a0 b ?sw e1 else Inr e1) (skip_spaces b ptr)"
      unfolding sparc_skip_trailing_space_def Let_def using True e1(1,2,3) by simp
    show ?thesis
    proof (cases "c = 0x20 \<and> ?sw < ?ew")
      case True
      with words obtain r where "skip_words a0 b ?sw e1 = Inr r" "ptr \<le> r" "r \<le> e1" "spaces b r e1" by blast
      with True e1 d show ?thesis by (intro exI [of _ r]) (auto intro: spaces_trans)
    next
      case False
      with e1 d show ?thesis by (intro exI [of _ e1]) (simp only: if_False rbind.simps)
    qed
  qed
  then obtain e where e: "sparc_skip_trailing_space a0 b ptr len = skip_spaces b ptr e"
    "ptr \<le> e" "e \<le> ?e" "spaces b e ?e" by blast
  obtain r where r: "skip_spaces b ptr e = Inr r" "ptr \<le> r" "r \<le> e" "spaces b r e"
    "r = ptr \<or> buf_at b (r - 1) \<noteq> 0x20"
    using skip_spaces_ok [of ptr e b] b e by auto
  have "r = ptr + int (length (rstrip (bytes_at b ptr len)))"
    using r e by (intro rstrip_end) (auto intro: spaces_trans)
  with e(1) r(1) show ?thesis by simp
qed

section \<open>Properties\<close>

text \<open>
  C38: Both versions of \<open>skip_trailing_space\<close> return the address after
  the last character of the text that is not a space, the start of a text of spaces only. The
  version that reads aligned words gives it wherever the text lies, never fails its assertion,
  reads no word at an address that is not aligned, and like the other reads no byte outside the
  text.
\<close>

theorem skip_trailing_space_versions:
  assumes "in_bounds b ptr len" and "0 \<le> a0" and "a0 + ptr + int len + 4 \<le> 2 ^ 64"
  shows "skip_trailing_space x86 b ptr len = Inr (ptr + int (length (rstrip (bytes_at b ptr len)))) \<and>
    sparc_skip_trailing_space a0 b ptr len = skip_trailing_space x86 b ptr len"
  by (simp only: skip_trailing_space_end [OF assms(1)] sparc_skip_trailing_space_end [OF assms] simp_thms)

text \<open>A name padded to 24 characters.\<close>

definition padded :: buffer where
  "padded = \<lparr>buf_size = 24, buf_at = (\<lambda>i. if i < 4 then 0x61 else 0x20)\<rparr>"

theorem skip_trailing_space_versions_witness:
  "skip_trailing_space True padded 0 24 = Inr 4 \<and> sparc_skip_trailing_space 4098 padded 0 24 = Inr 4"
proof -
  have "rstrip (bytes_at padded 0 24) = [0x61, 0x61, 0x61, 0x61]"
    by (simp add: rstrip_def bytes_at_def padded_def upt_rec)
  with skip_trailing_space_versions [of padded 0 24 4098 True] show ?thesis
    by (simp add: in_bounds_def padded_def)
qed

end
