(* ===== verification/MySQL_Time.thy ===== *)
theory MySQL_Time
  imports SG_Prelude
begin

text \<open>
  Absolute times and timeouts of the MySQL headers: \<open>struct timespec\<close> with its functions in
  my_global.h, \<open>get_milliseconds\<close> of thr_cond.h, which turns a time into the timeout of a
  Windows wait, and \<open>my_sleep\<close> of my_sys.h. The headers have two kinds of \<open>timespec\<close>: seconds and
  nanoseconds where the compiler has the structure (\<open>HAVE_STRUCT_TIMESPEC\<close>, as my_config.h
  says), and a file time of 100 ns units with a limit in milliseconds where it has not; the
  functions for the second have the prefix \<open>ft_\<close>. As in my_config.h, \<open>time_t\<close> has 64 bits and
  \<open>long\<close> 32. The clock readings are arguments.
\<close>

section \<open>Integers\<close>

text \<open>The division of C, which truncates, and a result of 64-bit signed arithmetic.\<close>

definition c_div :: "int \<Rightarrow> int \<Rightarrow> int" where
  "c_div a b = sgn a * sgn b * (\<bar>a\<bar> div \<bar>b\<bar>)"

definition int64 :: "int \<Rightarrow> int res" where
  "int64 i = (if - (2 ^ 63) \<le> i \<and> i < 2 ^ 63 then Inr i else Inl SignedOverflow)"

lemma c_div_pos: "0 \<le> a \<Longrightarrow> 0 < b \<Longrightarrow> c_div a b = a div b"
  by (cases "a = 0") (simp_all add: c_div_def)

lemma c_div_neg: "a < 0 \<Longrightarrow> 0 < b \<Longrightarrow> c_div a b = - (\<bar>a\<bar> div b)"
  by (simp add: c_div_def)

definition INT_MAX32 :: int where "INT_MAX32 = 0x7FFFFFFF"
definition UINT_MAX :: int where "UINT_MAX = 0xFFFFFFFF"

text \<open>The timeout that never ends.\<close>

definition INFINITE :: u32 where "INFINITE = 0xFFFFFFFF"

section \<open>Seconds and nanoseconds\<close>

record timespec =
  tv_sec :: int
  tv_nsec :: int

definition set_timespec_nsec :: "u64 \<Rightarrow> u64 \<Rightarrow> timespec" where
  "set_timespec_nsec systime nsec =
     (let now = systime + nsec div 100
      in \<lparr>tv_sec = sint (now div 10000000),
          tv_nsec = sint (ucast (now mod 10000000 * 100 + nsec mod 100) :: u32)\<rparr>)"

definition set_timespec :: "u64 \<Rightarrow> u64 \<Rightarrow> timespec" where
  "set_timespec systime sec = set_timespec_nsec systime (sec * 1000000000)"

definition cmp_timespec :: "timespec \<Rightarrow> timespec \<Rightarrow> int" where
  "cmp_timespec ts1 ts2 =
     (if tv_sec ts1 > tv_sec ts2 \<or> tv_sec ts1 = tv_sec ts2 \<and> tv_nsec ts1 > tv_nsec ts2 then 1
      else if tv_sec ts1 < tv_sec ts2 \<or> tv_sec ts1 = tv_sec ts2 \<and> tv_nsec ts1 < tv_nsec ts2 then - 1
      else 0)"

definition diff_timespec :: "timespec \<Rightarrow> timespec \<Rightarrow> u64 res" where
  "diff_timespec ts1 ts2 =
     rbind (int64 (tv_sec ts1 - tv_sec ts2)) (\<lambda>d.
       Inr (word_of_int d * 1000000000 + word_of_int (tv_nsec ts1) - word_of_int (tv_nsec ts2)))"

definition get_milliseconds :: "u64 \<Rightarrow> timespec \<Rightarrow> u32 res" where
  "get_milliseconds systime abstime =
     rbind (int64 (tv_sec abstime * 1000)) (\<lambda>s.
     rbind (int64 (s + c_div (tv_nsec abstime) 1000000)) (\<lambda>f.
       let future = (word_of_int f :: u64); now = systime div 10000
       in Inr (if future < now then 0 else ucast (future - now))))"

section \<open>File times\<close>

record ft_timespec =
  tv_i64 :: int
  max_timeout_msec :: int

definition ft_set_timespec_nsec :: "int \<Rightarrow> u64 \<Rightarrow> ft_timespec res" where
  "ft_set_timespec_nsec filetime nsec =
     rbind (int64 (filetime + sint (nsec div 100))) (\<lambda>t.
       Inr \<lparr>tv_i64 = t, max_timeout_msec = min (uint (nsec div 1000000)) INT_MAX32\<rparr>)"

definition ft_set_timespec :: "int \<Rightarrow> u64 \<Rightarrow> ft_timespec res" where
  "ft_set_timespec filetime sec = ft_set_timespec_nsec filetime (sec * 1000000000)"

definition ft_cmp_timespec :: "ft_timespec \<Rightarrow> ft_timespec \<Rightarrow> int" where
  "ft_cmp_timespec ts1 ts2 =
     (if tv_i64 ts1 > tv_i64 ts2 then 1 else if tv_i64 ts1 < tv_i64 ts2 then - 1 else 0)"

definition ft_diff_timespec :: "ft_timespec \<Rightarrow> ft_timespec \<Rightarrow> u64 res" where
  "ft_diff_timespec ts1 ts2 =
     rbind (int64 (tv_i64 ts1 - tv_i64 ts2)) (\<lambda>d. rbind (int64 (d * 100)) (\<lambda>n. Inr (word_of_int n)))"

definition ft_get_milliseconds :: "int \<Rightarrow> ft_timespec option \<Rightarrow> u32 res" where
  "ft_get_milliseconds filetime abstime =
     (case abstime of
        None \<Rightarrow> Inr INFINITE
      | Some ts \<Rightarrow>
          rbind (int64 (tv_i64 ts - filetime)) (\<lambda>d.
            let millis = c_div d 10000
            in if millis < 0 then Inr 0
               else let millis = (if millis > max_timeout_msec ts then max_timeout_msec ts else millis);
                        millis = (if millis > UINT_MAX then UINT_MAX else millis)
                    in Inr (word_of_int millis)))"

section \<open>Sleeping\<close>

text \<open>
  The argument of \<open>Sleep\<close> on Windows, and the \<open>timeval\<close> that is handed to \<open>select\<close> elsewhere. The
  parameter called \<open>m_seconds\<close> counts microseconds.
\<close>

definition my_sleep_win :: "int \<Rightarrow> u32" where
  "my_sleep_win m_seconds = word_of_int m_seconds div 1000 + 1"

definition my_sleep_select :: "int \<Rightarrow> int \<times> int" where
  "my_sleep_select m_seconds = (c_div m_seconds 1000000, m_seconds - c_div m_seconds 1000000 * 1000000)"

section \<open>The time that was set\<close>

lemma int64_small: "0 \<le> i \<Longrightarrow> i < 2 ^ 63 \<Longrightarrow> int64 i = Inr i"
  by (simp add: int64_def)

lemma int64_diff:
  assumes "0 \<le> a" and "a < 2 ^ 63" and "0 \<le> b" and "b < 2 ^ 63"
  shows "int64 (a - b) = Inr (a - b)"
  using assms by (simp add: int64_def)

lemma sint_uint_small:
  fixes w :: "'a::len word"
  assumes "uint w < 2 ^ (LENGTH('a) - 1)"
  shows "sint w = uint w"
  using assms by (simp add: sint_uint signed_take_bit_eq_if_positive bit_iff_odd take_bit_int_eq_self)

lemma uint_add_small: "uint (a :: u64) + uint b < 2 ^ 64 \<Longrightarrow> uint (a + b) = uint a + uint b"
  by (simp add: uint_word_ariths)

lemma set_timespec_nsec_value:
  assumes "uint systime + uint nsec div 100 < 2 ^ 64"
  shows "tv_sec (set_timespec_nsec systime nsec) = (uint systime * 100 + uint nsec) div 1000000000 \<and>
     tv_nsec (set_timespec_nsec systime nsec) = (uint systime * 100 + uint nsec) mod 1000000000"
proof -
  let ?now = "systime + nsec div 100"
  have now: "uint ?now = uint systime + uint nsec div 100"
    using assms by (subst uint_add_small) (simp_all add: uint_div)
  have r: "0 \<le> uint ?now" "uint ?now < 2 ^ 64" using uint_lt2p [of ?now] by simp_all
  have total: "uint systime * 100 + uint nsec = uint ?now * 100 + uint nsec mod 100"
    unfolding now by presburger
  have s: "uint (?now div 10000000) = uint ?now div 10000000" by (simp add: uint_div)
  have "sint (?now div 10000000) = uint ?now div 10000000"
    using r s by (subst sint_uint_small) simp_all
  moreover have small: "uint ?now mod 10000000 * 100 + uint nsec mod 100 < 1000000000"
    "0 \<le> uint ?now mod 10000000 * 100 + uint nsec mod 100"
    using pos_mod_bound [of 10000000 "uint ?now"] pos_mod_bound [of 100 "uint nsec"]
      pos_mod_sign [of 10000000 "uint ?now"] pos_mod_sign [of 100 "uint nsec"] by linarith+
  moreover have n: "uint (?now mod 10000000 * 100 + nsec mod 100) = uint ?now mod 10000000 * 100 + uint nsec mod 100"
    unfolding uint_word_ariths uint_mod using small by (simp add: mod_simps)
  have "sint (ucast (?now mod 10000000 * 100 + nsec mod 100) :: u32) =
      uint ?now mod 10000000 * 100 + uint nsec mod 100"
    using small n by (subst sint_uint_small) (simp_all add: unsigned_ucast_eq take_bit_int_eq_self)
  moreover have "uint ?now * 100 + uint nsec mod 100 =
      1000000000 * (uint ?now div 10000000) + (uint ?now mod 10000000 * 100 + uint nsec mod 100)"
    using mult_div_mod_eq [of 10000000 "uint ?now"] by linarith
  ultimately show ?thesis
    unfolding total set_timespec_nsec_def Let_def timespec.simps
    by (simp only: int_div_pos_eq int_mod_pos_eq)
qed

lemma div_thousands: "(T :: int) div 1000000000 * 1000 + T mod 1000000000 div 1000000 = T div 1000000"
proof -
  have regroup: "T = 1000000 * (q * 1000 + q') + r'"
    if "1000000000 * q + r = T" "1000000 * q' + r' = r" for q r q' r' :: int
    unfolding that(1) [symmetric] that(2) [symmetric] by (simp add: algebra_simps)
  from int_div_pos_eq [OF regroup [OF mult_div_mod_eq mult_div_mod_eq]] show ?thesis by simp
qed

lemma timeout_value:
  assumes "uint t0 + uint nsec div 100 < 2 ^ 64"
  shows "get_milliseconds t1 (set_timespec_nsec t0 nsec) =
     Inr (word_of_int (max 0 ((uint t0 * 100 + uint nsec) div 1000000 - uint t1 div 10000)))"
proof -
  let ?T = "uint t0 * 100 + uint nsec" and ?ts = "set_timespec_nsec t0 nsec"
  let ?f = "?T div 1000000"
  have "0 \<le> ?T" "?T < 2 ^ 72"
    using uint_lt2p [of t0] uint_lt2p [of nsec] by simp_all
  then have f: "0 \<le> ?f" "?f < 2 ^ 63"
    by (simp_all only: pos_imp_zdiv_nonneg_iff div_less_iff_less_mult) simp_all
  have s: "0 \<le> ?T div 1000000000 * 1000" "?T div 1000000000 * 1000 < 2 ^ 63"
    and n: "c_div (?T mod 1000000000) 1000000 = ?T mod 1000000000 div 1000000"
    using f div_thousands [of ?T] by (simp_all add: c_div_pos)
  have "get_milliseconds t1 ?ts =
      Inr (if (word_of_int ?f :: u64) < t1 div 10000 then 0 else ucast (word_of_int ?f - t1 div 10000))"
    using set_timespec_nsec_value [OF assms] f s n
    by (simp add: get_milliseconds_def div_thousands int64_small Let_def)
  moreover have u: "uint (word_of_int ?f :: u64) = ?f" "uint (t1 div 10000) = uint t1 div 10000"
    using f by (simp_all add: uint_word_of_int uint_div)
  moreover have "ucast (word_of_int ?f - t1 div 10000) = (word_of_int (?f - uint t1 div 10000) :: u32)"
    if "uint t1 div 10000 \<le> ?f"
  proof -
    have "uint (word_of_int ?f - t1 div 10000 :: u64) = ?f - uint t1 div 10000"
      using that u f by (simp add: uint_sub_if')
    then show ?thesis by (simp add: ucast_eq)
  qed
  ultimately show ?thesis by (simp add: word_less_def)
qed

text \<open>The same with file times, where the limit of the time that was set also applies.\<close>

lemma ft_set_value:
  assumes "0 \<le> t0" and "t0 + uint nsec div 100 < 2 ^ 63"
  shows "ft_set_timespec_nsec t0 nsec =
     Inr \<lparr>tv_i64 = t0 + uint nsec div 100, max_timeout_msec = min (uint nsec div 1000000) INT_MAX32\<rparr>"
proof -
  have n: "0 \<le> uint nsec div 100" by (simp add: pos_imp_zdiv_nonneg_iff)
  have "sint (nsec div 100) = uint nsec div 100"
    using uint_lt2p [of nsec] by (subst sint_uint_small) (simp_all add: uint_div div_less_iff_less_mult)
  moreover have "int64 (t0 + uint nsec div 100) = Inr (t0 + uint nsec div 100)"
    using assms n by (simp add: int64_small)
  ultimately show ?thesis by (simp add: ft_set_timespec_nsec_def uint_div)
qed

lemma ft_get_value:
  assumes "int64 (tv_i64 ts - t1) = Inr (tv_i64 ts - t1)"
    and "0 \<le> max_timeout_msec ts" and "max_timeout_msec ts \<le> INT_MAX32"
  shows "ft_get_milliseconds t1 (Some ts) =
     Inr (word_of_int (max 0 (min (max_timeout_msec ts) (c_div (tv_i64 ts - t1) 10000))))"
proof -
  have "max_timeout_msec ts \<le> UINT_MAX" using assms(3) by (simp add: INT_MAX32_def UINT_MAX_def)
  with assms(1,2) show ?thesis
    by (simp add: ft_get_milliseconds_def Let_def min_def max_def)
qed

lemma ft_timeout_value:
  assumes "0 \<le> t0" and "t0 + uint nsec div 100 < 2 ^ 63" and "0 \<le> t1" and "t1 < 2 ^ 63"
  shows "rbind (ft_set_timespec_nsec t0 nsec) (\<lambda>ts. ft_get_milliseconds t1 (Some ts)) =
     Inr (word_of_int (max 0 (min (min (uint nsec div 1000000) INT_MAX32)
       (c_div (t0 + uint nsec div 100 - t1) 10000))))"
proof -
  have n: "0 \<le> uint nsec div 100" "0 \<le> uint nsec div 1000000"
    by (simp_all add: pos_imp_zdiv_nonneg_iff)
  let ?ts = "\<lparr>tv_i64 = t0 + uint nsec div 100, max_timeout_msec = min (uint nsec div 1000000) INT_MAX32\<rparr>"
  have "int64 (tv_i64 ?ts - t1) = Inr (tv_i64 ?ts - t1)"
    using int64_diff [OF add_nonneg_nonneg [OF assms(1) n(1)] assms(2,3,4)] by simp
  moreover have "0 \<le> max_timeout_msec ?ts" "max_timeout_msec ?ts \<le> INT_MAX32"
    using n by (simp_all add: INT_MAX32_def)
  ultimately have "ft_get_milliseconds t1 (Some ?ts) =
      Inr (word_of_int (max 0 (min (max_timeout_msec ?ts) (c_div (tv_i64 ?ts - t1) 10000))))"
    by (rule ft_get_value)
  then show ?thesis by (simp only: ft_set_value [OF assms(1,2)] rbind.simps ft_timespec.simps)
qed

section \<open>Comparing times\<close>

definition nanos :: "timespec \<Rightarrow> int" where
  "nanos ts = tv_sec ts * 1000000000 + tv_nsec ts"

definition normal :: "timespec \<Rightarrow> bool" where
  "normal ts \<longleftrightarrow> 0 \<le> tv_nsec ts \<and> tv_nsec ts < 1000000000 \<and>
     - (2 ^ 62) \<le> tv_sec ts \<and> tv_sec ts < 2 ^ 62"

lemma lex_less:
  fixes s :: int
  assumes "0 \<le> n" and "n < M" and "0 \<le> n'" and "n' < M"
  shows "s * M + n < s' * M + n' \<longleftrightarrow> s < s' \<or> s = s' \<and> n < n'"
proof (cases s s' rule: linorder_cases)
  case less
  then have "(s + 1) * M \<le> s' * M" using assms by (intro mult_right_mono) simp_all
  with less assms show ?thesis by (simp add: distrib_right)
next
  case greater
  then have "(s' + 1) * M \<le> s * M" using assms by (intro mult_right_mono) simp_all
  with greater assms show ?thesis by (simp add: distrib_right)
qed simp

lemma nanos_less:
  assumes "normal a" and "normal b"
  shows "nanos a < nanos b \<longleftrightarrow> tv_sec a < tv_sec b \<or> tv_sec a = tv_sec b \<and> tv_nsec a < tv_nsec b"
  using assms unfolding normal_def nanos_def by (intro lex_less) simp_all

lemma cmp_timespec_nanos:
  assumes "normal a" and "normal b"
  shows "cmp_timespec a b = sgn (nanos a - nanos b)"
proof -
  have "sgn (nanos a - nanos b) = (if nanos b < nanos a then 1 else if nanos a < nanos b then - 1 else 0)"
    by (simp add: sgn_if)
  then show ?thesis
    unfolding cmp_timespec_def nanos_less [OF assms] nanos_less [OF assms(2,1)]
    by (simp add: eq_commute)
qed

lemma diff_timespec_nanos:
  assumes "normal a" and "normal b"
  shows "diff_timespec a b = Inr (word_of_int (nanos a - nanos b))"
proof -
  have "int64 (tv_sec a - tv_sec b) = Inr (tv_sec a - tv_sec b)"
    using assms by (simp add: int64_def normal_def)
  then show ?thesis by (simp add: diff_timespec_def nanos_def algebra_simps)
qed

lemma set_timespec_normal:
  assumes "uint systime + uint nsec div 100 < 2 ^ 64"
  shows "normal (set_timespec_nsec systime nsec)"
    and "nanos (set_timespec_nsec systime nsec) = uint systime * 100 + uint nsec"
proof -
  let ?T = "uint systime * 100 + uint nsec"
  have "0 \<le> ?T" "?T < 2 ^ 72"
    using uint_lt2p [of systime] uint_lt2p [of nsec] by simp_all
  then have "0 \<le> ?T div 1000000000" "?T div 1000000000 < 2 ^ 62"
    by (simp_all only: pos_imp_zdiv_nonneg_iff div_less_iff_less_mult) simp_all
  then show "normal (set_timespec_nsec systime nsec)"
    using set_timespec_nsec_value [OF assms] by (simp add: normal_def)
  show "nanos (set_timespec_nsec systime nsec) = ?T"
    unfolding nanos_def using set_timespec_nsec_value [OF assms] by simp
qed

section \<open>Sleeping long enough\<close>

lemma my_sleep_win_enough:
  assumes "0 \<le> us" and "us < 2 ^ 32"
  shows "us < int (unat (my_sleep_win us)) * 1000 \<and> int (unat (my_sleep_win us)) * 1000 \<le> us + 1000"
proof -
  have "uint (word_of_int us :: u32) = us" using assms by (simp add: uint_word_of_int)
  then have "uint (word_of_int us div 1000 :: u32) = us div 1000" by (simp add: uint_div)
  moreover have "us div 1000 + 1 < 2 ^ 32" using assms by simp
  ultimately have "uint (my_sleep_win us) = us div 1000 + 1"
    using assms by (simp add: my_sleep_win_def uint_word_ariths pos_imp_zdiv_nonneg_iff)
  moreover have "us < (us div 1000 + 1) * 1000" "(us div 1000 + 1) * 1000 \<le> us + 1000"
    using mult_div_mod_eq [of 1000 us] pos_mod_bound [of 1000 us] pos_mod_sign [of 1000 us]
    by (simp_all add: algebra_simps)
  ultimately show ?thesis by simp
qed

end
