(* ===== verification/MySQL_Locks.thy ===== *)
theory MySQL_Locks
  imports MySQL_Time
begin

unbundle bit_operations_syntax

text \<open>
  Threads, mutexes, read-write locks, conditions and thread-local storage of the MySQL headers
  (my_thread.h, thr_mutex.h, thr_rwlock.h, thr_cond.h, my_thread_local.h): thin functions over
  critical sections, slim read-write locks and condition variables on Windows and over pthreads
  elsewhere. The systems and \<open>safe_mutex\<close> are not in the repository; they are records of
  functions over a world \<open>'w\<close>, and what is relied on of them stands in the hypotheses. A call
  that blocks is a function whose result is the world in which it returns. Objects are known
  by their addresses. A slim read-write lock has a flag beside it, which tells how to unlock;
  the flags are memory that all threads share.
\<close>

section \<open>The systems\<close>

type_synonym addr = nat

record 'w windows =
  InitializeCriticalSection :: "addr \<Rightarrow> 'w \<Rightarrow> 'w"
  EnterCriticalSection :: "addr \<Rightarrow> 'w \<Rightarrow> 'w"
  TryEnterCriticalSection :: "addr \<Rightarrow> 'w \<Rightarrow> int \<times> 'w"
  LeaveCriticalSection :: "addr \<Rightarrow> 'w \<Rightarrow> 'w"
  DeleteCriticalSection :: "addr \<Rightarrow> 'w \<Rightarrow> 'w"
  RecursionCount :: "addr \<Rightarrow> 'w \<Rightarrow> int"
  InitializeSRWLock :: "addr \<Rightarrow> 'w \<Rightarrow> 'w"
  AcquireSRWLockShared :: "addr \<Rightarrow> 'w \<Rightarrow> 'w"
  TryAcquireSRWLockShared :: "addr \<Rightarrow> 'w \<Rightarrow> int \<times> 'w"
  ReleaseSRWLockShared :: "addr \<Rightarrow> 'w \<Rightarrow> 'w"
  AcquireSRWLockExclusive :: "addr \<Rightarrow> 'w \<Rightarrow> 'w"
  TryAcquireSRWLockExclusive :: "addr \<Rightarrow> 'w \<Rightarrow> int \<times> 'w"
  ReleaseSRWLockExclusive :: "addr \<Rightarrow> 'w \<Rightarrow> 'w"
  InitializeConditionVariable :: "addr \<Rightarrow> 'w \<Rightarrow> 'w"
  SleepConditionVariableCS :: "addr \<Rightarrow> addr \<Rightarrow> u32 \<Rightarrow> 'w \<Rightarrow> int \<times> 'w"
  WakeConditionVariable :: "addr \<Rightarrow> 'w \<Rightarrow> 'w"
  WakeAllConditionVariable :: "addr \<Rightarrow> 'w \<Rightarrow> 'w"
  my_getsystime :: "'w \<Rightarrow> u64"
  GetCurrentThreadId :: "'w \<Rightarrow> nat"
  SwitchToThread :: "'w \<Rightarrow> 'w"
  TlsAlloc :: "'w \<Rightarrow> u32 \<times> 'w"
  TlsFree :: "u32 \<Rightarrow> 'w \<Rightarrow> int \<times> 'w"
  TlsGetValue :: "u32 \<Rightarrow> 'w \<Rightarrow> addr"
  TlsSetValue :: "u32 \<Rightarrow> addr \<Rightarrow> 'w \<Rightarrow> int \<times> 'w"

record 'w pthreads =
  pthread_mutex_init :: "addr \<Rightarrow> addr \<Rightarrow> 'w \<Rightarrow> int \<times> 'w"
  pthread_mutex_lock :: "addr \<Rightarrow> 'w \<Rightarrow> int \<times> 'w"
  pthread_mutex_trylock :: "addr \<Rightarrow> 'w \<Rightarrow> int \<times> 'w"
  pthread_mutex_unlock :: "addr \<Rightarrow> 'w \<Rightarrow> int \<times> 'w"
  pthread_mutex_destroy :: "addr \<Rightarrow> 'w \<Rightarrow> int \<times> 'w"
  pthread_rwlock_init :: "addr \<Rightarrow> addr \<Rightarrow> 'w \<Rightarrow> int \<times> 'w"
  pthread_rwlock_destroy :: "addr \<Rightarrow> 'w \<Rightarrow> int \<times> 'w"
  pthread_rwlock_rdlock :: "addr \<Rightarrow> 'w \<Rightarrow> int \<times> 'w"
  pthread_rwlock_tryrdlock :: "addr \<Rightarrow> 'w \<Rightarrow> int \<times> 'w"
  pthread_rwlock_wrlock :: "addr \<Rightarrow> 'w \<Rightarrow> int \<times> 'w"
  pthread_rwlock_trywrlock :: "addr \<Rightarrow> 'w \<Rightarrow> int \<times> 'w"
  pthread_rwlock_unlock :: "addr \<Rightarrow> 'w \<Rightarrow> int \<times> 'w"
  pthread_cond_init :: "addr \<Rightarrow> addr \<Rightarrow> 'w \<Rightarrow> int \<times> 'w"
  pthread_cond_destroy :: "addr \<Rightarrow> 'w \<Rightarrow> int \<times> 'w"
  pthread_cond_timedwait :: "addr \<Rightarrow> addr \<Rightarrow> timespec \<Rightarrow> 'w \<Rightarrow> int \<times> 'w"
  pthread_cond_wait :: "addr \<Rightarrow> addr \<Rightarrow> 'w \<Rightarrow> int \<times> 'w"
  pthread_cond_signal :: "addr \<Rightarrow> 'w \<Rightarrow> int \<times> 'w"
  pthread_cond_broadcast :: "addr \<Rightarrow> 'w \<Rightarrow> int \<times> 'w"
  pthread_self :: "'w \<Rightarrow> nat"
  pthread_equal :: "nat \<Rightarrow> nat \<Rightarrow> int"
  pthread_attr_init :: "addr \<Rightarrow> 'w \<Rightarrow> int \<times> 'w"
  pthread_attr_destroy :: "addr \<Rightarrow> 'w \<Rightarrow> int \<times> 'w"
  pthread_attr_setstacksize :: "addr \<Rightarrow> nat \<Rightarrow> 'w \<Rightarrow> int \<times> 'w"
  pthread_attr_setdetachstate :: "addr \<Rightarrow> int \<Rightarrow> 'w \<Rightarrow> int \<times> 'w"
  pthread_attr_getstacksize :: "addr \<Rightarrow> 'w \<Rightarrow> (int \<times> nat) \<times> 'w"
  sched_yield :: "'w \<Rightarrow> 'w"
  pthread_key_create :: "addr \<Rightarrow> 'w \<Rightarrow> (int \<times> u32) \<times> 'w"
  pthread_key_delete :: "u32 \<Rightarrow> 'w \<Rightarrow> int \<times> 'w"
  pthread_getspecific :: "u32 \<Rightarrow> 'w \<Rightarrow> addr"
  pthread_setspecific :: "u32 \<Rightarrow> addr \<Rightarrow> 'w \<Rightarrow> int \<times> 'w"

record 'w safe_mutexes =
  safe_mutex_init :: "addr \<Rightarrow> addr \<Rightarrow> string \<Rightarrow> nat \<Rightarrow> 'w \<Rightarrow> int \<times> 'w"
  safe_mutex_lock :: "addr \<Rightarrow> bool \<Rightarrow> string \<Rightarrow> nat \<Rightarrow> 'w \<Rightarrow> int \<times> 'w"
  safe_mutex_unlock :: "addr \<Rightarrow> string \<Rightarrow> nat \<Rightarrow> 'w \<Rightarrow> int \<times> 'w"
  safe_mutex_destroy :: "addr \<Rightarrow> string \<Rightarrow> nat \<Rightarrow> 'w \<Rightarrow> int \<times> 'w"
  safe_cond_wait :: "addr \<Rightarrow> addr \<Rightarrow> string \<Rightarrow> nat \<Rightarrow> 'w \<Rightarrow> int \<times> 'w"
  safe_cond_timedwait :: "addr \<Rightarrow> addr \<Rightarrow> timespec \<Rightarrow> string \<Rightarrow> nat \<Rightarrow> 'w \<Rightarrow> int \<times> 'w"

text \<open>The platform a program is built for, with the values of its error numbers.\<close>

record 'w sync_env =
  WIN32 :: bool
  SAFE_MUTEX :: bool
  DBUG_OFF :: bool
  EBUSY :: int
  ETIMEDOUT :: int
  win :: "'w windows"
  pth :: "'w pthreads"
  safe :: "'w safe_mutexes"

record 'w sync_world =
  sys :: 'w
  have_exclusive_srwlock :: "addr \<Rightarrow> bool"

definition sys_call :: "('w \<Rightarrow> 'r \<times> 'w) \<Rightarrow> 'w sync_world \<Rightarrow> 'r \<times> 'w sync_world" where
  "sys_call f w = (let (r, s) = f (sys w) in (r, w\<lparr>sys := s\<rparr>))"

text \<open>A call without a result, after which the function returns 0.\<close>

definition void_call :: "('w \<Rightarrow> 'w) \<Rightarrow> 'w sync_world \<Rightarrow> int \<times> 'w sync_world" where
  "void_call f w = (0, w\<lparr>sys := f (sys w)\<rparr>)"

definition set_flag :: "addr \<Rightarrow> bool \<Rightarrow> 'w sync_world \<Rightarrow> 'w sync_world" where
  "set_flag rwp b w = w\<lparr>have_exclusive_srwlock := (have_exclusive_srwlock w)(rwp := b)\<rparr>"

section \<open>Mutexes\<close>

definition native_mutex_init :: "'w sync_env \<Rightarrow> addr \<Rightarrow> addr \<Rightarrow> 'w sync_world \<Rightarrow> int \<times> 'w sync_world" where
  "native_mutex_init e mutex attr =
     (if WIN32 e then void_call (InitializeCriticalSection (win e) mutex)
      else sys_call (pthread_mutex_init (pth e) mutex attr))"

definition native_mutex_lock :: "'w sync_env \<Rightarrow> addr \<Rightarrow> 'w sync_world \<Rightarrow> int \<times> 'w sync_world" where
  "native_mutex_lock e mutex =
     (if WIN32 e then void_call (EnterCriticalSection (win e) mutex)
      else sys_call (pthread_mutex_lock (pth e) mutex))"

definition native_mutex_trylock :: "'w sync_env \<Rightarrow> addr \<Rightarrow> 'w sync_world \<Rightarrow> int \<times> 'w sync_world" where
  "native_mutex_trylock e mutex w =
     (if WIN32 e
      then let (entered, w1) = sys_call (TryEnterCriticalSection (win e) mutex) w
           in if entered \<noteq> 0
              then if RecursionCount (win e) mutex (sys w1) > 1
                   then (EBUSY e, w1\<lparr>sys := LeaveCriticalSection (win e) mutex (sys w1)\<rparr>)
                   else (0, w1)
              else (EBUSY e, w1)
      else sys_call (pthread_mutex_trylock (pth e) mutex) w)"

definition native_mutex_unlock :: "'w sync_env \<Rightarrow> addr \<Rightarrow> 'w sync_world \<Rightarrow> int \<times> 'w sync_world" where
  "native_mutex_unlock e mutex =
     (if WIN32 e then void_call (LeaveCriticalSection (win e) mutex)
      else sys_call (pthread_mutex_unlock (pth e) mutex))"

definition native_mutex_destroy :: "'w sync_env \<Rightarrow> addr \<Rightarrow> 'w sync_world \<Rightarrow> int \<times> 'w sync_world" where
  "native_mutex_destroy e mutex =
     (if WIN32 e then void_call (DeleteCriticalSection (win e) mutex)
      else sys_call (pthread_mutex_destroy (pth e) mutex))"

text \<open>The layer that checks its use in a debug build.\<close>

definition my_mutex_init ::
  "'w sync_env \<Rightarrow> addr \<Rightarrow> addr \<Rightarrow> string \<Rightarrow> nat \<Rightarrow> 'w sync_world \<Rightarrow> int \<times> 'w sync_world" where
  "my_mutex_init e mp attr file line =
     (if SAFE_MUTEX e then sys_call (safe_mutex_init (safe e) mp attr file line)
      else native_mutex_init e mp attr)"

definition my_mutex_lock ::
  "'w sync_env \<Rightarrow> addr \<Rightarrow> string \<Rightarrow> nat \<Rightarrow> 'w sync_world \<Rightarrow> int \<times> 'w sync_world" where
  "my_mutex_lock e mp file line =
     (if SAFE_MUTEX e then sys_call (safe_mutex_lock (safe e) mp False file line) else native_mutex_lock e mp)"

definition my_mutex_trylock ::
  "'w sync_env \<Rightarrow> addr \<Rightarrow> string \<Rightarrow> nat \<Rightarrow> 'w sync_world \<Rightarrow> int \<times> 'w sync_world" where
  "my_mutex_trylock e mp file line =
     (if SAFE_MUTEX e then sys_call (safe_mutex_lock (safe e) mp True file line) else native_mutex_trylock e mp)"

definition my_mutex_unlock ::
  "'w sync_env \<Rightarrow> addr \<Rightarrow> string \<Rightarrow> nat \<Rightarrow> 'w sync_world \<Rightarrow> int \<times> 'w sync_world" where
  "my_mutex_unlock e mp file line =
     (if SAFE_MUTEX e then sys_call (safe_mutex_unlock (safe e) mp file line) else native_mutex_unlock e mp)"

definition my_mutex_destroy ::
  "'w sync_env \<Rightarrow> addr \<Rightarrow> string \<Rightarrow> nat \<Rightarrow> 'w sync_world \<Rightarrow> int \<times> 'w sync_world" where
  "my_mutex_destroy e mp file line =
     (if SAFE_MUTEX e then sys_call (safe_mutex_destroy (safe e) mp file line) else native_mutex_destroy e mp)"

section \<open>Threads\<close>

definition my_thread_self :: "'w sync_env \<Rightarrow> 'w sync_world \<Rightarrow> nat" where
  "my_thread_self e w =
     (if WIN32 e then GetCurrentThreadId (win e) (sys w) else pthread_self (pth e) (sys w))"

definition my_thread_equal :: "'w sync_env \<Rightarrow> nat \<Rightarrow> nat \<Rightarrow> int" where
  "my_thread_equal e t1 t2 = (if WIN32 e then (if t1 = t2 then 1 else 0) else pthread_equal (pth e) t1 t2)"

text \<open>
  The attributes of a thread are a structure of the header on Windows only; elsewhere the
  functions hand the address on.
\<close>

record my_thread_attr_t =
  attr_addr :: addr
  dwStackSize :: u32
  detachstate :: int

definition MY_THREAD_CREATE_JOINABLE :: int where "MY_THREAD_CREATE_JOINABLE = 0"

definition my_thread_attr_init ::
  "'w sync_env \<Rightarrow> my_thread_attr_t \<Rightarrow> 'w sync_world \<Rightarrow> (int \<times> my_thread_attr_t) \<times> 'w sync_world" where
  "my_thread_attr_init e attr w =
     (if WIN32 e then ((0, attr\<lparr>dwStackSize := 0, detachstate := MY_THREAD_CREATE_JOINABLE\<rparr>), w)
      else let (r, w') = sys_call (pthread_attr_init (pth e) (attr_addr attr)) w in ((r, attr), w'))"

definition my_thread_attr_destroy ::
  "'w sync_env \<Rightarrow> my_thread_attr_t \<Rightarrow> 'w sync_world \<Rightarrow> (int \<times> my_thread_attr_t) \<times> 'w sync_world" where
  "my_thread_attr_destroy e attr w =
     (if WIN32 e then ((0, attr\<lparr>dwStackSize := 0, detachstate := MY_THREAD_CREATE_JOINABLE\<rparr>), w)
      else let (r, w') = sys_call (pthread_attr_destroy (pth e) (attr_addr attr)) w in ((r, attr), w'))"

definition my_thread_attr_setstacksize ::
  "'w sync_env \<Rightarrow> my_thread_attr_t \<Rightarrow> nat \<Rightarrow> 'w sync_world \<Rightarrow> (int \<times> my_thread_attr_t) \<times> 'w sync_world" where
  "my_thread_attr_setstacksize e attr stacksize w =
     (if WIN32 e then ((0, attr\<lparr>dwStackSize := of_nat stacksize\<rparr>), w)
      else let (r, w') = sys_call (pthread_attr_setstacksize (pth e) (attr_addr attr) stacksize) w in ((r, attr), w'))"

definition my_thread_attr_setdetachstate ::
  "'w sync_env \<Rightarrow> my_thread_attr_t \<Rightarrow> int \<Rightarrow> 'w sync_world \<Rightarrow> (int \<times> my_thread_attr_t) \<times> 'w sync_world" where
  "my_thread_attr_setdetachstate e attr state w =
     (if WIN32 e then ((0, attr\<lparr>detachstate := state\<rparr>), w)
      else let (r, w') = sys_call (pthread_attr_setdetachstate (pth e) (attr_addr attr) state) w in ((r, attr), w'))"

definition my_thread_attr_getstacksize ::
  "'w sync_env \<Rightarrow> my_thread_attr_t \<Rightarrow> 'w sync_world \<Rightarrow> (int \<times> nat) \<times> 'w sync_world" where
  "my_thread_attr_getstacksize e attr w =
     (if WIN32 e then ((0, unat (dwStackSize attr)), w)
      else sys_call (pthread_attr_getstacksize (pth e) (attr_addr attr)) w)"

definition my_thread_yield :: "'w sync_env \<Rightarrow> 'w sync_world \<Rightarrow> 'w sync_world" where
  "my_thread_yield e w =
     w\<lparr>sys := (if WIN32 e then SwitchToThread (win e) else sched_yield (pth e)) (sys w)\<rparr>"

text \<open>
  The checks of \<open>safe_mutex\<close> look at the owner the mutex has written down. A failed assertion
  stops a debug build.
\<close>

record st_safe_mutex_t =
  sm_count :: u32
  sm_thread :: nat

definition DBUG_ASSERT :: "'w sync_env \<Rightarrow> bool \<Rightarrow> unit res" where
  "DBUG_ASSERT e b = (if DBUG_OFF e \<or> b then Inr () else Inl AssertionFailed)"

definition safe_mutex_assert_owner :: "'w sync_env \<Rightarrow> st_safe_mutex_t \<Rightarrow> 'w sync_world \<Rightarrow> unit res" where
  "safe_mutex_assert_owner e mp w =
     DBUG_ASSERT e (sm_count mp > 0 \<and> my_thread_equal e (my_thread_self e w) (sm_thread mp) \<noteq> 0)"

definition safe_mutex_assert_not_owner :: "'w sync_env \<Rightarrow> st_safe_mutex_t \<Rightarrow> 'w sync_world \<Rightarrow> unit res" where
  "safe_mutex_assert_not_owner e mp w =
     DBUG_ASSERT e (sm_count mp = 0 \<or> my_thread_equal e (my_thread_self e w) (sm_thread mp) = 0)"

section \<open>Read-write locks\<close>

definition native_rw_init :: "'w sync_env \<Rightarrow> addr \<Rightarrow> 'w sync_world \<Rightarrow> int \<times> 'w sync_world" where
  "native_rw_init e rwp w =
     (if WIN32 e
      then let (r, w1) = void_call (InitializeSRWLock (win e) rwp) w in (0, set_flag rwp False w1)
      else sys_call (pthread_rwlock_init (pth e) rwp 0) w)"

definition native_rw_destroy :: "'w sync_env \<Rightarrow> addr \<Rightarrow> 'w sync_world \<Rightarrow> int \<times> 'w sync_world" where
  "native_rw_destroy e rwp w =
     (if WIN32 e then (0, w) else sys_call (pthread_rwlock_destroy (pth e) rwp) w)"

definition native_rw_rdlock :: "'w sync_env \<Rightarrow> addr \<Rightarrow> 'w sync_world \<Rightarrow> int \<times> 'w sync_world" where
  "native_rw_rdlock e rwp =
     (if WIN32 e then void_call (AcquireSRWLockShared (win e) rwp)
      else sys_call (pthread_rwlock_rdlock (pth e) rwp))"

definition native_rw_tryrdlock :: "'w sync_env \<Rightarrow> addr \<Rightarrow> 'w sync_world \<Rightarrow> int \<times> 'w sync_world" where
  "native_rw_tryrdlock e rwp w =
     (if WIN32 e
      then let (got, w1) = sys_call (TryAcquireSRWLockShared (win e) rwp) w
           in (if got = 0 then EBUSY e else 0, w1)
      else sys_call (pthread_rwlock_tryrdlock (pth e) rwp) w)"

definition native_rw_wrlock :: "'w sync_env \<Rightarrow> addr \<Rightarrow> 'w sync_world \<Rightarrow> int \<times> 'w sync_world" where
  "native_rw_wrlock e rwp w =
     (if WIN32 e
      then let (r, w1) = void_call (AcquireSRWLockExclusive (win e) rwp) w in (0, set_flag rwp True w1)
      else sys_call (pthread_rwlock_wrlock (pth e) rwp) w)"

definition native_rw_trywrlock :: "'w sync_env \<Rightarrow> addr \<Rightarrow> 'w sync_world \<Rightarrow> int \<times> 'w sync_world" where
  "native_rw_trywrlock e rwp w =
     (if WIN32 e
      then let (got, w1) = sys_call (TryAcquireSRWLockExclusive (win e) rwp) w
           in if got = 0 then (EBUSY e, w1) else (0, set_flag rwp True w1)
      else sys_call (pthread_rwlock_trywrlock (pth e) rwp) w)"

definition native_rw_unlock :: "'w sync_env \<Rightarrow> addr \<Rightarrow> 'w sync_world \<Rightarrow> int \<times> 'w sync_world" where
  "native_rw_unlock e rwp w =
     (if WIN32 e
      then if have_exclusive_srwlock w rwp
           then void_call (ReleaseSRWLockExclusive (win e) rwp) (set_flag rwp False w)
           else void_call (ReleaseSRWLockShared (win e) rwp) w
      else sys_call (pthread_rwlock_unlock (pth e) rwp) w)"

text \<open>The checks of the locks that prefer readers, whose functions are not in the headers.\<close>

record rw_pr_lock_t =
  active_writer :: bool
  writer_thread :: nat

definition rw_pr_lock_assert_write_owner :: "'w sync_env \<Rightarrow> rw_pr_lock_t \<Rightarrow> 'w sync_world \<Rightarrow> unit res" where
  "rw_pr_lock_assert_write_owner e rwlock w =
     (if SAFE_MUTEX e
      then DBUG_ASSERT e (active_writer rwlock \<and> my_thread_equal e (my_thread_self e w) (writer_thread rwlock) \<noteq> 0)
      else Inr ())"

definition rw_pr_lock_assert_not_write_owner :: "'w sync_env \<Rightarrow> rw_pr_lock_t \<Rightarrow> 'w sync_world \<Rightarrow> unit res" where
  "rw_pr_lock_assert_not_write_owner e rwlock w =
     (if SAFE_MUTEX e
      then DBUG_ASSERT e (\<not> active_writer rwlock \<or> my_thread_equal e (my_thread_self e w) (writer_thread rwlock) = 0)
      else Inr ())"

section \<open>Conditions\<close>

definition native_cond_init :: "'w sync_env \<Rightarrow> addr \<Rightarrow> 'w sync_world \<Rightarrow> int \<times> 'w sync_world" where
  "native_cond_init e cond =
     (if WIN32 e then void_call (InitializeConditionVariable (win e) cond)
      else sys_call (pthread_cond_init (pth e) cond 0))"

definition native_cond_destroy :: "'w sync_env \<Rightarrow> addr \<Rightarrow> 'w sync_world \<Rightarrow> int \<times> 'w sync_world" where
  "native_cond_destroy e cond w =
     (if WIN32 e then (0, w) else sys_call (pthread_cond_destroy (pth e) cond) w)"

text \<open>A wait of Windows, which answers every failure with one error.\<close>

definition sleep_result ::
  "'w sync_env \<Rightarrow> addr \<Rightarrow> addr \<Rightarrow> u32 \<Rightarrow> 'w sync_world \<Rightarrow> int \<times> 'w sync_world" where
  "sleep_result e cond mutex timeout w =
     (let (woken, w1) = sys_call (SleepConditionVariableCS (win e) cond mutex timeout) w
      in (if woken = 0 then ETIMEDOUT e else 0, w1))"

definition native_cond_timedwait ::
  "'w sync_env \<Rightarrow> addr \<Rightarrow> addr \<Rightarrow> timespec \<Rightarrow> 'w sync_world \<Rightarrow> (int \<times> 'w sync_world) res" where
  "native_cond_timedwait e cond mutex abstime w =
     (if WIN32 e
      then rbind (get_milliseconds (my_getsystime (win e) (sys w)) abstime)
             (\<lambda>timeout. Inr (sleep_result e cond mutex timeout w))
      else Inr (sys_call (pthread_cond_timedwait (pth e) cond mutex abstime) w))"

definition native_cond_wait ::
  "'w sync_env \<Rightarrow> addr \<Rightarrow> addr \<Rightarrow> 'w sync_world \<Rightarrow> int \<times> 'w sync_world" where
  "native_cond_wait e cond mutex =
     (if WIN32 e then sleep_result e cond mutex INFINITE
      else sys_call (pthread_cond_wait (pth e) cond mutex))"

definition native_cond_signal :: "'w sync_env \<Rightarrow> addr \<Rightarrow> 'w sync_world \<Rightarrow> int \<times> 'w sync_world" where
  "native_cond_signal e cond =
     (if WIN32 e then void_call (WakeConditionVariable (win e) cond)
      else sys_call (pthread_cond_signal (pth e) cond))"

definition native_cond_broadcast :: "'w sync_env \<Rightarrow> addr \<Rightarrow> 'w sync_world \<Rightarrow> int \<times> 'w sync_world" where
  "native_cond_broadcast e cond =
     (if WIN32 e then void_call (WakeAllConditionVariable (win e) cond)
      else sys_call (pthread_cond_broadcast (pth e) cond))"

definition my_cond_timedwait ::
  "'w sync_env \<Rightarrow> addr \<Rightarrow> addr \<Rightarrow> timespec \<Rightarrow> string \<Rightarrow> nat \<Rightarrow> 'w sync_world \<Rightarrow> (int \<times> 'w sync_world) res" where
  "my_cond_timedwait e cond mp abstime file line w =
     (if SAFE_MUTEX e then Inr (sys_call (safe_cond_timedwait (safe e) cond mp abstime file line) w)
      else native_cond_timedwait e cond mp abstime w)"

definition my_cond_wait ::
  "'w sync_env \<Rightarrow> addr \<Rightarrow> addr \<Rightarrow> string \<Rightarrow> nat \<Rightarrow> 'w sync_world \<Rightarrow> int \<times> 'w sync_world" where
  "my_cond_wait e cond mp file line =
     (if SAFE_MUTEX e then sys_call (safe_cond_wait (safe e) cond mp file line) else native_cond_wait e cond mp)"

section \<open>Thread-local storage\<close>

definition TLS_OUT_OF_INDEXES :: u32 where "TLS_OUT_OF_INDEXES = 0xFFFFFFFF"

definition my_create_thread_local_key ::
  "'w sync_env \<Rightarrow> addr \<Rightarrow> 'w sync_world \<Rightarrow> (int \<times> u32) \<times> 'w sync_world" where
  "my_create_thread_local_key e destructor w =
     (if WIN32 e
      then let (key, w1) = sys_call (TlsAlloc (win e)) w
           in ((if key = TLS_OUT_OF_INDEXES then 1 else 0, key), w1)
      else sys_call (pthread_key_create (pth e) destructor) w)"

definition negated :: "int \<times> 'w sync_world \<Rightarrow> int \<times> 'w sync_world" where
  "negated rw = (if fst rw = 0 then 1 else 0, snd rw)"

definition my_delete_thread_local_key :: "'w sync_env \<Rightarrow> u32 \<Rightarrow> 'w sync_world \<Rightarrow> int \<times> 'w sync_world" where
  "my_delete_thread_local_key e key w =
     (if WIN32 e then negated (sys_call (TlsFree (win e) key) w)
      else sys_call (pthread_key_delete (pth e) key) w)"

definition my_get_thread_local :: "'w sync_env \<Rightarrow> u32 \<Rightarrow> 'w sync_world \<Rightarrow> addr" where
  "my_get_thread_local e key w =
     (if WIN32 e then TlsGetValue (win e) key (sys w) else pthread_getspecific (pth e) key (sys w))"

definition my_set_thread_local :: "'w sync_env \<Rightarrow> u32 \<Rightarrow> addr \<Rightarrow> 'w sync_world \<Rightarrow> int \<times> 'w sync_world" where
  "my_set_thread_local e key value w =
     (if WIN32 e then negated (sys_call (TlsSetValue (win e) key value) w)
      else sys_call (pthread_setspecific (pth e) key value) w)"

section \<open>Critical sections\<close>

text \<open>
  What Windows documents of critical sections: they can be entered again by the thread that is
  in them, an attempt by another thread returns zero, and a thread that is in one leaves it
  once for every time it entered. \<open>holder\<close> gives the thread in a section and how often it has
  entered.
\<close>

definition critical_sections :: "'w windows \<Rightarrow> ('w \<Rightarrow> addr \<Rightarrow> (nat \<times> nat) option) \<Rightarrow> bool" where
  "critical_sections x holder \<longleftrightarrow> (\<forall>m w.
     (case holder w m of
        None \<Rightarrow> fst (TryEnterCriticalSection x m w) \<noteq> 0 \<and>
          holder (snd (TryEnterCriticalSection x m w)) = (holder w)(m \<mapsto> (GetCurrentThreadId x w, 1))
      | Some (t, n) \<Rightarrow> 1 \<le> n \<and>
          (if t = GetCurrentThreadId x w
           then fst (TryEnterCriticalSection x m w) \<noteq> 0 \<and>
             holder (snd (TryEnterCriticalSection x m w)) = (holder w)(m \<mapsto> (t, n + 1))
           else fst (TryEnterCriticalSection x m w) = 0 \<and>
             holder (snd (TryEnterCriticalSection x m w)) = holder w)) \<and>
     GetCurrentThreadId x (snd (TryEnterCriticalSection x m w)) = GetCurrentThreadId x w \<and>
     (\<forall>n. holder w m = Some (GetCurrentThreadId x w, n) \<longrightarrow>
        RecursionCount x m w = int n \<and>
        holder (LeaveCriticalSection x m w) =
          (holder w)(m := if n > 1 then Some (GetCurrentThreadId x w, n - 1) else None)))"

lemma cs_enter:
  assumes "critical_sections x holder"
  shows "case holder w m of
        None \<Rightarrow> fst (TryEnterCriticalSection x m w) \<noteq> 0 \<and>
          holder (snd (TryEnterCriticalSection x m w)) = (holder w)(m \<mapsto> (GetCurrentThreadId x w, 1))
      | Some (t, n) \<Rightarrow> 1 \<le> n \<and>
          (if t = GetCurrentThreadId x w
           then fst (TryEnterCriticalSection x m w) \<noteq> 0 \<and>
             holder (snd (TryEnterCriticalSection x m w)) = (holder w)(m \<mapsto> (t, n + 1))
           else fst (TryEnterCriticalSection x m w) = 0 \<and>
             holder (snd (TryEnterCriticalSection x m w)) = holder w)"
    and "GetCurrentThreadId x (snd (TryEnterCriticalSection x m w)) = GetCurrentThreadId x w"
  using assms unfolding critical_sections_def by blast+

lemma cs_leave:
  assumes "critical_sections x holder" and "holder w m = Some (GetCurrentThreadId x w, n)"
  shows "RecursionCount x m w = int n"
    and "holder (LeaveCriticalSection x m w) =
      (holder w)(m := if n > 1 then Some (GetCurrentThreadId x w, n - 1) else None)"
  using assms unfolding critical_sections_def by blast+

lemma try_free:
  assumes "critical_sections (win e) holder" and "WIN32 e" and "holder (sys w) m = None"
  shows "fst (native_mutex_trylock e m w) = 0 \<and>
    holder (sys (snd (native_mutex_trylock e m w))) =
      (holder (sys w))(m \<mapsto> (GetCurrentThreadId (win e) (sys w), 1))"
proof -
  obtain r s where entered: "TryEnterCriticalSection (win e) m (sys w) = (r, s)" by fastforce
  from cs_enter(1) [OF assms(1), of m "sys w"] cs_enter(2) [OF assms(1), of m "sys w"] assms(3)
  have t: "r \<noteq> 0"
    "holder s = (holder (sys w))(m \<mapsto> (GetCurrentThreadId (win e) s, 1))"
    "GetCurrentThreadId (win e) s = GetCurrentThreadId (win e) (sys w)"
    by (simp_all add: entered)
  with cs_leave(1) [OF assms(1), of s m 1] have "RecursionCount (win e) m s = 1" by simp
  with t entered assms(2) show ?thesis by (simp add: native_mutex_trylock_def sys_call_def)
qed

lemma try_held:
  assumes "critical_sections (win e) holder" and "WIN32 e" and "holder (sys w) m = Some (t, n)"
  shows "fst (native_mutex_trylock e m w) = EBUSY e \<and>
    holder (sys (snd (native_mutex_trylock e m w))) = holder (sys w)"
proof -
  obtain r s where entered: "TryEnterCriticalSection (win e) m (sys w) = (r, s)" by fastforce
  have now: "GetCurrentThreadId (win e) s = GetCurrentThreadId (win e) (sys w)"
    using cs_enter(2) [OF assms(1), of m "sys w"] by (simp add: entered)
  show ?thesis
  proof (cases "t = GetCurrentThreadId (win e) (sys w)")
    case True
    with cs_enter(1) [OF assms(1), of m "sys w"] assms(3) now have h: "1 \<le> n" "r \<noteq> 0"
      "holder s = (holder (sys w))(m \<mapsto> (GetCurrentThreadId (win e) s, n + 1))"
      by (simp_all add: entered)
    with cs_leave [OF assms(1), of s m "n + 1"] have "RecursionCount (win e) m s = int (n + 1)"
      "holder (LeaveCriticalSection (win e) m s) = (holder s)(m \<mapsto> (GetCurrentThreadId (win e) s, n))"
      by simp_all
    with h now True entered assms(2,3) show ?thesis
      by (simp add: native_mutex_trylock_def sys_call_def fun_upd_idem)
  next
    case False
    with cs_enter(1) [OF assms(1), of m "sys w"] assms(2,3) show ?thesis
      by (simp add: native_mutex_trylock_def sys_call_def entered)
  qed
qed

section \<open>Threads at one read-write lock\<close>

text \<open>
  A slim read-write lock as Windows documents it: many threads in shared mode or one in
  exclusive mode, and each release must be of the mode held; a wrong one is written down as
  misuse.
\<close>

record srw =
  shared :: nat
  exclusive :: bool
  misused :: bool

definition try_shared :: "srw \<Rightarrow> int \<times> srw" where
  "try_shared s = (if exclusive s then (0, s) else (1, s\<lparr>shared := shared s + 1\<rparr>))"

definition try_exclusive :: "srw \<Rightarrow> int \<times> srw" where
  "try_exclusive s = (if exclusive s \<or> shared s > 0 then (0, s) else (1, s\<lparr>exclusive := True\<rparr>))"

definition release_shared :: "srw \<Rightarrow> srw" where
  "release_shared s = (if shared s > 0 then s\<lparr>shared := shared s - 1\<rparr> else s\<lparr>misused := True\<rparr>)"

definition release_exclusive :: "srw \<Rightarrow> srw" where
  "release_exclusive s = (if exclusive s then s\<lparr>exclusive := False\<rparr> else s\<lparr>misused := True\<rparr>)"

text \<open>An environment in which the lock of the system is such a lock.\<close>

definition srw_locks :: "srw sync_env \<Rightarrow> bool" where
  "srw_locks e \<longleftrightarrow> WIN32 e \<and>
     AcquireSRWLockShared (win e) = (\<lambda>_ s. snd (try_shared s)) \<and>
     TryAcquireSRWLockShared (win e) = (\<lambda>_. try_shared) \<and>
     ReleaseSRWLockShared (win e) = (\<lambda>_. release_shared) \<and>
     AcquireSRWLockExclusive (win e) = (\<lambda>_ s. snd (try_exclusive s)) \<and>
     TryAcquireSRWLockExclusive (win e) = (\<lambda>_. try_exclusive) \<and>
     ReleaseSRWLockExclusive (win e) = (\<lambda>_. release_exclusive)"

text \<open>
  Where a thread is: outside, with the lock in shared mode, with the lock in exclusive mode but
  the flag not yet set, with both, or inside \<open>native_rw_unlock\<close> between two accesses.
\<close>

datatype rw_pc = Outside | Reading | Acquired | Writing | Clearing | ReleasingExclusive | ReleasingShared

record rw_state =
  rw_world :: "srw sync_world"
  rw_pc :: "nat \<Rightarrow> rw_pc"

definition goes :: "nat \<Rightarrow> rw_pc \<Rightarrow> srw sync_world \<Rightarrow> rw_state \<Rightarrow> rw_state" where
  "goes t p w s = \<lparr>rw_world = w, rw_pc = (rw_pc s)(t := p)\<rparr>"

text \<open>One access of one thread to the lock or the flag; a thread that has to wait makes no step.\<close>

inductive rw_step :: "addr \<Rightarrow> rw_state \<Rightarrow> rw_state \<Rightarrow> bool" for rwp :: addr where
  acquire_shared: "rw_pc s t = Outside \<Longrightarrow> try_shared (sys (rw_world s)) = (r, l) \<Longrightarrow> r \<noteq> 0 \<Longrightarrow>
    rw_step rwp s (goes t Reading ((rw_world s)\<lparr>sys := l\<rparr>) s)"
| acquire_exclusive: "rw_pc s t = Outside \<Longrightarrow> try_exclusive (sys (rw_world s)) = (r, l) \<Longrightarrow> r \<noteq> 0 \<Longrightarrow>
    rw_step rwp s (goes t Acquired ((rw_world s)\<lparr>sys := l\<rparr>) s)"
| set: "rw_pc s t = Acquired \<Longrightarrow> rw_step rwp s (goes t Writing (set_flag rwp True (rw_world s)) s)"
| test: "rw_pc s t = Reading \<or> rw_pc s t = Writing \<Longrightarrow>
    p = (if have_exclusive_srwlock (rw_world s) rwp then Clearing else ReleasingShared) \<Longrightarrow>
    rw_step rwp s (goes t p (rw_world s) s)"
| clear: "rw_pc s t = Clearing \<Longrightarrow>
    rw_step rwp s (goes t ReleasingExclusive (set_flag rwp False (rw_world s)) s)"
| drop_exclusive: "rw_pc s t = ReleasingExclusive \<Longrightarrow>
    rw_step rwp s (goes t Outside ((rw_world s)\<lparr>sys := release_exclusive (sys (rw_world s))\<rparr>) s)"
| drop_shared: "rw_pc s t = ReleasingShared \<Longrightarrow>
    rw_step rwp s (goes t Outside ((rw_world s)\<lparr>sys := release_shared (sys (rw_world s))\<rparr>) s)"

definition rw_start :: "addr \<Rightarrow> rw_state \<Rightarrow> bool" where
  "rw_start rwp s \<longleftrightarrow> rw_pc s = (\<lambda>_. Outside) \<and> sys (rw_world s) = \<lparr>shared = 0, exclusive = False, misused = False\<rparr> \<and>
     \<not> have_exclusive_srwlock (rw_world s) rwp"

text \<open>The specification: who reads and who writes, told apart by how the lock was acquired.\<close>

definition reads :: "rw_pc \<Rightarrow> bool" where
  "reads p \<longleftrightarrow> p = Reading \<or> p = ReleasingShared"

definition writes :: "rw_pc \<Rightarrow> bool" where
  "writes p \<longleftrightarrow> p = Acquired \<or> p = Writing \<or> p = Clearing \<or> p = ReleasingExclusive"

definition readers :: "rw_state \<Rightarrow> nat set" where
  "readers s = {t. reads (rw_pc s t)}"

definition writers :: "rw_state \<Rightarrow> nat set" where
  "writers s = {t. writes (rw_pc s t)}"

inductive rw_spec :: "nat set \<times> nat set \<Rightarrow> nat set \<times> nat set \<Rightarrow> bool" where
  begin_read: "rw_spec (R, {}) (insert t R, {})"
| begin_write: "rw_spec ({}, {}) ({}, {t})"
| end_read: "t \<in> R \<Longrightarrow> rw_spec (R, {}) (R - {t}, {})"
| end_write: "rw_spec ({}, {t}) ({}, {})"

definition rw_ok :: "addr \<Rightarrow> rw_state \<Rightarrow> bool" where
  "rw_ok rwp s \<longleftrightarrow>
     finite (readers s) \<and> shared (sys (rw_world s)) = card (readers s) \<and>
     (exclusive (sys (rw_world s)) \<longleftrightarrow> writers s \<noteq> {}) \<and>
     (writers s = {} \<or> (\<exists>t. writers s = {t}) \<and> readers s = {}) \<and>
     (have_exclusive_srwlock (rw_world s) rwp \<longleftrightarrow>
        (\<exists>t \<in> writers s. rw_pc s t = Writing \<or> rw_pc s t = Clearing)) \<and>
     \<not> misused (sys (rw_world s))"

lemma rw_pc_modes [simp]:
  "reads Reading" "reads ReleasingShared" "\<not> reads Outside" "\<not> reads Acquired" "\<not> reads Writing"
  "\<not> reads Clearing" "\<not> reads ReleasingExclusive"
  "writes Acquired" "writes Writing" "writes Clearing" "writes ReleasingExclusive" "\<not> writes Outside"
  "\<not> writes Reading" "\<not> writes ReleasingShared"
  by (simp_all add: reads_def writes_def)

lemma in_readers: "t \<in> readers s \<longleftrightarrow> reads (rw_pc s t)"
  and in_writers: "t \<in> writers s \<longleftrightarrow> writes (rw_pc s t)"
  by (simp_all add: readers_def writers_def)

lemma goes_simps [simp]:
  "rw_world (goes t p w s) = w" "rw_pc (goes t p w s) = (rw_pc s)(t := p)"
  "readers (goes t p w s) = (if reads p then insert t (readers s) else readers s - {t})"
  "writers (goes t p w s) = (if writes p then insert t (writers s) else writers s - {t})"
  by (auto simp: goes_def readers_def writers_def)

lemma set_flag_simps [simp]:
  "sys (set_flag rwp b w) = sys w" "have_exclusive_srwlock (set_flag rwp b w) rwp = b"
  by (simp_all add: set_flag_def)

lemma rw_start_ok: "rw_start rwp s \<Longrightarrow> rw_ok rwp s"
  by (simp add: rw_start_def rw_ok_def readers_def writers_def)

text \<open>The invariant, used at a thread in some mode.\<close>

lemma rw_reader:
  assumes "rw_ok rwp s" and "t \<in> readers s"
  shows "writers s = {}" and "shared (sys (rw_world s)) > 0" and "\<not> have_exclusive_srwlock (rw_world s) rwp"
  using assms by (auto simp: rw_ok_def card_gt_0_iff)

lemma rw_writer:
  assumes "rw_ok rwp s" and "t \<in> writers s"
  shows "writers s = {t}" and "readers s = {}" and "exclusive (sys (rw_world s))"
    and "have_exclusive_srwlock (rw_world s) rwp \<longleftrightarrow> rw_pc s t = Writing \<or> rw_pc s t = Clearing"
  using assms by (auto simp: rw_ok_def)

text \<open>Each kind of step keeps the invariant.\<close>

lemma rw_acquire_shared_ok:
  assumes "rw_ok rwp s" and "rw_pc s t = Outside" and "try_shared (sys (rw_world s)) = (r, l)" and "r \<noteq> 0"
  shows "rw_ok rwp (goes t Reading ((rw_world s)\<lparr>sys := l\<rparr>) s) \<and> writers s = {}"
proof -
  have "t \<notin> readers s" "t \<notin> writers s" using assms(2) by (simp_all add: in_readers in_writers)
  with assms(1,3,4) show ?thesis by (auto simp: rw_ok_def try_shared_def split: if_splits)
qed

lemma rw_acquire_exclusive_ok:
  assumes "rw_ok rwp s" and "rw_pc s t = Outside" and "try_exclusive (sys (rw_world s)) = (r, l)" and "r \<noteq> 0"
  shows "rw_ok rwp (goes t Acquired ((rw_world s)\<lparr>sys := l\<rparr>) s) \<and> readers s = {} \<and> writers s = {}"
  using assms by (auto simp: rw_ok_def try_exclusive_def split: if_splits)

lemma rw_drop_shared_ok:
  assumes "rw_ok rwp s" and "t \<in> readers s"
  shows "rw_ok rwp (goes t Outside ((rw_world s)\<lparr>sys := release_shared (sys (rw_world s))\<rparr>) s)"
  using assms rw_reader [OF assms] by (auto simp: rw_ok_def release_shared_def)

lemma rw_drop_exclusive_ok:
  assumes "rw_ok rwp s" and "rw_pc s t = ReleasingExclusive"
  shows "rw_ok rwp (goes t Outside ((rw_world s)\<lparr>sys := release_exclusive (sys (rw_world s))\<rparr>) s)"
proof -
  have t: "t \<in> writers s" using assms(2) by (simp add: in_writers)
  from assms rw_writer [OF assms(1) t] show ?thesis by (auto simp: rw_ok_def release_exclusive_def)
qed

lemma rw_writer_moves_ok:
  assumes "rw_ok rwp s" and "t \<in> writers s" and "writes p" and "\<not> reads p"
    and "sys w = sys (rw_world s)" and "have_exclusive_srwlock w rwp \<longleftrightarrow> p = Writing \<or> p = Clearing"
  shows "rw_ok rwp (goes t p w s)"
  using assms rw_writer [OF assms(1,2)] by (auto simp: rw_ok_def)

lemma rw_reader_moves_ok:
  assumes "rw_ok rwp s" and "t \<in> readers s" and "reads p" and "\<not> writes p"
  shows "rw_ok rwp (goes t p (rw_world s) s)"
  using assms rw_reader [OF assms(1,2)] by (auto simp: rw_ok_def insert_absorb)

lemma rw_step_correct:
  assumes "rw_step rwp s s'" and "rw_ok rwp s"
  shows "rw_ok rwp s' \<and>
    (rw_spec (readers s, writers s) (readers s', writers s') \<or> (readers s', writers s') = (readers s, writers s))"
  using assms
proof (cases rule: rw_step.cases)
  case (acquire_shared t r l)
  with rw_acquire_shared_ok [OF assms(2)] begin_read [of "readers s" t] show ?thesis by simp
next
  case (acquire_exclusive t r l)
  with rw_acquire_exclusive_ok [OF assms(2)] begin_write [of t] show ?thesis by simp
next
  case (set t)
  then have t: "t \<in> writers s" by (simp add: in_writers)
  with set rw_writer_moves_ok [OF assms(2) t, of Writing] rw_writer [OF assms(2) t] show ?thesis by simp
next
  case (test t p)
  show ?thesis
  proof (cases "rw_pc s t = Writing")
    case True
    then have t: "t \<in> writers s" by (simp add: in_writers)
    with True test rw_writer_moves_ok [OF assms(2) t, of Clearing] rw_writer [OF assms(2) t]
    show ?thesis by simp
  next
    case False
    with test have t: "t \<in> readers s" by (simp add: in_readers)
    with test rw_reader_moves_ok [OF assms(2) t, of ReleasingShared] rw_reader [OF assms(2) t]
    show ?thesis by (simp add: insert_absorb)
  qed
next
  case (clear t)
  then have t: "t \<in> writers s" by (simp add: in_writers)
  with clear rw_writer_moves_ok [OF assms(2) t, of ReleasingExclusive] rw_writer [OF assms(2) t]
  show ?thesis by simp
next
  case (drop_exclusive t)
  then have t: "t \<in> writers s" by (simp add: in_writers)
  with drop_exclusive rw_drop_exclusive_ok [OF assms(2)] rw_writer [OF assms(2) t] end_write [of t]
  show ?thesis by simp
next
  case (drop_shared t)
  then have t: "t \<in> readers s" by (simp add: in_readers)
  with drop_shared rw_drop_shared_ok [OF assms(2) t] rw_reader [OF assms(2) t] end_read [OF t]
  show ?thesis by simp
qed

lemma rw_reachable_ok: "(rw_step rwp)\<^sup>*\<^sup>* s s' \<Longrightarrow> rw_ok rwp s \<Longrightarrow> rw_ok rwp s'"
  by (induction rule: rtranclp_induct) (auto dest: rw_step_correct)

text \<open>
  Two threads race for the flag when both are about to access it and one of them writes. A
  thread that holds the lock may read it at any time, by unlocking.
\<close>

definition flag_race :: "rw_state \<Rightarrow> bool" where
  "flag_race s \<longleftrightarrow> (\<exists>t u. t \<noteq> u \<and> (rw_pc s t = Acquired \<or> rw_pc s t = Clearing) \<and>
     (rw_pc s u = Acquired \<or> rw_pc s u = Clearing \<or> rw_pc s u = Reading \<or> rw_pc s u = Writing))"

lemma rw_ok_no_race:
  assumes "rw_ok rwp s"
  shows "\<not> flag_race s"
proof
  assume "flag_race s"
  then obtain t u where tu: "t \<noteq> u" "writes (rw_pc s t)" "writes (rw_pc s u) \<or> reads (rw_pc s u)"
    unfolding flag_race_def by auto
  then have "t \<in> writers s" "u \<in> writers s \<or> u \<in> readers s" by (simp_all add: in_readers in_writers)
  with rw_writer [OF assms, of t] tu(1) show False by auto
qed

text \<open>The functions of the header, run without interruption, take these steps.\<close>

lemma native_rdlock_steps:
  assumes "srw_locks e" and "rw_pc s t = Outside" and "\<not> exclusive (sys (rw_world s))"
  shows "rw_step rwp s (goes t Reading (snd (native_rw_rdlock e rwp (rw_world s))) s)"
    and "fst (native_rw_rdlock e rwp (rw_world s)) = 0"
  using acquire_shared [OF assms(2), of 1 "snd (try_shared (sys (rw_world s)))" rwp] assms
  by (simp_all add: native_rw_rdlock_def void_call_def srw_locks_def try_shared_def)

lemma native_wrlock_steps:
  assumes "srw_locks e" and "rw_pc s t = Outside"
    and "\<not> exclusive (sys (rw_world s))" and "shared (sys (rw_world s)) = 0"
  shows "(rw_step rwp)\<^sup>*\<^sup>* s (goes t Writing (snd (native_rw_wrlock e rwp (rw_world s))) s)"
    and "fst (native_rw_wrlock e rwp (rw_world s)) = 0"
proof -
  let ?l = "snd (try_exclusive (sys (rw_world s)))"
  let ?s = "goes t Acquired ((rw_world s)\<lparr>sys := ?l\<rparr>) s"
  have "rw_step rwp s ?s"
    using assms by (intro acquire_exclusive [where r = 1]) (simp_all add: try_exclusive_def)
  moreover have "rw_step rwp ?s (goes t Writing (set_flag rwp True (rw_world ?s)) ?s)"
    by (rule rw_step.set) simp
  ultimately have "(rw_step rwp)\<^sup>*\<^sup>* s (goes t Writing (set_flag rwp True (rw_world ?s)) ?s)" by simp
  then show "(rw_step rwp)\<^sup>*\<^sup>* s (goes t Writing (snd (native_rw_wrlock e rwp (rw_world s))) s)"
    using assms(1) by (simp add: native_rw_wrlock_def void_call_def srw_locks_def goes_def)
  show "fst (native_rw_wrlock e rwp (rw_world s)) = 0"
    using assms(1) by (simp add: native_rw_wrlock_def void_call_def srw_locks_def)
qed

lemma native_tryrdlock_steps:
  assumes "srw_locks e" and "rw_pc s t = Outside"
  shows "if exclusive (sys (rw_world s)) then native_rw_tryrdlock e rwp (rw_world s) = (EBUSY e, rw_world s)
    else native_rw_tryrdlock e rwp (rw_world s) = native_rw_rdlock e rwp (rw_world s)"
  using assms by (simp add: native_rw_tryrdlock_def native_rw_rdlock_def sys_call_def void_call_def
      srw_locks_def try_shared_def)

lemma native_trywrlock_steps:
  assumes "srw_locks e" and "rw_pc s t = Outside"
  shows "if exclusive (sys (rw_world s)) \<or> shared (sys (rw_world s)) > 0
    then native_rw_trywrlock e rwp (rw_world s) = (EBUSY e, rw_world s)
    else native_rw_trywrlock e rwp (rw_world s) = native_rw_wrlock e rwp (rw_world s)"
  using assms by (simp add: native_rw_trywrlock_def native_rw_wrlock_def sys_call_def void_call_def
      srw_locks_def try_exclusive_def)

lemma native_unlock_steps:
  assumes "srw_locks e" and "rw_pc s t = Reading \<or> rw_pc s t = Writing"
  shows "(rw_step rwp)\<^sup>*\<^sup>* s (goes t Outside (snd (native_rw_unlock e rwp (rw_world s))) s)"
    and "fst (native_rw_unlock e rwp (rw_world s)) = 0"
proof -
  show "fst (native_rw_unlock e rwp (rw_world s)) = 0"
    using assms(1) by (simp add: native_rw_unlock_def void_call_def srw_locks_def)
  let ?f = "have_exclusive_srwlock (rw_world s) rwp"
  let ?p = "if ?f then Clearing else ReleasingShared"
  let ?s = "goes t ?p (rw_world s) s"
  have t: "rw_step rwp s ?s" using assms(2) by (intro rw_step.test) simp_all
  show "(rw_step rwp)\<^sup>*\<^sup>* s (goes t Outside (snd (native_rw_unlock e rwp (rw_world s))) s)"
  proof (cases ?f)
    case True
    let ?s2 = "goes t ReleasingExclusive (set_flag rwp False (rw_world ?s)) ?s"
    have "rw_step rwp ?s ?s2" using True by (intro rw_step.clear) simp
    moreover have "rw_step rwp ?s2
        (goes t Outside ((rw_world ?s2)\<lparr>sys := release_exclusive (sys (rw_world ?s2))\<rparr>) ?s2)"
      by (intro rw_step.drop_exclusive) simp
    ultimately have "(rw_step rwp)\<^sup>*\<^sup>* s
        (goes t Outside ((rw_world ?s2)\<lparr>sys := release_exclusive (sys (rw_world ?s2))\<rparr>) ?s2)"
      using t by (meson converse_rtranclp_into_rtranclp r_into_rtranclp)
    with True assms(1) show ?thesis
      by (simp add: native_rw_unlock_def void_call_def srw_locks_def goes_def)
  next
    case False
    have "rw_step rwp ?s (goes t Outside ((rw_world ?s)\<lparr>sys := release_shared (sys (rw_world ?s))\<rparr>) ?s)"
      using False by (intro rw_step.drop_shared) simp
    with t have "(rw_step rwp)\<^sup>*\<^sup>* s
        (goes t Outside ((rw_world ?s)\<lparr>sys := release_shared (sys (rw_world ?s))\<rparr>) ?s)" by auto
    with False assms(1) show ?thesis
      by (simp add: native_rw_unlock_def void_call_def srw_locks_def goes_def)
  qed
qed

text \<open>Setting a stack size on Windows keeps the low 32 bits of it.\<close>

lemma stacksize_truncated:
  assumes "WIN32 e"
  shows "fst (my_thread_attr_getstacksize e (snd (fst (my_thread_attr_setstacksize e attr n w))) w') = (0, n mod 2 ^ 32)"
  using assms by (simp add: my_thread_attr_getstacksize_def my_thread_attr_setstacksize_def unat_of_nat)

section \<open>Timed waits\<close>

text \<open>The difference of two numbers in units, compared with the difference of the numbers.\<close>

lemma units_between:
  fixes M :: int
  assumes "0 < M"
  shows "if T < n then max 0 (T div M - n div M) = 0
    else \<bar>max 0 (T div M - n div M) * M - (T - n)\<bar> < M"
proof (cases "T < n")
  case True
  then have "T div M \<le> n div M" using assms by (intro zdiv_mono1) simp_all
  with True show ?thesis by simp
next
  case False
  then have "n div M \<le> T div M" using assms by (intro zdiv_mono1) simp_all
  moreover have "(T div M - n div M) * M - (T - n) = n mod M - T mod M"
    unfolding left_diff_distrib using div_mult_mod_eq [of T M] div_mult_mod_eq [of n M] by linarith
  moreover have "\<bar>n mod M - T mod M\<bar> < M"
    using pos_mod_bound [OF assms, of n] pos_mod_bound [OF assms, of T]
      pos_mod_sign [OF assms, of n] pos_mod_sign [OF assms, of T] by linarith
  ultimately show ?thesis using False by (simp add: max_def)
qed

lemma units_limit:
  fixes M :: int
  assumes "0 < M" and "T - n \<le> k * M" and "0 \<le> k"
  shows "max 0 (T div M - n div M) \<le> k + 1"
proof (cases "T < n")
  case True
  with units_between [OF assms(1), of T n] assms(3) show ?thesis by simp
next
  case False
  with units_between [OF assms(1), of T n] have "max 0 (T div M - n div M) * M - (T - n) < M" by simp
  then have "max 0 (T div M - n div M) * M < (k + 1) * M" using assms(2) by (simp add: distrib_right)
  with assms(1) show ?thesis by (simp add: mult_less_cancel_right)
qed

lemma windows_wait_result:
  "fst (sleep_result e cond mutex timeout w) = 0 \<or> fst (sleep_result e cond mutex timeout w) = ETIMEDOUT e"
  by (simp add: sleep_result_def split_beta Let_def)

section \<open>Properties\<close>

text \<open>
  C32: The read-write lock on Windows, with its flag beside the lock of the system,
  is a read-write lock. However the threads interleave between the accesses of the functions, a
  writer is alone, the lock of the system is never released in the wrong mode, no two threads
  race for the flag, and every access either leaves readers and writer as they are or lets one
  of them in or out as the specification allows.
\<close>

theorem rw_lock_refines:
  assumes "rw_start rwp s0" and "(rw_step rwp)\<^sup>*\<^sup>* s0 s"
  shows "(writers s = {} \<or> (\<exists>t. writers s = {t}) \<and> readers s = {}) \<and>
    \<not> misused (sys (rw_world s)) \<and> \<not> flag_race s \<and>
    {s'. rw_step rwp s s'} \<subseteq> {s'. (readers s', writers s') = (readers s, writers s) \<or>
      rw_spec (readers s, writers s) (readers s', writers s')}"
proof -
  have ok: "rw_ok rwp s" by (rule rw_reachable_ok [OF assms(2) rw_start_ok [OF assms(1)]])
  then have "writers s = {} \<or> (\<exists>t. writers s = {t}) \<and> readers s = {}" "\<not> misused (sys (rw_world s))"
    by (simp_all add: rw_ok_def)
  with rw_ok_no_race [OF ok] rw_step_correct [OF _ ok] show ?thesis by blast
qed

definition fresh_lock :: rw_state where
  "fresh_lock = \<lparr>rw_world = \<lparr>sys = \<lparr>shared = 0, exclusive = False, misused = False\<rparr>,
     have_exclusive_srwlock = (\<lambda>_. False)\<rparr>, rw_pc = (\<lambda>_. Outside)\<rparr>"

lemma fresh_start: "rw_start 5 fresh_lock"
  by (simp add: fresh_lock_def rw_start_def)

definition one_writer :: rw_state where
  "one_writer = goes 1 Acquired ((rw_world fresh_lock)\<lparr>sys := \<lparr>shared = 0, exclusive = True, misused = False\<rparr>\<rparr>) fresh_lock"

lemma writer_gets_in: "(rw_step 5)\<^sup>*\<^sup>* fresh_lock one_writer"
  unfolding one_writer_def
  by (intro r_into_rtranclp acquire_exclusive [where r = 1]) (simp_all add: fresh_lock_def try_exclusive_def)

theorem rw_lock_refines_witness:
  "writers one_writer = {1} \<and> readers one_writer = {} \<and> \<not> flag_race one_writer \<and>
   \<not> misused (sys (rw_world one_writer))"
proof -
  have "1 \<in> writers one_writer" by (simp add: in_writers one_writer_def)
  with rw_lock_refines [OF fresh_start writer_gets_in] show ?thesis by auto
qed

text \<open>
  A thread that holds the lock and calls \<open>native_rw_unlock\<close> gets 0,
  and the call, run on after any interleaving of other threads, releases the lock in the mode
  in which this thread took it: the thread is outside, the others hold what they held.
\<close>

theorem unlock_releases_own_mode:
  assumes "srw_locks e" and "rw_start rwp s0" and "(rw_step rwp)\<^sup>*\<^sup>* s0 s"
    and "rw_pc s t = Reading \<or> rw_pc s t = Writing"
  shows "fst (native_rw_unlock e rwp (rw_world s)) = 0 \<and>
    (let l = sys (rw_world s); l' = sys (snd (native_rw_unlock e rwp (rw_world s)))
     in l' = (if rw_pc s t = Reading then l\<lparr>shared := shared l - 1\<rparr> else l\<lparr>exclusive := False\<rparr>)) \<and>
    (\<exists>s'. (rw_step rwp)\<^sup>*\<^sup>* s s' \<and> rw_world s' = snd (native_rw_unlock e rwp (rw_world s)) \<and>
      rw_pc s' = (rw_pc s)(t := Outside))"
proof -
  have ok: "rw_ok rwp s" by (rule rw_reachable_ok [OF assms(3) rw_start_ok [OF assms(2)]])
  have "\<exists>s'. (rw_step rwp)\<^sup>*\<^sup>* s s' \<and> rw_world s' = snd (native_rw_unlock e rwp (rw_world s)) \<and>
      rw_pc s' = (rw_pc s)(t := Outside)"
    using native_unlock_steps(1) [OF assms(1,4)] by (intro exI conjI) (assumption, simp_all)
  moreover have "sys (snd (native_rw_unlock e rwp (rw_world s))) =
      (if rw_pc s t = Reading then (sys (rw_world s))\<lparr>shared := shared (sys (rw_world s)) - 1\<rparr>
       else (sys (rw_world s))\<lparr>exclusive := False\<rparr>)"
  proof (cases "rw_pc s t = Reading")
    case True
    then have "t \<in> readers s" by (simp add: in_readers)
    from True rw_reader [OF ok this] assms(1) show ?thesis
      by (simp add: native_rw_unlock_def void_call_def srw_locks_def release_shared_def)
  next
    case False
    with assms(4) have "t \<in> writers s" by (simp add: in_writers)
    from False assms(1,4) rw_writer [OF ok this] show ?thesis
      by (simp add: native_rw_unlock_def void_call_def srw_locks_def release_exclusive_def)
  qed
  ultimately show ?thesis using native_unlock_steps(2) [OF assms(1,4)] by (simp add: Let_def)
qed

text \<open>Systems whose calls do nothing, to be given the calls an example needs.\<close>

definition idle_windows :: "'w windows" where
  "idle_windows = \<lparr>InitializeCriticalSection = (\<lambda>_ w. w), EnterCriticalSection = (\<lambda>_ w. w),
     TryEnterCriticalSection = (\<lambda>_ w. (0, w)), LeaveCriticalSection = (\<lambda>_ w. w),
     DeleteCriticalSection = (\<lambda>_ w. w), RecursionCount = (\<lambda>_ _. 0), InitializeSRWLock = (\<lambda>_ w. w),
     AcquireSRWLockShared = (\<lambda>_ w. w), TryAcquireSRWLockShared = (\<lambda>_ w. (0, w)),
     ReleaseSRWLockShared = (\<lambda>_ w. w), AcquireSRWLockExclusive = (\<lambda>_ w. w),
     TryAcquireSRWLockExclusive = (\<lambda>_ w. (0, w)), ReleaseSRWLockExclusive = (\<lambda>_ w. w),
     InitializeConditionVariable = (\<lambda>_ w. w), SleepConditionVariableCS = (\<lambda>_ _ _ w. (0, w)),
     WakeConditionVariable = (\<lambda>_ w. w), WakeAllConditionVariable = (\<lambda>_ w. w),
     my_getsystime = (\<lambda>_. 0), GetCurrentThreadId = (\<lambda>_. 0), SwitchToThread = (\<lambda>w. w),
     TlsAlloc = (\<lambda>w. (0, w)), TlsFree = (\<lambda>_ w. (1, w)), TlsGetValue = (\<lambda>_ _. 0), TlsSetValue = (\<lambda>_ _ w. (1, w))\<rparr>"

definition idle_pthreads :: "'w pthreads" where
  "idle_pthreads = \<lparr>pthread_mutex_init = (\<lambda>_ _ w. (0, w)), pthread_mutex_lock = (\<lambda>_ w. (0, w)),
     pthread_mutex_trylock = (\<lambda>_ w. (0, w)), pthread_mutex_unlock = (\<lambda>_ w. (0, w)),
     pthread_mutex_destroy = (\<lambda>_ w. (0, w)), pthread_rwlock_init = (\<lambda>_ _ w. (0, w)),
     pthread_rwlock_destroy = (\<lambda>_ w. (0, w)), pthread_rwlock_rdlock = (\<lambda>_ w. (0, w)),
     pthread_rwlock_tryrdlock = (\<lambda>_ w. (0, w)), pthread_rwlock_wrlock = (\<lambda>_ w. (0, w)),
     pthread_rwlock_trywrlock = (\<lambda>_ w. (0, w)), pthread_rwlock_unlock = (\<lambda>_ w. (0, w)),
     pthread_cond_init = (\<lambda>_ _ w. (0, w)), pthread_cond_destroy = (\<lambda>_ w. (0, w)),
     pthread_cond_timedwait = (\<lambda>_ _ _ w. (0, w)), pthread_cond_wait = (\<lambda>_ _ w. (0, w)),
     pthread_cond_signal = (\<lambda>_ w. (0, w)), pthread_cond_broadcast = (\<lambda>_ w. (0, w)),
     pthread_self = (\<lambda>_. 0), pthread_equal = (\<lambda>a b. if a = b then 1 else 0),
     pthread_attr_init = (\<lambda>_ w. (0, w)), pthread_attr_destroy = (\<lambda>_ w. (0, w)),
     pthread_attr_setstacksize = (\<lambda>_ _ w. (0, w)), pthread_attr_setdetachstate = (\<lambda>_ _ w. (0, w)),
     pthread_attr_getstacksize = (\<lambda>_ w. ((0, 0), w)), sched_yield = (\<lambda>w. w),
     pthread_key_create = (\<lambda>_ w. ((0, 0), w)), pthread_key_delete = (\<lambda>_ w. (0, w)),
     pthread_getspecific = (\<lambda>_ _. 0), pthread_setspecific = (\<lambda>_ _ w. (0, w))\<rparr>"

definition idle_safe_mutexes :: "'w safe_mutexes" where
  "idle_safe_mutexes = \<lparr>safe_mutex_init = (\<lambda>_ _ _ _ w. (0, w)), safe_mutex_lock = (\<lambda>_ _ _ _ w. (0, w)),
     safe_mutex_unlock = (\<lambda>_ _ _ w. (0, w)), safe_mutex_destroy = (\<lambda>_ _ _ w. (0, w)),
     safe_cond_wait = (\<lambda>_ _ _ _ w. (0, w)), safe_cond_timedwait = (\<lambda>_ _ _ _ _ w. (0, w))\<rparr>"

definition on_windows :: "'w windows \<Rightarrow> 'w sync_env" where
  "on_windows x = \<lparr>WIN32 = True, SAFE_MUTEX = False, DBUG_OFF = True, EBUSY = 16, ETIMEDOUT = 138,
     win = x, pth = idle_pthreads, safe = idle_safe_mutexes\<rparr>"

definition srw_env :: "srw sync_env" where
  "srw_env = on_windows (idle_windows\<lparr>AcquireSRWLockShared := (\<lambda>_ s. snd (try_shared s)),
     TryAcquireSRWLockShared := (\<lambda>_. try_shared), ReleaseSRWLockShared := (\<lambda>_. release_shared),
     AcquireSRWLockExclusive := (\<lambda>_ s. snd (try_exclusive s)),
     TryAcquireSRWLockExclusive := (\<lambda>_. try_exclusive), ReleaseSRWLockExclusive := (\<lambda>_. release_exclusive)\<rparr>)"

lemma srw_env_locks: "srw_locks srw_env"
  by (simp add: srw_locks_def srw_env_def on_windows_def)

theorem unlock_releases_own_mode_witness:
  "fst (native_rw_unlock srw_env 5 (snd (native_rw_wrlock srw_env 5 (rw_world fresh_lock)))) = 0 \<and>
   sys (snd (native_rw_unlock srw_env 5 (snd (native_rw_wrlock srw_env 5 (rw_world fresh_lock))))) =
     \<lparr>shared = 0, exclusive = False, misused = False\<rparr>"
proof -
  let ?s = "goes 1 Writing (snd (native_rw_wrlock srw_env 5 (rw_world fresh_lock))) fresh_lock"
  have "(rw_step 5)\<^sup>*\<^sup>* fresh_lock ?s"
    by (rule native_wrlock_steps(1) [OF srw_env_locks]) (simp_all add: fresh_lock_def)
  from unlock_releases_own_mode [OF srw_env_locks fresh_start this, of 1] srw_env_locks
  show ?thesis
    by (simp add: Let_def native_rw_wrlock_def void_call_def srw_locks_def try_exclusive_def fresh_lock_def)
qed

text \<open>
  On Windows \<open>native_mutex_trylock\<close> behaves as \<open>pthread_mutex_trylock\<close>
  although a critical section can be entered again by its thread: it takes a free mutex and
  returns 0, and of a mutex that is held, by this thread or another, it changes nothing and
  returns \<open>EBUSY\<close>.
\<close>

theorem trylock_not_recursive:
  assumes "critical_sections (win e) holder" and "WIN32 e"
  shows "case holder (sys w) m of
      None \<Rightarrow> fst (native_mutex_trylock e m w) = 0 \<and>
        holder (sys (snd (native_mutex_trylock e m w))) =
          (holder (sys w))(m \<mapsto> (GetCurrentThreadId (win e) (sys w), 1))
    | Some _ \<Rightarrow> fst (native_mutex_trylock e m w) = EBUSY e \<and>
        holder (sys (snd (native_mutex_trylock e m w))) = holder (sys w)"
  using try_free [OF assms] try_held [OF assms] by (auto split: option.split)

text \<open>
  Critical sections seen by thread 7, as a map from the sections to the thread and how often it
  entered again.
\<close>

definition sections_env :: "(addr \<Rightarrow> (nat \<times> nat) option) sync_env" where
  "sections_env = on_windows (idle_windows\<lparr>
     TryEnterCriticalSection := (\<lambda>m h. case h m of
         None \<Rightarrow> (1, h(m \<mapsto> (7, 0)))
       | Some (t, k) \<Rightarrow> if t = 7 then (1, h(m \<mapsto> (7, k + 1))) else (0, h)),
     LeaveCriticalSection := (\<lambda>m h. case h m of
         None \<Rightarrow> h
       | Some (t, k) \<Rightarrow> h(m := if k > 0 then Some (t, k - 1) else None)),
     RecursionCount := (\<lambda>m h. case h m of None \<Rightarrow> 0 | Some (t, k) \<Rightarrow> int k + 1),
     GetCurrentThreadId := (\<lambda>_. 7)\<rparr>)"

definition entered_by :: "(addr \<Rightarrow> (nat \<times> nat) option) \<Rightarrow> addr \<Rightarrow> (nat \<times> nat) option" where
  "entered_by h m = map_option (\<lambda>(t, k). (t, k + 1)) (h m)"

lemma sections_documented: "critical_sections (win sections_env) entered_by"
  by (auto simp: critical_sections_def sections_env_def on_windows_def entered_by_def fun_eq_iff
      split: option.split)

theorem trylock_not_recursive_witness:
  "fst (native_mutex_trylock sections_env 3 \<lparr>sys = [3 \<mapsto> (7, 0)], have_exclusive_srwlock = (\<lambda>_. False)\<rparr>) = 16 \<and>
   fst (native_mutex_trylock sections_env 4 \<lparr>sys = [3 \<mapsto> (7, 0)], have_exclusive_srwlock = (\<lambda>_. False)\<rparr>) = 0"
  using trylock_not_recursive [OF sections_documented,
      of 3 "\<lparr>sys = [3 \<mapsto> (7, 0)], have_exclusive_srwlock = (\<lambda>_. False)\<rparr>"]
    trylock_not_recursive [OF sections_documented,
      of 4 "\<lparr>sys = [3 \<mapsto> (7, 0)], have_exclusive_srwlock = (\<lambda>_. False)\<rparr>"]
  by (simp add: entered_by_def sections_env_def on_windows_def)

text \<open>
  C34: A timed wait on Windows waits as long as it was told. When the time was
  set to \<open>nsec\<close> after \<open>t0\<close> and no more than \<open>2 ^ 32 - 3\<close> milliseconds of it remain, the timeout
  given to the system is less than a millisecond off the time that remains, 0 when none
  remains, and never the value that means forever; the wait returns 0 or \<open>ETIMEDOUT\<close>.
\<close>

theorem timed_wait_accurate:
  assumes "WIN32 e" and "uint t0 + uint nsec div 100 < 2 ^ 64"
    and "remaining = uint t0 * 100 + uint nsec - uint (my_getsystime (win e) (sys w)) * 100"
    and "remaining \<le> (2 ^ 32 - 3) * 1000000"
  shows "\<exists>timeout. native_cond_timedwait e cond mutex (set_timespec_nsec t0 nsec) w =
      Inr (sleep_result e cond mutex timeout w) \<and> timeout \<noteq> INFINITE \<and>
    (if remaining < 0 then timeout = 0 else \<bar>uint timeout * 1000000 - remaining\<bar> < 1000000) \<and>
    fst (sleep_result e cond mutex timeout w) \<in> {0, ETIMEDOUT e}"
proof -
  let ?t1 = "my_getsystime (win e) (sys w)" and ?T = "uint t0 * 100 + uint nsec"
  let ?m = "max 0 (?T div 1000000 - (uint ?t1 * 100) div 1000000)"
  have "(uint ?t1 * 100) div 1000000 = uint ?t1 div 10000"
    using div_mult_mult2 [of 100 "uint ?t1" 10000] by simp
  with timeout_value [OF assms(2), of ?t1]
  have g: "get_milliseconds ?t1 (set_timespec_nsec t0 nsec) = Inr (word_of_int ?m)" by simp
  have "?m \<le> 2 ^ 32 - 3 + 1"
    using units_limit [of 1000000 ?T "uint ?t1 * 100" "2 ^ 32 - 3"] assms(3,4) by simp
  then have m: "0 \<le> ?m" "?m < 2 ^ 32 - 1" by simp_all
  then have u: "uint (word_of_int ?m :: u32) = ?m" by (subst uint_word_of_int_eq) (simp add: take_bit_int_eq_self)
  have "word_of_int ?m \<noteq> INFINITE"
  proof
    assume "word_of_int ?m = INFINITE"
    with u have "?m = 2 ^ 32 - 1" by (simp add: INFINITE_def)
    with m show False by simp
  qed
  moreover have "if remaining < 0 then ?m = 0 else \<bar>?m * 1000000 - remaining\<bar> < 1000000"
  proof -
    have "?T < uint ?t1 * 100 \<longleftrightarrow> remaining < 0" "?T - uint ?t1 * 100 = remaining"
      using assms(3) by linarith+
    then show ?thesis
      using units_between [OF zero_less_numeral, of "?T" "uint ?t1 * 100"] by (simp only:)
  qed
  ultimately show ?thesis
    using g u assms(1) windows_wait_result [of e cond mutex "word_of_int ?m" w]
    by (intro exI [of _ "word_of_int ?m"]) (simp add: native_cond_timedwait_def split: if_splits)
qed

definition at_five :: "unit sync_env" where
  "at_five = on_windows (idle_windows\<lparr>my_getsystime := (\<lambda>_. 50000000)\<rparr>)"

theorem timed_wait_accurate_witness:
  "\<exists>timeout. native_cond_timedwait at_five 1 2 (set_timespec_nsec 45000000 2000000000)
      \<lparr>sys = (), have_exclusive_srwlock = (\<lambda>_. False)\<rparr> =
     Inr (sleep_result at_five 1 2 timeout \<lparr>sys = (), have_exclusive_srwlock = (\<lambda>_. False)\<rparr>) \<and>
     \<bar>uint timeout * 1000000 - 1500000000\<bar> < 1000000"
  using timed_wait_accurate [of at_five 45000000 2000000000 1500000000
      "\<lparr>sys = (), have_exclusive_srwlock = (\<lambda>_. False)\<rparr>" 1 2]
  by (auto simp: at_five_def on_windows_def)

end
