(* ===== verification/MySQL_Thread.thy ===== *)
theory MySQL_Thread
  imports MySQL_Locks
begin

text \<open>
  The instrumented mutexes, read-write locks, conditions and threads of the MySQL headers
  (mysql/psi/mysql_thread.h): each object is one of the locks of MySQL_Locks with a hook of the
  performance schema, and each function makes one call on the lock and reports to the hook,
  when it has one. The performance schema and the locks that prefer readers are not in the
  repository; they are records of functions. The state a locker is built in is scratch memory
  of the performance schema and left out. At the end, threads at one instrumented mutex, seen
  by the performance schema.
\<close>

section \<open>The performance schema\<close>

datatype PSI_mutex_operation = PSI_MUTEX_LOCK | PSI_MUTEX_TRYLOCK

datatype PSI_rwlock_operation =
  PSI_RWLOCK_READLOCK | PSI_RWLOCK_WRITELOCK | PSI_RWLOCK_TRYREADLOCK | PSI_RWLOCK_TRYWRITELOCK

datatype PSI_cond_operation = PSI_COND_WAIT | PSI_COND_TIMEDWAIT

record 'p thread_psi =
  register_mutex :: "addr \<Rightarrow> addr \<Rightarrow> int \<Rightarrow> 'p \<Rightarrow> 'p"
  init_mutex :: "nat \<Rightarrow> addr \<Rightarrow> 'p \<Rightarrow> nat option \<times> 'p"
  destroy_mutex :: "nat \<Rightarrow> 'p \<Rightarrow> 'p"
  start_mutex_wait :: "nat \<Rightarrow> PSI_mutex_operation \<Rightarrow> string \<Rightarrow> nat \<Rightarrow> 'p \<Rightarrow> nat option \<times> 'p"
  end_mutex_wait :: "nat \<Rightarrow> int \<Rightarrow> 'p \<Rightarrow> 'p"
  unlock_mutex :: "nat \<Rightarrow> 'p \<Rightarrow> 'p"
  register_rwlock :: "addr \<Rightarrow> addr \<Rightarrow> int \<Rightarrow> 'p \<Rightarrow> 'p"
  init_rwlock :: "nat \<Rightarrow> addr \<Rightarrow> 'p \<Rightarrow> nat option \<times> 'p"
  destroy_rwlock :: "nat \<Rightarrow> 'p \<Rightarrow> 'p"
  start_rwlock_rdwait :: "nat \<Rightarrow> PSI_rwlock_operation \<Rightarrow> string \<Rightarrow> nat \<Rightarrow> 'p \<Rightarrow> nat option \<times> 'p"
  end_rwlock_rdwait :: "nat \<Rightarrow> int \<Rightarrow> 'p \<Rightarrow> 'p"
  start_rwlock_wrwait :: "nat \<Rightarrow> PSI_rwlock_operation \<Rightarrow> string \<Rightarrow> nat \<Rightarrow> 'p \<Rightarrow> nat option \<times> 'p"
  end_rwlock_wrwait :: "nat \<Rightarrow> int \<Rightarrow> 'p \<Rightarrow> 'p"
  unlock_rwlock :: "nat \<Rightarrow> 'p \<Rightarrow> 'p"
  register_cond :: "addr \<Rightarrow> addr \<Rightarrow> int \<Rightarrow> 'p \<Rightarrow> 'p"
  init_cond :: "nat \<Rightarrow> addr \<Rightarrow> 'p \<Rightarrow> nat option \<times> 'p"
  destroy_cond :: "nat \<Rightarrow> 'p \<Rightarrow> 'p"
  start_cond_wait :: "nat \<Rightarrow> nat option \<Rightarrow> PSI_cond_operation \<Rightarrow> string \<Rightarrow> nat \<Rightarrow> 'p \<Rightarrow> nat option \<times> 'p"
  end_cond_wait :: "nat \<Rightarrow> int \<Rightarrow> 'p \<Rightarrow> 'p"
  signal_cond :: "nat \<Rightarrow> 'p \<Rightarrow> 'p"
  broadcast_cond :: "nat \<Rightarrow> 'p \<Rightarrow> 'p"
  register_thread :: "addr \<Rightarrow> addr \<Rightarrow> int \<Rightarrow> 'p \<Rightarrow> 'p"
  get_thread :: "'p \<Rightarrow> nat option"
  set_thread_id :: "nat option \<Rightarrow> nat \<Rightarrow> 'p \<Rightarrow> 'p"
  set_thread_THD :: "nat option \<Rightarrow> addr \<Rightarrow> 'p \<Rightarrow> 'p"

record 'w prlocks =
  rw_pr_init :: "addr \<Rightarrow> 'w \<Rightarrow> int \<times> 'w"
  rw_pr_rdlock :: "addr \<Rightarrow> 'w \<Rightarrow> int \<times> 'w"
  rw_pr_wrlock :: "addr \<Rightarrow> 'w \<Rightarrow> int \<times> 'w"
  rw_pr_unlock :: "addr \<Rightarrow> 'w \<Rightarrow> int \<times> 'w"
  rw_pr_destroy :: "addr \<Rightarrow> 'w \<Rightarrow> int \<times> 'w"

record ('w, 'p) thread_world =
  locks :: "'w sync_world"
  schema :: 'p

text \<open>
  A build: which hooks are compiled in, the platform, the locks that prefer readers and the
  performance schema, which also starts the instrumented threads.
\<close>

record ('w, 'p) thread_env =
  HAVE_PSI_MUTEX_INTERFACE :: bool
  HAVE_PSI_RWLOCK_INTERFACE :: bool
  HAVE_PSI_COND_INTERFACE :: bool
  HAVE_PSI_THREAD_INTERFACE :: bool
  platform :: "'w sync_env"
  pr :: "'w prlocks"
  service :: "'p thread_psi"
  spawn_thread :: "nat \<Rightarrow> addr \<Rightarrow> addr \<Rightarrow> addr \<Rightarrow> addr \<Rightarrow> ('w, 'p) thread_world \<Rightarrow> int \<times> ('w, 'p) thread_world"

text \<open>The instrumented objects: a hook and the address of the lock.\<close>

record hooked =
  m_psi :: "nat option"

record mysql_mutex_t = hooked +
  m_mutex :: addr

record mysql_rwlock_t = hooked +
  m_rwlock :: addr

record mysql_prlock_t = hooked +
  m_prlock :: addr

record mysql_cond_t = hooked +
  m_cond :: addr

section \<open>Calls and reports\<close>

definition on_locks ::
  "('w sync_world \<Rightarrow> 'r \<times> 'w sync_world) \<Rightarrow> ('w, 'p) thread_world \<Rightarrow> 'r \<times> ('w, 'p) thread_world" where
  "on_locks f w = (let (r, l) = f (locks w) in (r, w\<lparr>locks := l\<rparr>))"

definition report :: "('p \<Rightarrow> 'p) \<Rightarrow> ('w, 'p) thread_world \<Rightarrow> ('w, 'p) thread_world" where
  "report f w = w\<lparr>schema := f (schema w)\<rparr>"

definition registers :: "bool \<Rightarrow> ('p \<Rightarrow> 'p) \<Rightarrow> ('w, 'p) thread_world \<Rightarrow> ('w, 'p) thread_world" where
  "registers have f w = (if have then report f w else w)"

text \<open>The hook of an object, which counts only where the build has hooks.\<close>

definition hook :: "bool \<Rightarrow> 'a hooked_scheme \<Rightarrow> nat option" where
  "hook have that = (if have then m_psi that else None)"

text \<open>An object is created: the hook first, then the lock.\<close>

definition initialised ::
  "bool \<Rightarrow> ('p \<Rightarrow> nat option \<times> 'p) \<Rightarrow> ('w sync_world \<Rightarrow> int \<times> 'w sync_world) \<Rightarrow> 'a hooked_scheme \<Rightarrow>
   ('w, 'p) thread_world \<Rightarrow> (int \<times> 'a hooked_scheme) \<times> ('w, 'p) thread_world" where
  "initialised have init op that w =
     (let (psi, p) = (if have then init (schema w) else (None, schema w));
          (result, w1) = on_locks op (w\<lparr>schema := p\<rparr>)
      in ((result, that\<lparr>m_psi := psi\<rparr>), w1))"

text \<open>An object is destroyed: a hook is reported and cleared, then the lock goes.\<close>

definition destroyed ::
  "bool \<Rightarrow> (nat \<Rightarrow> 'p \<Rightarrow> 'p) \<Rightarrow> ('w sync_world \<Rightarrow> int \<times> 'w sync_world) \<Rightarrow> 'a hooked_scheme \<Rightarrow>
   ('w, 'p) thread_world \<Rightarrow> (int \<times> 'a hooked_scheme) \<times> ('w, 'p) thread_world" where
  "destroyed have destroy op that w =
     (let (that', w0) = (case hook have that of
            None \<Rightarrow> (that, w)
          | Some psi \<Rightarrow> (that\<lparr>m_psi := None\<rparr>, report (destroy psi) w));
          (result, w1) = on_locks op w0
      in ((result, that'), w1))"

text \<open>
  An operation that may wait: with a hook the wait is started, the operation runs, and its
  result is reported if there is a locker.
\<close>

definition begin_wait ::
  "(nat \<Rightarrow> 'p \<Rightarrow> nat option \<times> 'p) \<Rightarrow> nat \<Rightarrow> ('w, 'p) thread_world \<Rightarrow> nat option \<times> ('w, 'p) thread_world" where
  "begin_wait start psi w = (let (locker, p) = start psi (schema w) in (locker, w\<lparr>schema := p\<rparr>))"

definition finish_wait ::
  "(nat \<Rightarrow> int \<Rightarrow> 'p \<Rightarrow> 'p) \<Rightarrow> nat option \<Rightarrow> int \<Rightarrow> ('w, 'p) thread_world \<Rightarrow> ('w, 'p) thread_world" where
  "finish_wait stop locker result w =
     (case locker of None \<Rightarrow> w | Some l \<Rightarrow> report (stop l result) w)"

definition instrumented ::
  "bool \<Rightarrow> (nat \<Rightarrow> 'p \<Rightarrow> nat option \<times> 'p) \<Rightarrow> (nat \<Rightarrow> int \<Rightarrow> 'p \<Rightarrow> 'p) \<Rightarrow> 'a hooked_scheme \<Rightarrow>
   ('w sync_world \<Rightarrow> int \<times> 'w sync_world) \<Rightarrow> ('w, 'p) thread_world \<Rightarrow> int \<times> ('w, 'p) thread_world" where
  "instrumented have start stop that op w =
     (case hook have that of
        None \<Rightarrow> on_locks op w
      | Some psi \<Rightarrow>
          let (locker, w0) = begin_wait start psi w;
              (result, w1) = on_locks op w0
          in (result, finish_wait stop locker result w1))"

text \<open>An operation that is reported before it is done.\<close>

definition reported ::
  "bool \<Rightarrow> (nat \<Rightarrow> 'p \<Rightarrow> 'p) \<Rightarrow> 'a hooked_scheme \<Rightarrow> ('w sync_world \<Rightarrow> int \<times> 'w sync_world) \<Rightarrow>
   ('w, 'p) thread_world \<Rightarrow> int \<times> ('w, 'p) thread_world" where
  "reported have tell that op w =
     on_locks op (case hook have that of None \<Rightarrow> w | Some psi \<Rightarrow> report (tell psi) w)"

section \<open>Mutexes\<close>

definition inline_mysql_mutex_register ::
  "('w, 'p) thread_env \<Rightarrow> addr \<Rightarrow> addr \<Rightarrow> int \<Rightarrow> ('w, 'p) thread_world \<Rightarrow>
   ('w, 'p) thread_world" where
  "inline_mysql_mutex_register e category info count =
     registers (HAVE_PSI_MUTEX_INTERFACE e) (register_mutex (service e) category info count)"

definition inline_mysql_mutex_init ::
  "('w, 'p) thread_env \<Rightarrow> nat \<Rightarrow> mysql_mutex_t \<Rightarrow> addr \<Rightarrow> string \<Rightarrow> nat \<Rightarrow> ('w, 'p) thread_world \<Rightarrow>
   (int \<times> mysql_mutex_t) \<times> ('w, 'p) thread_world" where
  "inline_mysql_mutex_init e key that attr src_file src_line =
     initialised (HAVE_PSI_MUTEX_INTERFACE e) (init_mutex (service e) key (m_mutex that))
       (my_mutex_init (platform e) (m_mutex that) attr src_file src_line) that"

definition inline_mysql_mutex_destroy ::
  "('w, 'p) thread_env \<Rightarrow> mysql_mutex_t \<Rightarrow> string \<Rightarrow> nat \<Rightarrow> ('w, 'p) thread_world \<Rightarrow>
   (int \<times> mysql_mutex_t) \<times> ('w, 'p) thread_world" where
  "inline_mysql_mutex_destroy e that src_file src_line =
     destroyed (HAVE_PSI_MUTEX_INTERFACE e) (destroy_mutex (service e))
       (my_mutex_destroy (platform e) (m_mutex that) src_file src_line) that"

definition inline_mysql_mutex_lock ::
  "('w, 'p) thread_env \<Rightarrow> mysql_mutex_t \<Rightarrow> string \<Rightarrow> nat \<Rightarrow> ('w, 'p) thread_world \<Rightarrow>
   int \<times> ('w, 'p) thread_world" where
  "inline_mysql_mutex_lock e that src_file src_line =
     instrumented (HAVE_PSI_MUTEX_INTERFACE e)
       (\<lambda>psi. start_mutex_wait (service e) psi PSI_MUTEX_LOCK src_file src_line)
       (end_mutex_wait (service e)) that (my_mutex_lock (platform e) (m_mutex that) src_file src_line)"

definition inline_mysql_mutex_trylock ::
  "('w, 'p) thread_env \<Rightarrow> mysql_mutex_t \<Rightarrow> string \<Rightarrow> nat \<Rightarrow> ('w, 'p) thread_world \<Rightarrow>
   int \<times> ('w, 'p) thread_world" where
  "inline_mysql_mutex_trylock e that src_file src_line =
     instrumented (HAVE_PSI_MUTEX_INTERFACE e)
       (\<lambda>psi. start_mutex_wait (service e) psi PSI_MUTEX_TRYLOCK src_file src_line)
       (end_mutex_wait (service e)) that (my_mutex_trylock (platform e) (m_mutex that) src_file src_line)"

definition inline_mysql_mutex_unlock ::
  "('w, 'p) thread_env \<Rightarrow> mysql_mutex_t \<Rightarrow> string \<Rightarrow> nat \<Rightarrow> ('w, 'p) thread_world \<Rightarrow>
   int \<times> ('w, 'p) thread_world" where
  "inline_mysql_mutex_unlock e that src_file src_line =
     reported (HAVE_PSI_MUTEX_INTERFACE e) (unlock_mutex (service e)) that
       (my_mutex_unlock (platform e) (m_mutex that) src_file src_line)"

section \<open>Read-write locks\<close>

definition inline_mysql_rwlock_register ::
  "('w, 'p) thread_env \<Rightarrow> addr \<Rightarrow> addr \<Rightarrow> int \<Rightarrow> ('w, 'p) thread_world \<Rightarrow>
   ('w, 'p) thread_world" where
  "inline_mysql_rwlock_register e category info count =
     registers (HAVE_PSI_RWLOCK_INTERFACE e) (register_rwlock (service e) category info count)"

definition inline_mysql_rwlock_init ::
  "('w, 'p) thread_env \<Rightarrow> nat \<Rightarrow> mysql_rwlock_t \<Rightarrow> ('w, 'p) thread_world \<Rightarrow>
   (int \<times> mysql_rwlock_t) \<times> ('w, 'p) thread_world" where
  "inline_mysql_rwlock_init e key that =
     initialised (HAVE_PSI_RWLOCK_INTERFACE e) (init_rwlock (service e) key (m_rwlock that))
       (native_rw_init (platform e) (m_rwlock that)) that"

definition inline_mysql_rwlock_destroy ::
  "('w, 'p) thread_env \<Rightarrow> mysql_rwlock_t \<Rightarrow> ('w, 'p) thread_world \<Rightarrow>
   (int \<times> mysql_rwlock_t) \<times> ('w, 'p) thread_world" where
  "inline_mysql_rwlock_destroy e that =
     destroyed (HAVE_PSI_RWLOCK_INTERFACE e) (destroy_rwlock (service e))
       (native_rw_destroy (platform e) (m_rwlock that)) that"

definition inline_mysql_rwlock_rdlock ::
  "('w, 'p) thread_env \<Rightarrow> mysql_rwlock_t \<Rightarrow> string \<Rightarrow> nat \<Rightarrow> ('w, 'p) thread_world \<Rightarrow>
   int \<times> ('w, 'p) thread_world" where
  "inline_mysql_rwlock_rdlock e that src_file src_line =
     instrumented (HAVE_PSI_RWLOCK_INTERFACE e)
       (\<lambda>psi. start_rwlock_rdwait (service e) psi PSI_RWLOCK_READLOCK src_file src_line)
       (end_rwlock_rdwait (service e)) that (native_rw_rdlock (platform e) (m_rwlock that))"

definition inline_mysql_rwlock_wrlock ::
  "('w, 'p) thread_env \<Rightarrow> mysql_rwlock_t \<Rightarrow> string \<Rightarrow> nat \<Rightarrow> ('w, 'p) thread_world \<Rightarrow>
   int \<times> ('w, 'p) thread_world" where
  "inline_mysql_rwlock_wrlock e that src_file src_line =
     instrumented (HAVE_PSI_RWLOCK_INTERFACE e)
       (\<lambda>psi. start_rwlock_wrwait (service e) psi PSI_RWLOCK_WRITELOCK src_file src_line)
       (end_rwlock_wrwait (service e)) that (native_rw_wrlock (platform e) (m_rwlock that))"

definition inline_mysql_rwlock_tryrdlock ::
  "('w, 'p) thread_env \<Rightarrow> mysql_rwlock_t \<Rightarrow> string \<Rightarrow> nat \<Rightarrow> ('w, 'p) thread_world \<Rightarrow>
   int \<times> ('w, 'p) thread_world" where
  "inline_mysql_rwlock_tryrdlock e that src_file src_line =
     instrumented (HAVE_PSI_RWLOCK_INTERFACE e)
       (\<lambda>psi. start_rwlock_rdwait (service e) psi PSI_RWLOCK_TRYREADLOCK src_file src_line)
       (end_rwlock_rdwait (service e)) that (native_rw_tryrdlock (platform e) (m_rwlock that))"

definition inline_mysql_rwlock_trywrlock ::
  "('w, 'p) thread_env \<Rightarrow> mysql_rwlock_t \<Rightarrow> string \<Rightarrow> nat \<Rightarrow> ('w, 'p) thread_world \<Rightarrow>
   int \<times> ('w, 'p) thread_world" where
  "inline_mysql_rwlock_trywrlock e that src_file src_line =
     instrumented (HAVE_PSI_RWLOCK_INTERFACE e)
       (\<lambda>psi. start_rwlock_wrwait (service e) psi PSI_RWLOCK_TRYWRITELOCK src_file src_line)
       (end_rwlock_wrwait (service e)) that (native_rw_trywrlock (platform e) (m_rwlock that))"

definition inline_mysql_rwlock_unlock ::
  "('w, 'p) thread_env \<Rightarrow> mysql_rwlock_t \<Rightarrow> ('w, 'p) thread_world \<Rightarrow>
   int \<times> ('w, 'p) thread_world" where
  "inline_mysql_rwlock_unlock e that =
     reported (HAVE_PSI_RWLOCK_INTERFACE e) (unlock_rwlock (service e)) that
       (native_rw_unlock (platform e) (m_rwlock that))"

definition inline_mysql_prlock_init ::
  "('w, 'p) thread_env \<Rightarrow> nat \<Rightarrow> mysql_prlock_t \<Rightarrow> ('w, 'p) thread_world \<Rightarrow>
   (int \<times> mysql_prlock_t) \<times> ('w, 'p) thread_world" where
  "inline_mysql_prlock_init e key that =
     initialised (HAVE_PSI_RWLOCK_INTERFACE e) (init_rwlock (service e) key (m_prlock that))
       (sys_call (rw_pr_init (pr e) (m_prlock that))) that"

definition inline_mysql_prlock_destroy ::
  "('w, 'p) thread_env \<Rightarrow> mysql_prlock_t \<Rightarrow> ('w, 'p) thread_world \<Rightarrow>
   (int \<times> mysql_prlock_t) \<times> ('w, 'p) thread_world" where
  "inline_mysql_prlock_destroy e that =
     destroyed (HAVE_PSI_RWLOCK_INTERFACE e) (destroy_rwlock (service e))
       (sys_call (rw_pr_destroy (pr e) (m_prlock that))) that"

definition inline_mysql_prlock_rdlock ::
  "('w, 'p) thread_env \<Rightarrow> mysql_prlock_t \<Rightarrow> string \<Rightarrow> nat \<Rightarrow> ('w, 'p) thread_world \<Rightarrow>
   int \<times> ('w, 'p) thread_world" where
  "inline_mysql_prlock_rdlock e that src_file src_line =
     instrumented (HAVE_PSI_RWLOCK_INTERFACE e)
       (\<lambda>psi. start_rwlock_rdwait (service e) psi PSI_RWLOCK_READLOCK src_file src_line)
       (end_rwlock_rdwait (service e)) that (sys_call (rw_pr_rdlock (pr e) (m_prlock that)))"

definition inline_mysql_prlock_wrlock ::
  "('w, 'p) thread_env \<Rightarrow> mysql_prlock_t \<Rightarrow> string \<Rightarrow> nat \<Rightarrow> ('w, 'p) thread_world \<Rightarrow>
   int \<times> ('w, 'p) thread_world" where
  "inline_mysql_prlock_wrlock e that src_file src_line =
     instrumented (HAVE_PSI_RWLOCK_INTERFACE e)
       (\<lambda>psi. start_rwlock_wrwait (service e) psi PSI_RWLOCK_WRITELOCK src_file src_line)
       (end_rwlock_wrwait (service e)) that (sys_call (rw_pr_wrlock (pr e) (m_prlock that)))"

definition inline_mysql_prlock_unlock ::
  "('w, 'p) thread_env \<Rightarrow> mysql_prlock_t \<Rightarrow> ('w, 'p) thread_world \<Rightarrow>
   int \<times> ('w, 'p) thread_world" where
  "inline_mysql_prlock_unlock e that =
     reported (HAVE_PSI_RWLOCK_INTERFACE e) (unlock_rwlock (service e)) that
       (sys_call (rw_pr_unlock (pr e) (m_prlock that)))"

section \<open>Conditions\<close>

definition inline_mysql_cond_register ::
  "('w, 'p) thread_env \<Rightarrow> addr \<Rightarrow> addr \<Rightarrow> int \<Rightarrow> ('w, 'p) thread_world \<Rightarrow>
   ('w, 'p) thread_world" where
  "inline_mysql_cond_register e category info count =
     registers (HAVE_PSI_COND_INTERFACE e) (register_cond (service e) category info count)"

definition inline_mysql_cond_init ::
  "('w, 'p) thread_env \<Rightarrow> nat \<Rightarrow> mysql_cond_t \<Rightarrow> ('w, 'p) thread_world \<Rightarrow>
   (int \<times> mysql_cond_t) \<times> ('w, 'p) thread_world" where
  "inline_mysql_cond_init e key that =
     initialised (HAVE_PSI_COND_INTERFACE e) (init_cond (service e) key (m_cond that))
       (native_cond_init (platform e) (m_cond that)) that"

definition inline_mysql_cond_destroy ::
  "('w, 'p) thread_env \<Rightarrow> mysql_cond_t \<Rightarrow> ('w, 'p) thread_world \<Rightarrow>
   (int \<times> mysql_cond_t) \<times> ('w, 'p) thread_world" where
  "inline_mysql_cond_destroy e that =
     destroyed (HAVE_PSI_COND_INTERFACE e) (destroy_cond (service e))
       (native_cond_destroy (platform e) (m_cond that)) that"

definition inline_mysql_cond_wait ::
  "('w, 'p) thread_env \<Rightarrow> mysql_cond_t \<Rightarrow> mysql_mutex_t \<Rightarrow> string \<Rightarrow> nat \<Rightarrow> ('w, 'p) thread_world \<Rightarrow>
   int \<times> ('w, 'p) thread_world" where
  "inline_mysql_cond_wait e that mutex src_file src_line =
     instrumented (HAVE_PSI_COND_INTERFACE e)
       (\<lambda>psi. start_cond_wait (service e) psi (m_psi mutex) PSI_COND_WAIT src_file src_line)
       (end_cond_wait (service e)) that
       (my_cond_wait (platform e) (m_cond that) (m_mutex mutex) src_file src_line)"

text \<open>
  The timeout is computed inside the call, so a time that overflows stops it after the wait was
  started.
\<close>

definition on_locks_res ::
  "('w sync_world \<Rightarrow> ('r \<times> 'w sync_world) res) \<Rightarrow> ('w, 'p) thread_world \<Rightarrow> ('r \<times> ('w, 'p) thread_world) res" where
  "on_locks_res f w = rbind (f (locks w)) (\<lambda>(r, l). Inr (r, w\<lparr>locks := l\<rparr>))"

definition inline_mysql_cond_timedwait ::
  "('w, 'p) thread_env \<Rightarrow> mysql_cond_t \<Rightarrow> mysql_mutex_t \<Rightarrow> timespec \<Rightarrow> string \<Rightarrow> nat \<Rightarrow> ('w, 'p) thread_world \<Rightarrow>
   (int \<times> ('w, 'p) thread_world) res" where
  "inline_mysql_cond_timedwait e that mutex abstime src_file src_line w =
     (let op = my_cond_timedwait (platform e) (m_cond that) (m_mutex mutex) abstime src_file src_line
      in case hook (HAVE_PSI_COND_INTERFACE e) that of
           None \<Rightarrow> on_locks_res op w
         | Some psi \<Rightarrow>
             let (locker, w0) = begin_wait (\<lambda>psi. start_cond_wait (service e) psi (m_psi mutex)
                   PSI_COND_TIMEDWAIT src_file src_line) psi w
             in rbind (on_locks_res op w0) (\<lambda>(result, w1).
                  Inr (result, finish_wait (end_cond_wait (service e)) locker result w1)))"

definition inline_mysql_cond_signal ::
  "('w, 'p) thread_env \<Rightarrow> mysql_cond_t \<Rightarrow> ('w, 'p) thread_world \<Rightarrow>
   int \<times> ('w, 'p) thread_world" where
  "inline_mysql_cond_signal e that =
     reported (HAVE_PSI_COND_INTERFACE e) (signal_cond (service e)) that
       (native_cond_signal (platform e) (m_cond that))"

definition inline_mysql_cond_broadcast ::
  "('w, 'p) thread_env \<Rightarrow> mysql_cond_t \<Rightarrow> ('w, 'p) thread_world \<Rightarrow>
   int \<times> ('w, 'p) thread_world" where
  "inline_mysql_cond_broadcast e that =
     reported (HAVE_PSI_COND_INTERFACE e) (broadcast_cond (service e)) that
       (native_cond_broadcast (platform e) (m_cond that))"

section \<open>Threads\<close>

definition inline_mysql_thread_register ::
  "('w, 'p) thread_env \<Rightarrow> addr \<Rightarrow> addr \<Rightarrow> int \<Rightarrow> ('w, 'p) thread_world \<Rightarrow>
   ('w, 'p) thread_world" where
  "inline_mysql_thread_register e category info count =
     registers (HAVE_PSI_THREAD_INTERFACE e) (register_thread (service e) category info count)"

definition inline_mysql_thread_create ::
  "('w, 'p) thread_env \<Rightarrow> nat \<Rightarrow> addr \<Rightarrow> addr \<Rightarrow> addr \<Rightarrow> addr \<Rightarrow> ('w, 'p) thread_world \<Rightarrow>
   int \<times> ('w, 'p) thread_world" where
  "inline_mysql_thread_create e key thread attr start_routine arg =
     spawn_thread e key thread attr start_routine arg"

definition inline_mysql_thread_set_psi_id ::
  "('w, 'p) thread_env \<Rightarrow> nat \<Rightarrow> ('w, 'p) thread_world \<Rightarrow> ('w, 'p) thread_world" where
  "inline_mysql_thread_set_psi_id e tid w =
     (let psi = get_thread (service e) (schema w) in report (set_thread_id (service e) psi tid) w)"

definition inline_mysql_thread_set_psi_THD ::
  "('w, 'p) thread_env \<Rightarrow> addr \<Rightarrow> ('w, 'p) thread_world \<Rightarrow> ('w, 'p) thread_world" where
  "inline_mysql_thread_set_psi_THD e thd w =
     (let psi = get_thread (service e) (schema w) in report (set_thread_THD (service e) psi thd) w)"

section \<open>What the program sees\<close>

definition lock_view :: "'r \<times> ('w, 'p) thread_world \<Rightarrow> 'r \<times> 'w sync_world" where
  "lock_view rw = (fst rw, locks (snd rw))"

lemma report_locks [simp]: "locks (report f w) = locks w" "schema (report f w) = f (schema w)"
  by (simp_all add: report_def)

lemma begin_wait_locks [simp]: "locks (snd (begin_wait start psi w)) = locks w"
  by (simp add: begin_wait_def split_beta)

lemma finish_wait_locks [simp]: "locks (finish_wait stop locker result w) = locks w"
  by (simp add: finish_wait_def split: option.split)

lemma on_locks_simps [simp]:
  "fst (on_locks f w) = fst (f (locks w))" "locks (snd (on_locks f w)) = snd (f (locks w))"
  "schema (snd (on_locks f w)) = schema w"
  by (simp_all add: on_locks_def split_beta Let_def)

text \<open>Whatever the hook and the performance schema, the lock sees one call.\<close>

lemma instrumented_view: "lock_view (instrumented have start stop that op w) = op (locks w)"
  by (simp add: lock_view_def instrumented_def split_beta Let_def split: option.split)

lemma reported_view: "lock_view (reported have tell that op w) = op (locks w)"
  by (simp add: lock_view_def reported_def split: option.split)

lemma initialised_view:
  "map_prod fst id (lock_view (initialised have init op that w)) = op (locks w)"
  by (simp add: lock_view_def initialised_def split_beta Let_def)

lemma destroyed_view:
  "map_prod fst id (lock_view (destroyed have destroy op that w)) = op (locks w)"
  by (simp add: lock_view_def destroyed_def split_beta Let_def split: option.split)

lemma registers_view: "locks (registers have f w) = locks w"
  by (simp add: registers_def)

lemma timedwait_view:
  "rbind (inline_mysql_cond_timedwait e that mutex abstime src_file src_line w) (\<lambda>rw. Inr (lock_view rw)) =
     my_cond_timedwait (platform e) (m_cond that) (m_mutex mutex) abstime src_file src_line (locks w)"
  by (cases "my_cond_timedwait (platform e) (m_cond that) (m_mutex mutex) abstime src_file src_line (locks w)")
     (auto simp: inline_mysql_cond_timedwait_def on_locks_res_def lock_view_def split_beta Let_def
       split: option.split)

lemmas mutex_calls = inline_mysql_mutex_lock_def inline_mysql_mutex_trylock_def inline_mysql_mutex_unlock_def
  inline_mysql_mutex_init_def inline_mysql_mutex_destroy_def

lemmas rwlock_calls = inline_mysql_rwlock_rdlock_def inline_mysql_rwlock_wrlock_def
  inline_mysql_rwlock_tryrdlock_def inline_mysql_rwlock_trywrlock_def inline_mysql_rwlock_unlock_def
  inline_mysql_rwlock_init_def inline_mysql_rwlock_destroy_def

lemmas prlock_calls = inline_mysql_prlock_rdlock_def inline_mysql_prlock_wrlock_def
  inline_mysql_prlock_unlock_def inline_mysql_prlock_init_def inline_mysql_prlock_destroy_def

lemmas cond_calls = inline_mysql_cond_wait_def inline_mysql_cond_signal_def
  inline_mysql_cond_broadcast_def inline_mysql_cond_init_def inline_mysql_cond_destroy_def

lemmas call_views = instrumented_view reported_view initialised_view destroyed_view registers_view timedwait_view

text \<open>A destroyed object has no hook, and an operation on an object without a hook tells nothing.\<close>

lemma destroyed_hook: "hook have (snd (fst (destroyed have destroy op that w))) = None"
  by (simp add: destroyed_def hook_def split_beta Let_def split: option.split)

lemma unhooked_silent:
  assumes "hook have that = None"
  shows "schema (snd (instrumented have start stop that op w)) = schema w"
    and "schema (snd (reported have tell that op w)) = schema w"
  using assms by (simp_all add: instrumented_def reported_def)

section \<open>Threads at one mutex, as the performance schema sees them\<close>

text \<open>
  A mutex as documented, with the thread that runs: locking returns when the mutex is free,
  trying says \<open>EBUSY\<close> when it is not. The performance schema writes down the end of each wait,
  with its result, and each unlock.
\<close>

record owned =
  running :: nat
  owner :: "nat option"

datatype mutex_event = Ended nat int | Unlocked nat

record 'p recording =
  current :: nat
  log :: "mutex_event list"
  rest :: 'p

definition take_mutex :: "owned \<Rightarrow> owned" where
  "take_mutex s = s\<lparr>owner := Some (running s)\<rparr>"

definition one_mutex :: "(owned, 'p recording) thread_env \<Rightarrow> addr \<Rightarrow> bool" where
  "one_mutex e m \<longleftrightarrow> \<not> WIN32 (platform e) \<and> \<not> SAFE_MUTEX (platform e) \<and> EBUSY (platform e) \<noteq> 0 \<and>
     pthread_mutex_lock (pth (platform e)) m = (\<lambda>s. (0, take_mutex s)) \<and>
     pthread_mutex_trylock (pth (platform e)) m =
       (\<lambda>s. if owner s = None then (0, take_mutex s) else (EBUSY (platform e), s)) \<and>
     pthread_mutex_unlock (pth (platform e)) m = (\<lambda>s. (0, s\<lparr>owner := None\<rparr>))"

definition writes_down :: "(owned, 'p recording) thread_env \<Rightarrow> bool" where
  "writes_down e \<longleftrightarrow> HAVE_PSI_MUTEX_INTERFACE e \<and>
     (\<forall>psi op src_file src_line p.
        log (snd (start_mutex_wait (service e) psi op src_file src_line p)) = log p \<and>
        current (snd (start_mutex_wait (service e) psi op src_file src_line p)) = current p) \<and>
     (\<forall>l r p. log (end_mutex_wait (service e) l r p) = log p @ [Ended (current p) r] \<and>
        current (end_mutex_wait (service e) l r p) = current p) \<and>
     (\<forall>psi p. log (unlock_mutex (service e) psi p) = log p @ [Unlocked (current p)] \<and>
        current (unlock_mutex (service e) psi p) = current p)"

text \<open>The owner that follows from the log; an impossible sequence has none.\<close>

fun seen_owner :: "nat option \<Rightarrow> mutex_event list \<Rightarrow> nat option option" where
  "seen_owner who [] = Some who"
| "seen_owner who (Ended t r # es) =
     (if r \<noteq> 0 then seen_owner who es else if who = None then seen_owner (Some t) es else None)"
| "seen_owner who (Unlocked t # es) =
     (if who = None \<or> who = Some t then seen_owner None es else None)"

lemma seen_append:
  "seen_owner who (es @ fs) = (case seen_owner who es of None \<Rightarrow> None | Some who' \<Rightarrow> seen_owner who' fs)"
  by (induction who es rule: seen_owner.induct) auto

datatype mutex_pc =
    Away
  | Waiting PSI_mutex_operation "nat option"
  | Returned "nat option" int
  | Inside
  | Told

record 'p mutex_run =
  mworld :: "(owned, 'p recording) thread_world"
  mpc :: "nat \<Rightarrow> mutex_pc"

definition switch :: "nat \<Rightarrow> (owned, 'p recording) thread_world \<Rightarrow> (owned, 'p recording) thread_world" where
  "switch t w = \<lparr>locks = (locks w)\<lparr>sys := (sys (locks w))\<lparr>running := t\<rparr>\<rparr>, schema = (schema w)\<lparr>current := t\<rparr>\<rparr>"

definition moves :: "nat \<Rightarrow> mutex_pc \<Rightarrow> (owned, 'p recording) thread_world \<Rightarrow> 'p mutex_run \<Rightarrow> 'p mutex_run" where
  "moves t p w s = \<lparr>mworld = w, mpc = (mpc s)(t := p)\<rparr>"

text \<open>The calls that make up the operations, each a step of its thread.\<close>

inductive mutex_step ::
  "(owned, 'p recording) thread_env \<Rightarrow> mysql_mutex_t \<Rightarrow> nat \<Rightarrow> string \<Rightarrow> nat \<Rightarrow> 'p mutex_run \<Rightarrow> 'p mutex_run \<Rightarrow> bool"
  for e :: "(owned, 'p recording) thread_env" and that :: mysql_mutex_t and psi :: nat and src_file :: string and src_line :: nat where
  start: "mpc s t = Away \<Longrightarrow>
    begin_wait (\<lambda>psi. start_mutex_wait (service e) psi op src_file src_line) psi (switch t (mworld s)) = (l, w) \<Longrightarrow>
    mutex_step e that psi src_file src_line s (moves t (Waiting op l) w s)"
| lock: "mpc s t = Waiting PSI_MUTEX_LOCK l \<Longrightarrow> owner (sys (locks (mworld s))) = None \<Longrightarrow>
    on_locks (my_mutex_lock (platform e) (m_mutex that) src_file src_line) (switch t (mworld s)) = (r, w) \<Longrightarrow>
    mutex_step e that psi src_file src_line s (moves t (Returned l r) w s)"
| trylock: "mpc s t = Waiting PSI_MUTEX_TRYLOCK l \<Longrightarrow>
    on_locks (my_mutex_trylock (platform e) (m_mutex that) src_file src_line) (switch t (mworld s)) = (r, w) \<Longrightarrow>
    mutex_step e that psi src_file src_line s (moves t (Returned l r) w s)"
| finish: "mpc s t = Returned l r \<Longrightarrow>
    mutex_step e that psi src_file src_line s
      (moves t (if r = 0 then Inside else Away)
        (finish_wait (end_mutex_wait (service e)) l r (switch t (mworld s))) s)"
| tell: "mpc s t = Inside \<Longrightarrow>
    mutex_step e that psi src_file src_line s (moves t Told (report (unlock_mutex (service e) psi) (switch t (mworld s))) s)"
| unlock: "mpc s t = Told \<Longrightarrow>
    on_locks (my_mutex_unlock (platform e) (m_mutex that) src_file src_line) (switch t (mworld s)) = (r, w) \<Longrightarrow>
    mutex_step e that psi src_file src_line s (moves t Away w s)"

lemma switch_simps [simp]:
  "sys (locks (switch t w)) = (sys (locks w))\<lparr>running := t\<rparr>"
  "schema (switch t w) = (schema w)\<lparr>current := t\<rparr>"
  by (simp_all add: switch_def)

lemma moves_simps [simp]: "mworld (moves t p w s) = w" "mpc (moves t p w s) = (mpc s)(t := p)"
  by (simp_all add: moves_def)

definition mutex_start :: "'p mutex_run \<Rightarrow> bool" where
  "mutex_start s \<longleftrightarrow> mpc s = (\<lambda>_. Away) \<and> owner (sys (locks (mworld s))) = None \<and> log (schema (mworld s)) = []"

text \<open>A thread holds the mutex from the return of the lock to the return of the unlock.\<close>

definition holds :: "mutex_pc \<Rightarrow> bool" where
  "holds p \<longleftrightarrow> (\<exists>l. p = Returned l 0) \<or> p = Inside \<or> p = Told"

definition mutex_ok :: "'p mutex_run \<Rightarrow> bool" where
  "mutex_ok s \<longleftrightarrow>
     (\<forall>t. owner (sys (locks (mworld s))) = Some t \<longleftrightarrow> holds (mpc s t)) \<and>
     (\<exists>who. seen_owner None (log (schema (mworld s))) = Some who \<and>
       (\<forall>t. who = Some t \<longrightarrow> mpc s t = Inside))"

lemma mutex_start_ok: "mutex_start s \<Longrightarrow> mutex_ok s"
  by (simp add: mutex_start_def mutex_ok_def holds_def)

lemma holds_simps [simp]:
  "\<not> holds Away" "\<not> holds (Waiting op l)" "holds (Returned l r) \<longleftrightarrow> r = 0" "holds Inside" "holds Told"
  by (simp_all add: holds_def)

lemma one_mutexD:
  assumes "one_mutex e (m_mutex that)"
  shows "my_mutex_lock (platform e) (m_mutex that) f n w = (0, w\<lparr>sys := take_mutex (sys w)\<rparr>)"
    and "my_mutex_trylock (platform e) (m_mutex that) f n w =
      (if owner (sys w) = None then (0, w\<lparr>sys := take_mutex (sys w)\<rparr>) else (EBUSY (platform e), w))"
    and "my_mutex_unlock (platform e) (m_mutex that) f n w = (0, w\<lparr>sys := (sys w)\<lparr>owner := None\<rparr>\<rparr>)"
    and "EBUSY (platform e) \<noteq> 0"
  using assms by (simp_all add: one_mutex_def my_mutex_lock_def my_mutex_trylock_def my_mutex_unlock_def
      native_mutex_lock_def native_mutex_trylock_def native_mutex_unlock_def sys_call_def)

text \<open>A step that leaves owner and log alone, of a thread that holds the mutex neither before nor after.\<close>

lemma mutex_ok_quiet:
  assumes "mutex_ok s" and "owner (sys (locks w)) = owner (sys (locks (mworld s)))"
    and "log (schema w) = log (schema (mworld s))" and "holds p \<longleftrightarrow> holds (mpc s t)" and "mpc s t \<noteq> Inside"
  shows "mutex_ok (moves t p w s)"
  using assms unfolding mutex_ok_def by (auto simp del: split_paired_All)

lemma mutex_ok_takes:
  assumes "mutex_ok s" and "owner (sys (locks (mworld s))) = None"
    and "owner (sys (locks w)) = Some t" and "log (schema w) = log (schema (mworld s))"
    and "holds p"
  shows "mutex_ok (moves t p w s)"
proof -
  from assms(1,2) have "\<not> holds (mpc s u)" for u by (auto simp: mutex_ok_def)
  moreover from this have "mpc s u \<noteq> Inside" for u by (metis holds_simps(4))
  ultimately show ?thesis using assms by (auto simp: mutex_ok_def)
qed

lemma mutex_ok_owner:
  assumes "mutex_ok s" and "holds (mpc s t)"
  shows "owner (sys (locks (mworld s))) = Some t" and "u \<noteq> t \<Longrightarrow> \<not> holds (mpc s u)"
    and "\<exists>who. seen_owner None (log (schema (mworld s))) = Some who \<and>
      (who = None \<or> who = Some t \<and> mpc s t = Inside)"
  using assms unfolding mutex_ok_def by (metis option.inject option.exhaust holds_simps(4))+

lemma mutex_ok_tells:
  assumes "mutex_ok s" and "holds (mpc s t)" and "owner (sys (locks w)) = Some t"
    and "log (schema w) = log (schema (mworld s)) @ es" and "holds p"
    and "\<And>who. who = None \<or> who = Some t \<and> mpc s t = Inside \<Longrightarrow>
      \<exists>who'. seen_owner who es = Some who' \<and> (\<forall>u. who' = Some u \<longrightarrow> u = t \<and> p = Inside)"
  shows "mutex_ok (moves t p w s)"
proof -
  note o = mutex_ok_owner [OF assms(1,2)]
  from o(3) obtain who where who: "seen_owner None (log (schema (mworld s))) = Some who"
    "who = None \<or> who = Some t \<and> mpc s t = Inside" by blast
  from assms(6) [OF who(2)] obtain who' where
    "seen_owner who es = Some who'" "\<forall>u. who' = Some u \<longrightarrow> u = t \<and> p = Inside" by blast
  with who(1) o(1,2) assms(3-5) show ?thesis by (auto simp: mutex_ok_def seen_append)
qed

lemma mutex_ok_leaves:
  assumes "mutex_ok s" and "mpc s t = Told" and "owner (sys (locks w)) = None"
    and "log (schema w) = log (schema (mworld s))"
  shows "mutex_ok (moves t Away w s)"
proof -
  have h: "holds (mpc s t)" by (simp add: assms(2))
  note o = mutex_ok_owner [OF assms(1) h]
  from o(3) assms(2) have "seen_owner None (log (schema (mworld s))) = Some None" by auto
  with o(2) assms(3,4) show ?thesis by (auto simp: mutex_ok_def)
qed

lemma mutex_step_ok:
  assumes "mutex_step e that psi src_file src_line s s'" and "mutex_ok s"
    and "one_mutex e (m_mutex that)" and "writes_down e"
  shows "mutex_ok s'"
  using assms(1)
proof (cases rule: mutex_step.cases)
  case (start t op l w)
  from start(3) have "w = (switch t (mworld s))\<lparr>schema :=
      snd (start_mutex_wait (service e) psi op src_file src_line (schema (switch t (mworld s))))\<rparr>"
    by (auto simp: begin_wait_def split_beta Let_def)
  with start assms(4) show ?thesis
    by (auto intro!: mutex_ok_quiet [OF assms(2)] simp: writes_down_def)
next
  case (lock t l r w)
  from lock(4) one_mutexD(1) [OF assms(3)] have r: "r = 0"
    "owner (sys (locks w)) = Some t" "log (schema w) = log (schema (mworld s))"
    by (auto simp: on_locks_def take_mutex_def)
  with lock show ?thesis by (auto intro!: mutex_ok_takes [OF assms(2)])
next
  case (trylock t l r w)
  show ?thesis
  proof (cases "owner (sys (locks (mworld s))) = None")
    case True
    with trylock(3) one_mutexD(2) [OF assms(3)] have "r = 0"
      "owner (sys (locks w)) = Some t" "log (schema w) = log (schema (mworld s))"
      by (auto simp: on_locks_def take_mutex_def)
    with trylock True show ?thesis by (auto intro!: mutex_ok_takes [OF assms(2)])
  next
    case False
    with trylock(3) one_mutexD(2,4) [OF assms(3)] have "r \<noteq> 0"
      "owner (sys (locks w)) = owner (sys (locks (mworld s)))" "log (schema w) = log (schema (mworld s))"
      by (auto simp: on_locks_def)
    with trylock show ?thesis by (auto intro!: mutex_ok_quiet [OF assms(2)])
  qed
next
  case (finish t l r)
  let ?w = "finish_wait (end_mutex_wait (service e)) l r (switch t (mworld s))"
  have log: "log (schema ?w) = log (schema (mworld s)) @ (case l of None \<Rightarrow> [] | Some _ \<Rightarrow> [Ended t r])"
    using assms(4) by (simp add: finish_wait_def writes_down_def split: option.split)
  show ?thesis
  proof (cases "r = 0")
    case True
    with finish have h: "holds (mpc s t)" by simp
    show ?thesis
      unfolding finish(1) using True finish(2) log mutex_ok_owner(1) [OF assms(2) h]
      by (intro mutex_ok_tells [OF assms(2) h _ log]) (auto split: option.split)
  next
    case False
    have "seen_owner who (case l of None \<Rightarrow> [] | Some _ \<Rightarrow> [Ended t r]) = Some who" for who
      using False by (simp split: option.split)
    with False finish(2) log assms(2) show ?thesis
      unfolding finish(1) by (auto simp: mutex_ok_def seen_append)
  qed
next
  case (tell t)
  then have h: "holds (mpc s t)" by simp
  show ?thesis
    unfolding tell(1) using tell(2) assms(4) mutex_ok_owner(1) [OF assms(2) h]
    by (intro mutex_ok_tells [OF assms(2) h]) (auto simp: writes_down_def)
next
  case (unlock t r w)
  from unlock(3) one_mutexD(3) [OF assms(3)] have
    "owner (sys (locks w)) = None" "log (schema w) = log (schema (mworld s))"
    by (auto simp: on_locks_def)
  with unlock show ?thesis by (auto intro!: mutex_ok_leaves [OF assms(2)])
qed

lemma mutex_reachable_ok:
  assumes "(mutex_step e that psi src_file src_line)\<^sup>*\<^sup>* s0 s" and "mutex_ok s0"
    and "one_mutex e (m_mutex that)" and "writes_down e"
  shows "mutex_ok s"
  using assms by (induction rule: rtranclp_induct) (auto dest: mutex_step_ok)

text \<open>The functions of the header, run without interruption, take these steps.\<close>

definition runs :: "nat \<Rightarrow> (owned, 'p recording) thread_world \<Rightarrow> bool" where
  "runs t w \<longleftrightarrow> running (sys (locks w)) = t \<and> current (schema w) = t"

lemma switch_running [simp]: "runs t w \<Longrightarrow> switch t w = w"
  by (cases w; cases "locks w"; cases "sys (locks w)"; cases "schema w") (auto simp: runs_def switch_def)

lemma runs_switch [simp]: "runs t (switch t w)"
  by (simp add: runs_def)

lemma moves_moves [simp]: "moves t p w (moves t p' w' s) = moves t p w s"
  by (simp add: moves_def)

lemma runs_calls:
  assumes "writes_down e" and "runs t w"
  shows "runs t (snd (begin_wait (\<lambda>psi. start_mutex_wait (service e) psi op src_file src_line) psi w))"
    and "runs t (report (unlock_mutex (service e) psi) w)"
    and "runs t (finish_wait (end_mutex_wait (service e)) l r w)"
  using assms
  by (auto simp: runs_def writes_down_def begin_wait_def split_beta Let_def finish_wait_def split: option.split)

text \<open>Locking, once the mutex is free, and trying to lock, whether it is or not.\<close>

lemma mutex_lock_steps:
  assumes "mpc s t = Away" and "owner (sys (locks (mworld s))) = None" and "m_psi that = Some psi"
    and "one_mutex e (m_mutex that)" and "writes_down e"
    and call: "inline_mysql_mutex_lock e that src_file src_line (switch t (mworld s)) = (r, w)"
  shows "(mutex_step e that psi src_file src_line)\<^sup>*\<^sup>* s (moves t Inside w s)" and "r = 0"
proof -
  let ?b = "begin_wait (\<lambda>psi. start_mutex_wait (service e) psi PSI_MUTEX_LOCK src_file src_line) psi (switch t (mworld s))"
  let ?c = "on_locks (my_mutex_lock (platform e) (m_mutex that) src_file src_line) (snd ?b)"
  let ?s1 = "moves t (Waiting PSI_MUTEX_LOCK (fst ?b)) (snd ?b) s"
  let ?s2 = "moves t (Returned (fst ?b) 0) (snd ?c) ?s1"
  have b: "runs t (snd ?b)" by (rule runs_calls [OF assms(5)]) simp
  have c: "fst ?c = 0" "runs t (snd ?c)"
    using b one_mutexD(1) [OF assms(4)] by (auto simp: runs_def take_mutex_def on_locks_def)
  have "hook (HAVE_PSI_MUTEX_INTERFACE e) that = Some psi"
    using assms(3,5) by (simp add: hook_def writes_down_def)
  with call c have r: "r = 0" "w = finish_wait (end_mutex_wait (service e)) (fst ?b) 0 (snd ?c)"
    by (auto simp: inline_mysql_mutex_lock_def instrumented_def split_beta Let_def)
  have "mutex_step e that psi src_file src_line s ?s1"
    by (rule start [where op = PSI_MUTEX_LOCK]) (use assms(1) in simp_all)
  moreover have "mutex_step e that psi src_file src_line ?s1 ?s2"
    by (rule lock [where l = "fst ?b"]) (use b c assms(2) in \<open>simp_all add: prod_eq_iff\<close>)
  moreover have "mutex_step e that psi src_file src_line ?s2 (moves t Inside w ?s2)"
    using finish [of ?s2 t "fst ?b" 0 e that psi src_file src_line] c r by simp
  ultimately show "(mutex_step e that psi src_file src_line)\<^sup>*\<^sup>* s (moves t Inside w s)"
    by (simp del: moves_simps)
  show "r = 0" by (rule r)
qed

lemma mutex_unlock_steps:
  assumes "mpc s t = Inside" and "m_psi that = Some psi"
    and "one_mutex e (m_mutex that)" and "writes_down e"
    and call: "inline_mysql_mutex_unlock e that src_file src_line (switch t (mworld s)) = (r, w)"
  shows "(mutex_step e that psi src_file src_line)\<^sup>*\<^sup>* s (moves t Away w s)" and "r = 0"
proof -
  let ?b = "report (unlock_mutex (service e) psi) (switch t (mworld s))"
  let ?c = "on_locks (my_mutex_unlock (platform e) (m_mutex that) src_file src_line) ?b"
  let ?s1 = "moves t Told ?b s"
  have b: "runs t ?b" by (rule runs_calls [OF assms(4)]) simp
  have "hook (HAVE_PSI_MUTEX_INTERFACE e) that = Some psi"
    using assms(2,4) by (simp add: hook_def writes_down_def)
  with call have r: "(r, w) = ?c" by (simp add: inline_mysql_mutex_unlock_def reported_def)
  have "mutex_step e that psi src_file src_line s ?s1" by (rule tell) (rule assms(1))
  moreover have "mutex_step e that psi src_file src_line ?s1 (moves t Away w ?s1)"
    by (rule unlock [where r = r]) (use b r in simp_all)
  ultimately show "(mutex_step e that psi src_file src_line)\<^sup>*\<^sup>* s (moves t Away w s)"
    by (simp del: moves_simps)
  show "r = 0" using r one_mutexD(3) [OF assms(3)] by (simp add: on_locks_def)
qed

section \<open>Properties\<close>

text \<open>
  The instrumented locks are the locks they stand for. In
  every build and under every performance schema, each function on an instrumented mutex,
  read-write lock or condition makes one call of the function of the lock, with its own
  arguments and on the lock's own state, and returns its result; creating and destroying an
  object change its hook besides, and registering touches no lock.
\<close>

theorem thread_instrumentation_transparent:
  "lock_view (inline_mysql_mutex_lock e m src_file src_line w) = my_mutex_lock (platform e) (m_mutex m) src_file src_line (locks w) \<and>
   lock_view (inline_mysql_mutex_trylock e m src_file src_line w) = my_mutex_trylock (platform e) (m_mutex m) src_file src_line (locks w) \<and>
   lock_view (inline_mysql_mutex_unlock e m src_file src_line w) = my_mutex_unlock (platform e) (m_mutex m) src_file src_line (locks w) \<and>
   map_prod fst id (lock_view (inline_mysql_mutex_init e key m attr src_file src_line w)) =
     my_mutex_init (platform e) (m_mutex m) attr src_file src_line (locks w) \<and>
   map_prod fst id (lock_view (inline_mysql_mutex_destroy e m src_file src_line w)) =
     my_mutex_destroy (platform e) (m_mutex m) src_file src_line (locks w) \<and>
   lock_view (inline_mysql_rwlock_rdlock e rw src_file src_line w) = native_rw_rdlock (platform e) (m_rwlock rw) (locks w) \<and>
   lock_view (inline_mysql_rwlock_wrlock e rw src_file src_line w) = native_rw_wrlock (platform e) (m_rwlock rw) (locks w) \<and>
   lock_view (inline_mysql_rwlock_tryrdlock e rw src_file src_line w) = native_rw_tryrdlock (platform e) (m_rwlock rw) (locks w) \<and>
   lock_view (inline_mysql_rwlock_trywrlock e rw src_file src_line w) = native_rw_trywrlock (platform e) (m_rwlock rw) (locks w) \<and>
   lock_view (inline_mysql_rwlock_unlock e rw w) = native_rw_unlock (platform e) (m_rwlock rw) (locks w) \<and>
   map_prod fst id (lock_view (inline_mysql_rwlock_init e key rw w)) = native_rw_init (platform e) (m_rwlock rw) (locks w) \<and>
   map_prod fst id (lock_view (inline_mysql_rwlock_destroy e rw w)) = native_rw_destroy (platform e) (m_rwlock rw) (locks w) \<and>
   lock_view (inline_mysql_prlock_rdlock e prl src_file src_line w) = sys_call (rw_pr_rdlock (pr e) (m_prlock prl)) (locks w) \<and>
   lock_view (inline_mysql_prlock_wrlock e prl src_file src_line w) = sys_call (rw_pr_wrlock (pr e) (m_prlock prl)) (locks w) \<and>
   lock_view (inline_mysql_prlock_unlock e prl w) = sys_call (rw_pr_unlock (pr e) (m_prlock prl)) (locks w) \<and>
   map_prod fst id (lock_view (inline_mysql_prlock_init e key prl w)) = sys_call (rw_pr_init (pr e) (m_prlock prl)) (locks w) \<and>
   map_prod fst id (lock_view (inline_mysql_prlock_destroy e prl w)) = sys_call (rw_pr_destroy (pr e) (m_prlock prl)) (locks w) \<and>
   lock_view (inline_mysql_cond_wait e c m src_file src_line w) =
     my_cond_wait (platform e) (m_cond c) (m_mutex m) src_file src_line (locks w) \<and>
   rbind (inline_mysql_cond_timedwait e c m abstime src_file src_line w) (\<lambda>rw. Inr (lock_view rw)) =
     my_cond_timedwait (platform e) (m_cond c) (m_mutex m) abstime src_file src_line (locks w) \<and>
   lock_view (inline_mysql_cond_signal e c w) = native_cond_signal (platform e) (m_cond c) (locks w) \<and>
   lock_view (inline_mysql_cond_broadcast e c w) = native_cond_broadcast (platform e) (m_cond c) (locks w) \<and>
   map_prod fst id (lock_view (inline_mysql_cond_init e key c w)) = native_cond_init (platform e) (m_cond c) (locks w) \<and>
   map_prod fst id (lock_view (inline_mysql_cond_destroy e c w)) = native_cond_destroy (platform e) (m_cond c) (locks w) \<and>
   locks (inline_mysql_mutex_register e category info count w) = locks w \<and>
   locks (inline_mysql_rwlock_register e category info count w) = locks w \<and>
   locks (inline_mysql_cond_register e category info count w) = locks w \<and>
   locks (inline_mysql_thread_register e category info count w) = locks w \<and>
   locks (inline_mysql_thread_set_psi_id e tid w) = locks w \<and>
   locks (inline_mysql_thread_set_psi_THD e thd w) = locks w"
  by (simp add: mutex_calls rwlock_calls prlock_calls cond_calls call_views
      inline_mysql_mutex_register_def inline_mysql_rwlock_register_def inline_mysql_cond_register_def
      inline_mysql_thread_register_def inline_mysql_thread_set_psi_id_def
      inline_mysql_thread_set_psi_THD_def Let_def)

text \<open>
  C33: In a build on pthreads without SAFE_MUTEX and over a mutex of the
  system that excludes, the performance schema never sees two owners of a mutex. However
  threads interleave between the calls of locking, trying to lock and unlocking, and whichever
  waits get a locker, a thread is reported as the owner only while it holds the mutex: the end
  of the wait is reported after the lock returned and the unlock before the mutex is released.
\<close>

theorem reported_owner_exclusive:
  assumes "one_mutex e (m_mutex that)" and "writes_down e" and "mutex_start s0"
    and "(mutex_step e that psi src_file src_line)\<^sup>*\<^sup>* s0 s"
  shows "(\<exists>who. seen_owner None (log (schema (mworld s))) = Some who \<and>
      (who = None \<or> who = owner (sys (locks (mworld s))))) \<and>
    {t. holds (mpc s t)} = set_option (owner (sys (locks (mworld s))))"
proof -
  have ok: "mutex_ok s"
    by (rule mutex_reachable_ok [OF assms(4) mutex_start_ok [OF assms(3)] assms(1,2)])
  then obtain who where "seen_owner None (log (schema (mworld s))) = Some who"
    "\<And>t. who = Some t \<Longrightarrow> mpc s t = Inside" unfolding mutex_ok_def by blast
  moreover from this(2) mutex_ok_owner(1) [OF ok] have
    "who = None \<or> who = owner (sys (locks (mworld s)))" by (metis holds_simps(4) option.exhaust)
  moreover from ok have "{t. holds (mpc s t)} = set_option (owner (sys (locks (mworld s))))"
    by (auto simp: mutex_ok_def)
  ultimately show ?thesis by blast
qed

text \<open>A build on pthreads with a performance schema that gives every wait the locker 9.\<close>

definition recording_schema :: "unit recording thread_psi" where
  "recording_schema = \<lparr>register_mutex = (\<lambda>_ _ _ p. p), init_mutex = (\<lambda>_ _ p. (Some 1, p)),
     destroy_mutex = (\<lambda>_ p. p), start_mutex_wait = (\<lambda>_ _ _ _ p. (Some 9, p)),
     end_mutex_wait = (\<lambda>_ r p. p\<lparr>log := log p @ [Ended (current p) r]\<rparr>),
     unlock_mutex = (\<lambda>_ p. p\<lparr>log := log p @ [Unlocked (current p)]\<rparr>),
     register_rwlock = (\<lambda>_ _ _ p. p), init_rwlock = (\<lambda>_ _ p. (None, p)), destroy_rwlock = (\<lambda>_ p. p),
     start_rwlock_rdwait = (\<lambda>_ _ _ _ p. (None, p)), end_rwlock_rdwait = (\<lambda>_ _ p. p),
     start_rwlock_wrwait = (\<lambda>_ _ _ _ p. (None, p)), end_rwlock_wrwait = (\<lambda>_ _ p. p),
     unlock_rwlock = (\<lambda>_ p. p), register_cond = (\<lambda>_ _ _ p. p), init_cond = (\<lambda>_ _ p. (None, p)),
     destroy_cond = (\<lambda>_ p. p), start_cond_wait = (\<lambda>_ _ _ _ _ p. (None, p)),
     end_cond_wait = (\<lambda>_ _ p. p), signal_cond = (\<lambda>_ p. p), broadcast_cond = (\<lambda>_ p. p),
     register_thread = (\<lambda>_ _ _ p. p), get_thread = (\<lambda>_. None), set_thread_id = (\<lambda>_ _ p. p),
     set_thread_THD = (\<lambda>_ _ p. p)\<rparr>"

definition recorded_build :: "(owned, unit recording) thread_env" where
  "recorded_build = \<lparr>HAVE_PSI_MUTEX_INTERFACE = True, HAVE_PSI_RWLOCK_INTERFACE = False,
     HAVE_PSI_COND_INTERFACE = False, HAVE_PSI_THREAD_INTERFACE = False,
     platform = (on_windows idle_windows)\<lparr>WIN32 := False, pth := idle_pthreads\<lparr>
       pthread_mutex_lock := (\<lambda>_ s. (0, take_mutex s)),
       pthread_mutex_trylock := (\<lambda>_ s. if owner s = None then (0, take_mutex s) else (16, s)),
       pthread_mutex_unlock := (\<lambda>_ s. (0, s\<lparr>owner := None\<rparr>))\<rparr>\<rparr>,
     pr = \<lparr>rw_pr_init = (\<lambda>_ w. (0, w)), rw_pr_rdlock = (\<lambda>_ w. (0, w)), rw_pr_wrlock = (\<lambda>_ w. (0, w)),
       rw_pr_unlock = (\<lambda>_ w. (0, w)), rw_pr_destroy = (\<lambda>_ w. (0, w))\<rparr>,
     service = recording_schema, spawn_thread = (\<lambda>_ _ _ _ _ w. (0, w))\<rparr>"

definition one_object :: mysql_mutex_t where
  "one_object = \<lparr>m_psi = Some 1, m_mutex = 40\<rparr>"

definition nobody_in :: "unit mutex_run" where
  "nobody_in = \<lparr>mworld = \<lparr>locks = \<lparr>sys = \<lparr>running = 0, owner = None\<rparr>, have_exclusive_srwlock = (\<lambda>_. False)\<rparr>,
     schema = \<lparr>current = 0, log = [], rest = ()\<rparr>\<rparr>, mpc = (\<lambda>_. Away)\<rparr>"

lemma recorded_build_calls [simp]:
  "HAVE_PSI_MUTEX_INTERFACE recorded_build"
  "my_mutex_lock (platform recorded_build) m src_file src_line w = (0, w\<lparr>sys := take_mutex (sys w)\<rparr>)"
  "my_mutex_unlock (platform recorded_build) m src_file src_line w = (0, w\<lparr>sys := (sys w)\<lparr>owner := None\<rparr>\<rparr>)"
  "start_mutex_wait (service recorded_build) psi op src_file src_line p = (Some 9, p)"
  "end_mutex_wait (service recorded_build) l r p = p\<lparr>log := log p @ [Ended (current p) r]\<rparr>"
  "unlock_mutex (service recorded_build) psi p = p\<lparr>log := log p @ [Unlocked (current p)]\<rparr>"
  by (simp_all add: recorded_build_def my_mutex_lock_def my_mutex_unlock_def native_mutex_lock_def
      native_mutex_unlock_def on_windows_def sys_call_def recording_schema_def)

lemma recorded_build_facts:
  "one_mutex recorded_build (m_mutex one_object)" "writes_down recorded_build" "mutex_start nobody_in"
  by (simp_all add: one_mutex_def writes_down_def mutex_start_def recorded_build_def recording_schema_def
      on_windows_def nobody_in_def fun_eq_iff)

definition three_in :: "(owned, unit recording) thread_world" where
  "three_in = snd (inline_mysql_mutex_lock recorded_build one_object ''f'' 1 (switch 3 (mworld nobody_in)))"

lemma three_locks:
  "(mutex_step recorded_build one_object 1 ''f'' 1)\<^sup>*\<^sup>* nobody_in (moves 3 Inside three_in nobody_in)"
  by (rule mutex_lock_steps(1) [OF _ _ _ recorded_build_facts(1,2)])
    (simp_all add: nobody_in_def one_object_def three_in_def prod_eq_iff)

lemma three_in_value:
  "three_in = \<lparr>locks = \<lparr>sys = \<lparr>running = 3, owner = Some 3\<rparr>, have_exclusive_srwlock = (\<lambda>_. False)\<rparr>,
     schema = \<lparr>current = 3, log = [Ended 3 0], rest = ()\<rparr>\<rparr>"
  by (simp add: three_in_def inline_mysql_mutex_lock_def instrumented_def hook_def one_object_def
      begin_wait_def finish_wait_def report_def on_locks_def switch_def nobody_in_def take_mutex_def)

theorem reported_owner_exclusive_witness:
  "seen_owner None (log (schema three_in)) = Some (Some 3) \<and> owner (sys (locks three_in)) = Some 3"
proof -
  let ?s = "moves 3 Inside three_in nobody_in"
  have "3 \<in> {t. holds (mpc ?s t)}" by simp
  also have "\<dots> = set_option (owner (sys (locks (mworld ?s))))"
    using reported_owner_exclusive [OF recorded_build_facts three_locks] by (rule conjunct2)
  finally have "owner (sys (locks three_in)) = Some 3" by simp
  moreover have "log (schema three_in) = [Ended 3 0]"
    by (simp add: three_in_value)
  ultimately show ?thesis by simp
qed

text \<open>
  A critical section as the program and the performance schema see it. When a
  thread locks an instrumented mutex that is free in a reachable state and unlocks it later,
  without another's step in between, both calls return 0, both are steps of the interleaving,
  the mutex is free again, and the log has grown by the end of the wait, if there was a locker,
  and the unlock.
\<close>

theorem mutex_section:
  assumes "one_mutex e (m_mutex that)" and "writes_down e" and "m_psi that = Some psi"
    and "mutex_start s0" and "(mutex_step e that psi src_file src_line)\<^sup>*\<^sup>* s0 s"
    and "mpc s t = Away" and "owner (sys (locks (mworld s))) = None"
    and "inline_mysql_mutex_lock e that src_file src_line (switch t (mworld s)) = (r, w)"
    and "inline_mysql_mutex_unlock e that src_file src_line w = (r', w')"
  shows "r = 0 \<and> r' = 0 \<and> (mutex_step e that psi src_file src_line)\<^sup>*\<^sup>* s0 (moves t Away w' s) \<and>
    owner (sys (locks w)) = Some t \<and> owner (sys (locks w')) = None \<and>
    log (schema w') \<in> {log (schema (mworld s)) @ [Ended t 0, Unlocked t], log (schema (mworld s)) @ [Unlocked t]}"
proof -
  note l = mutex_lock_steps [OF assms(6,7,3,1,2,8)]
  have h: "hook (HAVE_PSI_MUTEX_INTERFACE e) that = Some psi"
    using assms(2,3) by (simp add: hook_def writes_down_def)
  let ?b = "begin_wait (\<lambda>psi. start_mutex_wait (service e) psi PSI_MUTEX_LOCK src_file src_line) psi (switch t (mworld s))"
  let ?c = "snd (on_locks (my_mutex_lock (platform e) (m_mutex that) src_file src_line) (snd ?b))"
  have w: "w = finish_wait (end_mutex_wait (service e)) (fst ?b) 0 ?c"
    using assms(8) l(2) h by (auto simp: inline_mysql_mutex_lock_def instrumented_def split_beta Let_def)
  have b: "runs t (snd ?b)" by (rule runs_calls [OF assms(2)]) simp
  then have c: "runs t ?c" "owner (sys (locks ?c)) = Some t"
    using one_mutexD(1) [OF assms(1)] by (auto simp: runs_def take_mutex_def on_locks_def)
  have run: "runs t w" unfolding w by (rule runs_calls(3) [OF assms(2) c(1)])
  then have u: "inline_mysql_mutex_unlock e that src_file src_line (switch t (mworld (moves t Inside w s))) = (r', w')"
    using assms(9) by simp
  note k = mutex_unlock_steps [OF _ assms(3,1,2) u]
  have path: "(mutex_step e that psi src_file src_line)\<^sup>*\<^sup>* s0 (moves t Away w' s)"
    using assms(5) l(1) k(1) by (simp del: moves_simps) (simp add: moves_def)
  have "log (schema ?c) = log (schema (mworld s))"
    using assms(2) by (simp add: begin_wait_def writes_down_def split_beta Let_def)
  then have "log (schema w) = log (schema (mworld s)) @ (case fst ?b of None \<Rightarrow> [] | Some _ \<Rightarrow> [Ended t 0])"
    using assms(2) c(1) unfolding w
    by (simp add: finish_wait_def writes_down_def runs_def split: option.split)
  moreover have "log (schema w') = log (schema w) @ [Unlocked t]" "owner (sys (locks w')) = None"
    using assms(2,9) run h one_mutexD(3) [OF assms(1)]
    by (auto simp: inline_mysql_mutex_unlock_def reported_def on_locks_def writes_down_def runs_def)
  moreover have "owner (sys (locks w)) = Some t" using c(2) unfolding w by simp
  ultimately show ?thesis using l(2) k(2) path by (auto split: option.split)
qed

theorem mutex_section_witness:
  "snd (inline_mysql_mutex_unlock recorded_build one_object ''f'' 1 three_in) =
     \<lparr>locks = \<lparr>sys = \<lparr>running = 3, owner = None\<rparr>, have_exclusive_srwlock = (\<lambda>_. False)\<rparr>,
      schema = \<lparr>current = 3, log = [Ended 3 0, Unlocked 3], rest = ()\<rparr>\<rparr> \<and>
   fst (inline_mysql_mutex_unlock recorded_build one_object ''f'' 1 three_in) = 0"
proof -
  have l: "inline_mysql_mutex_lock recorded_build one_object ''f'' 1 (switch 3 (mworld nobody_in)) =
      (fst (inline_mysql_mutex_lock recorded_build one_object ''f'' 1 (switch 3 (mworld nobody_in))), three_in)"
    by (simp add: three_in_def)
  have "m_psi one_object = Some 1" "mpc nobody_in 3 = Away" "owner (sys (locks (mworld nobody_in))) = None"
    by (simp_all add: one_object_def nobody_in_def)
  from mutex_section [OF recorded_build_facts(1,2) this(1) recorded_build_facts(3) rtranclp.rtrancl_refl this(2,3) l surjective_pairing]
  have "fst (inline_mysql_mutex_unlock recorded_build one_object ''f'' 1 three_in) = 0" by blast
  moreover have "snd (inline_mysql_mutex_unlock recorded_build one_object ''f'' 1 three_in) =
     \<lparr>locks = \<lparr>sys = \<lparr>running = 3, owner = None\<rparr>, have_exclusive_srwlock = (\<lambda>_. False)\<rparr>,
      schema = \<lparr>current = 3, log = [Ended 3 0, Unlocked 3], rest = ()\<rparr>\<rparr>"
    by (simp add: three_in_value inline_mysql_mutex_unlock_def reported_def hook_def one_object_def
        on_locks_def report_def)
  ultimately show ?thesis by blast
qed

end
