(* ===== verification/MySQL_Events.thy ===== *)
theory MySQL_Events
  imports SG_Prelude
begin

text \<open>
  What the MySQL headers tell the performance schema of statements, stages, transactions,
  prepared statements, stored programs, table locks, metadata locks and idle time
  (mysql_statement.h, mysql_stage.h, mysql_transaction.h, mysql_ps.h, mysql_sp.h,
  mysql_table.h, mysql_mdl.h, mysql_idle.h and mysql_memory.h under mysql/psi). The
  performance schema hands out lockers, and the calls that follow are made when there is one;
  in a build without an interface its macros do nothing or are \<open>NULL\<close>. The schema is a record
  of functions over a world \<open>'p\<close>. The progress of a stage is memory that schema and program
  share. Pointers that are only passed on are addresses.
\<close>

section \<open>The performance schema\<close>

type_synonym ptr = nat

text \<open>A structure for efficiency public, by address.\<close>

record PSI_stage_progress =
  m_work_completed :: u64
  m_work_estimated :: u64

record 'p psi_world =
  psi :: 'p
  progress :: "nat \<Rightarrow> PSI_stage_progress"

record 'p event_psi =
  register_statement :: "ptr \<Rightarrow> ptr \<Rightarrow> int \<Rightarrow> 'p \<Rightarrow> 'p"
  digest_start :: "nat \<Rightarrow> 'p \<Rightarrow> nat option \<times> 'p"
  digest_end :: "nat \<Rightarrow> ptr \<Rightarrow> 'p \<Rightarrow> 'p"
  get_thread_statement_locker :: "nat \<Rightarrow> ptr \<Rightarrow> ptr \<Rightarrow> 'p \<Rightarrow> nat option \<times> 'p"
  start_statement :: "nat \<Rightarrow> ptr \<Rightarrow> nat \<Rightarrow> string \<Rightarrow> int \<Rightarrow> 'p \<Rightarrow> 'p"
  refine_statement :: "nat \<Rightarrow> nat \<Rightarrow> 'p \<Rightarrow> nat option \<times> 'p"
  set_statement_text :: "nat \<Rightarrow> ptr \<Rightarrow> nat \<Rightarrow> 'p \<Rightarrow> 'p"
  set_statement_lock_time :: "nat \<Rightarrow> u64 \<Rightarrow> 'p \<Rightarrow> 'p"
  set_statement_rows_sent :: "nat \<Rightarrow> u64 \<Rightarrow> 'p \<Rightarrow> 'p"
  set_statement_rows_examined :: "nat \<Rightarrow> u64 \<Rightarrow> 'p \<Rightarrow> 'p"
  end_statement :: "nat \<Rightarrow> ptr \<Rightarrow> 'p \<Rightarrow> 'p"
  register_stage :: "ptr \<Rightarrow> ptr \<Rightarrow> int \<Rightarrow> 'p \<Rightarrow> 'p"
  start_stage :: "nat \<Rightarrow> string \<Rightarrow> int \<Rightarrow> 'p \<Rightarrow> nat option \<times> 'p"
  end_stage :: "'p \<Rightarrow> 'p"
  get_thread_transaction_locker :: "ptr \<Rightarrow> ptr \<Rightarrow> int \<Rightarrow> bool \<Rightarrow> bool \<Rightarrow> 'p \<Rightarrow> nat option \<times> 'p"
  start_transaction :: "nat \<Rightarrow> string \<Rightarrow> int \<Rightarrow> 'p \<Rightarrow> 'p"
  set_transaction_gtid :: "nat \<Rightarrow> ptr \<Rightarrow> ptr \<Rightarrow> 'p \<Rightarrow> 'p"
  set_transaction_xid :: "nat \<Rightarrow> ptr \<Rightarrow> int \<Rightarrow> 'p \<Rightarrow> 'p"
  set_transaction_xa_state :: "nat \<Rightarrow> int \<Rightarrow> 'p \<Rightarrow> 'p"
  set_transaction_trxid :: "nat \<Rightarrow> ptr \<Rightarrow> 'p \<Rightarrow> 'p"
  inc_transaction_savepoints :: "nat \<Rightarrow> nat \<Rightarrow> 'p \<Rightarrow> 'p"
  inc_transaction_rollback_to_savepoint :: "nat \<Rightarrow> nat \<Rightarrow> 'p \<Rightarrow> 'p"
  inc_transaction_release_savepoint :: "nat \<Rightarrow> nat \<Rightarrow> 'p \<Rightarrow> 'p"
  end_transaction :: "nat \<Rightarrow> bool \<Rightarrow> 'p \<Rightarrow> 'p"
  create_prepared_stmt :: "ptr \<Rightarrow> nat \<Rightarrow> nat \<Rightarrow> ptr \<Rightarrow> nat \<Rightarrow> ptr \<Rightarrow> nat \<Rightarrow> 'p \<Rightarrow> nat option \<times> 'p"
  execute_prepared_stmt :: "nat \<Rightarrow> nat \<Rightarrow> 'p \<Rightarrow> 'p"
  destroy_prepared_stmt :: "nat \<Rightarrow> 'p \<Rightarrow> 'p"
  reprepare_prepared_stmt :: "nat \<Rightarrow> 'p \<Rightarrow> 'p"
  start_sp :: "nat \<Rightarrow> 'p \<Rightarrow> nat option \<times> 'p"
  end_sp :: "nat \<Rightarrow> 'p \<Rightarrow> 'p"
  drop_sp :: "nat \<Rightarrow> ptr \<Rightarrow> nat \<Rightarrow> ptr \<Rightarrow> nat \<Rightarrow> 'p \<Rightarrow> 'p"
  get_sp_share :: "nat \<Rightarrow> ptr \<Rightarrow> nat \<Rightarrow> ptr \<Rightarrow> nat \<Rightarrow> 'p \<Rightarrow> nat option \<times> 'p"
  start_table_lock_wait :: "nat \<Rightarrow> nat \<Rightarrow> nat \<Rightarrow> string \<Rightarrow> int \<Rightarrow> 'p \<Rightarrow> nat option \<times> 'p"
  end_table_lock_wait :: "nat \<Rightarrow> 'p \<Rightarrow> 'p"
  unlock_table :: "nat \<Rightarrow> 'p \<Rightarrow> 'p"
  create_metadata_lock :: "ptr \<Rightarrow> ptr \<Rightarrow> nat \<Rightarrow> nat \<Rightarrow> nat \<Rightarrow> string \<Rightarrow> nat \<Rightarrow> 'p \<Rightarrow> nat option \<times> 'p"
  set_metadata_lock_status :: "nat \<Rightarrow> nat \<Rightarrow> 'p \<Rightarrow> 'p"
  destroy_metadata_lock :: "nat \<Rightarrow> 'p \<Rightarrow> 'p"
  start_idle_wait :: "string \<Rightarrow> int \<Rightarrow> 'p \<Rightarrow> nat option \<times> 'p"
  end_idle_wait :: "nat \<Rightarrow> 'p \<Rightarrow> 'p"
  register_memory :: "ptr \<Rightarrow> ptr \<Rightarrow> int \<Rightarrow> 'p \<Rightarrow> 'p"

record 'p event_env =
  HAVE_PSI_STATEMENT_INTERFACE :: bool
  HAVE_PSI_STATEMENT_DIGEST_INTERFACE :: bool
  HAVE_PSI_STAGE_INTERFACE :: bool
  HAVE_PSI_TRANSACTION_INTERFACE :: bool
  HAVE_PSI_PS_INTERFACE :: bool
  HAVE_PSI_SP_INTERFACE :: bool
  HAVE_PSI_TABLE_INTERFACE :: bool
  HAVE_PSI_METADATA_INTERFACE :: bool
  HAVE_PSI_IDLE_INTERFACE :: bool
  HAVE_PSI_MEMORY_INTERFACE :: bool
  service :: "'p event_psi"

text \<open>A call that changes the schema, one that also answers, and one that needs a locker.\<close>

definition psi_call :: "('p \<Rightarrow> 'p) \<Rightarrow> 'p psi_world \<Rightarrow> 'p psi_world" where
  "psi_call f w = w\<lparr>psi := f (psi w)\<rparr>"

definition psi_ask :: "('p \<Rightarrow> nat option \<times> 'p) \<Rightarrow> 'p psi_world \<Rightarrow> nat option \<times> 'p psi_world" where
  "psi_ask f w = (let (l, p) = f (psi w) in (l, w\<lparr>psi := p\<rparr>))"

definition if_locker :: "nat option \<Rightarrow> (nat \<Rightarrow> 'p \<Rightarrow> 'p) \<Rightarrow> 'p psi_world \<Rightarrow> 'p psi_world" where
  "if_locker locker f w = (case locker of None \<Rightarrow> w | Some l \<Rightarrow> psi_call (f l) w)"

definition ask_locker ::
  "nat option \<Rightarrow> (nat \<Rightarrow> 'p \<Rightarrow> nat option \<times> 'p) \<Rightarrow> 'p psi_world \<Rightarrow> nat option \<times> 'p psi_world" where
  "ask_locker locker f w = (case locker of None \<Rightarrow> (None, w) | Some l \<Rightarrow> psi_ask (f l) w)"

section \<open>Stages\<close>

definition inline_mysql_stage_register ::
  "'p event_env \<Rightarrow> ptr \<Rightarrow> ptr \<Rightarrow> int \<Rightarrow> 'p psi_world \<Rightarrow> 'p psi_world" where
  "inline_mysql_stage_register e category info count =
     psi_call (register_stage (service e) category info count)"

definition mysql_stage_register ::
  "'p event_env \<Rightarrow> ptr \<Rightarrow> ptr \<Rightarrow> int \<Rightarrow> 'p psi_world \<Rightarrow> 'p psi_world" where
  "mysql_stage_register e category info count =
     (if HAVE_PSI_STAGE_INTERFACE e then inline_mysql_stage_register e category info count else (\<lambda>w. w))"

definition inline_mysql_set_stage ::
  "'p event_env \<Rightarrow> nat \<Rightarrow> string \<Rightarrow> int \<Rightarrow> 'p psi_world \<Rightarrow> nat option \<times> 'p psi_world" where
  "inline_mysql_set_stage e key src_file src_line =
     psi_ask (start_stage (service e) key src_file src_line)"

definition MYSQL_SET_STAGE ::
  "'p event_env \<Rightarrow> nat \<Rightarrow> string \<Rightarrow> int \<Rightarrow> 'p psi_world \<Rightarrow> nat option \<times> 'p psi_world" where
  "MYSQL_SET_STAGE e key src_file src_line =
     (if HAVE_PSI_STAGE_INTERFACE e then inline_mysql_set_stage e key src_file src_line else Pair None)"

definition inline_mysql_end_stage ::
  "'p event_env \<Rightarrow> 'p psi_world \<Rightarrow> 'p psi_world" where
  "inline_mysql_end_stage e =
     psi_call (end_stage (service e))"

definition mysql_end_stage ::
  "'p event_env \<Rightarrow> 'p psi_world \<Rightarrow> 'p psi_world" where
  "mysql_end_stage e =
     (if HAVE_PSI_STAGE_INTERFACE e then inline_mysql_end_stage e else (\<lambda>w. w))"

text \<open>The progress of a stage: writing it needs a progress, reading it does not look.\<close>

definition set_progress ::
  "nat option \<Rightarrow> (PSI_stage_progress \<Rightarrow> PSI_stage_progress) \<Rightarrow> 'p psi_world \<Rightarrow> 'p psi_world" where
  "set_progress p f w =
     (case p of None \<Rightarrow> w | Some a \<Rightarrow> w\<lparr>progress := (progress w)(a := f (progress w a))\<rparr>)"

definition inline_mysql_stage_set_work_completed :: "nat option \<Rightarrow> u64 \<Rightarrow> 'p psi_world \<Rightarrow> 'p psi_world" where
  "inline_mysql_stage_set_work_completed p val = set_progress p (\<lambda>x. x\<lparr>m_work_completed := val\<rparr>)"

definition inline_mysql_stage_get_work_completed :: "nat option \<Rightarrow> 'p psi_world \<Rightarrow> u64 res" where
  "inline_mysql_stage_get_work_completed p w =
     (case p of None \<Rightarrow> Inl NullPointer | Some a \<Rightarrow> Inr (m_work_completed (progress w a)))"

definition inline_mysql_stage_inc_work_completed :: "nat option \<Rightarrow> u64 \<Rightarrow> 'p psi_world \<Rightarrow> 'p psi_world" where
  "inline_mysql_stage_inc_work_completed p val =
     set_progress p (\<lambda>x. x\<lparr>m_work_completed := m_work_completed x + val\<rparr>)"

definition inline_mysql_stage_set_work_estimated :: "nat option \<Rightarrow> u64 \<Rightarrow> 'p psi_world \<Rightarrow> 'p psi_world" where
  "inline_mysql_stage_set_work_estimated p val = set_progress p (\<lambda>x. x\<lparr>m_work_estimated := val\<rparr>)"

definition inline_mysql_stage_get_work_estimated :: "nat option \<Rightarrow> 'p psi_world \<Rightarrow> u64 res" where
  "inline_mysql_stage_get_work_estimated p w =
     (case p of None \<Rightarrow> Inl NullPointer | Some a \<Rightarrow> Inr (m_work_estimated (progress w a)))"

section \<open>Statements\<close>

definition inline_mysql_statement_register ::
  "'p event_env \<Rightarrow> ptr \<Rightarrow> ptr \<Rightarrow> int \<Rightarrow> 'p psi_world \<Rightarrow> 'p psi_world" where
  "inline_mysql_statement_register e category info count =
     psi_call (register_statement (service e) category info count)"

definition mysql_statement_register ::
  "'p event_env \<Rightarrow> ptr \<Rightarrow> ptr \<Rightarrow> int \<Rightarrow> 'p psi_world \<Rightarrow> 'p psi_world" where
  "mysql_statement_register e category info count =
     (if HAVE_PSI_STATEMENT_INTERFACE e then inline_mysql_statement_register e category info count else (\<lambda>w. w))"

definition inline_mysql_digest_start ::
  "'p event_env \<Rightarrow> nat option \<Rightarrow> 'p psi_world \<Rightarrow> nat option \<times> 'p psi_world" where
  "inline_mysql_digest_start e locker =
     ask_locker locker (digest_start (service e))"

definition MYSQL_DIGEST_START ::
  "'p event_env \<Rightarrow> nat option \<Rightarrow> 'p psi_world \<Rightarrow> nat option \<times> 'p psi_world" where
  "MYSQL_DIGEST_START e locker =
     (if HAVE_PSI_STATEMENT_DIGEST_INTERFACE e then inline_mysql_digest_start e locker else Pair None)"

definition inline_mysql_digest_end ::
  "'p event_env \<Rightarrow> nat option \<Rightarrow> ptr \<Rightarrow> 'p psi_world \<Rightarrow> 'p psi_world" where
  "inline_mysql_digest_end e locker digest =
     if_locker locker (\<lambda>l. digest_end (service e) l digest)"

definition MYSQL_DIGEST_END ::
  "'p event_env \<Rightarrow> nat option \<Rightarrow> ptr \<Rightarrow> 'p psi_world \<Rightarrow> 'p psi_world" where
  "MYSQL_DIGEST_END e locker digest =
     (if HAVE_PSI_STATEMENT_DIGEST_INTERFACE e then inline_mysql_digest_end e locker digest else (\<lambda>w. w))"

definition inline_mysql_start_statement ::
  "'p event_env \<Rightarrow> nat \<Rightarrow> ptr \<Rightarrow> nat \<Rightarrow> ptr \<Rightarrow> ptr \<Rightarrow> string \<Rightarrow> int \<Rightarrow> 'p psi_world \<Rightarrow> nat option \<times> 'p psi_world" where
  "inline_mysql_start_statement e key db db_len charset sp_share src_file src_line w =
     (let (locker, w1) = psi_ask (get_thread_statement_locker (service e) key charset sp_share) w
      in (locker, if_locker locker (\<lambda>l. start_statement (service e) l db db_len src_file src_line) w1))"

definition MYSQL_START_STATEMENT ::
  "'p event_env \<Rightarrow> nat \<Rightarrow> ptr \<Rightarrow> nat \<Rightarrow> ptr \<Rightarrow> ptr \<Rightarrow> string \<Rightarrow> int \<Rightarrow> 'p psi_world \<Rightarrow> nat option \<times> 'p psi_world" where
  "MYSQL_START_STATEMENT e key db db_len charset sp_share src_file src_line =
     (if HAVE_PSI_STATEMENT_INTERFACE e then inline_mysql_start_statement e key db db_len charset sp_share src_file src_line else Pair None)"

definition inline_mysql_refine_statement ::
  "'p event_env \<Rightarrow> nat option \<Rightarrow> nat \<Rightarrow> 'p psi_world \<Rightarrow> nat option \<times> 'p psi_world" where
  "inline_mysql_refine_statement e locker key =
     ask_locker locker (\<lambda>l. refine_statement (service e) l key)"

definition MYSQL_REFINE_STATEMENT ::
  "'p event_env \<Rightarrow> nat option \<Rightarrow> nat \<Rightarrow> 'p psi_world \<Rightarrow> nat option \<times> 'p psi_world" where
  "MYSQL_REFINE_STATEMENT e locker key =
     (if HAVE_PSI_STATEMENT_INTERFACE e then inline_mysql_refine_statement e locker key else Pair None)"

definition inline_mysql_set_statement_text ::
  "'p event_env \<Rightarrow> nat option \<Rightarrow> ptr \<Rightarrow> nat \<Rightarrow> 'p psi_world \<Rightarrow> 'p psi_world" where
  "inline_mysql_set_statement_text e locker txt txt_len =
     if_locker locker (\<lambda>l. set_statement_text (service e) l txt txt_len)"

definition MYSQL_SET_STATEMENT_TEXT ::
  "'p event_env \<Rightarrow> nat option \<Rightarrow> ptr \<Rightarrow> nat \<Rightarrow> 'p psi_world \<Rightarrow> 'p psi_world" where
  "MYSQL_SET_STATEMENT_TEXT e locker txt txt_len =
     (if HAVE_PSI_STATEMENT_INTERFACE e then inline_mysql_set_statement_text e locker txt txt_len else (\<lambda>w. w))"

definition inline_mysql_set_statement_lock_time ::
  "'p event_env \<Rightarrow> nat option \<Rightarrow> u64 \<Rightarrow> 'p psi_world \<Rightarrow> 'p psi_world" where
  "inline_mysql_set_statement_lock_time e locker count =
     if_locker locker (\<lambda>l. set_statement_lock_time (service e) l count)"

definition MYSQL_SET_STATEMENT_LOCK_TIME ::
  "'p event_env \<Rightarrow> nat option \<Rightarrow> u64 \<Rightarrow> 'p psi_world \<Rightarrow> 'p psi_world" where
  "MYSQL_SET_STATEMENT_LOCK_TIME e locker count =
     (if HAVE_PSI_STATEMENT_INTERFACE e then inline_mysql_set_statement_lock_time e locker count else (\<lambda>w. w))"

definition inline_mysql_set_statement_rows_sent ::
  "'p event_env \<Rightarrow> nat option \<Rightarrow> u64 \<Rightarrow> 'p psi_world \<Rightarrow> 'p psi_world" where
  "inline_mysql_set_statement_rows_sent e locker count =
     if_locker locker (\<lambda>l. set_statement_rows_sent (service e) l count)"

definition MYSQL_SET_STATEMENT_ROWS_SENT ::
  "'p event_env \<Rightarrow> nat option \<Rightarrow> u64 \<Rightarrow> 'p psi_world \<Rightarrow> 'p psi_world" where
  "MYSQL_SET_STATEMENT_ROWS_SENT e locker count =
     (if HAVE_PSI_STATEMENT_INTERFACE e then inline_mysql_set_statement_rows_sent e locker count else (\<lambda>w. w))"

definition inline_mysql_set_statement_rows_examined ::
  "'p event_env \<Rightarrow> nat option \<Rightarrow> u64 \<Rightarrow> 'p psi_world \<Rightarrow> 'p psi_world" where
  "inline_mysql_set_statement_rows_examined e locker count =
     if_locker locker (\<lambda>l. set_statement_rows_examined (service e) l count)"

definition MYSQL_SET_STATEMENT_ROWS_EXAMINED ::
  "'p event_env \<Rightarrow> nat option \<Rightarrow> u64 \<Rightarrow> 'p psi_world \<Rightarrow> 'p psi_world" where
  "MYSQL_SET_STATEMENT_ROWS_EXAMINED e locker count =
     (if HAVE_PSI_STATEMENT_INTERFACE e then inline_mysql_set_statement_rows_examined e locker count else (\<lambda>w. w))"

definition inline_mysql_end_statement ::
  "'p event_env \<Rightarrow> nat option \<Rightarrow> ptr \<Rightarrow> 'p psi_world \<Rightarrow> 'p psi_world" where
  "inline_mysql_end_statement e locker stmt_da w =
     if_locker locker (\<lambda>l. end_statement (service e) l stmt_da) (psi_call (end_stage (service e)) w)"

definition MYSQL_END_STATEMENT ::
  "'p event_env \<Rightarrow> nat option \<Rightarrow> ptr \<Rightarrow> 'p psi_world \<Rightarrow> 'p psi_world" where
  "MYSQL_END_STATEMENT e locker stmt_da =
     (if HAVE_PSI_STATEMENT_INTERFACE e then inline_mysql_end_statement e locker stmt_da else (\<lambda>w. w))"

section \<open>Transactions\<close>

definition inline_mysql_start_transaction ::
  "'p event_env \<Rightarrow> ptr \<Rightarrow> ptr \<Rightarrow> int \<Rightarrow> bool \<Rightarrow> bool \<Rightarrow> string \<Rightarrow> int \<Rightarrow> 'p psi_world \<Rightarrow> nat option \<times> 'p psi_world" where
  "inline_mysql_start_transaction e xid trxid isolation_level read_only autocommit src_file src_line w =
     (let (locker, w1) = psi_ask (get_thread_transaction_locker (service e) xid trxid isolation_level
            read_only autocommit) w
      in (locker, if_locker locker (\<lambda>l. start_transaction (service e) l src_file src_line) w1))"

definition MYSQL_START_TRANSACTION ::
  "'p event_env \<Rightarrow> ptr \<Rightarrow> ptr \<Rightarrow> int \<Rightarrow> bool \<Rightarrow> bool \<Rightarrow> string \<Rightarrow> int \<Rightarrow> 'p psi_world \<Rightarrow> nat option \<times> 'p psi_world" where
  "MYSQL_START_TRANSACTION e xid trxid isolation_level read_only autocommit src_file src_line =
     (if HAVE_PSI_TRANSACTION_INTERFACE e then inline_mysql_start_transaction e xid trxid isolation_level read_only autocommit src_file src_line else Pair None)"

definition inline_mysql_set_transaction_gtid ::
  "'p event_env \<Rightarrow> nat option \<Rightarrow> ptr \<Rightarrow> ptr \<Rightarrow> 'p psi_world \<Rightarrow> 'p psi_world" where
  "inline_mysql_set_transaction_gtid e locker sid gtid_spec =
     if_locker locker (\<lambda>l. set_transaction_gtid (service e) l sid gtid_spec)"

definition MYSQL_SET_TRANSACTION_GTID ::
  "'p event_env \<Rightarrow> nat option \<Rightarrow> ptr \<Rightarrow> ptr \<Rightarrow> 'p psi_world \<Rightarrow> 'p psi_world" where
  "MYSQL_SET_TRANSACTION_GTID e locker sid gtid_spec =
     (if HAVE_PSI_TRANSACTION_INTERFACE e then inline_mysql_set_transaction_gtid e locker sid gtid_spec else (\<lambda>w. w))"

definition inline_mysql_set_transaction_xid ::
  "'p event_env \<Rightarrow> nat option \<Rightarrow> ptr \<Rightarrow> int \<Rightarrow> 'p psi_world \<Rightarrow> 'p psi_world" where
  "inline_mysql_set_transaction_xid e locker xid xa_state =
     if_locker locker (\<lambda>l. set_transaction_xid (service e) l xid xa_state)"

definition MYSQL_SET_TRANSACTION_XID ::
  "'p event_env \<Rightarrow> nat option \<Rightarrow> ptr \<Rightarrow> int \<Rightarrow> 'p psi_world \<Rightarrow> 'p psi_world" where
  "MYSQL_SET_TRANSACTION_XID e locker xid xa_state =
     (if HAVE_PSI_TRANSACTION_INTERFACE e then inline_mysql_set_transaction_xid e locker xid xa_state else (\<lambda>w. w))"

definition inline_mysql_set_transaction_xa_state ::
  "'p event_env \<Rightarrow> nat option \<Rightarrow> int \<Rightarrow> 'p psi_world \<Rightarrow> 'p psi_world" where
  "inline_mysql_set_transaction_xa_state e locker xa_state =
     if_locker locker (\<lambda>l. set_transaction_xa_state (service e) l xa_state)"

definition MYSQL_SET_TRANSACTION_XA_STATE ::
  "'p event_env \<Rightarrow> nat option \<Rightarrow> int \<Rightarrow> 'p psi_world \<Rightarrow> 'p psi_world" where
  "MYSQL_SET_TRANSACTION_XA_STATE e locker xa_state =
     (if HAVE_PSI_TRANSACTION_INTERFACE e then inline_mysql_set_transaction_xa_state e locker xa_state else (\<lambda>w. w))"

definition inline_mysql_set_transaction_trxid ::
  "'p event_env \<Rightarrow> nat option \<Rightarrow> ptr \<Rightarrow> 'p psi_world \<Rightarrow> 'p psi_world" where
  "inline_mysql_set_transaction_trxid e locker trxid =
     if_locker locker (\<lambda>l. set_transaction_trxid (service e) l trxid)"

definition MYSQL_SET_TRANSACTION_TRXID ::
  "'p event_env \<Rightarrow> nat option \<Rightarrow> ptr \<Rightarrow> 'p psi_world \<Rightarrow> 'p psi_world" where
  "MYSQL_SET_TRANSACTION_TRXID e locker trxid =
     (if HAVE_PSI_TRANSACTION_INTERFACE e then inline_mysql_set_transaction_trxid e locker trxid else (\<lambda>w. w))"

definition inline_mysql_inc_transaction_savepoints ::
  "'p event_env \<Rightarrow> nat option \<Rightarrow> nat \<Rightarrow> 'p psi_world \<Rightarrow> 'p psi_world" where
  "inline_mysql_inc_transaction_savepoints e locker count =
     if_locker locker (\<lambda>l. inc_transaction_savepoints (service e) l count)"

definition MYSQL_INC_TRANSACTION_SAVEPOINTS ::
  "'p event_env \<Rightarrow> nat option \<Rightarrow> nat \<Rightarrow> 'p psi_world \<Rightarrow> 'p psi_world" where
  "MYSQL_INC_TRANSACTION_SAVEPOINTS e locker count =
     (if HAVE_PSI_TRANSACTION_INTERFACE e then inline_mysql_inc_transaction_savepoints e locker count else (\<lambda>w. w))"

definition inline_mysql_inc_transaction_rollback_to_savepoint ::
  "'p event_env \<Rightarrow> nat option \<Rightarrow> nat \<Rightarrow> 'p psi_world \<Rightarrow> 'p psi_world" where
  "inline_mysql_inc_transaction_rollback_to_savepoint e locker count =
     if_locker locker (\<lambda>l. inc_transaction_rollback_to_savepoint (service e) l count)"

definition MYSQL_INC_TRANSACTION_ROLLBACK_TO_SAVEPOINT ::
  "'p event_env \<Rightarrow> nat option \<Rightarrow> nat \<Rightarrow> 'p psi_world \<Rightarrow> 'p psi_world" where
  "MYSQL_INC_TRANSACTION_ROLLBACK_TO_SAVEPOINT e locker count =
     (if HAVE_PSI_TRANSACTION_INTERFACE e then inline_mysql_inc_transaction_rollback_to_savepoint e locker count else (\<lambda>w. w))"

definition inline_mysql_inc_transaction_release_savepoint ::
  "'p event_env \<Rightarrow> nat option \<Rightarrow> nat \<Rightarrow> 'p psi_world \<Rightarrow> 'p psi_world" where
  "inline_mysql_inc_transaction_release_savepoint e locker count =
     if_locker locker (\<lambda>l. inc_transaction_release_savepoint (service e) l count)"

definition MYSQL_INC_TRANSACTION_RELEASE_SAVEPOINT ::
  "'p event_env \<Rightarrow> nat option \<Rightarrow> nat \<Rightarrow> 'p psi_world \<Rightarrow> 'p psi_world" where
  "MYSQL_INC_TRANSACTION_RELEASE_SAVEPOINT e locker count =
     (if HAVE_PSI_TRANSACTION_INTERFACE e then inline_mysql_inc_transaction_release_savepoint e locker count else (\<lambda>w. w))"

definition inline_mysql_rollback_transaction ::
  "'p event_env \<Rightarrow> nat option \<Rightarrow> 'p psi_world \<Rightarrow> 'p psi_world" where
  "inline_mysql_rollback_transaction e locker =
     if_locker locker (\<lambda>l. end_transaction (service e) l False)"

definition MYSQL_ROLLBACK_TRANSACTION ::
  "'p event_env \<Rightarrow> nat option \<Rightarrow> 'p psi_world \<Rightarrow> 'p psi_world" where
  "MYSQL_ROLLBACK_TRANSACTION e locker =
     (if HAVE_PSI_TRANSACTION_INTERFACE e then inline_mysql_rollback_transaction e locker else (\<lambda>w. w))"

definition inline_mysql_commit_transaction ::
  "'p event_env \<Rightarrow> nat option \<Rightarrow> 'p psi_world \<Rightarrow> 'p psi_world" where
  "inline_mysql_commit_transaction e locker =
     if_locker locker (\<lambda>l. end_transaction (service e) l True)"

definition MYSQL_COMMIT_TRANSACTION ::
  "'p event_env \<Rightarrow> nat option \<Rightarrow> 'p psi_world \<Rightarrow> 'p psi_world" where
  "MYSQL_COMMIT_TRANSACTION e locker =
     (if HAVE_PSI_TRANSACTION_INTERFACE e then inline_mysql_commit_transaction e locker else (\<lambda>w. w))"

section \<open>Prepared statements and stored programs\<close>

definition inline_mysql_create_prepared_stmt ::
  "'p event_env \<Rightarrow> ptr \<Rightarrow> nat \<Rightarrow> nat option \<Rightarrow> ptr \<Rightarrow> nat \<Rightarrow> ptr \<Rightarrow> nat \<Rightarrow> 'p psi_world \<Rightarrow> nat option \<times> 'p psi_world" where
  "inline_mysql_create_prepared_stmt e identity stmt_id locker stmt_name stmt_name_length sqltext sqltext_length =
     ask_locker locker (\<lambda>l. create_prepared_stmt (service e) identity stmt_id l stmt_name stmt_name_length
       sqltext sqltext_length)"

definition inline_mysql_execute_prepared_stmt ::
  "'p event_env \<Rightarrow> nat option \<Rightarrow> nat option \<Rightarrow> 'p psi_world \<Rightarrow> 'p psi_world" where
  "inline_mysql_execute_prepared_stmt e locker prepared_stmt w =
     (case prepared_stmt of
        None \<Rightarrow> w
      | Some s \<Rightarrow> if_locker locker (\<lambda>l. execute_prepared_stmt (service e) l s) w)"

definition inline_mysql_destroy_prepared_stmt ::
  "'p event_env \<Rightarrow> nat option \<Rightarrow> 'p psi_world \<Rightarrow> 'p psi_world" where
  "inline_mysql_destroy_prepared_stmt e prepared_stmt =
     if_locker prepared_stmt (destroy_prepared_stmt (service e))"

definition inline_mysql_reprepare_prepared_stmt ::
  "'p event_env \<Rightarrow> nat option \<Rightarrow> 'p psi_world \<Rightarrow> 'p psi_world" where
  "inline_mysql_reprepare_prepared_stmt e prepared_stmt =
     if_locker prepared_stmt (reprepare_prepared_stmt (service e))"

definition inline_mysql_start_sp ::
  "'p event_env \<Rightarrow> nat \<Rightarrow> 'p psi_world \<Rightarrow> nat option \<times> 'p psi_world" where
  "inline_mysql_start_sp e sp_share =
     psi_ask (start_sp (service e) sp_share)"

definition inline_mysql_end_sp ::
  "'p event_env \<Rightarrow> nat option \<Rightarrow> 'p psi_world \<Rightarrow> 'p psi_world" where
  "inline_mysql_end_sp e locker =
     if_locker locker (end_sp (service e))"

definition inline_mysql_drop_sp ::
  "'p event_env \<Rightarrow> nat \<Rightarrow> ptr \<Rightarrow> nat \<Rightarrow> ptr \<Rightarrow> nat \<Rightarrow> 'p psi_world \<Rightarrow> 'p psi_world" where
  "inline_mysql_drop_sp e sp_type schema_name schema_name_length object_name object_name_length =
     psi_call (drop_sp (service e) sp_type schema_name schema_name_length
       object_name object_name_length)"

definition inline_mysql_get_sp_share ::
  "'p event_env \<Rightarrow> nat \<Rightarrow> ptr \<Rightarrow> nat \<Rightarrow> ptr \<Rightarrow> nat \<Rightarrow> 'p psi_world \<Rightarrow> nat option \<times> 'p psi_world" where
  "inline_mysql_get_sp_share e sp_type schema_name schema_name_length object_name object_name_length =
     psi_ask (get_sp_share (service e) sp_type schema_name schema_name_length
       object_name object_name_length)"

section \<open>Table locks, metadata locks, idle time and memory\<close>

definition inline_mysql_start_table_lock_wait ::
  "'p event_env \<Rightarrow> nat option \<Rightarrow> nat \<Rightarrow> nat \<Rightarrow> string \<Rightarrow> int \<Rightarrow> 'p psi_world \<Rightarrow> nat option \<times> 'p psi_world" where
  "inline_mysql_start_table_lock_wait e table op flags src_file src_line =
     ask_locker table (\<lambda>t. start_table_lock_wait (service e) t op flags src_file src_line)"

definition inline_mysql_end_table_lock_wait ::
  "'p event_env \<Rightarrow> nat option \<Rightarrow> 'p psi_world \<Rightarrow> 'p psi_world" where
  "inline_mysql_end_table_lock_wait e locker =
     if_locker locker (end_table_lock_wait (service e))"

definition MYSQL_END_TABLE_LOCK_WAIT ::
  "'p event_env \<Rightarrow> nat option \<Rightarrow> 'p psi_world \<Rightarrow> 'p psi_world" where
  "MYSQL_END_TABLE_LOCK_WAIT e locker =
     (if HAVE_PSI_TABLE_INTERFACE e then inline_mysql_end_table_lock_wait e locker else (\<lambda>w. w))"

definition inline_mysql_unlock_table ::
  "'p event_env \<Rightarrow> nat option \<Rightarrow> 'p psi_world \<Rightarrow> 'p psi_world" where
  "inline_mysql_unlock_table e table =
     if_locker table (unlock_table (service e))"

definition MYSQL_UNLOCK_TABLE ::
  "'p event_env \<Rightarrow> nat option \<Rightarrow> 'p psi_world \<Rightarrow> 'p psi_world" where
  "MYSQL_UNLOCK_TABLE e table =
     (if HAVE_PSI_TABLE_INTERFACE e then inline_mysql_unlock_table e table else (\<lambda>w. w))"

definition inline_mysql_mdl_create ::
  "'p event_env \<Rightarrow> ptr \<Rightarrow> ptr \<Rightarrow> nat \<Rightarrow> nat \<Rightarrow> nat \<Rightarrow> string \<Rightarrow> nat \<Rightarrow> 'p psi_world \<Rightarrow> nat option \<times> 'p psi_world" where
  "inline_mysql_mdl_create e identity mdl_key mdl_type mdl_duration mdl_status src_file src_line =
     psi_ask (create_metadata_lock (service e) identity mdl_key mdl_type mdl_duration mdl_status
       src_file src_line)"

definition inline_mysql_mdl_set_status ::
  "'p event_env \<Rightarrow> nat option \<Rightarrow> nat \<Rightarrow> 'p psi_world \<Rightarrow> 'p psi_world" where
  "inline_mysql_mdl_set_status e lock mdl_status =
     if_locker lock (\<lambda>l. set_metadata_lock_status (service e) l mdl_status)"

definition inline_mysql_mdl_destroy ::
  "'p event_env \<Rightarrow> nat option \<Rightarrow> string \<Rightarrow> nat \<Rightarrow> 'p psi_world \<Rightarrow> 'p psi_world" where
  "inline_mysql_mdl_destroy e lock src_file src_line =
     if_locker lock (destroy_metadata_lock (service e))"

definition inline_mysql_start_idle_wait ::
  "'p event_env \<Rightarrow> string \<Rightarrow> int \<Rightarrow> 'p psi_world \<Rightarrow> nat option \<times> 'p psi_world" where
  "inline_mysql_start_idle_wait e src_file src_line =
     psi_ask (start_idle_wait (service e) src_file src_line)"

definition inline_mysql_end_idle_wait ::
  "'p event_env \<Rightarrow> nat option \<Rightarrow> 'p psi_world \<Rightarrow> 'p psi_world" where
  "inline_mysql_end_idle_wait e locker =
     if_locker locker (end_idle_wait (service e))"

definition MYSQL_END_IDLE_WAIT ::
  "'p event_env \<Rightarrow> nat option \<Rightarrow> 'p psi_world \<Rightarrow> 'p psi_world" where
  "MYSQL_END_IDLE_WAIT e locker =
     (if HAVE_PSI_IDLE_INTERFACE e then inline_mysql_end_idle_wait e locker else (\<lambda>w. w))"

definition inline_mysql_memory_register ::
  "'p event_env \<Rightarrow> ptr \<Rightarrow> ptr \<Rightarrow> int \<Rightarrow> 'p psi_world \<Rightarrow> 'p psi_world" where
  "inline_mysql_memory_register e category info count =
     (if HAVE_PSI_MEMORY_INTERFACE e then psi_call (register_memory (service e) category info count) else (\<lambda>w. w))"

section \<open>Calls without a locker\<close>

lemma psi_call_simps [simp]: "psi (psi_call f w) = f (psi w)" "progress (psi_call f w) = progress w"
  by (simp_all add: psi_call_def)

lemma if_locker_simps [simp]: "if_locker None f w = w" "if_locker (Some l) f w = psi_call (f l) w"
  by (simp_all add: if_locker_def)

lemma ask_locker_simps [simp]: "ask_locker None g w = (None, w)" "ask_locker (Some l) g w = psi_ask (g l) w"
  by (simp_all add: ask_locker_def)

lemma psi_ask_simps [simp]: "fst (psi_ask f w) = fst (f (psi w))" "psi (snd (psi_ask f w)) = snd (f (psi w))"
  by (simp_all add: psi_ask_def split_beta)

text \<open>
  Counting the work of a stage: with a progress the increments add up, modulo \<open>2 ^ 64\<close>; without
  one nothing is written, and reading follows a null pointer.
\<close>

lemma inc_after_set:
  "inline_mysql_stage_inc_work_completed (Some a) v' (inline_mysql_stage_set_work_completed (Some a) v w) =
     inline_mysql_stage_set_work_completed (Some a) (v + v') w"
  by (simp add: inline_mysql_stage_set_work_completed_def inline_mysql_stage_inc_work_completed_def set_progress_def)

lemma stage_work_counted:
  "inline_mysql_stage_get_work_completed (Some a)
     (fold (inline_mysql_stage_inc_work_completed (Some a)) vs (inline_mysql_stage_set_work_completed (Some a) v w)) =
   Inr (v + sum_list vs)"
proof (induction vs arbitrary: v)
  case Nil
  show ?case
    by (simp add: inline_mysql_stage_get_work_completed_def inline_mysql_stage_set_work_completed_def set_progress_def)
next
  case (Cons v' vs)
  show ?case by (simp only: fold_Cons o_apply inc_after_set Cons.IH) (simp add: add.assoc)
qed

lemma no_stage:
  "inline_mysql_stage_inc_work_completed None v w = w" "inline_mysql_stage_set_work_completed None v w = w"
  "inline_mysql_stage_set_work_estimated None v w = w"
  "inline_mysql_stage_get_work_completed None w = Inl NullPointer"
  "inline_mysql_stage_get_work_estimated None w = Inl NullPointer"
  by (simp_all add: inline_mysql_stage_get_work_completed_def inline_mysql_stage_set_work_completed_def
      inline_mysql_stage_inc_work_completed_def inline_mysql_stage_get_work_estimated_def
      inline_mysql_stage_set_work_estimated_def set_progress_def)

section \<open>The life of a statement\<close>

text \<open>
  A statement is started, noted upon and ended with the macros of the header, each with the
  locker the last one gave.
\<close>

datatype remark = Refine nat | Text ptr nat | LockTime u64 | RowsSent u64 | RowsExamined u64

fun note_step :: "'p event_env \<Rightarrow> remark \<Rightarrow> nat option \<times> 'p psi_world \<Rightarrow> nat option \<times> 'p psi_world" where
  "note_step e (Refine key) (l, w) = MYSQL_REFINE_STATEMENT e l key w"
| "note_step e (Text txt n) (l, w) = (l, MYSQL_SET_STATEMENT_TEXT e l txt n w)"
| "note_step e (LockTime n) (l, w) = (l, MYSQL_SET_STATEMENT_LOCK_TIME e l n w)"
| "note_step e (RowsSent n) (l, w) = (l, MYSQL_SET_STATEMENT_ROWS_SENT e l n w)"
| "note_step e (RowsExamined n) (l, w) = (l, MYSQL_SET_STATEMENT_ROWS_EXAMINED e l n w)"

definition finish_statement :: "'p event_env \<Rightarrow> remark list \<Rightarrow> ptr \<Rightarrow> nat option \<times> 'p psi_world \<Rightarrow> 'p psi_world" where
  "finish_statement e nts stmt_da lw =
     (let (l, w) = fold (note_step e) nts lw in MYSQL_END_STATEMENT e l stmt_da w)"

definition statement_life ::
  "'p event_env \<Rightarrow> nat \<Rightarrow> ptr \<Rightarrow> nat \<Rightarrow> ptr \<Rightarrow> ptr \<Rightarrow> string \<Rightarrow> int \<Rightarrow> remark list \<Rightarrow> ptr \<Rightarrow> 'p psi_world \<Rightarrow> 'p psi_world" where
  "statement_life e key db db_len charset sp_share src_file src_line nts stmt_da w =
     finish_statement e nts stmt_da (MYSQL_START_STATEMENT e key db db_len charset sp_share src_file src_line w)"

text \<open>What a performance schema is told, by one that writes it down.\<close>

datatype statement_event =
    Started nat
  | Refined nat nat "nat option"
  | Noted nat remark
  | StageEnded
  | Ended nat ptr

record 'p told =
  told :: "statement_event list"
  other :: 'p

definition statement_calls_logged :: "'p told event_psi \<Rightarrow> bool" where
  "statement_calls_logged s \<longleftrightarrow>
     (\<forall>key cs sps p. told (snd (get_thread_statement_locker s key cs sps p)) = told p) \<and>
     (\<forall>l db n f i p. told (start_statement s l db n f i p) = told p @ [Started l]) \<and>
     (\<forall>l key p. told (snd (refine_statement s l key p)) = told p @ [Refined l key (fst (refine_statement s l key p))]) \<and>
     (\<forall>l t n p. told (set_statement_text s l t n p) = told p @ [Noted l (Text t n)]) \<and>
     (\<forall>l n p. told (set_statement_lock_time s l n p) = told p @ [Noted l (LockTime n)]) \<and>
     (\<forall>l n p. told (set_statement_rows_sent s l n p) = told p @ [Noted l (RowsSent n)]) \<and>
     (\<forall>l n p. told (set_statement_rows_examined s l n p) = told p @ [Noted l (RowsExamined n)]) \<and>
     (\<forall>p. told (end_stage s p) = told p @ [StageEnded]) \<and>
     (\<forall>l da p. told (end_statement s l da p) = told p @ [Ended l da])"

text \<open>
  The record of a statement after its start: every note under the locker then valid, and the
  end after the end of its stage; when the locker is lost nothing follows but that end.
\<close>

fun noted_life :: "remark list \<Rightarrow> nat \<Rightarrow> ptr \<Rightarrow> statement_event list \<Rightarrow> bool" where
  "noted_life [] l da es \<longleftrightarrow> es = [StageEnded, Ended l da]"
| "noted_life (Refine key # ns) l da (Refined l' key' r # es) \<longleftrightarrow> l' = l \<and> key' = key \<and>
     (case r of None \<Rightarrow> es = [StageEnded] | Some l2 \<Rightarrow> noted_life ns l2 da es)"
| "noted_life (n # ns) l da (Noted l' n' # es) \<longleftrightarrow> l' = l \<and> n' = n \<and> noted_life ns l da es"
| "noted_life (n # ns) l da es \<longleftrightarrow> False"

lemmas statement_macros = MYSQL_REFINE_STATEMENT_def MYSQL_SET_STATEMENT_TEXT_def
  MYSQL_SET_STATEMENT_LOCK_TIME_def MYSQL_SET_STATEMENT_ROWS_SENT_def
  MYSQL_SET_STATEMENT_ROWS_EXAMINED_def MYSQL_END_STATEMENT_def MYSQL_START_STATEMENT_def
  inline_mysql_refine_statement_def inline_mysql_set_statement_text_def
  inline_mysql_set_statement_lock_time_def inline_mysql_set_statement_rows_sent_def
  inline_mysql_set_statement_rows_examined_def inline_mysql_end_statement_def
  inline_mysql_start_statement_def

lemma finish_statement_Cons:
  "finish_statement e (n # ns) da lw = finish_statement e ns da (note_step e n lw)"
  by (simp add: finish_statement_def)

lemma finish_without_locker:
  assumes "statement_calls_logged (service e)" and "HAVE_PSI_STATEMENT_INTERFACE e"
  shows "told (psi (finish_statement e nts da (None, w))) = told (psi w) @ [StageEnded]"
proof (induction nts arbitrary: w)
  case Nil
  from assms show ?case by (simp add: finish_statement_def statement_macros statement_calls_logged_def)
next
  case (Cons n ns)
  have "note_step e n (None, w) = (None, w)" using assms(2) by (cases n) (simp_all add: statement_macros)
  with Cons show ?case by (simp add: finish_statement_Cons)
qed

text \<open>A note that is no refinement is told under its locker.\<close>

lemma note_told:
  assumes "statement_calls_logged (service e)" and "HAVE_PSI_STATEMENT_INTERFACE e" and "\<nexists>key. n = Refine key"
  shows "\<exists>w'. note_step e n (Some l, w) = (Some l, w') \<and> told (psi w') = told (psi w) @ [Noted l n]"
  using assms by (cases n) (simp_all add: statement_macros statement_calls_logged_def)

lemma refinement_told:
  assumes "statement_calls_logged (service e)" and "HAVE_PSI_STATEMENT_INTERFACE e"
  shows "\<exists>r w'. note_step e (Refine key) (Some l, w) = (r, w') \<and> told (psi w') = told (psi w) @ [Refined l key r]"
  using assms by (simp add: statement_macros statement_calls_logged_def psi_ask_def split_beta)

lemma finish_with_locker:
  assumes "statement_calls_logged (service e)" and "HAVE_PSI_STATEMENT_INTERFACE e"
  shows "\<exists>es. told (psi (finish_statement e nts da (Some l, w))) = told (psi w) @ es \<and> noted_life nts l da es"
proof (induction nts arbitrary: l w)
  case Nil
  from assms show ?case by (simp add: finish_statement_def statement_macros statement_calls_logged_def)
next
  case (Cons n ns)
  show ?case
  proof (cases "\<exists>key. n = Refine key")
    case True
    then obtain key where n: "n = Refine key" by blast
    obtain r w' where r: "note_step e n (Some l, w) = (r, w')"
      "told (psi w') = told (psi w) @ [Refined l key r]"
      using refinement_told [OF assms, of key l w] n by auto
    show ?thesis
    proof (cases r)
      case None
      with r n finish_without_locker [OF assms, of ns da w'] show ?thesis
        by (simp add: finish_statement_Cons)
    next
      case (Some l2)
      from Cons.IH [of l2 w'] obtain es where
        "told (psi (finish_statement e ns da (Some l2, w'))) = told (psi w') @ es" "noted_life ns l2 da es"
        by blast
      with r n Some show ?thesis
        by (intro exI [of _ "Refined l key (Some l2) # es"]) (simp add: finish_statement_Cons)
    qed
  next
    case False
    then obtain w' where w': "note_step e n (Some l, w) = (Some l, w')"
      "told (psi w') = told (psi w) @ [Noted l n]" using note_told [OF assms] by blast
    from Cons.IH [of l w'] obtain es where
      "told (psi (finish_statement e ns da (Some l, w'))) = told (psi w') @ es" "noted_life ns l da es"
      by blast
    with w' False show ?thesis
      by (intro exI [of _ "Noted l n # es"]) (cases n; simp add: finish_statement_Cons)
  qed
qed

text \<open>In a build without the interface the macros tell nothing.\<close>

lemma statement_compiled_out:
  assumes "\<not> HAVE_PSI_STATEMENT_INTERFACE e"
  shows "statement_life e key db db_len charset sp_share src_file src_line nts da w = w"
proof -
  have "note_step e n (None, w) = (None, w)" for n using assms by (cases n) (simp_all add: statement_macros)
  then have "fold (note_step e) nts (None, w) = (None, w)" by (induction nts) simp_all
  then show ?thesis using assms by (simp add: statement_life_def finish_statement_def statement_macros)
qed

section \<open>Properties\<close>

text \<open>
  C37: The performance schema sees a statement as one life. For every
  sequence of notes a program makes on a statement between start and end, the schema is told
  nothing but the end of the stage when it gave no locker; otherwise it is told the start, each
  note once, in order and under the locker that is valid then (a refinement may replace it),
  the end of the stage and the end of the statement. After a refinement that gives no locker it
  is told nothing more but the end of the stage, which the code reports whether there is a locker
  or not.
\<close>

theorem statement_life_reported:
  assumes "statement_calls_logged (service e)" and "HAVE_PSI_STATEMENT_INTERFACE e"
  shows "\<exists>es. told (psi (statement_life e key db db_len charset sp_share src_file src_line nts da w)) =
      told (psi w) @ es \<and>
    (case fst (get_thread_statement_locker (service e) key charset sp_share (psi w)) of
       None \<Rightarrow> es = [StageEnded]
     | Some l \<Rightarrow> \<exists>es'. es = Started l # es' \<and> noted_life nts l da es')"
proof -
  let ?ask = "psi_ask (get_thread_statement_locker (service e) key charset sp_share) w"
  have t: "told (psi (snd ?ask)) = told (psi w)"
    using assms(1) by (simp add: statement_calls_logged_def)
  show ?thesis
  proof (cases "fst ?ask")
    case None
    with t finish_without_locker [OF assms, of nts da "snd ?ask"] assms(2) show ?thesis
      by (simp add: statement_life_def statement_macros split_beta Let_def)
  next
    case (Some l)
    let ?w = "psi_call (start_statement (service e) l db db_len src_file src_line) (snd ?ask)"
    have s: "told (psi ?w) = told (psi w) @ [Started l]"
      using assms(1) t by (simp add: statement_calls_logged_def)
    from finish_with_locker [OF assms, of nts da l ?w] obtain es where
      "told (psi (finish_statement e nts da (Some l, ?w))) = told (psi ?w) @ es" "noted_life nts l da es"
      by blast
    with Some s assms(2) show ?thesis
      by (intro exI [of _ "Started l # es"])
        (simp add: statement_life_def statement_macros split_beta Let_def)
  qed
qed

text \<open>A schema that gives the locker 5, another for every refinement and none for key 0.\<close>

definition listening :: "unit told event_psi" where
  "listening = \<lparr>register_statement = (\<lambda>_ _ _ p. p), digest_start = (\<lambda>_ p. (None, p)), digest_end = (\<lambda>_ _ p. p),
     get_thread_statement_locker = (\<lambda>_ _ _ p. (Some 5, p)),
     start_statement = (\<lambda>l _ _ _ _ p. p\<lparr>told := told p @ [Started l]\<rparr>),
     refine_statement = (\<lambda>l key p. let r = (if key = 0 then None else Some (l + key))
       in (r, p\<lparr>told := told p @ [Refined l key r]\<rparr>)),
     set_statement_text = (\<lambda>l t n p. p\<lparr>told := told p @ [Noted l (Text t n)]\<rparr>),
     set_statement_lock_time = (\<lambda>l n p. p\<lparr>told := told p @ [Noted l (LockTime n)]\<rparr>),
     set_statement_rows_sent = (\<lambda>l n p. p\<lparr>told := told p @ [Noted l (RowsSent n)]\<rparr>),
     set_statement_rows_examined = (\<lambda>l n p. p\<lparr>told := told p @ [Noted l (RowsExamined n)]\<rparr>),
     end_statement = (\<lambda>l da p. p\<lparr>told := told p @ [Ended l da]\<rparr>),
     register_stage = (\<lambda>_ _ _ p. p), start_stage = (\<lambda>_ _ _ p. (None, p)),
     end_stage = (\<lambda>p. p\<lparr>told := told p @ [StageEnded]\<rparr>),
     get_thread_transaction_locker = (\<lambda>_ _ _ _ _ p. (None, p)), start_transaction = (\<lambda>_ _ _ p. p),
     set_transaction_gtid = (\<lambda>_ _ _ p. p), set_transaction_xid = (\<lambda>_ _ _ p. p),
     set_transaction_xa_state = (\<lambda>_ _ p. p), set_transaction_trxid = (\<lambda>_ _ p. p),
     inc_transaction_savepoints = (\<lambda>_ _ p. p), inc_transaction_rollback_to_savepoint = (\<lambda>_ _ p. p),
     inc_transaction_release_savepoint = (\<lambda>_ _ p. p), end_transaction = (\<lambda>_ _ p. p),
     create_prepared_stmt = (\<lambda>_ _ _ _ _ _ _ p. (None, p)), execute_prepared_stmt = (\<lambda>_ _ p. p),
     destroy_prepared_stmt = (\<lambda>_ p. p), reprepare_prepared_stmt = (\<lambda>_ p. p),
     start_sp = (\<lambda>_ p. (None, p)), end_sp = (\<lambda>_ p. p), drop_sp = (\<lambda>_ _ _ _ _ p. p),
     get_sp_share = (\<lambda>_ _ _ _ _ p. (None, p)), start_table_lock_wait = (\<lambda>_ _ _ _ _ p. (None, p)),
     end_table_lock_wait = (\<lambda>_ p. p), unlock_table = (\<lambda>_ p. p),
     create_metadata_lock = (\<lambda>_ _ _ _ _ _ _ p. (None, p)), set_metadata_lock_status = (\<lambda>_ _ p. p),
     destroy_metadata_lock = (\<lambda>_ p. p), start_idle_wait = (\<lambda>_ _ p. (None, p)), end_idle_wait = (\<lambda>_ p. p),
     register_memory = (\<lambda>_ _ _ p. p)\<rparr>"

definition listening_env :: "unit told event_env" where
  "listening_env = \<lparr>HAVE_PSI_STATEMENT_INTERFACE = True, HAVE_PSI_STATEMENT_DIGEST_INTERFACE = True,
     HAVE_PSI_STAGE_INTERFACE = True, HAVE_PSI_TRANSACTION_INTERFACE = True, HAVE_PSI_PS_INTERFACE = True,
     HAVE_PSI_SP_INTERFACE = True, HAVE_PSI_TABLE_INTERFACE = True, HAVE_PSI_METADATA_INTERFACE = True,
     HAVE_PSI_IDLE_INTERFACE = True, HAVE_PSI_MEMORY_INTERFACE = True, service = listening\<rparr>"

lemma listening_logged: "statement_calls_logged (service listening_env)" "HAVE_PSI_STATEMENT_INTERFACE listening_env"
  by (simp_all add: statement_calls_logged_def listening_env_def listening_def Let_def)

definition quiet_world :: "unit told psi_world" where
  "quiet_world = \<lparr>psi = \<lparr>told = [], other = ()\<rparr>, progress = (\<lambda>_. \<lparr>m_work_completed = 0, m_work_estimated = 0\<rparr>)\<rparr>"

theorem statement_life_reported_witness:
  "\<exists>es. told (psi (statement_life listening_env 1 0 0 0 0 ''f'' 1 [Text 9 4, Refine 2, RowsSent 3] 8 quiet_world)) =
     Started 5 # es \<and> noted_life [Text 9 4, Refine 2, RowsSent 3] 5 8 es"
  using statement_life_reported [OF listening_logged, of 1 0 0 0 0 "''f''" 1
      "[Text 9 4, Refine 2, RowsSent 3]" 8 quiet_world]
  by (simp add: listening_env_def listening_def quiet_world_def)

end
