(* ===== verification/MySQL_Cache.thy ===== *)
theory MySQL_Cache
  imports SG_Prelude
begin

text \<open>
  The buffered files of mysys: the structure \<open>IO_CACHE\<close> and the macros of my_sys.h (lines
  352 to 516) through which the library reads and writes them. A macro serves a request from the
  buffer when it can and calls a function of the library when it cannot. Those functions,
  \<open>read_function\<close>, \<open>write_function\<close> and \<open>_my_b_get\<close>, are not in the repository: they are
  parameters, and what they promise is stated as a contract over the file. With it a sequence of
  macros is shown to read a file, or to write one, as if there were no buffer.
\<close>

section \<open>The structure\<close>

text \<open>
  Pointers are the 32-bit addresses of the Windows build into one memory, and a file offset has
  64 bits. \<open>current_pos\<close> and \<open>current_end\<close> are pointers to two of the other members, which
  they name. The members the macros do not use are left out.
\<close>

datatype cache_member = At_read_pos | At_read_end | At_write_pos | At_write_end

record io_cache =
  pos_in_file :: u64
  end_of_file :: u64
  read_pos :: u32
  read_end :: u32
  cache_buffer :: u32
  request_pos :: u32
  write_buffer :: u32
  append_read_pos :: u32
  write_pos :: u32
  write_end :: u32
  current_pos :: cache_member
  current_end :: cache_member

fun member_value :: "cache_member \<Rightarrow> io_cache \<Rightarrow> u32" where
  "member_value At_read_pos c = read_pos c"
| "member_value At_read_end c = read_end c"
| "member_value At_write_pos c = write_pos c"
| "member_value At_write_end c = write_end c"

record 'w io_state =
  io_memory :: buffer
  io_info :: io_cache
  io_device :: 'w

text \<open>The functions behind \<open>read_function\<close> and \<open>write_function\<close>, and \<open>_my_b_get\<close>.\<close>

type_synonym 'w block_function = "'w io_state \<Rightarrow> u32 \<Rightarrow> u32 \<Rightarrow> (int \<times> 'w io_state) res"
type_synonym 'w get_function = "'w io_state \<Rightarrow> (int \<times> 'w io_state) res"

section \<open>The macros\<close>

definition memcpy :: "buffer \<Rightarrow> u32 \<Rightarrow> u32 \<Rightarrow> u32 \<Rightarrow> buffer res" where
  "memcpy m dst src n = rbind (load_bytes m (uint src) (unat n)) (store_bytes m (uint dst))"

definition my_b_clear :: "io_cache \<Rightarrow> io_cache" where
  "my_b_clear c = c\<lparr>cache_buffer := 0\<rparr>"

definition my_b_inited :: "io_cache \<Rightarrow> bool" where
  "my_b_inited c \<longleftrightarrow> cache_buffer c \<noteq> 0"

definition my_b_EOF :: int where
  "my_b_EOF = - (2 ^ 31)"

definition my_b_read :: "'w block_function \<Rightarrow> 'w io_state \<Rightarrow> u32 \<Rightarrow> u32 \<Rightarrow> (int \<times> 'w io_state) res" where
  "my_b_read read_function s Buffer Count =
     (let c = io_info s in
      if read_pos c + Count \<le> read_end c
      then rbind (memcpy (io_memory s) Buffer (read_pos c) Count) (\<lambda>m.
             Inr (0, s\<lparr>io_memory := m, io_info := c\<lparr>read_pos := read_pos c + Count\<rparr>\<rparr>))
      else read_function s Buffer Count)"

definition my_b_write :: "'w block_function \<Rightarrow> 'w io_state \<Rightarrow> u32 \<Rightarrow> u32 \<Rightarrow> (int \<times> 'w io_state) res" where
  "my_b_write write_function s Buffer Count =
     (let c = io_info s in
      if write_pos c + Count \<le> write_end c
      then rbind (memcpy (io_memory s) (write_pos c) Buffer Count) (\<lambda>m.
             Inr (0, s\<lparr>io_memory := m, io_info := c\<lparr>write_pos := write_pos c + Count\<rparr>\<rparr>))
      else write_function s Buffer Count)"

definition my_b_get :: "'w get_function \<Rightarrow> 'w get_function" where
  "my_b_get get_slow s =
     (let c = io_info s in
      if read_pos c \<noteq> read_end c
      then let c' = c\<lparr>read_pos := read_pos c + 1\<rparr> in
           rbind (load_byte (io_memory s) (uint (read_pos c' - 1))) (\<lambda>b.
             Inr (uint b, s\<lparr>io_info := c'\<rparr>))
      else get_slow s)"

definition my_b_tell :: "io_cache \<Rightarrow> u64" where
  "my_b_tell c = pos_in_file c + ucast (member_value (current_pos c) c - request_pos c)"

definition my_b_bytes_in_cache :: "io_cache \<Rightarrow> u32" where
  "my_b_bytes_in_cache c = member_value (current_end c) c - member_value (current_pos c) c"

definition my_b_get_buffer_start :: "io_cache \<Rightarrow> u32" where
  "my_b_get_buffer_start c = request_pos c"

definition my_b_get_bytes_in_buffer :: "io_cache \<Rightarrow> int" where
  "my_b_get_bytes_in_buffer c = sint (read_end c - my_b_get_buffer_start c)"

definition my_b_get_pos_in_file :: "io_cache \<Rightarrow> u64" where
  "my_b_get_pos_in_file c = pos_in_file c"

section \<open>Reading: the file behind the buffer\<close>

text \<open>
  \<open>reading F lo hi s\<close>: a cache that reads the file with the bytes \<open>F\<close>. Its buffer lies in
  the addresses from \<open>lo\<close> up to \<open>hi\<close> and holds a stretch of the file.
\<close>

definition held_bytes :: "io_cache \<Rightarrow> nat" where
  "held_bytes c = unat (read_end c) - unat (request_pos c)"

definition place :: "io_cache \<Rightarrow> nat" where
  "place c = unat (pos_in_file c) + (unat (read_pos c) - unat (request_pos c))"

definition reading :: "u8 list \<Rightarrow> int \<Rightarrow> int \<Rightarrow> 'w io_state \<Rightarrow> bool" where
  "reading F lo hi s \<longleftrightarrow>
     (let c = io_info s in
      current_pos c = At_read_pos \<and> current_end c = At_read_end \<and>
      request_pos c \<le> read_pos c \<and> read_pos c \<le> read_end c \<and>
      0 \<le> lo \<and> lo \<le> uint (request_pos c) \<and> uint (read_end c) \<le> hi \<and> hi \<le> buf_size (io_memory s) \<and>
      buf_size (io_memory s) \<le> 2 ^ 32 \<and>
      length F < 2 ^ 64 \<and> unat (pos_in_file c) + held_bytes c \<le> length F \<and>
      bytes_at (io_memory s) (uint (request_pos c)) (held_bytes c) = take (held_bytes c) (drop (unat (pos_in_file c)) F))"

text \<open>
  A caller's buffer: in the memory, clear of the cache's, and not so long that the address past
  the end of a read has more than 32 bits.
\<close>

definition apart :: "int \<Rightarrow> int \<Rightarrow> buffer \<Rightarrow> u32 \<Rightarrow> u32 \<Rightarrow> bool" where
  "apart lo hi m B n \<longleftrightarrow> uint B + uint n \<le> buf_size m \<and>
     (uint B + uint n \<le> lo \<or> hi \<le> uint B) \<and> hi + uint n < 2 ^ 32"

definition same_outside :: "int \<Rightarrow> int \<Rightarrow> u32 \<Rightarrow> u32 \<Rightarrow> buffer \<Rightarrow> buffer \<Rightarrow> bool" where
  "same_outside lo hi B n m m' \<longleftrightarrow> buf_size m' = buf_size m \<and>
     (\<forall>a. (a < lo \<or> hi \<le> a) \<and> (a < uint B \<or> uint B + uint n \<le> a) \<longrightarrow> buf_at m' a = buf_at m a)"

text \<open>What the slow paths promise, and what the macros are shown to keep.\<close>

definition delivers_block :: "u8 list \<Rightarrow> int \<Rightarrow> int \<Rightarrow> 'w io_state \<Rightarrow> u32 \<Rightarrow> u32 \<Rightarrow> (int \<times> 'w io_state) res \<Rightarrow> bool" where
  "delivers_block F lo hi s B n out \<longleftrightarrow>
     (if place (io_info s) + unat n \<le> length F
      then \<exists>s'. out = Inr (0, s') \<and> reading F lo hi s' \<and>
        bytes_at (io_memory s') (uint B) (unat n) = take (unat n) (drop (place (io_info s)) F) \<and>
        place (io_info s') = place (io_info s) + unat n \<and>
        same_outside lo hi B n (io_memory s) (io_memory s')
      else \<exists>r s'. out = Inr (r, s') \<and> r \<noteq> 0 \<and> reading F lo hi s' \<and>
        same_outside lo hi B n (io_memory s) (io_memory s'))"

definition hands_out :: "u8 list \<Rightarrow> int \<Rightarrow> int \<Rightarrow> 'w io_state \<Rightarrow> (int \<times> 'w io_state) res \<Rightarrow> bool" where
  "hands_out F lo hi s out \<longleftrightarrow>
     (\<exists>s'. reading F lo hi s' \<and> same_outside lo hi 0 0 (io_memory s) (io_memory s') \<and>
        (if place (io_info s) < length F
         then out = Inr (uint (F ! place (io_info s)), s') \<and> place (io_info s') = place (io_info s) + 1
         else out = Inr (my_b_EOF, s')))"

text \<open>
  The contracts of the two functions that refill a buffer. They leave out the hard errors that
  the comment on \<open>IO_CACHE\<close> describes: reading what the file has does not fail.
\<close>

definition read_contract :: "u8 list \<Rightarrow> int \<Rightarrow> int \<Rightarrow> 'w block_function \<Rightarrow> bool" where
  "read_contract F lo hi f \<longleftrightarrow> (\<forall>s B n. reading F lo hi s \<longrightarrow> apart lo hi (io_memory s) B n \<longrightarrow>
     unat (my_b_bytes_in_cache (io_info s)) < unat n \<longrightarrow> delivers_block F lo hi s B n (f s B n))"

definition get_contract :: "u8 list \<Rightarrow> int \<Rightarrow> int \<Rightarrow> 'w get_function \<Rightarrow> bool" where
  "get_contract F lo hi f \<longleftrightarrow> (\<forall>s. reading F lo hi s \<longrightarrow> my_b_bytes_in_cache (io_info s) = 0 \<longrightarrow>
     hands_out F lo hi s (f s))"

lemma unat_sub32: "(a :: u32) \<le> b \<Longrightarrow> unat (b - a) = unat b - unat a"
  by (rule unat_sub)

lemma unat_add32: "unat (a :: u32) + unat b < 2 ^ 32 \<Longrightarrow> unat (a + b) = unat a + unat b"
  by (simp add: unat_word_ariths)

lemma le32: "(a :: u32) \<le> b \<longleftrightarrow> unat a \<le> unat b"
  by (rule word_le_nat_alt)

lemma unat_of_nat64: "n < 2 ^ 64 \<Longrightarrow> unat (of_nat n :: u64) = n"
  by (simp add: unat_of_nat take_bit_nat_eq_self)

lemma readingD:
  assumes "reading F lo hi s"
  shows "unat (request_pos (io_info s)) \<le> unat (read_pos (io_info s))"
    and "unat (read_pos (io_info s)) \<le> unat (read_end (io_info s))"
    and "0 \<le> lo" and "lo \<le> uint (request_pos (io_info s))"
    and "uint (read_end (io_info s)) \<le> hi" and "hi \<le> buf_size (io_memory s)"
    and "buf_size (io_memory s) \<le> 2 ^ 32"
    and "length F < 2 ^ 64" and "unat (pos_in_file (io_info s)) + held_bytes (io_info s) \<le> length F"
    and "current_pos (io_info s) = At_read_pos" and "current_end (io_info s) = At_read_end"
    and "bytes_at (io_memory s) (uint (request_pos (io_info s))) (held_bytes (io_info s)) =
       take (held_bytes (io_info s)) (drop (unat (pos_in_file (io_info s))) F)"
  using assms unfolding reading_def Let_def le32 by blast+

text \<open>\<open>my_b_tell\<close> is the place in the file, and never wraps.\<close>

lemma tell_place:
  assumes "reading F lo hi s"
  shows "unat (my_b_tell (io_info s)) = place (io_info s)"
proof -
  let ?c = "io_info s"
  note d = readingD [OF assms]
  have p: "place ?c < 2 ^ 64" using d(1,2,8,9) by (simp add: place_def held_bytes_def)
  have "unat (ucast (read_pos ?c - request_pos ?c) :: u64) = unat (read_pos ?c) - unat (request_pos ?c)"
  proof -
    have "unat (read_pos ?c) < 2 ^ LENGTH(32)" by (rule unsigned_less)
    then have "take_bit 64 (unat (read_pos ?c) - unat (request_pos ?c)) = unat (read_pos ?c) - unat (request_pos ?c)"
      by (intro take_bit_nat_eq_self) simp
    then show ?thesis
      using d(1) by (simp add: unsigned_ucast_eq unsigned_take_bit_eq le32 [symmetric] unat_sub32)
  qed
  with p show ?thesis
    by (simp add: my_b_tell_def d(10) place_def unat_word_ariths)
qed

text \<open>The unread bytes of the buffer are the bytes of the file from the place on.\<close>

lemma unread:
  assumes "reading F lo hi s" and "n \<le> unat (read_end (io_info s)) - unat (read_pos (io_info s))"
  shows "bytes_at (io_memory s) (uint (read_pos (io_info s))) n = take n (drop (place (io_info s)) F)"
    and "place (io_info s) + n \<le> length F"
proof -
  let ?c = "io_info s" and ?m = "io_memory s"
  note d = readingD [OF assms(1)]
  let ?k = "unat (read_pos ?c) - unat (request_pos ?c)"
  let ?r = "unat (read_end ?c) - unat (read_pos ?c) - n"
  have h: "held_bytes ?c = ?k + (n + ?r)"
    using d(1,2) assms(2) by (simp add: held_bytes_def)
  have k: "uint (request_pos ?c) + int ?k = uint (read_pos ?c)"
    using d(1) by (simp add: uint_nat of_nat_diff del: of_nat_unat)
  have "bytes_at ?m (uint (request_pos ?c)) (?k + (n + ?r)) =
      bytes_at ?m (uint (request_pos ?c)) ?k @ bytes_at ?m (uint (read_pos ?c)) n @
      bytes_at ?m (uint (read_pos ?c) + int n) ?r"
    unfolding bytes_at_add k by (rule refl)
  then have "bytes_at ?m (uint (read_pos ?c)) n =
      take n (drop ?k (bytes_at ?m (uint (request_pos ?c)) (held_bytes ?c)))"
    unfolding h by simp
  also have "\<dots> = take n (drop (place ?c) F)"
    unfolding d(12) unfolding h place_def by (simp add: drop_take add.commute)
  finally show "bytes_at ?m (uint (read_pos ?c)) n = take n (drop (place ?c) F)" .
  show "place ?c + n \<le> length F"
    using d(9) h by (simp add: place_def)
qed


lemma bytes_in_cache_reading:
  "reading F lo hi s \<Longrightarrow>
   unat (my_b_bytes_in_cache (io_info s)) = unat (read_end (io_info s)) - unat (read_pos (io_info s))"
  using readingD(2,10,11) [of F lo hi s] by (simp add: my_b_bytes_in_cache_def unat_sub32 le32)

text \<open>A write clear of the buffer leaves the cache as it is.\<close>

lemma reading_splice:
  assumes r: "reading F lo hi s" and "i + int (length xs) \<le> lo \<or> hi \<le> i"
  shows "reading F lo hi (s\<lparr>io_memory := splice (io_memory s) i xs\<rparr>)"
proof -
  note d = readingD [OF r]
  have "uint (request_pos (io_info s)) + int (held_bytes (io_info s)) = uint (read_end (io_info s))"
    using d(1,2) by (simp add: held_bytes_def uint_nat of_nat_diff del: of_nat_unat)
  then have "bytes_at (splice (io_memory s) i xs) (uint (request_pos (io_info s))) (held_bytes (io_info s)) =
      bytes_at (io_memory s) (uint (request_pos (io_info s))) (held_bytes (io_info s))"
    using d(4,5) assms(2) by (intro bytes_at_splice_disjoint) linarith
  then show ?thesis
    using r by (simp add: reading_def Let_def)
qed

text \<open>Moving the read position inside the window.\<close>

lemma reading_advance:
  assumes "reading F lo hi s" and "unat p \<le> unat (read_end (io_info s))"
    and "unat (read_pos (io_info s)) \<le> unat p"
  shows "reading F lo hi (s\<lparr>io_info := (io_info s)\<lparr>read_pos := p\<rparr>\<rparr>)"
    and "place ((io_info s)\<lparr>read_pos := p\<rparr>) = place (io_info s) + (unat p - unat (read_pos (io_info s)))"
proof -
  show "reading F lo hi (s\<lparr>io_info := (io_info s)\<lparr>read_pos := p\<rparr>\<rparr>)"
    using assms readingD(1) [OF assms(1)] by (simp add: reading_def Let_def le32 held_bytes_def)
  show "place ((io_info s)\<lparr>read_pos := p\<rparr>) = place (io_info s) + (unat p - unat (read_pos (io_info s)))"
    using assms(3) readingD(1) [OF assms(1)] by (simp add: place_def)
qed

section \<open>The macros read the file\<close>

lemma my_b_read_delivers:
  assumes r: "reading F lo hi s" and a: "apart lo hi (io_memory s) B n" and c: "read_contract F lo hi rf"
  shows "delivers_block F lo hi s B n (my_b_read rf s B n)"
proof -
  let ?c = "io_info s" and ?m = "io_memory s"
  note d = readingD [OF r]
  have sum: "unat (read_pos ?c + n) = unat (read_pos ?c) + unat n"
    using a d(2,5) by (intro unat_add32) (simp add: apart_def uint_nat del: of_nat_unat)
  show ?thesis
  proof (cases "read_pos ?c + n \<le> read_end ?c")
    case True
    then have le: "unat (read_pos ?c) + unat n \<le> unat (read_end ?c)"
      by (simp add: le32 sum)
    let ?xs = "bytes_at ?m (uint (read_pos ?c)) (unat n)"
    have xs: "?xs = take (unat n) (drop (place ?c) F)" "place ?c + unat n \<le> length F"
      using unread [OF r, of "unat n"] le by simp_all
    have "in_bounds ?m (uint (read_pos ?c)) (unat n)" "in_bounds ?m (uint B) (length ?xs)"
      using le d(5,6) a by (simp_all add: in_bounds_def apart_def uint_nat del: of_nat_unat)
    then have copy: "memcpy ?m B (read_pos ?c) n = Inr (splice ?m (uint B) ?xs)"
      by (simp add: memcpy_def load_bytes_at store_bytes_splice)
    let ?s1 = "s\<lparr>io_memory := splice ?m (uint B) ?xs\<rparr>"
    let ?s2 = "?s1\<lparr>io_info := (io_info ?s1)\<lparr>read_pos := read_pos ?c + n\<rparr>\<rparr>"
    have "reading F lo hi ?s1"
      using a by (intro reading_splice [OF r]) (simp add: apart_def uint_nat del: of_nat_unat)
    then have "reading F lo hi ?s2" "place (io_info ?s2) = place ?c + unat n"
      using reading_advance [of F lo hi ?s1 "read_pos ?c + n"] le sum by simp_all
    moreover have "my_b_read rf s B n = Inr (0, ?s2)"
      using True copy by (simp add: my_b_read_def Let_def)
    moreover have "same_outside lo hi B n ?m (io_memory ?s2)"
      by (auto simp: same_outside_def buf_at_splice)
    moreover have "bytes_at (io_memory ?s2) (uint B) (unat n) = ?xs"
      using bytes_at_splice_same [of ?m "uint B" ?xs] by simp
    ultimately show ?thesis
      using xs by (simp add: delivers_block_def)
  next
    case False
    then have "unat (my_b_bytes_in_cache ?c) < unat n"
      using d(2) by (simp add: bytes_in_cache_reading [OF r] le32 sum)
    then have "delivers_block F lo hi s B n (rf s B n)"
      using c r a by (simp add: read_contract_def)
    then show ?thesis using False by (simp add: my_b_read_def Let_def)
  qed
qed

lemma my_b_get_hands_out:
  assumes r: "reading F lo hi s" and c: "get_contract F lo hi gf"
  shows "hands_out F lo hi s (my_b_get gf s)"
proof (cases "read_pos (io_info s) = read_end (io_info s)")
  case True
  then have "my_b_bytes_in_cache (io_info s) = 0"
    using readingD(10,11) [OF r] by (simp add: my_b_bytes_in_cache_def)
  then show ?thesis
    using c r True by (simp add: get_contract_def my_b_get_def Let_def)
next
  case False
  let ?c = "io_info s" and ?m = "io_memory s"
  note d = readingD [OF r]
  have lt: "unat (read_pos ?c) < unat (read_end ?c)"
    using False d(2) by (metis le_neq_implies_less word_unat_eq_iff)
  then have byte: "bytes_at ?m (uint (read_pos ?c)) 1 = take 1 (drop (place ?c) F)" "place ?c + 1 \<le> length F"
    using unread [OF r, of 1] by simp_all
  then have b: "buf_at ?m (uint (read_pos ?c)) = F ! place ?c"
    by (simp add: bytes_at_def take_Suc hd_drop_conv_nth)
  have "0 \<le> uint (read_pos ?c) \<and> uint (read_pos ?c) < buf_size ?m"
    using lt d(5,6) by (simp add: uint_nat del: of_nat_unat)
  then have l: "load_byte ?m (uint (read_pos ?c)) = Inr (F ! place ?c)"
    by (simp add: load_byte_def b)
  have "unat (read_pos ?c + 1) = unat (read_pos ?c) + 1"
    using lt unsigned_less [of "read_end ?c", where ?'a = nat] by (subst unat_add32) simp_all
  then have "reading F lo hi (s\<lparr>io_info := ?c\<lparr>read_pos := read_pos ?c + 1\<rparr>\<rparr>)"
    "place (?c\<lparr>read_pos := read_pos ?c + 1\<rparr>) = place ?c + 1"
    using reading_advance [OF r, of "read_pos ?c + 1"] lt by simp_all
  then show ?thesis
    using False byte(2)
    by (auto simp: hands_out_def my_b_get_def Let_def l same_outside_def intro!: exI [of _ "s\<lparr>io_info := ?c\<lparr>read_pos := read_pos ?c + 1\<rparr>\<rparr>"])
qed


text \<open>A program that reads: blocks into its own buffers and single bytes, until one fails.\<close>

datatype read_op = ReadBlock u32 u32 | ReadByte

fun read_run ::
  "'w block_function \<Rightarrow> 'w get_function \<Rightarrow> read_op list \<Rightarrow> 'w io_state \<Rightarrow> (u8 list list \<times> 'w io_state) res" where
  "read_run rf gf [] s = Inr ([], s)"
| "read_run rf gf (ReadBlock B n # ops) s =
     rbind (my_b_read rf s B n) (\<lambda>(r, s1).
       if r \<noteq> 0 then Inr ([], s1)
       else rbind (load_bytes (io_memory s1) (uint B) (unat n)) (\<lambda>bs.
            rbind (read_run rf gf ops s1) (\<lambda>(out, s2). Inr (bs # out, s2))))"
| "read_run rf gf (ReadByte # ops) s =
     rbind (my_b_get gf s) (\<lambda>(r, s1).
       if r = my_b_EOF then Inr ([], s1)
       else rbind (read_run rf gf ops s1) (\<lambda>(out, s2). Inr ([word_of_int r] # out, s2)))"

text \<open>The same program on a file with no buffer, from the place \<open>p\<close> on.\<close>

fun file_run :: "u8 list \<Rightarrow> nat \<Rightarrow> read_op list \<Rightarrow> u8 list list" where
  "file_run F p [] = []"
| "file_run F p (ReadBlock B n # ops) =
     (if p + unat n \<le> length F then take (unat n) (drop p F) # file_run F (p + unat n) ops else [])"
| "file_run F p (ReadByte # ops) =
     (if p < length F then [F ! p] # file_run F (p + 1) ops else [])"

definition ops_apart :: "int \<Rightarrow> int \<Rightarrow> buffer \<Rightarrow> read_op list \<Rightarrow> bool" where
  "ops_apart lo hi m ops \<longleftrightarrow> (\<forall>op \<in> set ops. case op of ReadBlock B n \<Rightarrow> apart lo hi m B n | ReadByte \<Rightarrow> True)"

lemma ops_apart_Cons [simp]:
  "ops_apart lo hi m (ReadBlock B n # ops) \<longleftrightarrow> apart lo hi m B n \<and> ops_apart lo hi m ops"
  "ops_apart lo hi m (ReadByte # ops) \<longleftrightarrow> ops_apart lo hi m ops"
  by (simp_all add: ops_apart_def)

lemma ops_apart_size: "buf_size m' = buf_size m \<Longrightarrow> ops_apart lo hi m' ops \<longleftrightarrow> ops_apart lo hi m ops"
  by (simp add: ops_apart_def apart_def cong: read_op.case_cong)

lemma file_run_consecutive:
  "concat (file_run F p ops) = take (length (concat (file_run F p ops))) (drop p F)"
proof (induction F p ops rule: file_run.induct)
  case (2 F p B n ops)
  show ?case
  proof (cases "p + unat n \<le> length F")
    case True
    let ?rest = "concat (file_run F (p + unat n) ops)"
    have len: "length (take (unat n) (drop p F)) = unat n" using True by simp
    have "take (unat n + length ?rest) (drop p F) = take (unat n) (drop p F) @ take (length ?rest) (drop (p + unat n) F)"
      by (simp add: take_add add.commute)
    then show ?thesis
      using 2 [OF True] True len by simp
  qed simp
next
  case (3 F p ops)
  then show ?case
    by (auto simp: take_Suc_conv_app_nth Cons_nth_drop_Suc [symmetric] simp del: take_append)
qed simp

lemma byte_not_EOF: "uint (b :: u8) \<noteq> my_b_EOF"
  proof -
  have "my_b_EOF < 0" by (simp add: my_b_EOF_def)
  then show ?thesis using uint_ge_0 [of b] by linarith
qed

lemma read_run_file:
  assumes "read_contract F lo hi rf" and "get_contract F lo hi gf"
    and "reading F lo hi s" and "ops_apart lo hi (io_memory s) ops"
  shows "\<exists>s'. read_run rf gf ops s = Inr (file_run F (place (io_info s)) ops, s') \<and> reading F lo hi s'"
  using assms(3,4)
proof (induction ops arbitrary: s)
  case (Cons op ops)
  show ?case
  proof (cases op)
    case (ReadBlock B n)
    have ap: "apart lo hi (io_memory s) B n" using Cons.prems(2) ReadBlock by simp
    have d: "delivers_block F lo hi s B n (my_b_read rf s B n)"
      by (rule my_b_read_delivers [OF Cons.prems(1) ap assms(1)])
    show ?thesis
    proof (cases "place (io_info s) + unat n \<le> length F")
      case True
      then obtain s1 where s1: "my_b_read rf s B n = Inr (0, s1)" "reading F lo hi s1"
        "bytes_at (io_memory s1) (uint B) (unat n) = take (unat n) (drop (place (io_info s)) F)"
        "place (io_info s1) = place (io_info s) + unat n" "buf_size (io_memory s1) = buf_size (io_memory s)"
        using d by (auto simp: delivers_block_def same_outside_def)
      have "in_bounds (io_memory s1) (uint B) (unat n)"
        using ap s1(5) by (simp add: in_bounds_def apart_def)
      moreover obtain s2 where "read_run rf gf ops s1 = Inr (file_run F (place (io_info s1)) ops, s2)"
        "reading F lo hi s2"
        using Cons.IH [OF s1(2)] Cons.prems(2) ReadBlock ops_apart_size [OF s1(5)] by auto
      ultimately show ?thesis
        using True by (simp add: ReadBlock s1 load_bytes_at)
    next
      case False
      then show ?thesis using d by (auto simp: delivers_block_def ReadBlock)
    qed
  next
    case ReadByte
    obtain s1 where s1: "reading F lo hi s1" "buf_size (io_memory s1) = buf_size (io_memory s)"
      "if place (io_info s) < length F
       then my_b_get gf s = Inr (uint (F ! place (io_info s)), s1) \<and> place (io_info s1) = place (io_info s) + 1
       else my_b_get gf s = Inr (my_b_EOF, s1)"
      using my_b_get_hands_out [OF Cons.prems(1) assms(2)]
      by (auto simp: hands_out_def same_outside_def)
    obtain s2 where "read_run rf gf ops s1 = Inr (file_run F (place (io_info s1)) ops, s2)" "reading F lo hi s2"
      using Cons.IH [OF s1(1)] Cons.prems(2) ReadByte ops_apart_size [OF s1(2)] by auto
    then show ?thesis
      using s1 by (cases "place (io_info s) < length F") (simp_all add: ReadByte byte_not_EOF)
  qed
qed simp

text \<open>
  A count for which the address past the end does not fit 32 bits passes the test, and the copy
  runs out of the memory: the slow path is never asked.
\<close>

lemma my_b_read_wrapped:
  assumes "reading F lo hi s" and "2 ^ 32 < unat (read_pos (io_info s)) + unat n"
  shows "my_b_read rf s B n = Inl ReadOutOfBounds"
proof -
  let ?c = "io_info s"
  note d = readingD [OF assms(1)]
  have n: "unat n < 2 ^ 32" using unsigned_less [of n, where ?'a = nat] by simp
  then have "unat (read_pos ?c + n) = unat (read_pos ?c) + unat n - 2 ^ 32"
    using assms(2) unsigned_less [of "read_pos ?c", where ?'a = nat]
    by (simp add: unat_word_ariths mod_if)
  then have "read_pos ?c + n \<le> read_end ?c"
    using n d(2) by (simp add: le32)
  moreover have "0 < unat n" using assms(2) unsigned_less [of "read_pos ?c", where ?'a = nat] by simp
  moreover have "buf_size (io_memory s) < uint (read_pos ?c) + int (unat n)"
    using assms(2) d(7) by (simp add: uint_nat del: of_nat_unat)
  ultimately show ?thesis
    by (simp add: my_b_read_def Let_def memcpy_def load_bytes_fault in_bounds_def)
qed


section \<open>Writing: what a file will hold\<close>

text \<open>
  \<open>fl\<close> gives the bytes the device already has, which are fewer than a file offset can count. \<open>file_after\<close> is what the file holds once the
  buffer goes out.
\<close>

definition writing :: "('w \<Rightarrow> u8 list) \<Rightarrow> int \<Rightarrow> int \<Rightarrow> 'w io_state \<Rightarrow> bool" where
  "writing fl lo hi s \<longleftrightarrow>
     (let c = io_info s in
      current_pos c = At_write_pos \<and> current_end c = At_write_end \<and>
      request_pos c \<le> write_pos c \<and> write_pos c \<le> write_end c \<and>
      0 \<le> lo \<and> lo \<le> uint (request_pos c) \<and> uint (write_end c) \<le> hi \<and> hi \<le> buf_size (io_memory s) \<and>
      buf_size (io_memory s) \<le> 2 ^ 32 \<and> unat (pos_in_file c) = length (fl (io_device s)))"

definition waiting :: "io_cache \<Rightarrow> nat" where
  "waiting c = unat (write_pos c) - unat (request_pos c)"

definition file_after :: "('w \<Rightarrow> u8 list) \<Rightarrow> 'w io_state \<Rightarrow> u8 list" where
  "file_after fl s = fl (io_device s) @
     bytes_at (io_memory s) (uint (request_pos (io_info s))) (waiting (io_info s))"

definition appends :: "('w \<Rightarrow> u8 list) \<Rightarrow> int \<Rightarrow> int \<Rightarrow> 'w io_state \<Rightarrow> u32 \<Rightarrow> u32 \<Rightarrow> (int \<times> 'w io_state) res \<Rightarrow> bool" where
  "appends fl lo hi s B n out \<longleftrightarrow> (\<exists>s'. out = Inr (0, s') \<and> writing fl lo hi s' \<and>
     file_after fl s' = file_after fl s @ bytes_at (io_memory s) (uint B) (unat n) \<and>
     same_outside lo hi 0 0 (io_memory s) (io_memory s'))"

text \<open>
  The contract of the function that empties a buffer. It leaves out the errors and the partial
  writes that the comment on \<open>IO_CACHE\<close> describes.
\<close>

definition write_contract :: "('w \<Rightarrow> u8 list) \<Rightarrow> int \<Rightarrow> int \<Rightarrow> 'w block_function \<Rightarrow> bool" where
  "write_contract fl lo hi f \<longleftrightarrow> (\<forall>s B n. writing fl lo hi s \<longrightarrow> apart lo hi (io_memory s) B n \<longrightarrow>
     unat (my_b_bytes_in_cache (io_info s)) < unat n \<longrightarrow> length (file_after fl s) + unat n < 2 ^ 64 \<longrightarrow>
     appends fl lo hi s B n (f s B n))"

lemma writingD:
  assumes "writing fl lo hi s"
  shows "unat (request_pos (io_info s)) \<le> unat (write_pos (io_info s))"
    and "unat (write_pos (io_info s)) \<le> unat (write_end (io_info s))"
    and "0 \<le> lo" and "lo \<le> uint (request_pos (io_info s))"
    and "uint (write_end (io_info s)) \<le> hi" and "hi \<le> buf_size (io_memory s)"
    and "buf_size (io_memory s) \<le> 2 ^ 32"
    and "unat (pos_in_file (io_info s)) = length (fl (io_device s))"
    and "current_pos (io_info s) = At_write_pos" and "current_end (io_info s) = At_write_end"
  using assms unfolding writing_def Let_def le32 by blast+

text \<open>\<open>my_b_tell\<close> is the length of what has been written, at its width.\<close>

lemma tell_written:
  assumes "writing fl lo hi s"
  shows "my_b_tell (io_info s) = of_nat (length (file_after fl s))"
proof -
  note d = writingD [OF assms]
  have "request_pos (io_info s) \<le> write_pos (io_info s)" using d(1) by (simp add: le32)
  then have "write_pos (io_info s) - request_pos (io_info s) = of_nat (waiting (io_info s))"
    by (simp add: waiting_def unat_sub32 [symmetric])
  moreover have "waiting (io_info s) < 2 ^ 32"
    using unsigned_less [of "write_pos (io_info s)", where ?'a = nat] by (simp add: waiting_def)
  ultimately have "ucast (write_pos (io_info s) - request_pos (io_info s)) = (of_nat (waiting (io_info s)) :: u64)"
    by (simp add: unsigned_ucast_eq word_unat_eq_iff unat_of_nat take_bit_nat_eq_self)
  moreover have "pos_in_file (io_info s) = of_nat (length (fl (io_device s)))"
    by (simp add: d(8) [symmetric])
  ultimately show ?thesis
    by (simp add: my_b_tell_def d(9) file_after_def)
qed

lemma my_b_write_appends:
  assumes w: "writing fl lo hi s" and a: "apart lo hi (io_memory s) B n" and c: "write_contract fl lo hi wr"
    and room: "length (file_after fl s) + unat n < 2 ^ 64"
  shows "appends fl lo hi s B n (my_b_write wr s B n)"
proof -
  let ?c = "io_info s" and ?m = "io_memory s"
  note d = writingD [OF w]
  have sum: "unat (write_pos ?c + n) = unat (write_pos ?c) + unat n"
    using a d(2,5) by (intro unat_add32) (simp add: apart_def uint_nat del: of_nat_unat)
  show ?thesis
  proof (cases "write_pos ?c + n \<le> write_end ?c")
    case True
    then have le: "unat (write_pos ?c) + unat n \<le> unat (write_end ?c)"
      by (simp add: le32 sum)
    let ?xs = "bytes_at ?m (uint B) (unat n)"
    let ?m' = "splice ?m (uint (write_pos ?c)) ?xs"
    let ?s' = "s\<lparr>io_memory := ?m', io_info := ?c\<lparr>write_pos := write_pos ?c + n\<rparr>\<rparr>"
    have "in_bounds ?m (uint B) (unat n)" "in_bounds ?m (uint (write_pos ?c)) (length ?xs)"
      using le d(5,6) a by (simp_all add: in_bounds_def apart_def uint_nat del: of_nat_unat)
    then have "memcpy ?m (write_pos ?c) B n = Inr ?m'"
      by (simp add: memcpy_def load_bytes_at store_bytes_splice)
    then have "my_b_write wr s B n = Inr (0, ?s')"
      using True by (simp add: my_b_write_def Let_def)
    moreover have "writing fl lo hi ?s'"
      using w le d(1) sum by (simp add: writing_def Let_def le32)
    moreover have "file_after fl ?s' = file_after fl s @ ?xs"
    proof -
      have "waiting (io_info ?s') = waiting ?c + unat n"
        using d(1) sum by (simp add: waiting_def)
      moreover have "uint (request_pos ?c) + int (waiting ?c) = uint (write_pos ?c)"
        using d(1) by (simp add: waiting_def uint_nat of_nat_diff del: of_nat_unat)
      moreover have "bytes_at ?m' (uint (request_pos ?c)) (waiting ?c) = bytes_at ?m (uint (request_pos ?c)) (waiting ?c)"
        using calculation(2) by (intro bytes_at_splice_disjoint) simp
      moreover have "bytes_at ?m' (uint (write_pos ?c)) (unat n) = ?xs"
        using bytes_at_splice_same [of ?m "uint (write_pos ?c)" ?xs] by simp
      ultimately show ?thesis
        by (simp add: file_after_def bytes_at_add)
    qed
    moreover have "same_outside lo hi 0 0 ?m ?m'"
    proof -
      have "lo \<le> uint (write_pos ?c)" "uint (write_pos ?c) + int (unat n) \<le> hi"
        using d(1,4,5) le by (simp_all add: uint_nat del: of_nat_unat)
      then show ?thesis by (auto simp: same_outside_def buf_at_splice)
    qed
    ultimately show ?thesis by (simp add: appends_def)
  next
    case False
    then have "unat (my_b_bytes_in_cache ?c) < unat n"
      using d(2,9,10) by (simp add: my_b_bytes_in_cache_def unat_sub32 le32 sum)
    then have "appends fl lo hi s B n (wr s B n)"
      using c w a room by (simp add: write_contract_def)
    then show ?thesis using False by (simp add: my_b_write_def Let_def)
  qed
qed

fun write_run :: "'w block_function \<Rightarrow> (u32 \<times> u32) list \<Rightarrow> 'w io_state \<Rightarrow> (int \<times> 'w io_state) res" where
  "write_run wr [] s = Inr (0, s)"
| "write_run wr ((B, n) # ops) s =
     rbind (my_b_write wr s B n) (\<lambda>(r, s1). if r \<noteq> 0 then Inr (r, s1) else write_run wr ops s1)"

text \<open>A caller's bytes stay as they are while the cache is written.\<close>

lemma same_outside_bytes:
  assumes "same_outside lo hi 0 0 m m'" and "apart lo hi m B n"
  shows "bytes_at m' (uint B) (unat n) = bytes_at m (uint B) (unat n)" and "apart lo hi m' B n"
  using assms by (auto simp: same_outside_def apart_def bytes_at_def uint_nat simp del: of_nat_unat)

lemma write_run_appends:
  assumes "write_contract fl lo hi wr" and "writing fl lo hi s"
    and "\<forall>(B, n) \<in> set ops. apart lo hi (io_memory s) B n"
    and "length (file_after fl s) + sum_list (map (unat \<circ> snd) ops) < 2 ^ 64"
  shows "\<exists>s'. write_run wr ops s = Inr (0, s') \<and> writing fl lo hi s' \<and>
     file_after fl s' = file_after fl s @ concat (map (\<lambda>(B, n). bytes_at (io_memory s) (uint B) (unat n)) ops)"
  using assms(2-)
proof (induction ops arbitrary: s)
  case (Cons op ops)
  obtain B n where op: "op = (B, n)" by (cases op)
  have "apart lo hi (io_memory s) B n" "length (file_after fl s) + unat n < 2 ^ 64"
    using Cons.prems(2,3) op by simp_all
  then obtain s1 where s1: "my_b_write wr s B n = Inr (0, s1)" "writing fl lo hi s1"
    "file_after fl s1 = file_after fl s @ bytes_at (io_memory s) (uint B) (unat n)"
    "same_outside lo hi 0 0 (io_memory s) (io_memory s1)"
    using my_b_write_appends [OF Cons.prems(1) _ assms(1)] by (auto simp: appends_def)
  have ap: "\<forall>(B, n) \<in> set ops. apart lo hi (io_memory s1) B n"
    using Cons.prems(2) same_outside_bytes(2) [OF s1(4)] by fastforce
  have eq: "map (\<lambda>(B, n). bytes_at (io_memory s1) (uint B) (unat n)) ops =
      map (\<lambda>(B, n). bytes_at (io_memory s) (uint B) (unat n)) ops"
    using Cons.prems(2) same_outside_bytes(1) [OF s1(4)] by fastforce
  show ?case
    using Cons.IH [OF s1(2) ap] s1(1,3) Cons.prems(3) unfolding eq by (auto simp: op)
qed simp

section \<open>Properties\<close>

text \<open>
  C35: A program that reads blocks and single bytes through the macros sees the file itself. Whichever
  requests the buffer serves and whichever the slow path, it gets the same bytes, one run of the
  file from the place where it started, and is refused at the same request as without a buffer;
  and \<open>my_b_tell\<close> tells that place. The functions that refill the buffer keep their contract, in
  which reading the bytes that the file has does not fail.
\<close>

theorem cache_reads_file:
  assumes "read_contract F lo hi rf" and "get_contract F lo hi gf"
    and "reading F lo hi s" and "ops_apart lo hi (io_memory s) ops"
  shows "\<exists>s'. read_run rf gf ops s = Inr (file_run F (unat (my_b_tell (io_info s))) ops, s') \<and>
     reading F lo hi s' \<and>
     (let out = concat (file_run F (unat (my_b_tell (io_info s))) ops)
      in out = take (length out) (drop (unat (my_b_tell (io_info s))) F))"
  using read_run_file [OF assms] file_run_consecutive [of F "place (io_info s)" ops]
  unfolding tell_place [OF assms(3)] Let_def by blast

text \<open>Slow paths that do without the buffer: they read from the file and leave the window empty.\<close>

definition empty_window :: "io_cache \<Rightarrow> nat \<Rightarrow> io_cache" where
  "empty_window c p = c\<lparr>pos_in_file := of_nat p, read_pos := request_pos c, read_end := request_pos c\<rparr>"

definition direct_read :: "u8 list \<Rightarrow> 'w block_function" where
  "direct_read F s B n =
     (let p = place (io_info s) in
      if p + unat n \<le> length F
      then rbind (store_bytes (io_memory s) (uint B) (take (unat n) (drop p F))) (\<lambda>m.
             Inr (0, s\<lparr>io_memory := m, io_info := empty_window (io_info s) (p + unat n)\<rparr>))
      else Inr (1, s))"

definition direct_get :: "u8 list \<Rightarrow> 'w get_function" where
  "direct_get F s =
     (let p = place (io_info s) in
      if p < length F then Inr (uint (F ! p), s\<lparr>io_info := empty_window (io_info s) (p + 1)\<rparr>)
      else Inr (my_b_EOF, s))"

lemma reading_empty:
  assumes "reading F lo hi s" and "p \<le> length F"
  shows "reading F lo hi (s\<lparr>io_info := empty_window (io_info s) p\<rparr>)" and "place (empty_window (io_info s) p) = p"
proof -
  have "p < 2 ^ 64" using assms readingD(8) [OF assms(1)] by linarith
  then have p: "unat (of_nat p :: u64) = p"
    by (rule unat_of_nat64)
  then show "place (empty_window (io_info s) p) = p"
    by (simp add: place_def empty_window_def)
  have "uint (request_pos (io_info s)) \<le> hi"
    using readingD(1,2,5) [OF assms(1)] by (simp add: uint_nat del: of_nat_unat)
  then show "reading F lo hi (s\<lparr>io_info := empty_window (io_info s) p\<rparr>)"
    using assms p by (simp add: reading_def Let_def empty_window_def held_bytes_def)
qed

lemma direct_read_contract: "read_contract F lo hi (direct_read F)"
  unfolding read_contract_def
proof (intro allI impI)
  fix s :: "'a io_state" and B n :: u32
  assume r: "reading F lo hi s" and a: "apart lo hi (io_memory s) B n"
  let ?p = "place (io_info s)" and ?xs = "take (unat n) (drop (place (io_info s)) F)"
  show "delivers_block F lo hi s B n (direct_read F s B n)"
  proof (cases "?p + unat n \<le> length F")
    case True
    then have len: "length ?xs = unat n" by simp
    have "store_bytes (io_memory s) (uint B) ?xs = Inr (splice (io_memory s) (uint B) ?xs)"
      using a len by (intro store_bytes_splice) (simp add: in_bounds_def apart_def)
    moreover have "reading F lo hi (s\<lparr>io_memory := splice (io_memory s) (uint B) ?xs\<rparr>)"
      using a len by (intro reading_splice [OF r]) (simp add: apart_def)
    note reading_empty [OF this True]
    moreover have "same_outside lo hi B n (io_memory s) (splice (io_memory s) (uint B) ?xs)"
      using len by (auto simp: same_outside_def buf_at_splice)
    moreover have "bytes_at (splice (io_memory s) (uint B) ?xs) (uint B) (unat n) = ?xs"
      using bytes_at_splice_same [of "io_memory s" "uint B" ?xs] len by simp
    ultimately show ?thesis
      using True by (simp add: delivers_block_def direct_read_def Let_def)
  next
    case False
    then show ?thesis using r by (simp add: delivers_block_def direct_read_def Let_def same_outside_def)
  qed
qed

lemma direct_get_contract: "get_contract F lo hi (direct_get F)"
  unfolding get_contract_def
proof (intro allI impI)
  fix s :: "'a io_state"
  assume r: "reading F lo hi s"
  show "hands_out F lo hi s (direct_get F s)"
  proof (cases "place (io_info s) < length F")
    case True
    then show ?thesis
      using reading_empty [OF r, of "place (io_info s) + 1"]
      by (auto simp: hands_out_def direct_get_def Let_def same_outside_def
          intro!: exI [of _ "s\<lparr>io_info := empty_window (io_info s) (place (io_info s) + 1)\<rparr>"])
  next
    case False
    then show ?thesis using r by (auto simp: hands_out_def direct_get_def Let_def same_outside_def)
  qed
qed

text \<open>A file of five bytes, of which the buffer at address 8 holds the second and the third.\<close>

definition demo_file :: "u8 list" where
  "demo_file = [10, 20, 30, 40, 50]"

definition demo_cache :: "unit io_state" where
  "demo_cache = \<lparr>io_memory = splice \<lparr>buf_size = 64, buf_at = (\<lambda>_. 0)\<rparr> 8 [20, 30],
     io_info = \<lparr>pos_in_file = 1, end_of_file = 5, read_pos = 8, read_end = 10, cache_buffer = 8,
       request_pos = 8, write_buffer = 8, append_read_pos = 0, write_pos = 8, write_end = 0,
       current_pos = At_read_pos, current_end = At_read_end\<rparr>,
     io_device = ()\<rparr>"

theorem cache_reads_file_witness:
  "\<exists>s'. read_run (direct_read demo_file) (direct_get demo_file) [ReadByte, ReadBlock 32 2, ReadByte, ReadByte] demo_cache =
     Inr ([[20], [30, 40], [50]], s')"
proof -
  have two: "(2 :: nat) = length [20, 30 :: u8]" by simp
  have "bytes_at (io_memory demo_cache) 8 2 = [20, 30]"
    unfolding demo_cache_def io_state.select_convs two by (rule bytes_at_splice_same)
  then have "reading demo_file 8 16 demo_cache"
    by (simp add: reading_def Let_def held_bytes_def demo_file_def demo_cache_def)
  moreover have "ops_apart 8 16 (io_memory demo_cache) [ReadByte, ReadBlock 32 2, ReadByte, ReadByte]"
    by (simp add: ops_apart_def apart_def demo_cache_def)
  ultimately show ?thesis
    using cache_reads_file [OF direct_read_contract direct_get_contract, of demo_file 8 16 demo_cache]
    by (fastforce simp: demo_file_def demo_cache_def my_b_tell_def)
qed

text \<open>
  C36: What a program writes through the macro arrives in the file in order, complete and once: the
  bytes the device has and those still in the buffer are the file as it was followed by every
  block, and \<open>my_b_tell\<close> is its length. The function that empties the buffer keeps its contract,
  in which writing does not fail.
\<close>

theorem cache_writes_append:
  assumes "write_contract fl lo hi wr" and "writing fl lo hi s"
    and "\<forall>(B, n) \<in> set ops. apart lo hi (io_memory s) B n"
    and "length (file_after fl s) + sum_list (map (unat \<circ> snd) ops) < 2 ^ 64"
  shows "\<exists>s'. write_run wr ops s = Inr (0, s') \<and>
     file_after fl s' = file_after fl s @ concat (map (\<lambda>(B, n). bytes_at (io_memory s) (uint B) (unat n)) ops) \<and>
     my_b_tell (io_info s') = of_nat (length (file_after fl s'))"
  using write_run_appends [OF assms] tell_written by blast

text \<open>A slow path that puts the buffer and the block out at once.\<close>

definition put_out :: "u8 list \<Rightarrow> (u8 list) io_state \<Rightarrow> (u8 list) io_state" where
  "put_out out s = s\<lparr>io_device := out,
     io_info := (io_info s)\<lparr>pos_in_file := of_nat (length out), write_pos := request_pos (io_info s)\<rparr>\<rparr>"

definition direct_write :: "(u8 list) block_function" where
  "direct_write s B n =
     rbind (load_bytes (io_memory s) (uint B) (unat n)) (\<lambda>bs. Inr (0, put_out (file_after id s @ bs) s))"

lemma writing_put_out:
  assumes "writing id lo hi s" and "length out < 2 ^ 64"
  shows "writing id lo hi (put_out out s)" and "file_after id (put_out out s) = out"
  using assms(1) writingD(1,2) [OF assms(1)] unat_of_nat64 [OF assms(2)]
  by (simp_all add: writing_def Let_def put_out_def le32 file_after_def waiting_def)

lemma direct_write_contract: "write_contract id lo hi direct_write"
  unfolding write_contract_def
proof (intro allI impI)
  fix s :: "(u8 list) io_state" and B n :: u32
  assume w: "writing id lo hi s" and a: "apart lo hi (io_memory s) B n"
    and room: "length (file_after id s) + unat n < 2 ^ 64"
  let ?bs = "bytes_at (io_memory s) (uint B) (unat n)"
  have "load_bytes (io_memory s) (uint B) (unat n) = Inr ?bs"
    using a by (intro load_bytes_at) (simp add: in_bounds_def apart_def)
  moreover have "length (file_after id s @ ?bs) < 2 ^ 64"
    using room by simp
  note writing_put_out [OF w this]
  ultimately show "appends id lo hi s B n (direct_write s B n)"
    by (simp add: appends_def direct_write_def same_outside_def) (simp add: put_out_def)
qed

text \<open>A cache with room for four bytes, one of them taken, over an empty file.\<close>

definition demo_writer :: "(u8 list) io_state" where
  "demo_writer = \<lparr>io_memory = splice \<lparr>buf_size = 64, buf_at = (\<lambda>_. 0)\<rparr> 32 [1, 2, 3],
     io_info = \<lparr>pos_in_file = 0, end_of_file = 0, read_pos = 8, read_end = 8, cache_buffer = 8,
       request_pos = 8, write_buffer = 8, append_read_pos = 0, write_pos = 9, write_end = 12,
       current_pos = At_write_pos, current_end = At_write_end\<rparr>,
     io_device = []\<rparr>"

theorem cache_writes_append_witness:
  "\<exists>s'. write_run direct_write [(32, 3), (33, 2)] demo_writer = Inr (0, s') \<and>
     file_after id s' = [0, 1, 2, 3, 2, 3] \<and> my_b_tell (io_info s') = 6"
proof -
  have "writing id 8 16 demo_writer"
    by (simp add: writing_def Let_def demo_writer_def)
  moreover have "\<forall>(B, n) \<in> set [(32, 3), (33, 2)]. apart 8 16 (io_memory demo_writer) B n"
    by (simp add: apart_def demo_writer_def)
  moreover have "file_after id demo_writer = [0]"
    by (simp add: file_after_def demo_writer_def waiting_def bytes_at_def buf_at_splice)
  moreover have "bytes_at (io_memory demo_writer) 32 3 = [1, 2, 3]" "bytes_at (io_memory demo_writer) 33 2 = [2, 3]"
    by (simp_all add: demo_writer_def bytes_at_def buf_at_splice upt_rec [where ?j = 3] upt_rec [where ?j = 2])
  ultimately show ?thesis
    using cache_writes_append [OF direct_write_contract, of 8 16 demo_writer "[(32, 3), (33, 2)]"] by auto
qed

text \<open>
  The macro compares addresses, and with a count for which the address past the end needs more
  than 32 bits the comparison holds for the wrong reason: the block is copied out of the memory
  instead of being read from the file, and the access is out of bounds.
\<close>

theorem huge_count_skips_test:
  assumes "reading F lo hi s" and "2 ^ 32 < unat (read_pos (io_info s)) + unat n"
  shows "my_b_read rf s B n = Inl ReadOutOfBounds"
  using assms by (rule my_b_read_wrapped)

theorem huge_count_skips_test_witness:
  "my_b_read (direct_read []) (demo_cache\<lparr>io_info := empty_window (io_info demo_cache) 0\<rparr>) 32 0xFFFFFFFF = Inl ReadOutOfBounds"
  by (rule huge_count_skips_test [where F = "[]" and lo = 8 and hi = 16])
    (simp_all add: reading_def Let_def held_bytes_def empty_window_def demo_cache_def)

end
