(* ===== verification/MySQL_Macros.thy ===== *)
theory MySQL_Macros
  imports SG_Prelude
begin

text \<open>
  Macros of the MySQL headers that compute: alignment, minima and maxima and bit tests
  (my_global.h), two-byte character units and the character classes (m_ctype.h), decimals
  (decimal.h), the types of columns (binary_log_types.h, mysql.h), the messages of the client's
  errors (errmsg.h) and the calls of a connection's methods (sql_common.h).
\<close>

section \<open>Alignment\<close>

text \<open>At the width of \<open>size_t\<close> of the Windows build.\<close>

definition MY_ALIGN :: "u32 \<Rightarrow> u32 \<Rightarrow> u32" where
  "MY_ALIGN x l = (x + l - 1) AND NOT (l - 1)"

definition ALIGN_SIZE :: "u32 \<Rightarrow> u32" where
  "ALIGN_SIZE x = MY_ALIGN x 8"

lemma and_not_mask: "(x :: u32) AND NOT (mask k) = push_bit k (drop_bit k x)"
  by (rule bit_word_eqI) (auto simp: bit_simps)

lemma uint_and_not_mask:
  assumes "k < 32"
  shows "uint ((x :: u32) AND NOT (mask k)) = uint x div 2 ^ k * 2 ^ k"
proof -
  have le: "uint x div 2 ^ k * 2 ^ k \<le> uint x"
    using pos_mod_sign [of "2 ^ k :: int" "uint x"] by (simp add: minus_mod_eq_div_mult [symmetric])
  have "0 \<le> uint x div 2 ^ k * 2 ^ k"
    by (intro mult_nonneg_nonneg) (simp_all add: pos_imp_zdiv_nonneg_iff)
  moreover have x: "uint x < 2 ^ 32" using uint_lt2p [of x] by simp
  ultimately have "take_bit 32 (uint x div 2 ^ k * 2 ^ k) = uint x div 2 ^ k * 2 ^ k"
    using le by (intro take_bit_int_eq_self) simp_all
  moreover have "take_bit 32 (uint x) = uint x"
    using x by (intro take_bit_int_eq_self) simp_all
  ultimately show ?thesis
    unfolding and_not_mask unsigned_push_bit_eq unsigned_drop_bit_eq
    by (simp add: push_bit_eq_mult drop_bit_eq_div)
qed

text \<open>
  A size is rounded up to the next multiple of the alignment, a power of two; one that is closer
  to the end of the range than the alignment is rounded to 0.
\<close>

lemma align_exact:
  assumes k: "k < 32"
  shows "uint (MY_ALIGN x (2 ^ k)) =
    (if uint x \<le> 2 ^ 32 - 2 ^ k then (uint x + 2 ^ k - 1) div 2 ^ k * 2 ^ k else 0)"
proof -
  have m: "x + 2 ^ k - 1 = x + mask k" "(2 ^ k :: u32) - 1 = mask k"
    by (simp_all add: mask_eq_decr_exp)
  have p: "0 < (2 :: int) ^ k" "(2 :: int) ^ k \<le> 2 ^ 32"
    using k power_increasing [of k 32 "2 :: int"] by simp_all
  have um: "uint (mask k :: u32) = 2 ^ k - 1"
    using k by (simp add: uint_mask_eq min.absorb2) (simp add: mask_eq_exp_minus_1)
  have x: "uint x < 2 ^ 32" using uint_lt2p [of x] by simp
  have "uint (x + mask k) = (if uint x \<le> 2 ^ 32 - 2 ^ k then uint x + 2 ^ k - 1 else uint x + 2 ^ k - 1 - 2 ^ 32)"
    using x p by (simp add: uint_plus_if' um)
  moreover have "(uint x + 2 ^ k - 1 - 2 ^ 32) div 2 ^ k = 0" if "\<not> uint x \<le> 2 ^ 32 - 2 ^ k"
    using that x p by (intro div_pos_pos_trivial) linarith+
  ultimately show ?thesis
    unfolding MY_ALIGN_def m uint_and_not_mask [OF k] by simp
qed

lemma align_least:
  assumes "k < 32" and "uint x \<le> 2 ^ 32 - 2 ^ k"
  shows "2 ^ k dvd (uint x + 2 ^ k - 1) div 2 ^ k * 2 ^ k"
    and "uint x \<le> (uint x + 2 ^ k - 1) div 2 ^ k * 2 ^ k"
    and "2 ^ k dvd y \<Longrightarrow> uint x \<le> y \<Longrightarrow> (uint x + 2 ^ k - 1) div 2 ^ k * 2 ^ k \<le> y"
proof -
  let ?p = "2 ^ k :: int"
  have p: "0 < ?p" by simp
  have "(uint x + ?p - 1) div ?p * ?p = uint x + ?p - 1 - (uint x + ?p - 1) mod ?p"
    by (simp add: minus_mod_eq_div_mult)
  moreover have "(uint x + ?p - 1) mod ?p < ?p" using p by simp
  ultimately show "uint x \<le> (uint x + ?p - 1) div ?p * ?p" by linarith
  assume "?p dvd y" "uint x \<le> y"
  then obtain q where q: "y = ?p * q" by (auto elim: dvdE)
  let ?d = "(uint x + ?p - 1) div ?p"
  have "?p * ?d \<le> uint x + ?p - 1"
    using pos_mod_sign [OF p, of "uint x + ?p - 1"] mult_div_mod_eq [of ?p "uint x + ?p - 1"] by linarith
  then have "?p * ?d < ?p * (q + 1)"
    using \<open>uint x \<le> y\<close> unfolding q distrib_left by linarith
  then have "?d \<le> q"
    using p by (simp only: mult_less_cancel_left_pos)
  then show "?d * ?p \<le> y"
    unfolding q mult.commute [of ?p q] by (rule mult_right_mono) simp
qed simp


section \<open>Minima, maxima and bits\<close>

text \<open>\<open>set_if_bigger\<close> and \<open>set_if_smaller\<close> give the new value of their first argument.\<close>

definition MY_MAX :: "int \<Rightarrow> int \<Rightarrow> int" where
  "MY_MAX a b = (if a > b then a else b)"

definition MY_MIN :: "int \<Rightarrow> int \<Rightarrow> int" where
  "MY_MIN a b = (if a < b then a else b)"

definition set_if_bigger :: "int \<Rightarrow> int \<Rightarrow> int" where
  "set_if_bigger a b = (if a < b then b else a)"

definition set_if_smaller :: "int \<Rightarrow> int \<Rightarrow> int" where
  "set_if_smaller a b = (if a > b then b else a)"

definition swap_variables :: "'a \<times> 'a \<Rightarrow> 'a \<times> 'a" where
  "swap_variables = (\<lambda>(a, b). let dummy = a; a = b; b = dummy in (a, b))"

definition MY_TEST :: "int \<Rightarrow> int" where
  "MY_TEST a = (if a \<noteq> 0 then 1 else 0)"

definition test_all_bits :: "u32 \<Rightarrow> u32 \<Rightarrow> bool" where
  "test_all_bits a b \<longleftrightarrow> a AND b = b"

lemma set_if_limits:
  "set_if_bigger a b = MY_MAX a b" "set_if_smaller a b = MY_MIN a b"
  "MY_MIN a b \<le> MY_MAX a b" "swap_variables (swap_variables p) = p"
  by (auto simp: set_if_bigger_def set_if_smaller_def MY_MAX_def MY_MIN_def swap_variables_def Let_def split_beta)

lemma test_all_bits_iff: "test_all_bits a b \<longleftrightarrow> (\<forall>i < 32. bit b i \<longrightarrow> bit a i)"
  by (auto simp: test_all_bits_def bit_eq_iff bit_simps)

section \<open>Two-byte characters\<close>

text \<open>
  Some tables hold two-byte characters for copying. On i386 \<open>MB2\<close> turns the bytes around and
  \<open>MY_PUT_MB2\<close> stores a 16-bit number, lowest byte first; elsewhere the bytes are stored one by
  one. The store at \<open>i\<close> in \<open>m\<close>.
\<close>

definition MB2 :: "bool \<Rightarrow> u16 \<Rightarrow> u16" where
  "MB2 i386 x = (if i386 then drop_bit 8 x + push_bit 8 (x AND 0xFF) else x)"

definition MY_PUT_MB2 :: "bool \<Rightarrow> buffer \<Rightarrow> int \<Rightarrow> u16 \<Rightarrow> buffer res" where
  "MY_PUT_MB2 i386 m i code =
     (if i386 then store_bytes m i [ucast code, ucast (drop_bit 8 code)]
      else rbind (store_byte m i (ucast (drop_bit 8 code))) (\<lambda>m.
             store_byte m (i + 1) (ucast (code AND 0xFF))))"

lemma MB2_bytes:
  "(ucast (MB2 True x) :: u8) = ucast (drop_bit 8 x)"
  "(ucast (drop_bit 8 (MB2 True x)) :: u8) = ucast x"
  "(ucast (x AND 0xFF) :: u8) = ucast x"
proof -
  have d: "drop_bit 8 x + push_bit 8 (x AND 0xFF) = drop_bit 8 x OR push_bit 8 (x AND 0xFF)"
    by (rule disjunctive_add) (auto simp: bit_simps dest: bit_imp_le_length)
  have ff: "(0xFF :: u16) = mask 8" by (simp add: mask_eq_exp_minus_1)
  show "(ucast (MB2 True x) :: u8) = ucast (drop_bit 8 x)"
    "(ucast (drop_bit 8 (MB2 True x)) :: u8) = ucast x" "(ucast (x AND 0xFF) :: u8) = ucast x"
    unfolding MB2_def d if_True unfolding ff
    by (rule bit_word_eqI; auto simp: bit_simps)+
qed

text \<open>Both builds store the same two bytes, the high one first, and fault at the same places.\<close>

theorem put_mb2_versions:
  "MY_PUT_MB2 i386 m i (MB2 i386 x) = store_bytes m i [ucast (drop_bit 8 x), ucast x]"
proof -
  have "rbind r Inr = r" for r :: "buffer res" by (cases r) simp_all
  then show ?thesis
    by (cases i386) (simp_all add: MY_PUT_MB2_def MB2_bytes MB2_def [of False])
qed

section \<open>Character classes\<close>

text \<open>
  A character set has a table of the classes of its characters, with an entry before that of
  character 0, tables of the upper and lower case, and functions for characters of several
  bytes. An argument \<open>c\<close> is an \<open>int\<close>, or a \<open>char\<close> which may be negative.
\<close>

record charset =
  ctype_table :: buffer
  to_upper :: buffer
  to_lower :: buffer
  mbmaxlenlen :: int
  ismbchar_set :: bool
  mbcharlen :: "int \<Rightarrow> int"

definition MY_U :: u8 where "MY_U = 0x01"
definition MY_L :: u8 where "MY_L = 0x02"
definition MY_NMR :: u8 where "MY_NMR = 0x04"
definition MY_SPC :: u8 where "MY_SPC = 0x08"
definition MY_PNT :: u8 where "MY_PNT = 0x10"
definition MY_CTR :: u8 where "MY_CTR = 0x20"
definition MY_B :: u8 where "MY_B = 0x40"
definition MY_X :: u8 where "MY_X = 0x80"

definition uchar :: "int \<Rightarrow> u8" where
  "uchar c = word_of_int c"

definition class_of :: "charset \<Rightarrow> int \<Rightarrow> u8 res" where
  "class_of s c = load_byte (ctype_table s) (1 + uint (uchar c))"

definition class_test :: "charset \<Rightarrow> int \<Rightarrow> u8 \<Rightarrow> u8 res" where
  "class_test s c mk = rbind (class_of s c) (\<lambda>b. Inr (b AND mk))"

definition my_isascii :: "int \<Rightarrow> bool" where
  "my_isascii c \<longleftrightarrow> c AND NOT 127 = 0"

definition my_toascii :: "int \<Rightarrow> int" where
  "my_toascii c = c AND 127"

definition my_tocntrl :: "int \<Rightarrow> int" where
  "my_tocntrl c = c AND 31"

definition my_toprint :: "int \<Rightarrow> int" where
  "my_toprint c = c OR 64"

definition my_toupper :: "charset \<Rightarrow> int \<Rightarrow> int res" where
  "my_toupper s c = rbind (load_byte (to_upper s) (uint (uchar c))) (\<lambda>b. Inr (sint b))"

definition my_tolower :: "charset \<Rightarrow> int \<Rightarrow> int res" where
  "my_tolower s c = rbind (load_byte (to_lower s) (uint (uchar c))) (\<lambda>b. Inr (sint b))"

definition my_isalpha :: "charset \<Rightarrow> int \<Rightarrow> u8 res" where
  "my_isalpha s c = class_test s c (MY_U OR MY_L)"

definition my_isupper :: "charset \<Rightarrow> int \<Rightarrow> u8 res" where
  "my_isupper s c = class_test s c MY_U"

definition my_islower :: "charset \<Rightarrow> int \<Rightarrow> u8 res" where
  "my_islower s c = class_test s c MY_L"

definition my_isdigit :: "charset \<Rightarrow> int \<Rightarrow> u8 res" where
  "my_isdigit s c = class_test s c MY_NMR"

definition my_isxdigit :: "charset \<Rightarrow> int \<Rightarrow> u8 res" where
  "my_isxdigit s c = class_test s c MY_X"

definition my_isalnum :: "charset \<Rightarrow> int \<Rightarrow> u8 res" where
  "my_isalnum s c = class_test s c (MY_U OR MY_L OR MY_NMR)"

definition my_isspace :: "charset \<Rightarrow> int \<Rightarrow> u8 res" where
  "my_isspace s c = class_test s c MY_SPC"

definition my_ispunct :: "charset \<Rightarrow> int \<Rightarrow> u8 res" where
  "my_ispunct s c = class_test s c MY_PNT"

definition my_isprint :: "charset \<Rightarrow> int \<Rightarrow> u8 res" where
  "my_isprint s c = class_test s c (MY_PNT OR MY_U OR MY_L OR MY_NMR OR MY_B)"

definition my_isgraph :: "charset \<Rightarrow> int \<Rightarrow> u8 res" where
  "my_isgraph s c = class_test s c (MY_PNT OR MY_U OR MY_L OR MY_NMR)"

definition my_iscntrl :: "charset \<Rightarrow> int \<Rightarrow> u8 res" where
  "my_iscntrl s c = class_test s c MY_CTR"

definition my_isvar :: "charset \<Rightarrow> int \<Rightarrow> bool res" where
  "my_isvar s c = rbind (my_isalnum s c) (\<lambda>b. Inr (b \<noteq> 0 \<or> c = 95))"

definition my_isvar_start :: "charset \<Rightarrow> int \<Rightarrow> bool res" where
  "my_isvar_start s c = rbind (my_isalpha s c) (\<lambda>b. Inr (b \<noteq> 0 \<or> c = 95))"

definition use_mb :: "charset \<Rightarrow> bool" where
  "use_mb s = ismbchar_set s"

definition my_mbcharlen :: "charset \<Rightarrow> int \<Rightarrow> int" where
  "my_mbcharlen s a = mbcharlen s a"

definition my_mbcharlen_2 :: "charset \<Rightarrow> int \<Rightarrow> int \<Rightarrow> int" where
  "my_mbcharlen_2 s a b = mbcharlen s (push_bit 8 (a AND 0xFF) + (b AND 0xFF))"

definition my_mbmaxlenlen :: "charset \<Rightarrow> int" where
  "my_mbmaxlenlen s = mbmaxlenlen s"

definition my_ismb1st :: "charset \<Rightarrow> int \<Rightarrow> bool" where
  "my_ismb1st s i \<longleftrightarrow> my_mbcharlen s i > 1 \<or> (my_mbmaxlenlen s = 2 \<and> my_mbcharlen s i = 0)"

text \<open>
  With a table of 257 entries every character has a class, a negative \<open>char\<close> included, and the
  tests hang together as their names say.
\<close>

lemma or_masks: "(b :: u8) AND (m OR n) = 0 \<longleftrightarrow> b AND m = 0 \<and> b AND n = 0"
  by (simp add: bit.conj_disj_distrib or_eq_0_iff)

theorem character_classes:
  assumes "257 \<le> buf_size (ctype_table s)"
  shows "\<exists>al up lo di sp pr gr pu nu.
     my_isalpha s c = Inr al \<and> my_isupper s c = Inr up \<and> my_islower s c = Inr lo \<and>
     my_isdigit s c = Inr di \<and> my_isprint s c = Inr pr \<and> my_isgraph s c = Inr gr \<and>
     my_ispunct s c = Inr pu \<and> my_isalnum s c = Inr nu \<and> my_isspace s c = Inr sp \<and>
     (al \<noteq> 0 \<longleftrightarrow> up \<noteq> 0 \<or> lo \<noteq> 0) \<and> (nu \<noteq> 0 \<longleftrightarrow> al \<noteq> 0 \<or> di \<noteq> 0) \<and>
     (gr \<noteq> 0 \<longleftrightarrow> pu \<noteq> 0 \<or> nu \<noteq> 0) \<and> (gr \<noteq> 0 \<longrightarrow> pr \<noteq> 0)"
proof -
  have "uint (uchar c) < 256" using uint_lt2p [of "uchar c"] by simp
  then have "class_of s c = Inr (buf_at (ctype_table s) (1 + uint (uchar c)))"
    using assms by (simp add: class_of_def load_byte_def)
  then show ?thesis
    by (auto simp: my_isalpha_def my_isupper_def my_islower_def my_isdigit_def my_isprint_def my_isgraph_def
        my_ispunct_def my_isalnum_def my_isspace_def class_test_def or_masks)
qed

lemma my_isascii_iff: "my_isascii c \<longleftrightarrow> 0 \<le> c \<and> c < 128"
proof -
  have "c AND NOT (mask 7) = push_bit 7 (drop_bit 7 c)"
    by (rule bit_eqI) (auto simp: bit_simps)
  then have "c AND NOT 127 = c div 128 * 128"
    by (simp add: mask_eq_exp_minus_1 push_bit_eq_mult drop_bit_eq_div)
  then show ?thesis
    unfolding my_isascii_def by presburger
qed


section \<open>Decimals\<close>

text \<open>
  A decimal number has \<open>intg\<close> digits before the point and \<open>frac\<close> after it. \<open>buf\<close> is the
  array of its digits.
\<close>

record decimal_t =
  dec_intg :: int
  dec_frac :: int
  dec_len :: int
  dec_sign :: bool
  dec_buf :: "int list"

definition decimal_make_zero :: "decimal_t \<Rightarrow> decimal_t res" where
  "decimal_make_zero dec =
     (if dec_buf dec = [] then Inl WriteOutOfBounds
      else Inr (dec\<lparr>dec_buf := (dec_buf dec)[0 := 0], dec_intg := 1, dec_frac := 0, dec_sign := False\<rparr>))"

definition decimal_string_size :: "decimal_t \<Rightarrow> int res" where
  "decimal_string_size dec =
     rbind (int_add (if dec_intg dec \<noteq> 0 then dec_intg dec else 1) (dec_frac dec)) (\<lambda>n.
     rbind (int_add n (if dec_frac dec > 0 then 1 else 0)) (\<lambda>n. int_add n 2))"

text \<open>
  The characters of a decimal in writing: a sign, the digits, at least one before the point, and
  the point only before digits.
\<close>

definition decimal_chars :: "decimal_t \<Rightarrow> int" where
  "decimal_chars dec = (if dec_sign dec then 1 else 0) + max 1 (dec_intg dec) +
     (if dec_frac dec > 0 then 1 + dec_frac dec else 0)"

lemma decimal_string_fits:
  assumes "0 \<le> dec_intg dec" and "0 \<le> dec_frac dec" and "dec_intg dec + dec_frac dec < 2 ^ 31 - 4"
  shows "\<exists>n. decimal_string_size dec = Inr n \<and> decimal_chars dec + 1 \<le> n"
  using assms by (auto simp: decimal_string_size_def int_add_def int32_range_def decimal_chars_def)

lemma decimal_zero_size:
  "decimal_make_zero dec = Inr z \<Longrightarrow> decimal_string_size z = Inr 3 \<and> \<not> dec_sign z \<and> hd (dec_buf z) = 0"
  by (auto simp: decimal_make_zero_def decimal_string_size_def int_add_def int32_range_def hd_conv_nth
      split: if_splits)

section \<open>Columns\<close>

datatype enum_field_types =
    MYSQL_TYPE_DECIMAL | MYSQL_TYPE_TINY | MYSQL_TYPE_SHORT | MYSQL_TYPE_LONG
  | MYSQL_TYPE_FLOAT | MYSQL_TYPE_DOUBLE | MYSQL_TYPE_NULL | MYSQL_TYPE_TIMESTAMP
  | MYSQL_TYPE_LONGLONG | MYSQL_TYPE_INT24 | MYSQL_TYPE_DATE | MYSQL_TYPE_TIME
  | MYSQL_TYPE_DATETIME | MYSQL_TYPE_YEAR | MYSQL_TYPE_NEWDATE | MYSQL_TYPE_VARCHAR
  | MYSQL_TYPE_BIT | MYSQL_TYPE_TIMESTAMP2 | MYSQL_TYPE_DATETIME2 | MYSQL_TYPE_TIME2
  | MYSQL_TYPE_JSON | MYSQL_TYPE_NEWDECIMAL | MYSQL_TYPE_ENUM | MYSQL_TYPE_SET
  | MYSQL_TYPE_TINY_BLOB | MYSQL_TYPE_MEDIUM_BLOB | MYSQL_TYPE_LONG_BLOB | MYSQL_TYPE_BLOB
  | MYSQL_TYPE_VAR_STRING | MYSQL_TYPE_STRING | MYSQL_TYPE_GEOMETRY

primrec field_code :: "enum_field_types \<Rightarrow> int" where
  "field_code MYSQL_TYPE_DECIMAL = 0"
| "field_code MYSQL_TYPE_TINY = 1"
| "field_code MYSQL_TYPE_SHORT = 2"
| "field_code MYSQL_TYPE_LONG = 3"
| "field_code MYSQL_TYPE_FLOAT = 4"
| "field_code MYSQL_TYPE_DOUBLE = 5"
| "field_code MYSQL_TYPE_NULL = 6"
| "field_code MYSQL_TYPE_TIMESTAMP = 7"
| "field_code MYSQL_TYPE_LONGLONG = 8"
| "field_code MYSQL_TYPE_INT24 = 9"
| "field_code MYSQL_TYPE_DATE = 10"
| "field_code MYSQL_TYPE_TIME = 11"
| "field_code MYSQL_TYPE_DATETIME = 12"
| "field_code MYSQL_TYPE_YEAR = 13"
| "field_code MYSQL_TYPE_NEWDATE = 14"
| "field_code MYSQL_TYPE_VARCHAR = 15"
| "field_code MYSQL_TYPE_BIT = 16"
| "field_code MYSQL_TYPE_TIMESTAMP2 = 17"
| "field_code MYSQL_TYPE_DATETIME2 = 18"
| "field_code MYSQL_TYPE_TIME2 = 19"
| "field_code MYSQL_TYPE_JSON = 245"
| "field_code MYSQL_TYPE_NEWDECIMAL = 246"
| "field_code MYSQL_TYPE_ENUM = 247"
| "field_code MYSQL_TYPE_SET = 248"
| "field_code MYSQL_TYPE_TINY_BLOB = 249"
| "field_code MYSQL_TYPE_MEDIUM_BLOB = 250"
| "field_code MYSQL_TYPE_LONG_BLOB = 251"
| "field_code MYSQL_TYPE_BLOB = 252"
| "field_code MYSQL_TYPE_VAR_STRING = 253"
| "field_code MYSQL_TYPE_STRING = 254"
| "field_code MYSQL_TYPE_GEOMETRY = 255"

definition IS_NUM :: "enum_field_types \<Rightarrow> bool" where
  "IS_NUM t \<longleftrightarrow>
     (field_code t \<le> field_code MYSQL_TYPE_INT24 \<and> field_code t \<noteq> field_code MYSQL_TYPE_TIMESTAMP) \<or>
     field_code t = field_code MYSQL_TYPE_YEAR \<or> field_code t = field_code MYSQL_TYPE_NEWDECIMAL"

definition IS_LONGDATA :: "enum_field_types \<Rightarrow> bool" where
  "IS_LONGDATA t \<longleftrightarrow> field_code t \<ge> field_code MYSQL_TYPE_TINY_BLOB \<and> field_code t \<le> field_code MYSQL_TYPE_STRING"

definition IS_PRI_KEY :: "u32 \<Rightarrow> u32" where
  "IS_PRI_KEY n = n AND 2"

definition IS_NOT_NULL :: "u32 \<Rightarrow> u32" where
  "IS_NOT_NULL n = n AND 1"

definition IS_BLOB :: "u32 \<Rightarrow> u32" where
  "IS_BLOB n = n AND 16"

lemma field_code_inject: "field_code s = field_code t \<longleftrightarrow> s = t"
  by (cases s; cases t) simp_all

text \<open>
  The types taken for numbers, \<open>NULL\<close> among them, and the types whose values may be sent in
  pieces, from which the geometry type is left out. No type is both.
\<close>

lemma IS_NUM_types:
  "IS_NUM t \<longleftrightarrow> t \<in> {MYSQL_TYPE_DECIMAL, MYSQL_TYPE_TINY, MYSQL_TYPE_SHORT, MYSQL_TYPE_LONG,
     MYSQL_TYPE_FLOAT, MYSQL_TYPE_DOUBLE, MYSQL_TYPE_NULL, MYSQL_TYPE_LONGLONG, MYSQL_TYPE_INT24,
     MYSQL_TYPE_YEAR, MYSQL_TYPE_NEWDECIMAL}"
  by (cases t) (simp_all add: IS_NUM_def)

lemma IS_LONGDATA_types:
  "IS_LONGDATA t \<longleftrightarrow> t \<in> {MYSQL_TYPE_TINY_BLOB, MYSQL_TYPE_MEDIUM_BLOB, MYSQL_TYPE_LONG_BLOB,
     MYSQL_TYPE_BLOB, MYSQL_TYPE_VAR_STRING, MYSQL_TYPE_STRING}"
  by (cases t) (simp_all add: IS_LONGDATA_def)

lemma number_not_longdata: "\<not> (IS_NUM t \<and> IS_LONGDATA t)"
  by (auto simp: IS_NUM_types IS_LONGDATA_types)

section \<open>Error messages\<close>

definition CR_ERROR_FIRST :: int where "CR_ERROR_FIRST = 2000"
definition CR_UNKNOWN_ERROR :: int where "CR_UNKNOWN_ERROR = 2000"
definition CR_ERROR_LAST :: int where "CR_ERROR_LAST = 2062"

definition message_at :: "string list \<Rightarrow> int \<Rightarrow> string res" where
  "message_at msgs i = (if 0 \<le> i \<and> i < int (length msgs) then Inr (msgs ! nat i) else Inl ReadOutOfBounds)"

text \<open>
  For a number out of the range the macro takes the entry 2000 of the table, where it means that
  of \<open>CR_UNKNOWN_ERROR\<close>, the first.
\<close>

definition ER :: "string list \<Rightarrow> int \<Rightarrow> string res" where
  "ER client_errors x =
     (if x \<ge> CR_ERROR_FIRST \<and> x \<le> CR_ERROR_LAST then message_at client_errors (x - CR_ERROR_FIRST)
      else message_at client_errors CR_UNKNOWN_ERROR)"

section \<open>Commands on a connection\<close>

text \<open>
  A connection has the methods of the library when it is open; without them a command is an
  error. \<open>adv\<close> is \<open>advanced_command\<close>, \<open>set_error\<close> is \<open>set_mysql_error\<close> with the SQL state
  for unknown errors.
\<close>

definition CR_COMMANDS_OUT_OF_SYNC :: int where "CR_COMMANDS_OUT_OF_SYNC = 2014"

type_synonym ('m, 'w) advanced =
  "'m \<Rightarrow> int \<Rightarrow> u8 list \<Rightarrow> u8 list \<Rightarrow> u32 \<Rightarrow> bool \<Rightarrow> nat option \<Rightarrow> 'w \<Rightarrow> bool \<times> 'w"

definition simple_command ::
  "('m, 'w) advanced \<Rightarrow> (int \<Rightarrow> 'w \<Rightarrow> 'w) \<Rightarrow> 'm option \<Rightarrow> int \<Rightarrow> u8 list \<Rightarrow> u32 \<Rightarrow> bool \<Rightarrow> 'w \<Rightarrow> bool \<times> 'w" where
  "simple_command adv set_error methods command arg len skip_check w =
     (case methods of
        Some mt \<Rightarrow> adv mt command [] arg len skip_check None w
      | None \<Rightarrow> (True, set_error CR_COMMANDS_OUT_OF_SYNC w))"

definition stmt_command ::
  "('m, 'w) advanced \<Rightarrow> (int \<Rightarrow> 'w \<Rightarrow> 'w) \<Rightarrow> 'm option \<Rightarrow> int \<Rightarrow> u8 list \<Rightarrow> u32 \<Rightarrow> nat \<Rightarrow> 'w \<Rightarrow> bool \<times> 'w" where
  "stmt_command adv set_error methods command arg len stmt w =
     (case methods of
        Some mt \<Rightarrow> adv mt command [] arg len True (Some stmt) w
      | None \<Rightarrow> (True, set_error CR_COMMANDS_OUT_OF_SYNC w))"

definition CLIENT_PROTOCOL_41 :: u32 where "CLIENT_PROTOCOL_41 = 512"

definition protocol_41 :: "u32 \<Rightarrow> u32" where
  "protocol_41 server_capabilities = server_capabilities AND CLIENT_PROTOCOL_41"

lemma protocol_41_bit: "protocol_41 c \<noteq> 0 \<longleftrightarrow> bit c 9"
proof -
  have "(512 :: u32) = 2 ^ 9" by simp
  then show ?thesis
    unfolding protocol_41_def CLIENT_PROTOCOL_41_def
    by (simp only: and_exp_eq_0_iff_not_bit) simp
qed

section \<open>Properties\<close>

text \<open>
  With the table of one message for each of the client's 63 error numbers, the macro finds the
  message of each of them, and reads out of the table for every other number.
\<close>

theorem error_message_bounds:
  assumes "length client_errors = 63"
  shows "(2000 \<le> x \<and> x \<le> 2062 \<longrightarrow> ER client_errors x = Inr (client_errors ! nat (x - 2000))) \<and>
    (\<not> (2000 \<le> x \<and> x \<le> 2062) \<longrightarrow> ER client_errors x = Inl ReadOutOfBounds)"
  using assms
  by (auto simp: ER_def message_at_def CR_ERROR_FIRST_def CR_UNKNOWN_ERROR_def CR_ERROR_LAST_def)

theorem error_message_bounds_witness:
  "ER (replicate 62 ''a'' @ [''b'']) 2062 = Inr ''b'' \<and> ER (replicate 63 ''a'') 1045 = Inl ReadOutOfBounds"
  using error_message_bounds [of "replicate 62 ''a'' @ [''b'']" 2062] error_message_bounds [of "replicate 63 ''a''" 1045]
  by (simp add: nth_append)

end
