(* ===== verification/MySQL_Wrappers.thy ===== *)
theory MySQL_Wrappers
  imports SG_Prelude
begin

text \<open>
  The inline functions of m_string.h, my_global.h and my_sys.h that stand in for functions of the
  system: each picks the function of the platform or of the build. The functions picked are
  parameters, in a record of functions over a world \<open>'w\<close> in which memory lives; what the wrappers
  do themselves is modelled, among it the length of a string and the conversion of seconds.
\<close>

section \<open>Strings and numbers in text\<close>

text \<open>
  Pointers are addresses; a result that is a pointer is an address, 0 for none. Where a function
  writes through a pointer it is given, that is part of the world.
\<close>

record 'w string_library =
  builtin_stpcpy :: "u32 \<Rightarrow> u32 \<Rightarrow> 'w \<Rightarrow> u32 \<times> 'w"
  stpcpy :: "u32 \<Rightarrow> u32 \<Rightarrow> 'w \<Rightarrow> u32 \<times> 'w"
  my_stpmov :: "u32 \<Rightarrow> u32 \<Rightarrow> 'w \<Rightarrow> u32 \<times> 'w"
  stpncpy :: "u32 \<Rightarrow> u32 \<Rightarrow> u32 \<Rightarrow> 'w \<Rightarrow> u32 \<times> 'w"
  my_stpnmov :: "u32 \<Rightarrow> u32 \<Rightarrow> u32 \<Rightarrow> 'w \<Rightarrow> u32 \<times> 'w"
  strtoi64 :: "u32 \<Rightarrow> u32 \<Rightarrow> int \<Rightarrow> 'w \<Rightarrow> 64 word \<times> 'w"
  strtoll :: "u32 \<Rightarrow> u32 \<Rightarrow> int \<Rightarrow> 'w \<Rightarrow> 64 word \<times> 'w"
  strtoui64 :: "u32 \<Rightarrow> u32 \<Rightarrow> int \<Rightarrow> 'w \<Rightarrow> 64 word \<times> 'w"
  strtoull :: "u32 \<Rightarrow> u32 \<Rightarrow> int \<Rightarrow> 'w \<Rightarrow> 64 word \<times> 'w"
  strtok_s :: "u32 \<Rightarrow> u32 \<Rightarrow> u32 \<Rightarrow> 'w \<Rightarrow> u32 \<times> 'w"
  strtok_r :: "u32 \<Rightarrow> u32 \<Rightarrow> u32 \<Rightarrow> 'w \<Rightarrow> u32 \<times> 'w"
  stricmp :: "u32 \<Rightarrow> u32 \<Rightarrow> 'w \<Rightarrow> int"
  strcasecmp :: "u32 \<Rightarrow> u32 \<Rightarrow> 'w \<Rightarrow> int"
  strnicmp :: "u32 \<Rightarrow> u32 \<Rightarrow> u32 \<Rightarrow> 'w \<Rightarrow> int"
  strncasecmp :: "u32 \<Rightarrow> u32 \<Rightarrow> u32 \<Rightarrow> 'w \<Rightarrow> int"

text \<open>The macros of the build that decide; \<open>my_config_build\<close> is what my_config.h says.\<close>

record string_build =
  on_windows :: bool
  HAVE_BUILTIN_STPCPY :: bool
  HAVE_STPCPY :: bool
  HAVE_STPNCPY :: bool

definition my_config_build :: string_build where
  "my_config_build = \<lparr>on_windows = True, HAVE_BUILTIN_STPCPY = False, HAVE_STPCPY = False, HAVE_STPNCPY = False\<rparr>"

definition my_stpcpy :: "string_build \<Rightarrow> 'w string_library \<Rightarrow> u32 \<Rightarrow> u32 \<Rightarrow> 'w \<Rightarrow> u32 \<times> 'w" where
  "my_stpcpy bd lib dst src w =
     (if HAVE_BUILTIN_STPCPY bd then builtin_stpcpy lib dst src w
      else if HAVE_STPCPY bd then stpcpy lib dst src w
      else my_stpmov lib dst src w)"

definition my_stpncpy :: "string_build \<Rightarrow> 'w string_library \<Rightarrow> u32 \<Rightarrow> u32 \<Rightarrow> u32 \<Rightarrow> 'w \<Rightarrow> u32 \<times> 'w" where
  "my_stpncpy bd lib dst src n w =
     (if HAVE_STPNCPY bd then stpncpy lib dst src n w else my_stpnmov lib dst src n w)"

definition my_strtoll :: "string_build \<Rightarrow> 'w string_library \<Rightarrow> u32 \<Rightarrow> u32 \<Rightarrow> int \<Rightarrow> 'w \<Rightarrow> 64 word \<times> 'w" where
  "my_strtoll bd lib nptr endptr base w =
     (if on_windows bd then strtoi64 lib nptr endptr base w else strtoll lib nptr endptr base w)"

definition my_strtoull :: "string_build \<Rightarrow> 'w string_library \<Rightarrow> u32 \<Rightarrow> u32 \<Rightarrow> int \<Rightarrow> 'w \<Rightarrow> 64 word \<times> 'w" where
  "my_strtoull bd lib nptr endptr base w =
     (if on_windows bd then strtoui64 lib nptr endptr base w else strtoull lib nptr endptr base w)"

definition my_strtok_r :: "string_build \<Rightarrow> 'w string_library \<Rightarrow> u32 \<Rightarrow> u32 \<Rightarrow> u32 \<Rightarrow> 'w \<Rightarrow> u32 \<times> 'w" where
  "my_strtok_r bd lib str delim saveptr w =
     (if on_windows bd then strtok_s lib str delim saveptr w else strtok_r lib str delim saveptr w)"

definition native_strcasecmp :: "string_build \<Rightarrow> 'w string_library \<Rightarrow> u32 \<Rightarrow> u32 \<Rightarrow> 'w \<Rightarrow> int" where
  "native_strcasecmp bd lib s1 s2 w = (if on_windows bd then stricmp lib s1 s2 w else strcasecmp lib s1 s2 w)"

definition native_strncasecmp :: "string_build \<Rightarrow> 'w string_library \<Rightarrow> u32 \<Rightarrow> u32 \<Rightarrow> u32 \<Rightarrow> 'w \<Rightarrow> int" where
  "native_strncasecmp bd lib s1 s2 n w =
     (if on_windows bd then strnicmp lib s1 s2 n w else strncasecmp lib s1 s2 n w)"

text \<open>
  A library on which the functions of the two platforms do the same, and copying forwards is
  copying: every build then does the same, the one of the repository among them.
\<close>

definition uniform_library :: "'w string_library \<Rightarrow> bool" where
  "uniform_library lib \<longleftrightarrow>
     builtin_stpcpy lib = my_stpmov lib \<and> stpcpy lib = my_stpmov lib \<and> stpncpy lib = my_stpnmov lib \<and>
     strtoi64 lib = strtoll lib \<and> strtoui64 lib = strtoull lib \<and> strtok_s lib = strtok_r lib \<and>
     stricmp lib = strcasecmp lib \<and> strnicmp lib = strncasecmp lib"

lemmas wrapper_defs = my_stpcpy_def my_stpncpy_def my_strtoll_def my_strtoull_def my_strtok_r_def
  native_strcasecmp_def native_strncasecmp_def

lemma builds_agree:
  assumes "uniform_library lib"
  shows "my_stpcpy bd lib = my_stpcpy my_config_build lib" "my_stpncpy bd lib = my_stpncpy my_config_build lib"
    "my_strtoll bd lib = my_strtoll my_config_build lib" "my_strtoull bd lib = my_strtoull my_config_build lib"
    "my_strtok_r bd lib = my_strtok_r my_config_build lib"
    "native_strcasecmp bd lib = native_strcasecmp my_config_build lib"
    "native_strncasecmp bd lib = native_strncasecmp my_config_build lib"
  using assms by (simp_all add: fun_eq_iff wrapper_defs uniform_library_def)

section \<open>Strings with their length\<close>

record lex_string =
  lex_str :: int
  lex_length :: nat

text \<open>\<open>strlen\<close> of the C library, over a memory: the distance to the first null character.\<close>

function strlen :: "buffer \<Rightarrow> int \<Rightarrow> nat res" where
  "strlen m p =
     (if 0 \<le> p \<and> p < buf_size m
      then if buf_at m p = 0 then Inr 0 else rbind (strlen m (p + 1)) (\<lambda>n. Inr (Suc n))
      else Inl ReadOutOfBounds)"
  by pat_completeness auto
termination by (relation "measure (\<lambda>(m, p). nat (buf_size m - p))") auto

declare strlen.simps [simp del]

definition lex_string_set :: "buffer \<Rightarrow> int \<Rightarrow> lex_string res" where
  "lex_string_set m c_str = rbind (strlen m c_str) (\<lambda>n. Inr \<lparr>lex_str = c_str, lex_length = n\<rparr>)"

definition lex_cstring_set :: "buffer \<Rightarrow> int \<Rightarrow> lex_string res" where
  "lex_cstring_set m c_str = rbind (strlen m c_str) (\<lambda>n. Inr \<lparr>lex_str = c_str, lex_length = n\<rparr>)"

lemma strlen_bytes:
  assumes "in_bounds m p (Suc (length xs))" and "bytes_at m p (Suc (length xs)) = xs @ [0]" and "0 \<notin> set xs"
  shows "strlen m p = Inr (length xs)"
  using assms
proof (induction xs arbitrary: p)
  case Nil
  then show ?case by (simp add: strlen.simps in_bounds_def bytes_at_Suc)
next
  case (Cons x xs)
  have "in_bounds m (p + 1) (Suc (length xs))" "bytes_at m (p + 1) (Suc (length xs)) = xs @ [0]"
    using Cons.prems by (auto simp: in_bounds_def bytes_at_Suc)
  then have "strlen m (p + 1) = Inr (length xs)"
    using Cons by simp
  moreover have "buf_at m p \<noteq> 0" "0 \<le> p" "p < buf_size m"
    using Cons.prems by (auto simp: in_bounds_def bytes_at_Suc)
  ultimately show ?case
    by (simp add: strlen.simps [of m p])
qed

lemma lex_string_set_text:
  assumes "in_bounds m p (Suc (length s))" and "no_nul s"
    and "bytes_at m p (Suc (length s)) = map chr_byte s @ [0]"
  shows "lex_string_set m p = Inr \<lparr>lex_str = p, lex_length = length s\<rparr>"
    and "lex_cstring_set m p = lex_string_set m p"
  using strlen_bytes [of m p "map chr_byte s"] assms
  by (simp_all add: lex_string_set_def lex_cstring_set_def no_nul_def)

section \<open>Times\<close>

text \<open>The argument of \<open>Sleep\<close>, milliseconds at the width of \<open>unsigned long\<close>.\<close>

definition sleep_win :: "u32 \<Rightarrow> u32" where
  "sleep_win seconds = seconds * 1000"

lemma sleep_win_exact: "uint (sleep_win s) = 1000 * uint s \<longleftrightarrow> uint s \<le> 4294967"
proof -
  have m: "uint (sleep_win s) = (1000 * uint s) mod 2 ^ 32"
    by (simp add: sleep_win_def uint_word_ariths mult.commute)
  show ?thesis
  proof (cases "1000 * uint s < 2 ^ 32")
    case True
    then have "(1000 * uint s) mod 2 ^ 32 = 1000 * uint s" by (intro mod_pos_pos_trivial) simp_all
    then show ?thesis using m True by simp
  next
    case False
    moreover have "(1000 * uint s) mod 2 ^ 32 < 2 ^ 32" by simp
    ultimately have "uint (sleep_win s) \<noteq> 1000 * uint s"
      unfolding m by linarith
    moreover have "4294967296 \<le> 1000 * uint s" using False by simp
    then have "\<not> uint s \<le> 4294967" by linarith
    ultimately show ?thesis by simp
  qed
qed

text \<open>
  \<open>localtime_r\<close> and \<open>gmtime_r\<close> of Windows return the structure they were given, whether or not
  the system function could fill it; \<open>ls\<close> gives its error number and what it leaves in the
  structure.
\<close>

definition localtime_r :: "(int \<Rightarrow> 'tm \<Rightarrow> int \<times> 'tm) \<Rightarrow> int \<Rightarrow> 'tm \<Rightarrow> 'tm option" where
  "localtime_r ls timep tmp = (let (_, tmp') = ls timep tmp in Some tmp')"

definition gmtime_r :: "(int \<Rightarrow> 'tm \<Rightarrow> int \<times> 'tm) \<Rightarrow> int \<Rightarrow> 'tm \<Rightarrow> 'tm option" where
  "gmtime_r gs clock dst = (let (_, dst') = gs clock dst in Some dst')"

lemma time_errors_dropped:
  "ls t tmp = (err, tmp') \<Longrightarrow> localtime_r ls t tmp = Some tmp' \<and> gmtime_r ls t tmp = Some tmp'"
  by (simp add: localtime_r_def gmtime_r_def)

section \<open>Arrays, roots and pages\<close>

record dynamic_array =
  da_buffer :: u32
  da_elements :: u32
  da_max_element :: u32
  da_alloc_increment :: u32
  da_size_of_element :: u32

definition reset_dynamic :: "dynamic_array \<Rightarrow> dynamic_array" where
  "reset_dynamic a = a\<lparr>da_elements := 0\<rparr>"

record mem_root =
  mr_free :: u32
  mr_used :: u32
  mr_pre_alloc :: u32
  mr_min_malloc :: u32

definition alloc_root_inited :: "mem_root \<Rightarrow> bool" where
  "alloc_root_inited r \<longleftrightarrow> mr_min_malloc r \<noteq> 0"

definition clear_alloc_root :: "mem_root \<Rightarrow> mem_root" where
  "clear_alloc_root r = r\<lparr>mr_pre_alloc := 0, mr_used := 0, mr_free := 0, mr_min_malloc := 0\<rparr>"

definition safe_strdup_root :: "(mem_root \<Rightarrow> u32 \<Rightarrow> 'w \<Rightarrow> u32 \<times> 'w) \<Rightarrow> mem_root \<Rightarrow> u32 \<Rightarrow> 'w \<Rightarrow> u32 \<times> 'w" where
  "safe_strdup_root strdup_root r str w = (if str \<noteq> 0 then strdup_root r str w else (0, w))"

definition my_getpagesize :: "bool \<Rightarrow> int \<Rightarrow> u32 \<Rightarrow> int" where
  "my_getpagesize win32 getpagesize dwPageSize = (if win32 then sint dwPageSize else getpagesize)"

lemma cleared_root: "\<not> alloc_root_inited (clear_alloc_root r)"
  by (simp add: alloc_root_inited_def clear_alloc_root_def)

end
