(* ===== verification/Spec2Isabelle.thy ===== *)
theory Spec2Isabelle
  imports Msg_Logic Server_Race Net_Logic Net_Lifecycle Client_Copy Player_Character Sql_Pipeline
    MySQL_ByteOrder
    MySQL_Socket MySQL_File MySQL_Strings MySQL_Thread MySQL_Events MySQL_Cache MySQL_Macros
    MySQL_Wrappers
begin

text \<open>
  A model of the account server and of the client's network logic of this repository, a
  demonstration of a networked shooter on the Unreal engine, with its correctness
  properties.

  The program. A client (src/Client/Source/Myproject) connects to an account server
  (src/Server/ZServer) over TCP and exchanges binary messages with it. Both sides have a
  header with the message classes, MyMsg.h on the server and GameHMsg.h, a copy that has
  diverged, on the client. On the server a network thread runs the asynchronous operations
  of \<open>MyZServerNetwork\<close>, which appends every message it reads to a vector; the loop of
  \<open>main\<close> (main2.cpp) takes that vector, hands it to \<open>MsgLogic\<close> and lets it handle the
  messages one by one. A database thread (\<open>DBSqlThread\<close>) with its queues, the connection to
  MySQL (\<open>DBConnect\<close>) and an expiring in-memory store (\<open>DBMS\<close>) are there to verify accounts;
  in the sources as they are, \<open>main\<close> starts no database thread and \<open>MsgLogic\<close> queues no
  request for it.

  The theories, in the order of their imports:

  SG_Prelude: machine integers, \<open>fault\<close> and \<open>res\<close> (what C++ leaves undefined, and exceptions
  nobody catches, are values), byte arrays with their bounds, C strings, ordered maps.

  HMessage_Stream: the class \<open>HMessage\<close> (MyMsg.h, lines 73 to 255), method by method. A
  buffer is a size and a function from indices to bytes; the memory an object is built on
  is an argument \<open>junk\<close>, so that a result that depended on uninitialised fields would show.
  \<open>writes f bs\<close> and \<open>reads f bs v\<close> say what a method does as a list of bytes and compose
  along the code; the locale \<open>field\<close> is the interface of a serialisable field, with the
  four kinds of field as interpretations.

  Protocol: the enumerations and the message classes of MyMsg.h. The locale \<open>message\<close> is
  the interface of a class: what its put writes, its get reads back, and its put never
  leaves the server's buffer. Twelve classes interpret it; \<open>DS2C_A_GetAllRole\<close> does not meet
  it and is treated on its own.

  Game_Protocol: the client's GameHMsg.h. The numbers and the methods that were not changed are shown equal to
  the server's; the changed ones, and the buffer of 4096 bytes under a check for 10000, are
  where the two sides differ.

  DBMS_Cache: the store of dbms.h and dbms.cpp, a map and a multimap by expiry time. The
  locale \<open>expiring_store\<close> is the abstract contract (a value is found until it expires and
  gone after a clean-up past its time), interpreted on the model of the code.

  Mailbox: the locale of a vector that one thread fills and another empties, interpreted by
  the received messages of \<open>MyZServerNetwork\<close> and by both queues of \<open>DBSqlThread\<close>.

  ZServer_Network: sessions, accepting, reading and sending (MyZServerNetwork.h and .cpp).
  \<open>net_step\<close> lets any pending accept or read complete in any order, with or without an
  error.

  DB_Connect and DB_Sql: \<open>DBConnect\<close>, the registration and login nodes and the database
  thread. The MySQL client library is a parameter, a record of functions over an arbitrary
  world; the properties name what they rely on (\<open>init_allocates\<close>, \<open>rejects_selsect\<close>). Nothing
  is assumed of the rows a query answers: \<open>account_row\<close> is the fault or the two numbers the
  code takes out of one. \<open>recorded\<close> is a library with a record of what was said to the server,
  against which the return codes of \<open>loadtabledata\<close> are stated.

  Msg_Logic: \<open>MsgLogic\<close>, the main loop, and the whole server as the step relation
  \<open>server_step\<close>, in which the two threads interleave between any two messages. The
  invariant \<open>srv_inv\<close> holds in every reachable state.

  Server_Race: the same two threads cut where they enter or leave the client map or the vector
  of messages and where they take or release a mutex. The invariant holds there too and the
  vector is free of races; the client map is not, since \<open>SendMsgBySessionID\<close> takes no mutex.

  Sql_Pipeline: the way of a request through the database as the relation \<open>pipeline_step\<close> of
  the main, the database and the network thread, cut where the two mutexes of \<open>DBSqlThread\<close>
  are taken or released and between two requests. Requests are conserved in their order, and
  no login is ever verified; the rounds of the sources' functions are runs of the relation.

  Net_Logic: the client's \<open>UProNetLogic\<close> (ProNetLogic.h, pronetlogic.cpp). The engine and the
  network library \<open>ProNetWork\<close>, of which the repository has only a header, are a parameter.

  Net_Lifecycle: the life of the one \<open>UProNetLogic\<close> behind \<open>GetInstance\<close>, whose static pointer
  the engine's garbage collector does not see. Calls and collections in any order are shown to
  implement a specification without objects, in which a collection forgets every binding.

  Client_Copy: the copies of \<open>HMessage\<close> that the client makes. Objects live at addresses and
  \<open>m_pData\<close> is one; what \<open>DealMsg\<close> does with its copies is what Net_Logic says it does with the
  messages, as long as the objects they were copied from are alive. When one is gone, the
  methods that read or write a byte through \<open>m_pData\<close> use freed memory, and the others do not.

  Player_Character: the character and game mode of the client (MyprojectCharacter.h and .cpp,
  MyprojectGameMode.cpp) with the key assignments of DefaultInput.ini, over the engine as a
  parameter: the values its constructor sets, what is bound to which input, and what every
  handler asks the engine to do.

  MySQL_ByteOrder, MySQL_Socket, MySQL_File: the code of the MySQL headers the server is
  compiled with (mysql-connector-c-6.1.11-win32-Realease/include). The byte-order functions
  exist in a portable and an x86 version, which are shown equal, and in machine formats for
  both byte orders. The instrumented sockets and files (mysql/psi/mysql_socket.h,
  mysql/psi/mysql_file.h) wrap one call of the operating system or of mysys each; the theorems
  say that the wrapping is invisible to the program and that the performance schema sees one
  complete wait per call. Operating system, mysys and performance schema are parameters.

  MySQL_Strings: both versions of \<open>skip_trailing_space\<close> (m_string.h), eight bytes at a time and
  by aligned words, against a list function.

  MySQL_Time, MySQL_Locks: times and timeouts (my_global.h, thr_cond.h, my_sys.h) and the locks,
  conditions, threads and thread-local keys of thr_mutex.h, thr_rwlock.h, thr_cond.h,
  my_thread.h and my_thread_local.h, over Windows or pthreads as parameters. \<open>rw_step\<close> lets
  threads interleave between the accesses of the read-write lock of Windows, whose flag says
  how to unlock; the specification is who reads and who writes.

  MySQL_Thread: the instrumented mutexes, read-write locks, conditions and threads of
  mysql/psi/mysql_thread.h over MySQL_Locks. Besides the transparency of the wrapping,
  \<open>mutex_step\<close> lets threads interleave between the calls of an instrumented mutex, and the
  performance schema's record of owners is shown to be one of exclusive owners.

  MySQL_Events: what the headers for statements, stages, transactions, prepared statements,
  stored programs, tables, metadata locks and idle time tell the performance schema, with the
  macros that are empty in a build without an interface; the life of a statement is a
  sequence of these calls.

  MySQL_Cache: the buffered files of my_sys.h, the structure \<open>IO_CACHE\<close> and its macros, over one
  memory. The functions a macro calls when the buffer does not do are parameters with a
  contract over the file; with it a sequence of macros reads or writes the file as if there
  were no buffer.

  MySQL_Macros, MySQL_Wrappers: macros that compute (alignment, character classes, decimals,
  types of columns, error messages) and the inline functions that stand in for those of the
  platform.

  Bounds and termination. Every loop of the code that is modelled is a structural recursion
  over the list it walks or over the number of rounds left, or, in MySQL_Strings and
  MySQL_Wrappers, one whose distance to an end of the memory decreases, so no fuel is needed;
  the infinite loops of \<open>main\<close> and of \<open>DBSqlThread::run\<close> are modelled by their rounds.
  Addition of \<open>int\<close> values faults outside 32 bits. Strings are shorter than 2 ^ 31 - 10000 where a
  length is converted to \<open>int\<close>.

  Not modelled: what the operating system does with bytes that are written, the sockets
  apart from their identity, the screen output, memory ordering (an access is a step, seen by
  all threads at once), when the garbage collector runs, the rest of the MySQL headers, which
  are declarations, tables and macros that name a field or one call, and the headers under ThirdParty (OpenSSL, libwebsockets), which declare functions of libraries
  that are not in the repository and which no source includes.
\<close>

section \<open>From the client to the server and back\<close>

text \<open>
  What connects the two programs: the library hands the server the bytes of the message it
  was given, with two bytes of size in front, and hands the client a message of the bytes
  the server wrote.
\<close>

definition delivers :: "(HMessage \<Rightarrow> u8 list) \<Rightarrow> bool" where
  "delivers net_out \<longleftrightarrow> (\<forall>h. 2 \<le> m_iPos h \<longrightarrow> m_iPos h \<le> buf_size (m_byBuffer h) \<longrightarrow>
     (\<exists>sz rest. length sz = 2 \<and> length rest \<le> 1 \<and>
        net_out h = sz @ bytes_at (m_byBuffer h) 2 (nat (m_iPos h) - 2) @ rest))"

lemma ready_request:
  assumes "ready mainp subp (strings_bytes a p) h" and "delivers net_out"
    and "length a + length p + 10 < 4000"
  shows "request_bytes mainp subp a p (net_out h)" and "length (net_out h) \<le> 4000"
proof -
  have h: "m_iPos h = int (length a + length p + 10)" "buf_size (m_byBuffer h) = 4096"
    "bytes_at (m_byBuffer h) 2 (8 + length a + length p) = u16_le mainp @ u16_le subp @ strings_bytes a p"
    using assms(1) by (simp_all add: ready_def add.assoc)
  have n: "nat (m_iPos h) - 2 = 8 + length a + length p" using h(1) by simp
  have "2 \<le> m_iPos h" and "m_iPos h \<le> buf_size (m_byBuffer h)"
    using h(1,2) assms(3) by simp_all
  from assms(2) [unfolded delivers_def, rule_format, OF this] obtain sz rest where
    n: "length sz = 2" "length rest \<le> 1"
    "net_out h = sz @ (u16_le mainp @ u16_le subp @ strings_bytes a p) @ rest"
    unfolding n h(3) by blast
  then show "request_bytes mainp subp a p (net_out h)"
    by (auto simp: request_bytes_def strings_bytes_def)
  show "length (net_out h) \<le> 4000" using n assms(3) by simp
qed

text \<open>The server's acceptance, as a header and a body.\<close>

definition accept_header :: BaseMessage where
  "accept_header = \<lparr>m_wSize = 19, m_iMainProtocol = 0x2001, m_iSubProtocol = 4\<rparr>"

lemma login_ok_wire_parts:
  "login_ok_wire = base_bytes accept_header @
     ZS2C_A_Login_body (demo_login\<lparr>ZS2C_A_Login.m_iErrorCode := 3\<rparr>) @ [10]"
  by (simp add: login_ok_wire_def base_bytes_def accept_header_def ZS2C_A_Login_body_def demo_login_def
      ZS2C_A_Login_new_def)

lemma accept_received:
  assumes "received h login_ok_wire" and "m_OnLoginDelegate l = Some f"
  shows "client_deal_one ue l j h w =
     Inr (ue_log ue ''Unknow MSG(Main)'' (Execute_login ue f True w))"
proof -
  have "is_main accept_header FM_ZDQ_LOGIN" "is_sub accept_header ZS2C_A_LOGIN"
    by (simp_all add: accept_header_def is_main_def is_sub_def)
  from client_login_answer [OF assms(1) [unfolded login_ok_wire_parts] this assms(2)] show ?thesis
    by (simp add: demo_login_def ZS2C_A_Login_new_def)
qed

section \<open>Properties\<close>

text \<open>
  C1: A login, from the client to the server and back. A client that asks to log in with an account
  and a password of together less than 3990 bytes builds its message inside its buffer. The
  session that reads it posts one request, the next round of the server's main loop writes
  one answer to that session's socket, and when the client reads that answer it executes the
  login delegate with success, whatever the account and the password are.
\<close>

theorem login_end_to_end:
  assumes "a = c_str (TCHAR_TO_UTF8 ue account)" and "p = c_str (TCHAR_TO_UTF8 ue password)"
    and "length a + length p + 10 < 4000" and "delivers net_out"
    and "net_inv net" and "x \<in> set (pending_read net)"
    and "MyZServerNetwork.m_vecAllClientMsg net = []"
    and "live net (m_iID x) c" and "all_written wr c"
    and "received reply login_ok_wire" and "m_OnLoginDelegate l = Some f"
  shows "\<exists>h net1 logic' net2.
     GameLogicLogin ue junkH junkM account password w = Inr (SendMsgToServer ue h w) \<and>
     Handle_Read junk (with_data x (net_out h)) False (length (net_out h))
       (net\<lparr>pending_read := remove1 x (pending_read net)\<rparr>) = Inr net1 \<and>
     main_round wr jk (logic, net1) = Inr (logic', net2) \<and>
     written net2 = written net @ [(m_pSocketClient c, login_ok_wire)] \<and>
     client_deal_one ue l j reply w' = Inr (ue_log ue ''Unknow MSG(Main)'' (Execute_login ue f True w'))"
proof -
  have "length a + length p + 10 \<le> 4096" using assms(3) by simp
  then obtain h where h: "ready 0x2001 3 (strings_bytes a p) h"
    "GameLogicLogin ue junkH junkM account password w = Inr (SendMsgToServer ue h w)"
    using GameLogicLogin_outcome(1) [OF assms(1,2)] by blast
  have r: "request_bytes 0x2001 3 a p (net_out h)" "length (net_out h) \<le> 4000"
    using ready_request [OF h(1) assms(4,3)] by simp_all
  obtain net1 logic' net2 where
    s: "Handle_Read junk (with_data x (net_out h)) False (length (net_out h))
       (net\<lparr>pending_read := remove1 x (pending_read net)\<rparr>) = Inr net1"
    "main_round wr jk (logic, net1) = Inr (logic', net2)"
    "written net2 = written net @ [(m_pSocketClient c, login_ok_wire)]"
    using login_round [OF assms(5-9) r(2,1), of junk jk logic] by blast
  show ?thesis
    by (rule exI [of _ h], rule exI [of _ net1], rule exI [of _ logic'], rule exI [of _ net2])
       (intro conjI h(2) s accept_received [OF assms(10,11)])
qed

text \<open>A network that delivers the message as it stands in the buffer.\<close>

definition demo_out :: "HMessage \<Rightarrow> u8 list" where
  "demo_out h = [0, 0] @ bytes_at (m_byBuffer h) 2 (nat (m_iPos h) - 2)"

lemma demo_out_delivers: "delivers demo_out"
  unfolding delivers_def demo_out_def
  by (intro allI impI exI [of _ "[0, 0]"] exI [of _ "[]"]) simp

definition demo_reply :: HMessage where
  "demo_reply = blank\<lparr>m_byBuffer := splice (m_byBuffer blank) 0 login_ok_wire\<rparr>"

lemma demo_reply_received: "received demo_reply login_ok_wire"
  using bytes_at_splice_same [of "m_byBuffer blank" 0 login_ok_wire]
  by (simp add: received_def available_def demo_reply_def in_bounds_def blank_def HMessage_new_def
      splice_def login_ok_wire_def)

theorem login_end_to_end_witness:
  "\<forall>jk j. \<exists>h net1 logic' net2.
     GameLogicLogin demo_engine blank demo_request [97] [98] [] = Inr (SendMsgToServer demo_engine h []) \<and>
     Handle_Read blank (with_data first_session (demo_out h)) False (length (demo_out h))
       ((srv_net connected_server)\<lparr>pending_read := remove1 first_session (pending_read (srv_net connected_server))\<rparr>)
       = Inr net1 \<and>
     main_round (\<lambda>_ _. True) jk (MsgLogic_new, net1) = Inr (logic', net2) \<and>
     written net2 = written (srv_net connected_server) @ [(m_pSocketClient first_session, login_ok_wire)] \<and>
     client_deal_one demo_engine \<lparr>m_isConneted = True, m_OnLoginDelegate = Some 0, m_OnRegistDelegate = None\<rparr>
       j demo_reply [] = Inr (ue_log demo_engine ''Unknow MSG(Main)'' (Execute_login demo_engine 0 True []))"
proof (intro allI, rule login_end_to_end [OF refl refl _ demo_out_delivers _ _ _ _ _ demo_reply_received])
  show "net_inv (srv_net connected_server)"
    using srv_inv_reach [OF connected_reach [of "\<lambda>_ _. True"]] by (simp add: srv_inv_def)
  show "first_session \<in> set (pending_read (srv_net connected_server))"
    and "MyZServerNetwork.m_vecAllClientMsg (srv_net connected_server) = []"
    and "live (srv_net connected_server) (m_iID first_session) first_session"
    by (simp_all add: connected_facts live_def first_session_def)
  show "length (c_str (TCHAR_TO_UTF8 demo_engine [97])) + length (c_str (TCHAR_TO_UTF8 demo_engine [98])) + 10 < 4000"
    by (simp add: demo_engine_def c_str_def)
qed (simp_all add: all_written_def)

end
